(* ===== verification/Go_Base.thy ===== *)
theory Go_Base
  imports Main "HOL-Library.Sublist" "HOL-Library.Char_ord" "HOL-Library.List_Lexorder"
    "HOL-Library.Word"
begin

text \<open>
  The prelude of the development: the part of Go and of its standard library the
  modelled code uses.

  A Go string is its bytes, an Isabelle \<open>string\<close> (a list of 8-bit characters). The
  functions of package \<open>strings\<close> used by the code are defined here under their Go names;
  an index result of \<open>-1\<close> is \<open>None\<close>. \<open>TrimSpace\<close> strips every white space rune of
  Unicode in its UTF-8 encoding; the case mapping of \<open>ToLower\<close>, \<open>ToUpper\<close> and \<open>EqualFold\<close>
  is that of the ASCII letters, other bytes are left as they are.

  An \<open>error\<close> value is a term of the datatype \<open>error\<close> (sentinel errors are constructors,
  \<open>fmt.Errorf\<close> with \<open>%w\<close> is \<open>Wrap\<close>), and a function that returns \<open>(T, error)\<close> returns
  \<open>error + T\<close>. A switch statement whose cases are lists of string labels is a table, read
  by \<open>switch_case\<close>.
\<close>

named_theorems go_simps \<open>evaluation rules of the Go library functions\<close>

section \<open>Errors\<close>

datatype error =
    Errorf string
  | Wrap string error
  | SqlError string
  | ErrAlreadyExists
  | ErrServiceDisabled
  | ErrVPCSCPerimeter
  | ErrDenied
  | ErrUnauthenticated
  | ErrNotAllowed
  | ErrInvalidGCSBucketName

fun errors_Is :: "error \<Rightarrow> error \<Rightarrow> bool" where
  "errors_Is (Wrap m e) target \<longleftrightarrow> Wrap m e = target \<or> errors_Is e target"
| "errors_Is e target \<longleftrightarrow> e = target"

text \<open>Sequencing of \<open>(value, error)\<close> results: \<open>if err != nil \{ return err \}\<close>.\<close>

definition bindE :: "error + 'a \<Rightarrow> ('a \<Rightarrow> error + 'b) \<Rightarrow> error + 'b" where
  "bindE r f = (case r of Inl e \<Rightarrow> Inl e | Inr x \<Rightarrow> f x)"

lemma bindE_simps [simp]: "bindE (Inl e) f = Inl e" "bindE (Inr x) f = f x"
  by (simp_all add: bindE_def)

lemma bindE_eq_Inr: "bindE r f = Inr y \<longleftrightarrow> (\<exists>x. r = Inr x \<and> f x = Inr y)"
  by (cases r) auto

lemma bindE_eq_Inl: "bindE r f = Inl e \<longleftrightarrow> r = Inl e \<or> (\<exists>x. r = Inr x \<and> f x = Inl e)"
  by (cases r) auto

text \<open>
  The loop \<open>for _, x := range xs \{ ok, err := f(x); if err != nil \{ return err \};
  if ok \{ return true \} \}; return false\<close>.
\<close>

fun anyE :: "('a \<Rightarrow> error + bool) \<Rightarrow> 'a list \<Rightarrow> error + bool" where
  "anyE f [] = Inr False"
| "anyE f (x # xs) = bindE (f x) (\<lambda>ok. if ok then Inr True else anyE f xs)"

lemma anyE_no_error:
  assumes "\<And>x. x \<in> set xs \<Longrightarrow> f x = Inr (g x)"
  shows "anyE f xs = Inr (\<exists>x\<in>set xs. g x)"
  using assms by (induction xs) auto

lemma anyE_TrueD: "anyE f xs = Inr True \<Longrightarrow> \<exists>x\<in>set xs. f x = Inr True"
  by (induction xs) (auto simp: bindE_eq_Inr split: if_splits)

lemma anyE_first:
  "f x = Inr True \<Longrightarrow> (\<And>y. y \<in> set ys \<Longrightarrow> f y = Inr False) \<Longrightarrow> anyE f (ys @ x # zs) = Inr True"
  by (induction ys) auto

lemma anyE_False: "anyE f xs = Inr False \<longleftrightarrow> (\<forall>x\<in>set xs. f x = Inr False)"
proof (induction xs)
  case Nil
  then show ?case by simp
next
  case (Cons a xs)
  then show ?case by (cases "f a") auto
qed

lemma anyE_cong [fundef_cong]:
  "xs = ys \<Longrightarrow> (\<And>x. x \<in> set ys \<Longrightarrow> f x = g x) \<Longrightarrow> anyE f xs = anyE g ys"
  by (induction xs arbitrary: ys) (auto simp: bindE_def split: sum.splits)

section \<open>Package strings\<close>

definition HasPrefix :: "string \<Rightarrow> string \<Rightarrow> bool" where
  "HasPrefix s p \<longleftrightarrow> prefix p s"

definition HasSuffix :: "string \<Rightarrow> string \<Rightarrow> bool" where
  "HasSuffix s p \<longleftrightarrow> suffix p s"

definition TrimPrefix :: "string \<Rightarrow> string \<Rightarrow> string" where
  "TrimPrefix s p = (if HasPrefix s p then drop (length p) s else s)"

definition TrimSuffix :: "string \<Rightarrow> string \<Rightarrow> string" where
  "TrimSuffix s p = (if HasSuffix s p then take (length s - length p) s else s)"

definition Contains :: "string \<Rightarrow> string \<Rightarrow> bool" where
  "Contains s sub \<longleftrightarrow> sublist sub s"

lemma HasPrefix_eval [go_simps]:
  "HasPrefix s [] = True"
  "HasPrefix [] (c # p) = False"
  "HasPrefix (d # s) (c # p) = (c = d \<and> HasPrefix s p)"
  by (auto simp: HasPrefix_def)

lemma HasSuffix_eval [go_simps]: "HasSuffix s p = HasPrefix (rev s) (rev p)"
  by (simp add: HasSuffix_def HasPrefix_def suffix_to_prefix)

lemma Contains_eval [go_simps]:
  "Contains [] sub = (sub = [])"
  "Contains (x # xs) sub = (HasPrefix (x # xs) sub \<or> Contains xs sub)"
  by (auto simp: Contains_def HasPrefix_def sublist_Cons_right)

lemma Contains_append:
  "Contains (a @ sub @ b) sub"
  by (simp add: Contains_def)

lemma HasPrefixE:
  assumes "HasPrefix s p"
  obtains r where "s = p @ r"
  using assms by (auto simp: HasPrefix_def prefix_def)

lemma HasSuffixE:
  assumes "HasSuffix s p"
  obtains r where "s = r @ p"
  using assms by (auto simp: HasSuffix_def suffix_def)

lemma HasPrefix_append [simp]: "HasPrefix (p @ r) p"
  by (simp add: HasPrefix_def)

lemma HasSuffix_append [simp]: "HasSuffix (r @ p) p"
  by (simp add: HasSuffix_def suffix_def)

lemma TrimPrefix_append [simp]: "TrimPrefix (p @ r) p = r"
  by (simp add: TrimPrefix_def)

lemma HasPrefix_same_length: "HasPrefix s p \<Longrightarrow> length p = length s \<Longrightarrow> s = p"
  by (auto simp: HasPrefix_def prefix_def)

lemma HasPrefix_comparable:
  "HasPrefix s p \<Longrightarrow> HasPrefix s q \<Longrightarrow> HasPrefix p q \<or> HasPrefix q p"
  using prefix_same_cases [of p s q] by (auto simp: HasPrefix_def)

lemma takeWhile_until: "c \<notin> set xs \<Longrightarrow> takeWhile (\<lambda>x. x \<noteq> c) (xs @ c # ys) = xs"
  by (induction xs) auto

fun IndexByte :: "string \<Rightarrow> char \<Rightarrow> nat option" where
  "IndexByte [] c = None"
| "IndexByte (x # xs) c = (if x = c then Some 0 else map_option Suc (IndexByte xs c))"

lemma IndexByte_None: "IndexByte s c = None \<longleftrightarrow> c \<notin> set s"
  by (induction s) auto

lemma IndexByte_Some:
  "IndexByte s c = Some i \<longleftrightarrow> i < length s \<and> s ! i = c \<and> c \<notin> set (take i s)"
proof (induction s arbitrary: i)
  case Nil
  then show ?case by simp
next
  case (Cons a s)
  show ?case
  proof (cases i)
    case 0
    then show ?thesis by auto
  next
    case (Suc j)
    then show ?thesis using Cons.IH [of j] by auto
  qed
qed

lemma IndexByte_append: "c \<notin> set p \<Longrightarrow> IndexByte (p @ c # r) c = Some (length p)"
  by (induction p) auto

fun Index :: "string \<Rightarrow> string \<Rightarrow> nat option" where
  "Index [] sub = (if sub = [] then Some 0 else None)"
| "Index (x # xs) sub =
     (if HasPrefix (x # xs) sub then Some 0 else map_option Suc (Index xs sub))"

definition LastIndex :: "string \<Rightarrow> string \<Rightarrow> nat option" where
  "LastIndex s sub =
     (case Index (rev s) (rev sub) of None \<Rightarrow> None
      | Some i \<Rightarrow> Some (length s - i - length sub))"

lemma Index_Some_split:
  "Index s sub = Some i \<Longrightarrow> s = take i s @ sub @ drop (i + length sub) s \<and> i + length sub \<le> length s"
proof (induction s arbitrary: i)
  case Nil
  then show ?case by (auto split: if_splits)
next
  case (Cons a s)
  show ?case
  proof (cases "HasPrefix (a # s) sub")
    case True
    then obtain r where r: "a # s = sub @ r" by (rule HasPrefixE)
    from True Cons.prems have "i = 0" by simp
    with r show ?thesis by (metis append_Nil append_eq_conv_conj take0 add_0 le_add1 length_append)
  next
    case False
    with Cons.prems obtain j where "Index s sub = Some j" "i = Suc j" by auto
    with Cons.IH [of j] show ?thesis by simp
  qed
qed

lemma LastIndex_Some_split:
  assumes "LastIndex s sub = Some i"
  shows "s = take i s @ sub @ drop (i + length sub) s \<and> i + length sub \<le> length s"
proof -
  from assms obtain j where j: "Index (rev s) (rev sub) = Some j" "i = length s - j - length sub"
    by (auto simp: LastIndex_def split: option.splits)
  from Index_Some_split [OF j(1)]
  have s: "rev s = take j (rev s) @ rev sub @ drop (j + length sub) (rev s)"
    and le: "j + length sub \<le> length s" by auto
  from s have "s = rev (take j (rev s) @ rev sub @ drop (j + length sub) (rev s))" by simp
  then have "s = rev (drop (j + length sub) (rev s)) @ sub @ rev (take j (rev s))"
    by (simp only: rev_append rev_rev_ident append_assoc)
  then have "s = take i s @ sub @ drop (i + length sub) s"
    using le j(2) by (simp add: rev_drop rev_take)
  with le j(2) show ?thesis by simp
qed

lemma Index_skip: "c \<notin> set xs \<Longrightarrow> Index (xs @ (c # sub) @ ys) (c # sub) = Some (length xs)"
  by (induction xs) (auto simp: go_simps HasPrefix_def)

lemma LastIndex_skip:
  assumes "c \<notin> set xs"
  shows "LastIndex (ys @ (sub @ [c]) @ xs) (sub @ [c]) = Some (length ys)"
proof -
  have "Index (rev xs @ (c # rev sub) @ rev ys) (c # rev sub) = Some (length (rev xs))"
    by (rule Index_skip) (simp add: assms)
  then show ?thesis by (simp add: LastIndex_def)
qed

function Split :: "string \<Rightarrow> string \<Rightarrow> string list" where
  "Split s sep =
     (if sep = [] then map (\<lambda>c. [c]) s
      else case Index s sep of None \<Rightarrow> [s]
           | Some i \<Rightarrow> take i s # Split (drop (i + length sep) s) sep)"
  by pat_completeness auto
termination
proof (relation "measure (\<lambda>(s, sep). length s)", goal_cases)
  case 1
  show ?case by simp
next
  case (2 s sep i)
  then show ?case using Index_Some_split [of s sep i] by (cases sep) auto
qed

declare Split.simps [simp del]

lemma Split_nonempty: "sep \<noteq> [] \<Longrightarrow> Split s sep \<noteq> []"
  by (subst Split.simps) (simp split: option.split)

subsection \<open>White space\<close>

text \<open>The UTF-8 encodings of the runes of \<open>unicode.White_Space\<close>.\<close>

definition space_runes :: "string list" where
  "space_runes =
     [ [CHR 0x09], [CHR 0x0A], [CHR 0x0B], [CHR 0x0C], [CHR 0x0D], [CHR 0x20],
       [CHR 0xC2, CHR 0x85], [CHR 0xC2, CHR 0xA0], [CHR 0xE1, CHR 0x9A, CHR 0x80],
       [CHR 0xE2, CHR 0x80, CHR 0x80], [CHR 0xE2, CHR 0x80, CHR 0x81],
       [CHR 0xE2, CHR 0x80, CHR 0x82], [CHR 0xE2, CHR 0x80, CHR 0x83],
       [CHR 0xE2, CHR 0x80, CHR 0x84], [CHR 0xE2, CHR 0x80, CHR 0x85],
       [CHR 0xE2, CHR 0x80, CHR 0x86], [CHR 0xE2, CHR 0x80, CHR 0x87],
       [CHR 0xE2, CHR 0x80, CHR 0x88], [CHR 0xE2, CHR 0x80, CHR 0x89],
       [CHR 0xE2, CHR 0x80, CHR 0x8A], [CHR 0xE2, CHR 0x80, CHR 0xA8],
       [CHR 0xE2, CHR 0x80, CHR 0xA9], [CHR 0xE2, CHR 0x80, CHR 0xAF],
       [CHR 0xE2, CHR 0x81, CHR 0x9F], [CHR 0xE3, CHR 0x80, CHR 0x80] ]"

text \<open>Strip the words of \<open>ws\<close> from the front, as long as one of them is there.\<close>

function trim_words :: "string list \<Rightarrow> string \<Rightarrow> string" where
  "trim_words ws s =
     (case find (\<lambda>w. w \<noteq> [] \<and> HasPrefix s w) ws of
        None \<Rightarrow> s
      | Some w \<Rightarrow> trim_words ws (drop (length w) s))"
  by pat_completeness auto
termination
proof (relation "measure (\<lambda>(ws, s). length s)", goal_cases)
  case 1
  show ?case by simp
next
  case (2 ws s w)
  then have "w \<noteq> []" "HasPrefix s w" by (auto simp: find_Some_iff)
  then show ?case by (cases s) (auto simp: HasPrefix_def)
qed

declare trim_words.simps [simp del]

definition TrimLeftSpace :: "string \<Rightarrow> string" where
  "TrimLeftSpace s = trim_words space_runes s"

definition TrimRightSpace :: "string \<Rightarrow> string" where
  "TrimRightSpace s = rev (trim_words (map rev space_runes) (rev s))"

definition TrimSpace :: "string \<Rightarrow> string" where
  "TrimSpace s = TrimRightSpace (TrimLeftSpace s)"

lemma trim_words_suffix: "suffix (trim_words ws s) s"
proof (induction ws s rule: trim_words.induct)
  case (1 ws s)
  show ?case
  proof (cases "find (\<lambda>w. w \<noteq> [] \<and> HasPrefix s w) ws")
    case None
    then show ?thesis by (subst trim_words.simps) simp
  next
    case (Some w)
    with "1" have "suffix (trim_words ws (drop (length w) s)) (drop (length w) s)" by blast
    with Some show ?thesis
      by (subst trim_words.simps) (simp add: suffix_drop suffix_order.trans [OF _ suffix_drop])
  qed
qed

lemma trim_words_done:
  "find (\<lambda>w. w \<noteq> [] \<and> HasPrefix (trim_words ws s) w) ws = None"
proof (induction ws s rule: trim_words.induct)
  case (1 ws s)
  then show ?case
    by (cases "find (\<lambda>w. w \<noteq> [] \<and> HasPrefix s w) ws")
       (simp_all add: trim_words.simps [of ws s])
qed

lemma trim_words_fixed: "trim_words ws s = s \<longleftrightarrow> find (\<lambda>w. w \<noteq> [] \<and> HasPrefix s w) ws = None"
  using trim_words_done [of ws s] by (auto simp: trim_words.simps [of ws s])

lemma trim_words_idem [simp]: "trim_words ws (trim_words ws s) = trim_words ws s"
  using trim_words_done by (simp add: trim_words_fixed)

lemma TrimRightSpace_prefix: "prefix (TrimRightSpace s) s"
  using trim_words_suffix [of "map rev space_runes" "rev s"]
  by (simp add: TrimRightSpace_def suffix_to_prefix)

lemma TrimSpace_idem [simp]: "TrimSpace (TrimSpace s) = TrimSpace s"
proof -
  let ?t = "TrimLeftSpace s" and ?u = "TrimRightSpace (TrimLeftSpace s)"
  have "find (\<lambda>w. w \<noteq> [] \<and> HasPrefix ?t w) space_runes = None"
    by (simp add: TrimLeftSpace_def trim_words_done)
  then have "find (\<lambda>w. w \<noteq> [] \<and> HasPrefix ?u w) space_runes = None"
    using TrimRightSpace_prefix [of ?t]
    by (auto simp: find_None_iff HasPrefix_def dest: prefix_order.trans)
  then have "TrimLeftSpace ?u = ?u"
    by (simp add: TrimLeftSpace_def trim_words_fixed)
  then show ?thesis by (simp add: TrimSpace_def TrimRightSpace_def)
qed

lemma TrimSpace_Nil [simp]: "TrimSpace [] = []"
  using trim_words_suffix [of space_runes "[]"] TrimRightSpace_prefix [of "[]"]
  by (simp add: TrimSpace_def TrimLeftSpace_def)

text \<open>
  A string with no byte of a white space rune is left as it is.
\<close>

definition plain_char :: "char \<Rightarrow> bool" where
  "plain_char c \<longleftrightarrow> c \<notin> {CHR 0x09, CHR 0x0A, CHR 0x0B, CHR 0x0C, CHR 0x0D, CHR 0x20,
     CHR 0xC2, CHR 0xE1, CHR 0xE2, CHR 0xE3, CHR 0x85, CHR 0xA0, CHR 0x80, CHR 0x81, CHR 0x82,
     CHR 0x83, CHR 0x84, CHR 0x86, CHR 0x87, CHR 0x88, CHR 0x89, CHR 0x8A, CHR 0xA8, CHR 0xA9,
     CHR 0xAF, CHR 0x9A, CHR 0x9F}"

lemma TrimSpace_plain_ends:
  assumes "s = [] \<or> plain_char (hd s) \<and> plain_char (last s)"
  shows "TrimSpace s = s"
proof (cases "s = []")
  case True
  then show ?thesis by simp
next
  case False
  with assms obtain c r where s: "s = c # r" and c: "plain_char c" and l: "plain_char (last s)"
    by (cases s) auto
  from False obtain r' d where s': "rev s = d # r'" and d: "plain_char d"
    using l by (cases s rule: rev_cases) auto
  have "trim_words space_runes s = s"
    unfolding trim_words_fixed find_None_iff
    using c by (auto simp: s space_runes_def HasPrefix_eval plain_char_def)
  moreover have "trim_words (map rev space_runes) (rev s) = rev s"
    unfolding trim_words_fixed find_None_iff
    using d by (auto simp: s' space_runes_def HasPrefix_eval plain_char_def)
  ultimately show ?thesis by (simp add: TrimSpace_def TrimLeftSpace_def TrimRightSpace_def)
qed

text \<open>A prefix that starts and ends with plain characters survives trimming.\<close>

lemma plain_not_in_runes:
  "plain_char c \<Longrightarrow> w \<in> set space_runes \<Longrightarrow> c \<notin> set w"
  by (auto simp: space_runes_def plain_char_def)

lemma trim_words_stop:
  assumes "\<And>w. w \<in> set ws \<Longrightarrow> c \<notin> set w"
  shows "\<exists>x'. suffix x' x \<and> trim_words ws (x @ c # p) = x' @ c # p"
proof (induction x rule: length_induct)
  case (1 x)
  show ?case
  proof (cases "find (\<lambda>w. w \<noteq> [] \<and> HasPrefix (x @ c # p) w) ws")
    case None
    then show ?thesis by (subst trim_words.simps) auto
  next
    case (Some w)
    then have w: "w \<in> set ws" "w \<noteq> []" "prefix w (x @ c # p)"
      by (auto simp: find_Some_iff HasPrefix_def)
    with assms have "c \<notin> set w" by blast
    with w(3) have "prefix w x"
      by (auto simp: prefix_append prefix_Cons)
    then obtain y where x: "x = w @ y" by (auto simp: prefix_def)
    with w(2) "1" obtain y' where "suffix y' y" "trim_words ws (y @ c # p) = y' @ c # p"
      by (metis append_Nil2 length_append less_add_same_cancel2 length_greater_0_conv)
    with Some x show ?thesis
      by (subst trim_words.simps) (auto simp: suffix_def)
  qed
qed

lemma TrimSpace_keeps_prefix:
  assumes "p = c # q @ [d] \<or> p = [c] \<and> d = c" "plain_char c" "plain_char d"
  shows "HasPrefix (TrimSpace (p @ x)) p"
proof -
  from assms(1) obtain r where p: "p = r @ [d]" by (metis append_Cons append_Nil)
  have "trim_words space_runes (p @ x) = p @ x"
    unfolding trim_words_fixed find_None_iff
    using assms(1,2) by (auto simp: space_runes_def HasPrefix_eval plain_char_def)
  moreover have "\<exists>x'. trim_words (map rev space_runes) (rev x @ d # rev r) = x' @ d # rev r"
    using trim_words_stop [of "map rev space_runes" d "rev x" "rev r"] plain_not_in_runes [OF assms(3)]
    by (metis (no_types, lifting) image_iff list.set_map set_rev)
  ultimately show ?thesis
    by (auto simp: TrimSpace_def TrimLeftSpace_def TrimRightSpace_def p HasPrefix_def prefix_def)
qed

lemma TrimSpace_fixed_right:
  assumes "TrimSpace p = p"
  shows "trim_words (map rev space_runes) (rev p) = rev p"
proof -
  have "suffix (TrimLeftSpace p) p" by (simp add: TrimLeftSpace_def trim_words_suffix)
  moreover have "prefix p (TrimLeftSpace p)"
    using TrimRightSpace_prefix [of "TrimLeftSpace p"] assms by (simp add: TrimSpace_def)
  ultimately obtain zs ys where "p = zs @ p @ ys" "TrimLeftSpace p = p @ ys"
    by (auto simp: suffix_def prefix_def)
  moreover from arg_cong [OF this(1), of length] have "ys = []" by simp
  ultimately have "TrimLeftSpace p = p" by simp
  with assms show ?thesis by (simp add: TrimSpace_def TrimRightSpace_def rev_swap)
qed

lemma TrimSpace_plain_prefix:
  assumes "q = c # x @ [d] \<or> q = [c] \<and> d = c" "plain_char c" "plain_char d" "TrimSpace p = p"
  shows "TrimSpace (q @ p) = q @ p"
proof -
  from assms(1) obtain r where q: "q = r @ [d]" by (metis append_Cons append_Nil)
  have "trim_words space_runes (q @ p) = q @ p"
    unfolding trim_words_fixed find_None_iff
    using assms(1,2) by (auto simp: space_runes_def HasPrefix_eval plain_char_def)
  moreover have "trim_words (map rev space_runes) (rev p @ d # rev r) = rev p @ d # rev r"
    unfolding trim_words_fixed find_None_iff
  proof
    assume "\<exists>w. w \<in> set (map rev space_runes) \<and> w \<noteq> [] \<and> HasPrefix (rev p @ d # rev r) w"
    then obtain w where w: "w \<in> set (map rev space_runes)" "w \<noteq> []" "prefix w (rev p @ d # rev r)"
      by (auto simp: HasPrefix_def)
    then have "d \<notin> set w" using plain_not_in_runes [OF assms(3)] by auto
    with w(3) have "prefix w (rev p)" by (auto simp: prefix_append prefix_Cons)
    moreover have "find (\<lambda>w. w \<noteq> [] \<and> HasPrefix (rev p) w) (map rev space_runes) = None"
      using TrimSpace_fixed_right [OF assms(4)] by (simp only: trim_words_fixed)
    ultimately show False using w(1,2) by (auto simp: find_None_iff HasPrefix_def)
  qed
  ultimately show ?thesis
    by (simp add: TrimSpace_def TrimLeftSpace_def TrimRightSpace_def q)
qed

subsection \<open>Case mapping\<close>

definition lower_char :: "char \<Rightarrow> char" where
  "lower_char c = (let n = (of_char c :: nat) in if 65 \<le> n \<and> n \<le> 90 then char_of (n + 32) else c)"

definition upper_char :: "char \<Rightarrow> char" where
  "upper_char c = (let n = (of_char c :: nat) in if 97 \<le> n \<and> n \<le> 122 then char_of (n - 32) else c)"

definition ToLower :: "string \<Rightarrow> string" where
  "ToLower s = map lower_char s"

definition ToUpper :: "string \<Rightarrow> string" where
  "ToUpper s = map upper_char s"

definition EqualFold :: "string \<Rightarrow> string \<Rightarrow> bool" where
  "EqualFold s t \<longleftrightarrow> ToLower s = ToLower t"

lemma EqualFold_refl [simp]: "EqualFold s s"
  by (simp add: EqualFold_def)

lemma length_ToLower [simp]: "length (ToLower s) = length s"
  by (simp add: ToLower_def)

lemma ToLower_append: "ToLower (s @ t) = ToLower s @ ToLower t"
  by (simp add: ToLower_def)

lemma lower_char_idem [simp]: "lower_char (lower_char c) = lower_char c"
proof -
  have "(of_char c :: nat) < 256" by simp
  then show ?thesis by (auto simp: lower_char_def Let_def)
qed

lemma ToLower_idem [simp]: "ToLower (ToLower s) = ToLower s"
  by (simp add: ToLower_def)

section \<open>Decimal numbers\<close>

definition digit_char :: "nat \<Rightarrow> char" where
  "digit_char d = char_of (48 + d)"

fun itoa :: "nat \<Rightarrow> string" where
  "itoa n = (if n < 10 then [digit_char n] else itoa (n div 10) @ [digit_char (n mod 10)])"

declare itoa.simps [simp del]

definition is_digit :: "char \<Rightarrow> bool" where
  "is_digit c \<longleftrightarrow> 48 \<le> (of_char c :: nat) \<and> (of_char c :: nat) \<le> 57"

definition digit_value :: "char \<Rightarrow> nat" where
  "digit_value c = of_char c - 48"

definition decimal_value :: "string \<Rightarrow> nat" where
  "decimal_value s = foldl (\<lambda>n c. 10 * n + digit_value c) 0 s"

lemma is_digit_digit_char [simp]: "d < 10 \<Longrightarrow> is_digit (digit_char d)"
  by (simp add: is_digit_def digit_char_def)

lemma digit_value_digit_char [simp]: "d < 10 \<Longrightarrow> digit_value (digit_char d) = d"
  by (simp add: digit_value_def digit_char_def)

lemma itoa_nonempty [simp]: "itoa n \<noteq> []"
  by (subst itoa.simps) simp

lemma itoa_digits: "c \<in> set (itoa n) \<Longrightarrow> is_digit c"
proof (induction n rule: itoa.induct)
  case (1 n)
  then show ?case by (cases "n < 10") (auto simp: itoa.simps [of n])
qed

lemma decimal_value_itoa [simp]: "decimal_value (itoa n) = n"
proof (induction n rule: itoa.induct)
  case (1 n)
  then show ?case
    by (cases "n < 10") (simp_all add: itoa.simps [of n] decimal_value_def)
qed

lemma itoa_inject [simp]: "itoa m = itoa n \<longleftrightarrow> m = n"
  by (metis decimal_value_itoa)

lemma length_itoa_bound: "n < 10 ^ k \<Longrightarrow> 0 < k \<Longrightarrow> length (itoa n) \<le> k"
proof (induction n arbitrary: k rule: itoa.induct)
  case (1 n)
  show ?case
  proof (cases "n < 10")
    case True
    with "1.prems" show ?thesis by (simp add: itoa.simps [of n])
  next
    case False
    with "1.prems" obtain j where k: "k = Suc j" "0 < j"
      by (cases k; cases "k - 1") auto
    with "1.prems"(1) have "n div 10 < 10 ^ j" by (simp add: less_mult_imp_div_less mult.commute)
    with "1.IH" [OF False] k have "length (itoa (n div 10)) \<le> j" by blast
    with False k show ?thesis by (simp add: itoa.simps [of n])
  qed
qed

section \<open>Optional fields\<close>

text \<open>The new value of a field under a pointer that may be nil: nil leaves the field as it is.\<close>

definition or_keep :: "('a \<Rightarrow> 'a) \<Rightarrow> 'a option \<Rightarrow> 'a \<Rightarrow> 'a" where
  "or_keep f new old = (case new of None \<Rightarrow> old | Some x \<Rightarrow> f x)"

section \<open>Switch statements over string labels\<close>

type_synonym 'b switch_table = "(string list \<times> 'b) list"

definition switch_case :: "'b switch_table \<Rightarrow> string \<Rightarrow> 'b option" where
  "switch_case t tag = map_option snd (find (\<lambda>(labels, _). tag \<in> set labels) t)"

lemma switch_case_Nil [simp]: "switch_case [] tag = None"
  by (simp add: switch_case_def)

lemma switch_case_Cons [simp]:
  "switch_case ((labels, b) # t) tag = (if tag \<in> set labels then Some b else switch_case t tag)"
  by (simp add: switch_case_def)

lemma switch_case_append:
  "switch_case (t @ u) tag = (case switch_case t tag of None \<Rightarrow> switch_case u tag | Some b \<Rightarrow> Some b)"
  by (induction t) auto

lemma switch_case_SomeD:
  "switch_case t tag = Some b \<Longrightarrow> \<exists>labels. (labels, b) \<in> set t \<and> tag \<in> set labels"
proof (induction t)
  case (Cons a t)
  then show ?case by (cases a) (fastforce split: if_splits)
qed simp

lemma switch_case_None: "switch_case t tag = None \<longleftrightarrow> (\<forall>(labels, b)\<in>set t. tag \<notin> set labels)"
  by (auto simp: switch_case_def find_None_iff)

end
