(* ===== verification/Role_Catalogue.thy ===== *)
theory Role_Catalogue
  imports Go_Base
begin

text \<open>
  The catalogue of predefined IAM roles, \<^verbatim>\<open>internal/kernel/authz/predefined_roles.go\<close>.

  Every helper \<open>xGrants\<close> of the file is a predicate on permission names. The switch of
  \<open>predefinedServiceRoleGrants\<close> is one table per service section of the switch, in the
  order of the source; the function itself reads the concatenation of the tables and returns
  the pair \<open>(granted, known)\<close>.

  The lemmas at the end show that the case labels are distinct, that a role stays inside the
  service it is named after, that the roles of a service form the documented inclusion chains,
  and which roles of the catalogue reach policy administration or impersonation.
\<close>

section \<open>Permission sets\<close>

definition iamSecurityReviewerGrants :: "string \<Rightarrow> bool" where
  "iamSecurityReviewerGrants permission \<longleftrightarrow>
     (if HasSuffix permission ''.getIamPolicy'' then True else
      permission \<in> set
      [''iam.roles.get'', ''iam.roles.list'', ''iam.serviceAccounts.get'',
       ''iam.serviceAccounts.list'', ''iam.serviceAccountKeys.get'',
       ''iam.serviceAccountKeys.list'', ''iam.workloadIdentityPools.get'',
       ''iam.workloadIdentityPools.list'', ''iam.workloadIdentityPoolProviders.get'',
       ''iam.workloadIdentityPoolProviders.list'', ''resourcemanager.projects.get'',
       ''resourcemanager.projects.getIamPolicy'', ''resourcemanager.folders.get'',
       ''resourcemanager.folders.getIamPolicy'', ''resourcemanager.organizations.get'',
       ''resourcemanager.organizations.getIamPolicy''])"

definition iamServiceAccountViewerGrants :: "string \<Rightarrow> bool" where
  "iamServiceAccountViewerGrants permission \<longleftrightarrow>
     permission \<in> set
      [''iam.serviceAccounts.get'', ''iam.serviceAccounts.list'',
       ''iam.serviceAccountKeys.get'', ''iam.serviceAccountKeys.list'',
       ''iam.serviceAccounts.getIamPolicy'']"

definition iamWorkloadIdentityViewerGrants :: "string \<Rightarrow> bool" where
  "iamWorkloadIdentityViewerGrants permission \<longleftrightarrow>
     permission \<in> set
      [''iam.workloadIdentityPools.get'', ''iam.workloadIdentityPools.list'',
       ''iam.workloadIdentityPoolProviders.get'', ''iam.workloadIdentityPoolProviders.list'']"

definition resourcemanagerProjectViewerGrants :: "string \<Rightarrow> bool" where
  "resourcemanagerProjectViewerGrants permission \<longleftrightarrow>
     permission \<in> set
      [''resourcemanager.projects.get'', ''resourcemanager.projects.getIamPolicy'',
       ''resourcemanager.projects.list'', ''resourcemanager.projects.search'']"

definition resourcemanagerFolderViewerGrants :: "string \<Rightarrow> bool" where
  "resourcemanagerFolderViewerGrants permission \<longleftrightarrow>
     permission \<in> set
      [''resourcemanager.folders.get'', ''resourcemanager.folders.getIamPolicy'',
       ''resourcemanager.folders.list'']"

definition resourcemanagerFolderEditorGrants :: "string \<Rightarrow> bool" where
  "resourcemanagerFolderEditorGrants permission \<longleftrightarrow>
     (if resourcemanagerFolderViewerGrants permission then True else
      permission \<in> set
      [''resourcemanager.folders.create'', ''resourcemanager.folders.update'',
       ''resourcemanager.folders.move'', ''resourcemanager.folders.delete'',
       ''resourcemanager.folders.undelete''])"

definition serviceusageConsumerGrants :: "string \<Rightarrow> bool" where
  "serviceusageConsumerGrants permission \<longleftrightarrow>
     permission \<in> set
      [''serviceusage.services.get'', ''serviceusage.services.list'']"

definition pubsubViewerGrants :: "string \<Rightarrow> bool" where
  "pubsubViewerGrants permission \<longleftrightarrow>
     permission \<in> set
      [''pubsub.topics.get'', ''pubsub.topics.list'', ''pubsub.subscriptions.get'',
       ''pubsub.subscriptions.list'', ''pubsub.snapshots.get'', ''pubsub.snapshots.list'']"

definition pubsubPublisherGrants :: "string \<Rightarrow> bool" where
  "pubsubPublisherGrants permission \<longleftrightarrow>
     permission \<in> set
      [''pubsub.topics.publish'', ''pubsub.topics.get'', ''pubsub.topics.list'']"

definition pubsubSubscriberGrants :: "string \<Rightarrow> bool" where
  "pubsubSubscriberGrants permission \<longleftrightarrow>
     permission \<in> set
      [''pubsub.subscriptions.consume'', ''pubsub.subscriptions.get'',
       ''pubsub.subscriptions.list'', ''pubsub.snapshots.get'', ''pubsub.snapshots.list'',
       ''pubsub.topics.get'', ''pubsub.topics.list'']"

definition bigqueryMetadataViewerGrants :: "string \<Rightarrow> bool" where
  "bigqueryMetadataViewerGrants permission \<longleftrightarrow>
     permission \<in> set
      [''bigquery.datasets.get'', ''bigquery.datasets.list'', ''bigquery.tables.get'',
       ''bigquery.tables.list'', ''bigquery.jobs.get'']"

definition bigqueryDataViewerGrants :: "string \<Rightarrow> bool" where
  "bigqueryDataViewerGrants permission \<longleftrightarrow>
     (if bigqueryMetadataViewerGrants permission then True else
      permission = ''bigquery.tables.getData'')"

definition bigqueryDataEditorGrants :: "string \<Rightarrow> bool" where
  "bigqueryDataEditorGrants permission \<longleftrightarrow>
     (if bigqueryDataViewerGrants permission then True else
      permission \<in> set
      [''bigquery.datasets.create'', ''bigquery.datasets.delete'', ''bigquery.tables.create'',
       ''bigquery.tables.delete'', ''bigquery.tables.updateData''])"

definition bigqueryUserGrants :: "string \<Rightarrow> bool" where
  "bigqueryUserGrants permission \<longleftrightarrow>
     permission \<in> set
      [''bigquery.jobs.create'', ''bigquery.jobs.get'', ''bigquery.datasets.get'',
       ''bigquery.datasets.list'', ''bigquery.tables.get'', ''bigquery.tables.list'',
       ''bigquery.datasets.create'']"

definition loggingViewerGrants :: "string \<Rightarrow> bool" where
  "loggingViewerGrants permission \<longleftrightarrow>
     permission \<in> set
      [''logging.logEntries.list'', ''logging.logs.list'', ''logging.sinks.get'',
       ''logging.sinks.list'', ''logging.buckets.get'', ''logging.buckets.list'',
       ''logging.views.get'', ''logging.views.list'', ''logging.exclusions.get'',
       ''logging.exclusions.list'']"

definition loggingConfigWriterGrants :: "string \<Rightarrow> bool" where
  "loggingConfigWriterGrants permission \<longleftrightarrow>
     (if loggingViewerGrants permission then True else
      permission \<in> set
      [''logging.sinks.create'', ''logging.sinks.update'', ''logging.sinks.delete'',
       ''logging.views.create'', ''logging.exclusions.create'', ''logging.exclusions.delete'',
       ''logging.logs.delete'', ''logging.entries.copy''])"

definition monitoringViewerGrants :: "string \<Rightarrow> bool" where
  "monitoringViewerGrants permission \<longleftrightarrow>
     permission \<in> set
      [''monitoring.metricDescriptors.get'', ''monitoring.metricDescriptors.list'',
       ''monitoring.timeSeries.list'', ''monitoring.alertPolicies.get'',
       ''monitoring.alertPolicies.list'']"

definition runViewerGrants :: "string \<Rightarrow> bool" where
  "runViewerGrants permission \<longleftrightarrow>
     permission \<in> set
      [''run.services.get'', ''run.services.list'', ''run.services.getIamPolicy'',
       ''run.revisions.get'', ''run.revisions.list'', ''run.jobs.get'', ''run.jobs.list'']"

definition runDeveloperGrants :: "string \<Rightarrow> bool" where
  "runDeveloperGrants permission \<longleftrightarrow>
     (if runViewerGrants permission then True else
      permission \<in> set
      [''run.services.create'', ''run.services.update'', ''run.services.delete'',
       ''run.revisions.delete'', ''run.jobs.create'', ''run.jobs.update'', ''run.jobs.delete''])"

definition cloudfunctionsViewerGrants :: "string \<Rightarrow> bool" where
  "cloudfunctionsViewerGrants permission \<longleftrightarrow>
     permission \<in> set
      [''cloudfunctions.functions.get'', ''cloudfunctions.functions.list'',
       ''cloudfunctions.functions.getIamPolicy'', ''cloudfunctions.functions.sourceCodeGet'']"

definition cloudfunctionsDeveloperGrants :: "string \<Rightarrow> bool" where
  "cloudfunctionsDeveloperGrants permission \<longleftrightarrow>
     (if cloudfunctionsViewerGrants permission then True else
      permission \<in> set
      [''cloudfunctions.functions.create'', ''cloudfunctions.functions.update'',
       ''cloudfunctions.functions.delete''])"

definition accesscontextmanagerViewerGrants :: "string \<Rightarrow> bool" where
  "accesscontextmanagerViewerGrants permission \<longleftrightarrow>
     permission \<in> set
      [''accesscontextmanager.policies.get'', ''accesscontextmanager.policies.list'',
       ''accesscontextmanager.servicePerimeters.get'',
       ''accesscontextmanager.servicePerimeters.list'']"

definition accesscontextmanagerEditorGrants :: "string \<Rightarrow> bool" where
  "accesscontextmanagerEditorGrants permission \<longleftrightarrow>
     permission \<in> set
      [''accesscontextmanager.policies.get'', ''accesscontextmanager.policies.list'',
       ''accesscontextmanager.policies.update'',
       ''accesscontextmanager.servicePerimeters.get'',
       ''accesscontextmanager.servicePerimeters.list'',
       ''accesscontextmanager.servicePerimeters.create'',
       ''accesscontextmanager.servicePerimeters.update'',
       ''accesscontextmanager.servicePerimeters.delete'']"

definition cloudassetViewerGrants :: "string \<Rightarrow> bool" where
  "cloudassetViewerGrants permission \<longleftrightarrow>
     permission \<in> set
      [''cloudasset.assets.searchAllResources'', ''cloudasset.assets.listResource'',
       ''cloudasset.feeds.get'', ''cloudasset.feeds.list'']"

definition cloudtasksViewerGrants :: "string \<Rightarrow> bool" where
  "cloudtasksViewerGrants permission \<longleftrightarrow>
     permission \<in> set
      [''cloudtasks.queues.get'', ''cloudtasks.queues.list'', ''cloudtasks.tasks.get'',
       ''cloudtasks.tasks.list'']"

definition cloudtasksEditorGrants :: "string \<Rightarrow> bool" where
  "cloudtasksEditorGrants permission \<longleftrightarrow>
     (if cloudtasksViewerGrants permission then True else
      permission \<in> set
      [''cloudtasks.queues.create'', ''cloudtasks.queues.update'',
       ''cloudtasks.queues.delete'', ''cloudtasks.tasks.create'', ''cloudtasks.tasks.delete'',
       ''cloudtasks.tasks.run''])"

definition storageObjectViewerGrants :: "string \<Rightarrow> bool" where
  "storageObjectViewerGrants permission \<longleftrightarrow>
     permission \<in> set
      [''storage.objects.get'', ''storage.objects.list'', ''storage.buckets.get'']"

definition storageObjectCreatorGrants :: "string \<Rightarrow> bool" where
  "storageObjectCreatorGrants permission \<longleftrightarrow>
     permission \<in> set
      [''storage.objects.create'', ''storage.objects.list'', ''storage.buckets.get'']"

definition storageObjectAdminGrants :: "string \<Rightarrow> bool" where
  "storageObjectAdminGrants permission \<longleftrightarrow>
     (if storageObjectViewerGrants permission \<or>
           storageObjectCreatorGrants permission then True else
      permission \<in> set
      [''storage.objects.delete'', ''storage.objects.update'',
       ''storage.objects.getIamPolicy'', ''storage.objects.setIamPolicy''])"

definition artifactregistryReaderGrants :: "string \<Rightarrow> bool" where
  "artifactregistryReaderGrants permission \<longleftrightarrow>
     permission \<in> set
      [''artifactregistry.repositories.get'', ''artifactregistry.repositories.list'',
       ''artifactregistry.repositories.downloadArtifacts'', ''artifactregistry.packages.get'',
       ''artifactregistry.packages.list'', ''artifactregistry.versions.get'',
       ''artifactregistry.versions.list'', ''artifactregistry.files.list'',
       ''artifactregistry.tags.list'', ''artifactregistry.dockerimages.get'',
       ''artifactregistry.repositories.getIamPolicy'']"

definition artifactregistryWriterGrants :: "string \<Rightarrow> bool" where
  "artifactregistryWriterGrants permission \<longleftrightarrow>
     (if artifactregistryReaderGrants permission then True else
      permission \<in> set
      [''artifactregistry.repositories.uploadArtifacts'', ''artifactregistry.packages.create'',
       ''artifactregistry.versions.create'', ''artifactregistry.dockerimages.create''])"

definition artifactregistryRepoAdminGrants :: "string \<Rightarrow> bool" where
  "artifactregistryRepoAdminGrants permission \<longleftrightarrow>
     (if artifactregistryWriterGrants permission then True else
      permission \<in> set
      [''artifactregistry.repositories.create'', ''artifactregistry.repositories.update'',
       ''artifactregistry.repositories.delete'',
       ''artifactregistry.repositories.setIamPolicy'', ''artifactregistry.packages.delete'',
       ''artifactregistry.versions.delete''])"

definition datastoreViewerGrants :: "string \<Rightarrow> bool" where
  "datastoreViewerGrants permission \<longleftrightarrow>
     permission \<in> set
      [''datastore.entities.get'', ''datastore.entities.list'', ''datastore.databases.get'',
       ''datastore.databases.list'']"

definition datastoreUserGrants :: "string \<Rightarrow> bool" where
  "datastoreUserGrants permission \<longleftrightarrow>
     (if datastoreViewerGrants permission then True else
      permission \<in> set
      [''datastore.entities.create'', ''datastore.entities.update'',
       ''datastore.entities.delete'', ''datastore.entities.write''])"

definition datastoreOwnerGrants :: "string \<Rightarrow> bool" where
  "datastoreOwnerGrants permission \<longleftrightarrow>
     HasPrefix permission ''datastore.'' \<or> HasPrefix permission ''firestore.''"

definition spannerViewerGrants :: "string \<Rightarrow> bool" where
  "spannerViewerGrants permission \<longleftrightarrow>
     permission \<in> set
      [''spanner.instances.get'', ''spanner.instances.list'', ''spanner.databases.get'',
       ''spanner.databases.list'', ''spanner.databases.select'', ''spanner.databases.read'',
       ''spanner.sessions.create'']"

definition spannerDatabaseUserGrants :: "string \<Rightarrow> bool" where
  "spannerDatabaseUserGrants permission \<longleftrightarrow>
     (if spannerViewerGrants permission then True else
      permission \<in> set [''spanner.databases.write'', ''spanner.databases.partitionQuery''])"

definition spannerDatabaseAdminGrants :: "string \<Rightarrow> bool" where
  "spannerDatabaseAdminGrants permission \<longleftrightarrow>
     (if spannerDatabaseUserGrants permission then True else
      permission \<in> set
      [''spanner.databases.create'', ''spanner.databases.drop'',
       ''spanner.databases.updateDdl'', ''spanner.instances.create'',
       ''spanner.instances.delete''])"

definition cloudschedulerViewerGrants :: "string \<Rightarrow> bool" where
  "cloudschedulerViewerGrants permission \<longleftrightarrow>
     permission \<in> set
      [''cloudscheduler.jobs.get'', ''cloudscheduler.jobs.list'']"

definition cloudschedulerJobRunnerGrants :: "string \<Rightarrow> bool" where
  "cloudschedulerJobRunnerGrants permission \<longleftrightarrow>
     (if cloudschedulerViewerGrants permission then True else
      permission = ''cloudscheduler.jobs.run'')"

definition eventarcViewerGrants :: "string \<Rightarrow> bool" where
  "eventarcViewerGrants permission \<longleftrightarrow>
     permission \<in> set
      [''eventarc.triggers.get'', ''eventarc.triggers.list'', ''eventarc.channels.get'',
       ''eventarc.channels.list'']"

definition eventarcDeveloperGrants :: "string \<Rightarrow> bool" where
  "eventarcDeveloperGrants permission \<longleftrightarrow>
     (if eventarcViewerGrants permission then True else
      permission \<in> set
      [''eventarc.triggers.create'', ''eventarc.triggers.delete'',
       ''eventarc.triggers.update'', ''eventarc.channels.create'',
       ''eventarc.channels.delete'', ''eventarc.channels.update''])"

definition cloudbuildViewerGrants :: "string \<Rightarrow> bool" where
  "cloudbuildViewerGrants permission \<longleftrightarrow>
     permission \<in> set
      [''cloudbuild.builds.get'', ''cloudbuild.builds.list'', ''cloudbuild.triggers.get'',
       ''cloudbuild.triggers.list'', ''cloudbuild.workerpools.get'',
       ''cloudbuild.workerpools.list'']"

definition cloudbuildEditorGrants :: "string \<Rightarrow> bool" where
  "cloudbuildEditorGrants permission \<longleftrightarrow>
     (if cloudbuildViewerGrants permission then True else
      permission \<in> set
      [''cloudbuild.builds.create'', ''cloudbuild.builds.update'',
       ''cloudbuild.triggers.create'', ''cloudbuild.triggers.delete'',
       ''cloudbuild.triggers.update'', ''cloudbuild.workerpools.create'',
       ''cloudbuild.workerpools.use''])"

definition firebaseauthViewerGrants :: "string \<Rightarrow> bool" where
  "firebaseauthViewerGrants permission \<longleftrightarrow>
     permission \<in> set
      [''firebaseauth.users.get'', ''firebaseauth.users.list'']"

definition identitytoolkitViewerGrants :: "string \<Rightarrow> bool" where
  "identitytoolkitViewerGrants permission \<longleftrightarrow>
     permission \<in> set
      [''identitytoolkit.tenants.get'', ''identitytoolkit.tenants.list'']"

definition iam_cases :: "(string \<Rightarrow> bool) switch_table" where
  "iam_cases =
    [([''roles/iam.securityReviewer''],
       iamSecurityReviewerGrants),
     ([''roles/iam.roleViewer''],
       \<lambda>p. p \<in> set [''iam.roles.get'', ''iam.roles.list'']),
     ([''roles/iam.roleAdmin''],
       \<lambda>p. HasPrefix p ''iam.roles.''),
     ([''roles/iam.serviceAccountUser''],
       \<lambda>p. p = ''iam.serviceAccounts.actAs''),
     ([''roles/iam.serviceAccountViewer''],
       iamServiceAccountViewerGrants),
     ([''roles/iam.workloadIdentityPoolAdmin''],
       \<lambda>p. HasPrefix p ''iam.workloadIdentityPools.'' \<or>
           HasPrefix p ''iam.workloadIdentityPoolProviders.''),
     ([''roles/iam.workloadIdentityPoolViewer''],
       iamWorkloadIdentityViewerGrants)]"

definition resource_manager_cases :: "(string \<Rightarrow> bool) switch_table" where
  "resource_manager_cases =
    [([''roles/resourcemanager.organizationAdmin''],
       \<lambda>p. HasPrefix p ''resourcemanager.organizations.'' \<or>
           HasPrefix p ''resourcemanager.folders.'' \<or>
           HasPrefix p ''resourcemanager.projects.''),
     ([''roles/resourcemanager.organizationViewer''],
       \<lambda>p. p \<in> set [''resourcemanager.organizations.get'', ''resourcemanager.organizations.getIamPolicy'']),
     ([''roles/resourcemanager.folderAdmin''],
       \<lambda>p. HasPrefix p ''resourcemanager.folders.''),
     ([''roles/resourcemanager.folderEditor''],
       resourcemanagerFolderEditorGrants),
     ([''roles/resourcemanager.folderViewer''],
       resourcemanagerFolderViewerGrants),
     ([''roles/resourcemanager.folderIamAdmin''],
       \<lambda>p. p \<in> set [''resourcemanager.folders.getIamPolicy'', ''resourcemanager.folders.setIamPolicy'',
                ''resourcemanager.folders.get'']),
     ([''roles/resourcemanager.projectIamAdmin''],
       \<lambda>p. p \<in> set [''resourcemanager.projects.getIamPolicy'', ''resourcemanager.projects.setIamPolicy'',
                ''resourcemanager.projects.get'']),
     ([''roles/resourcemanager.projectViewer''],
       resourcemanagerProjectViewerGrants),
     ([''roles/resourcemanager.projectCreator''],
       \<lambda>p. p = ''resourcemanager.projects.create''),
     ([''roles/resourcemanager.projectMover''],
       \<lambda>p. p \<in> set [''resourcemanager.projects.update'', ''resourcemanager.projects.get'']),
     ([''roles/resourcemanager.tagAdmin''],
       \<lambda>p. HasPrefix p ''resourcemanager.tagKeys.'' \<or>
           HasPrefix p ''resourcemanager.tagBindings.''),
     ([''roles/resourcemanager.tagUser''],
       \<lambda>p. p \<in> set [''resourcemanager.tagBindings.create'', ''resourcemanager.tagBindings.delete'',
                ''resourcemanager.tagBindings.get'', ''resourcemanager.tagBindings.list'',
                ''resourcemanager.tagKeys.get'', ''resourcemanager.tagKeys.list'']),
     ([''roles/resourcemanager.tagViewer''],
       \<lambda>p. p \<in> set [''resourcemanager.tagBindings.get'', ''resourcemanager.tagBindings.list'',
                ''resourcemanager.tagKeys.get'', ''resourcemanager.tagKeys.list''])]"

definition service_usage_cases :: "(string \<Rightarrow> bool) switch_table" where
  "service_usage_cases =
    [([''roles/serviceusage.serviceUsageConsumer''],
       serviceusageConsumerGrants),
     ([''roles/serviceusage.serviceUsageViewer''],
       \<lambda>p. p \<in> set [''serviceusage.services.get'', ''serviceusage.services.list''])]"

definition pub_sub_cases :: "(string \<Rightarrow> bool) switch_table" where
  "pub_sub_cases =
    [([''roles/pubsub.admin'', ''roles/pubsub.editor''],
       \<lambda>p. HasPrefix p ''pubsub.''),
     ([''roles/pubsub.viewer''],
       pubsubViewerGrants),
     ([''roles/pubsub.publisher''],
       pubsubPublisherGrants),
     ([''roles/pubsub.subscriber''],
       pubsubSubscriberGrants)]"

definition bigquery_cases :: "(string \<Rightarrow> bool) switch_table" where
  "bigquery_cases =
    [([''roles/bigquery.admin''],
       \<lambda>p. HasPrefix p ''bigquery.''),
     ([''roles/bigquery.dataOwner'', ''roles/bigquery.dataEditor''],
       bigqueryDataEditorGrants),
     ([''roles/bigquery.dataViewer''],
       bigqueryDataViewerGrants),
     ([''roles/bigquery.metadataViewer''],
       bigqueryMetadataViewerGrants),
     ([''roles/bigquery.user''],
       bigqueryUserGrants),
     ([''roles/bigquery.jobUser''],
       \<lambda>p. p = ''bigquery.jobs.create'')]"

definition logging_cases :: "(string \<Rightarrow> bool) switch_table" where
  "logging_cases =
    [([''roles/logging.admin''],
       \<lambda>p. HasPrefix p ''logging.''),
     ([''roles/logging.viewer'', ''roles/logging.privateLogViewer''],
       loggingViewerGrants),
     ([''roles/logging.logWriter''],
       \<lambda>p. p = ''logging.logEntries.create''),
     ([''roles/logging.configWriter''],
       loggingConfigWriterGrants)]"

definition monitoring_cases :: "(string \<Rightarrow> bool) switch_table" where
  "monitoring_cases =
    [([''roles/monitoring.admin''],
       \<lambda>p. HasPrefix p ''monitoring.''),
     ([''roles/monitoring.viewer''],
       monitoringViewerGrants),
     ([''roles/monitoring.metricWriter''],
       \<lambda>p. p \<in> set [''monitoring.timeSeries.create'', ''monitoring.metricDescriptors.create'']),
     ([''roles/monitoring.alertPolicyEditor''],
       \<lambda>p. HasPrefix p ''monitoring.alertPolicies.'')]"

definition cloud_run_cases :: "(string \<Rightarrow> bool) switch_table" where
  "cloud_run_cases =
    [([''roles/run.admin''],
       \<lambda>p. HasPrefix p ''run.''),
     ([''roles/run.developer''],
       runDeveloperGrants),
     ([''roles/run.viewer''],
       runViewerGrants)]"

definition cloud_functions_cases :: "(string \<Rightarrow> bool) switch_table" where
  "cloud_functions_cases =
    [([''roles/cloudfunctions.admin''],
       \<lambda>p. HasPrefix p ''cloudfunctions.''),
     ([''roles/cloudfunctions.developer''],
       cloudfunctionsDeveloperGrants),
     ([''roles/cloudfunctions.viewer''],
       cloudfunctionsViewerGrants)]"

definition access_context_manager_cases :: "(string \<Rightarrow> bool) switch_table" where
  "access_context_manager_cases =
    [([''roles/accesscontextmanager.policyAdmin'',
       ''roles/accesscontextmanager.gcpAccessAdmin'', ''roles/accesscontextmanager.admin''],
       \<lambda>p. HasPrefix p ''accesscontextmanager.''),
     ([''roles/accesscontextmanager.policyEditor'', ''roles/accesscontextmanager.editor''],
       accesscontextmanagerEditorGrants),
     ([''roles/accesscontextmanager.policyReader'', ''roles/accesscontextmanager.viewer''],
       accesscontextmanagerViewerGrants)]"

definition binary_authorization_cases :: "(string \<Rightarrow> bool) switch_table" where
  "binary_authorization_cases =
    [([''roles/binaryauthorization.policyAdmin'', ''roles/binaryauthorization.attestorsAdmin'',
       ''roles/binaryauthorization.admin''],
       \<lambda>p. HasPrefix p ''binaryauthorization.''),
     ([''roles/binaryauthorization.policyEditor'', ''roles/binaryauthorization.editor''],
       \<lambda>p. p \<in> set [''binaryauthorization.policy.get'', ''binaryauthorization.policy.update'']),
     ([''roles/binaryauthorization.policyViewer'',
       ''roles/binaryauthorization.attestorsViewer'', ''roles/binaryauthorization.viewer''],
       \<lambda>p. p = ''binaryauthorization.policy.get'')]"

definition cloud_asset_inventory_cases :: "(string \<Rightarrow> bool) switch_table" where
  "cloud_asset_inventory_cases =
    [([''roles/cloudasset.owner'', ''roles/cloudasset.admin''],
       \<lambda>p. HasPrefix p ''cloudasset.''),
     ([''roles/cloudasset.viewer''],
       cloudassetViewerGrants)]"

definition container_analysis_cases :: "(string \<Rightarrow> bool) switch_table" where
  "container_analysis_cases =
    [([''roles/containeranalysis.admin'', ''roles/containeranalysis.occurrences.editor'',
       ''roles/containeranalysis.notes.editor''],
       \<lambda>p. HasPrefix p ''containeranalysis.''),
     ([''roles/containeranalysis.occurrences.viewer'',
       ''roles/containeranalysis.notes.viewer'', ''roles/containeranalysis.viewer''],
       \<lambda>p. p \<in> set [''containeranalysis.occurrences.get'', ''containeranalysis.occurrences.list''])]"

definition cloud_tasks_cases :: "(string \<Rightarrow> bool) switch_table" where
  "cloud_tasks_cases =
    [([''roles/cloudtasks.admin''],
       \<lambda>p. HasPrefix p ''cloudtasks.''),
     ([''roles/cloudtasks.viewer''],
       cloudtasksViewerGrants),
     ([''roles/cloudtasks.enqueuer''],
       \<lambda>p. p \<in> set [''cloudtasks.tasks.create'', ''cloudtasks.queues.get'', ''cloudtasks.tasks.get'',
                ''cloudtasks.tasks.list'']),
     ([''roles/cloudtasks.taskRunner''],
       \<lambda>p. p \<in> set [''cloudtasks.tasks.run'', ''cloudtasks.tasks.get'', ''cloudtasks.tasks.list'']),
     ([''roles/cloudtasks.queueAdmin'', ''roles/cloudtasks.editor''],
       cloudtasksEditorGrants)]"

definition organization_policy_cases :: "(string \<Rightarrow> bool) switch_table" where
  "organization_policy_cases =
    [([''roles/orgpolicy.policyAdmin''],
       \<lambda>p. HasPrefix p ''orgpolicy.''),
     ([''roles/orgpolicy.policyViewer''],
       \<lambda>p. p \<in> set [''orgpolicy.policies.get'', ''orgpolicy.policies.list'', ''orgpolicy.constraints.list''])]"

definition cloud_storage_cases :: "(string \<Rightarrow> bool) switch_table" where
  "cloud_storage_cases =
    [([''roles/storage.admin''],
       \<lambda>p. HasPrefix p ''storage.''),
     ([''roles/storage.objectAdmin''],
       storageObjectAdminGrants),
     ([''roles/storage.objectViewer''],
       storageObjectViewerGrants),
     ([''roles/storage.objectCreator''],
       storageObjectCreatorGrants),
     ([''roles/storage.hmacKeyAdmin''],
       \<lambda>p. HasPrefix p ''storage.hmacKeys.''),
     ([''roles/storage.legacyBucketReader''],
       \<lambda>p. p \<in> set [''storage.buckets.get'', ''storage.objects.list'']),
     ([''roles/storage.legacyObjectReader''],
       \<lambda>p. p = ''storage.objects.get'')]"

definition artifact_registry_cases :: "(string \<Rightarrow> bool) switch_table" where
  "artifact_registry_cases =
    [([''roles/artifactregistry.admin''],
       \<lambda>p. HasPrefix p ''artifactregistry.''),
     ([''roles/artifactregistry.repoAdmin''],
       artifactregistryRepoAdminGrants),
     ([''roles/artifactregistry.writer''],
       artifactregistryWriterGrants),
     ([''roles/artifactregistry.reader''],
       artifactregistryReaderGrants)]"

definition datastore_firestore_cases :: "(string \<Rightarrow> bool) switch_table" where
  "datastore_firestore_cases =
    [([''roles/datastore.owner'', ''roles/firestore.owner''],
       datastoreOwnerGrants),
     ([''roles/datastore.user'', ''roles/firestore.user''],
       datastoreUserGrants),
     ([''roles/datastore.viewer'', ''roles/firestore.viewer''],
       datastoreViewerGrants)]"

definition cloud_spanner_cases :: "(string \<Rightarrow> bool) switch_table" where
  "cloud_spanner_cases =
    [([''roles/spanner.admin''],
       \<lambda>p. HasPrefix p ''spanner.''),
     ([''roles/spanner.databaseAdmin''],
       spannerDatabaseAdminGrants),
     ([''roles/spanner.databaseUser''],
       spannerDatabaseUserGrants),
     ([''roles/spanner.viewer'', ''roles/spanner.databaseReader''],
       spannerViewerGrants)]"

definition cloud_scheduler_cases :: "(string \<Rightarrow> bool) switch_table" where
  "cloud_scheduler_cases =
    [([''roles/cloudscheduler.admin''],
       \<lambda>p. HasPrefix p ''cloudscheduler.''),
     ([''roles/cloudscheduler.jobRunner''],
       cloudschedulerJobRunnerGrants),
     ([''roles/cloudscheduler.viewer''],
       cloudschedulerViewerGrants)]"

definition eventarc_cases :: "(string \<Rightarrow> bool) switch_table" where
  "eventarc_cases =
    [([''roles/eventarc.admin''],
       \<lambda>p. HasPrefix p ''eventarc.''),
     ([''roles/eventarc.developer''],
       eventarcDeveloperGrants),
     ([''roles/eventarc.eventReceiver''],
       \<lambda>p. p \<in> set [''eventarc.events.receiveEvent'', ''eventarc.triggers.get'', ''eventarc.triggers.list'']),
     ([''roles/eventarc.viewer''],
       eventarcViewerGrants)]"

definition cloud_build_cases :: "(string \<Rightarrow> bool) switch_table" where
  "cloud_build_cases =
    [([''roles/cloudbuild.builds.builder'', ''roles/cloudbuild.builds.editor''],
       cloudbuildEditorGrants),
     ([''roles/cloudbuild.builds.viewer''],
       cloudbuildViewerGrants)]"

definition firebase_auth_identity_toolkit_cases :: "(string \<Rightarrow> bool) switch_table" where
  "firebase_auth_identity_toolkit_cases =
    [([''roles/firebaseauth.admin''],
       \<lambda>p. HasPrefix p ''firebaseauth.''),
     ([''roles/firebaseauth.viewer''],
       firebaseauthViewerGrants),
     ([''roles/identitytoolkit.admin''],
       \<lambda>p. HasPrefix p ''identitytoolkit.''),
     ([''roles/identitytoolkit.viewer''],
       identitytoolkitViewerGrants)]"

definition predefined_cases :: "(string \<Rightarrow> bool) switch_table" where
  "predefined_cases =
     iam_cases @
     resource_manager_cases @
     service_usage_cases @
     pub_sub_cases @
     bigquery_cases @
     logging_cases @
     monitoring_cases @
     cloud_run_cases @
     cloud_functions_cases @
     access_context_manager_cases @
     binary_authorization_cases @
     cloud_asset_inventory_cases @
     container_analysis_cases @
     cloud_tasks_cases @
     organization_policy_cases @
     cloud_storage_cases @
     artifact_registry_cases @
     datastore_firestore_cases @
     cloud_spanner_cases @
     cloud_scheduler_cases @
     eventarc_cases @
     cloud_build_cases @
     firebase_auth_identity_toolkit_cases"

definition predefinedServiceRoleGrants :: "string \<Rightarrow> string \<Rightarrow> bool \<times> bool" where
  "predefinedServiceRoleGrants role permission =
     (case switch_case predefined_cases role of
        None \<Rightarrow> (False, False)
      | Some grants \<Rightarrow> (grants permission, True))"

lemma predefinedServiceRoleGrants_granted:
  "predefinedServiceRoleGrants role p = (True, True) \<longleftrightarrow>
     (\<exists>g. switch_case predefined_cases role = Some g \<and> g p)"
  by (auto simp: predefinedServiceRoleGrants_def split: option.splits)

lemma predefinedServiceRoleGrants_grantedD:
  assumes "predefinedServiceRoleGrants role p = (True, True)"
  obtains labels g where "(labels, g) \<in> set predefined_cases" "role \<in> set labels" "g p"
  using assms switch_case_SomeD by (fastforce simp: predefinedServiceRoleGrants_granted)

lemma predefinedServiceRoleGrants_unknown:
  "predefinedServiceRoleGrants role p = (True, k) \<Longrightarrow> k"
  by (auto simp: predefinedServiceRoleGrants_def split: option.splits)

lemmas permission_sets =
  iamSecurityReviewerGrants_def iamServiceAccountViewerGrants_def
  iamWorkloadIdentityViewerGrants_def resourcemanagerProjectViewerGrants_def
  resourcemanagerFolderViewerGrants_def resourcemanagerFolderEditorGrants_def
  serviceusageConsumerGrants_def pubsubViewerGrants_def pubsubPublisherGrants_def
  pubsubSubscriberGrants_def bigqueryMetadataViewerGrants_def bigqueryDataViewerGrants_def
  bigqueryDataEditorGrants_def bigqueryUserGrants_def loggingViewerGrants_def
  loggingConfigWriterGrants_def monitoringViewerGrants_def runViewerGrants_def
  runDeveloperGrants_def cloudfunctionsViewerGrants_def cloudfunctionsDeveloperGrants_def
  accesscontextmanagerViewerGrants_def accesscontextmanagerEditorGrants_def
  cloudassetViewerGrants_def cloudtasksViewerGrants_def cloudtasksEditorGrants_def
  storageObjectViewerGrants_def storageObjectCreatorGrants_def storageObjectAdminGrants_def
  artifactregistryReaderGrants_def artifactregistryWriterGrants_def
  artifactregistryRepoAdminGrants_def datastoreViewerGrants_def datastoreUserGrants_def
  datastoreOwnerGrants_def spannerViewerGrants_def spannerDatabaseUserGrants_def
  spannerDatabaseAdminGrants_def cloudschedulerViewerGrants_def
  cloudschedulerJobRunnerGrants_def eventarcViewerGrants_def eventarcDeveloperGrants_def
  cloudbuildViewerGrants_def cloudbuildEditorGrants_def firebaseauthViewerGrants_def
  identitytoolkitViewerGrants_def

lemmas catalogue_tables =
  iam_cases_def resource_manager_cases_def service_usage_cases_def pub_sub_cases_def
  bigquery_cases_def logging_cases_def monitoring_cases_def cloud_run_cases_def
  cloud_functions_cases_def access_context_manager_cases_def binary_authorization_cases_def
  cloud_asset_inventory_cases_def container_analysis_cases_def cloud_tasks_cases_def
  organization_policy_cases_def cloud_storage_cases_def artifact_registry_cases_def
  datastore_firestore_cases_def cloud_spanner_cases_def cloud_scheduler_cases_def
  eventarc_cases_def cloud_build_cases_def firebase_auth_identity_toolkit_cases_def

section \<open>Roles stay inside the service they are named after\<close>

text \<open>
  The service of a role name \<open>roles/svc.name\<close> is \<open>svc\<close>. The collection \<open>service_dests\<close>
  holds, for every permission set, the service prefix of its members.
\<close>

named_theorems service_dests

definition role_service :: "string \<Rightarrow> string" where
  "role_service role = takeWhile (\<lambda>c. c \<noteq> CHR ''.'') (drop 6 role)"

definition same_service :: "string \<Rightarrow> string \<Rightarrow> string \<Rightarrow> bool" where
  "same_service svc role p \<longleftrightarrow>
     HasPrefix role (''roles/'' @ svc @ ''.'') \<and> HasPrefix p (svc @ ''.'')"

lemma role_service_same_service:
  "same_service svc role p \<Longrightarrow> CHR ''.'' \<notin> set svc \<Longrightarrow> role_service role = svc"
  by (auto simp: same_service_def role_service_def takeWhile_until elim!: HasPrefixE)

definition own_service :: "string \<Rightarrow> string \<Rightarrow> bool" where
  "own_service role p \<longleftrightarrow>
     HasPrefix p (role_service role @ ''.'') \<or>
     role_service role \<in> {''datastore'', ''firestore''} \<and>
       (HasPrefix p ''datastore.'' \<or> HasPrefix p ''firestore.'')"

lemma same_service_own:
  "same_service svc role p \<Longrightarrow> CHR ''.'' \<notin> set svc \<Longrightarrow> own_service role p"
  using role_service_same_service [of svc role p] by (simp add: own_service_def same_service_def)

lemma iamServiceAccountViewerGrants_service: "iamServiceAccountViewerGrants p \<Longrightarrow> HasPrefix p ''iam.''"
  by (auto simp: iamServiceAccountViewerGrants_def go_simps split: if_splits dest: service_dests)

declare iamServiceAccountViewerGrants_service [service_dests]

lemma iamWorkloadIdentityViewerGrants_service: "iamWorkloadIdentityViewerGrants p \<Longrightarrow> HasPrefix p ''iam.''"
  by (auto simp: iamWorkloadIdentityViewerGrants_def go_simps split: if_splits dest: service_dests)

declare iamWorkloadIdentityViewerGrants_service [service_dests]

lemma resourcemanagerProjectViewerGrants_service: "resourcemanagerProjectViewerGrants p \<Longrightarrow> HasPrefix p ''resourcemanager.''"
  by (auto simp: resourcemanagerProjectViewerGrants_def go_simps split: if_splits dest: service_dests)

declare resourcemanagerProjectViewerGrants_service [service_dests]

lemma resourcemanagerFolderViewerGrants_service: "resourcemanagerFolderViewerGrants p \<Longrightarrow> HasPrefix p ''resourcemanager.''"
  by (auto simp: resourcemanagerFolderViewerGrants_def go_simps split: if_splits dest: service_dests)

declare resourcemanagerFolderViewerGrants_service [service_dests]

lemma resourcemanagerFolderEditorGrants_service: "resourcemanagerFolderEditorGrants p \<Longrightarrow> HasPrefix p ''resourcemanager.''"
  by (auto simp: resourcemanagerFolderEditorGrants_def go_simps split: if_splits dest: service_dests)

declare resourcemanagerFolderEditorGrants_service [service_dests]

lemma serviceusageConsumerGrants_service: "serviceusageConsumerGrants p \<Longrightarrow> HasPrefix p ''serviceusage.''"
  by (auto simp: serviceusageConsumerGrants_def go_simps split: if_splits dest: service_dests)

declare serviceusageConsumerGrants_service [service_dests]

lemma pubsubViewerGrants_service: "pubsubViewerGrants p \<Longrightarrow> HasPrefix p ''pubsub.''"
  by (auto simp: pubsubViewerGrants_def go_simps split: if_splits dest: service_dests)

declare pubsubViewerGrants_service [service_dests]

lemma pubsubPublisherGrants_service: "pubsubPublisherGrants p \<Longrightarrow> HasPrefix p ''pubsub.''"
  by (auto simp: pubsubPublisherGrants_def go_simps split: if_splits dest: service_dests)

declare pubsubPublisherGrants_service [service_dests]

lemma pubsubSubscriberGrants_service: "pubsubSubscriberGrants p \<Longrightarrow> HasPrefix p ''pubsub.''"
  by (auto simp: pubsubSubscriberGrants_def go_simps split: if_splits dest: service_dests)

declare pubsubSubscriberGrants_service [service_dests]

lemma bigqueryMetadataViewerGrants_service: "bigqueryMetadataViewerGrants p \<Longrightarrow> HasPrefix p ''bigquery.''"
  by (auto simp: bigqueryMetadataViewerGrants_def go_simps split: if_splits dest: service_dests)

declare bigqueryMetadataViewerGrants_service [service_dests]

lemma bigqueryDataViewerGrants_service: "bigqueryDataViewerGrants p \<Longrightarrow> HasPrefix p ''bigquery.''"
  by (auto simp: bigqueryDataViewerGrants_def go_simps split: if_splits dest: service_dests)

declare bigqueryDataViewerGrants_service [service_dests]

lemma bigqueryDataEditorGrants_service: "bigqueryDataEditorGrants p \<Longrightarrow> HasPrefix p ''bigquery.''"
  by (auto simp: bigqueryDataEditorGrants_def go_simps split: if_splits dest: service_dests)

declare bigqueryDataEditorGrants_service [service_dests]

lemma bigqueryUserGrants_service: "bigqueryUserGrants p \<Longrightarrow> HasPrefix p ''bigquery.''"
  by (auto simp: bigqueryUserGrants_def go_simps split: if_splits dest: service_dests)

declare bigqueryUserGrants_service [service_dests]

lemma loggingViewerGrants_service: "loggingViewerGrants p \<Longrightarrow> HasPrefix p ''logging.''"
  by (auto simp: loggingViewerGrants_def go_simps split: if_splits dest: service_dests)

declare loggingViewerGrants_service [service_dests]

lemma loggingConfigWriterGrants_service: "loggingConfigWriterGrants p \<Longrightarrow> HasPrefix p ''logging.''"
  by (auto simp: loggingConfigWriterGrants_def go_simps split: if_splits dest: service_dests)

declare loggingConfigWriterGrants_service [service_dests]

lemma monitoringViewerGrants_service: "monitoringViewerGrants p \<Longrightarrow> HasPrefix p ''monitoring.''"
  by (auto simp: monitoringViewerGrants_def go_simps split: if_splits dest: service_dests)

declare monitoringViewerGrants_service [service_dests]

lemma runViewerGrants_service: "runViewerGrants p \<Longrightarrow> HasPrefix p ''run.''"
  by (auto simp: runViewerGrants_def go_simps split: if_splits dest: service_dests)

declare runViewerGrants_service [service_dests]

lemma runDeveloperGrants_service: "runDeveloperGrants p \<Longrightarrow> HasPrefix p ''run.''"
  by (auto simp: runDeveloperGrants_def go_simps split: if_splits dest: service_dests)

declare runDeveloperGrants_service [service_dests]

lemma cloudfunctionsViewerGrants_service: "cloudfunctionsViewerGrants p \<Longrightarrow> HasPrefix p ''cloudfunctions.''"
  by (auto simp: cloudfunctionsViewerGrants_def go_simps split: if_splits dest: service_dests)

declare cloudfunctionsViewerGrants_service [service_dests]

lemma cloudfunctionsDeveloperGrants_service: "cloudfunctionsDeveloperGrants p \<Longrightarrow> HasPrefix p ''cloudfunctions.''"
  by (auto simp: cloudfunctionsDeveloperGrants_def go_simps split: if_splits dest: service_dests)

declare cloudfunctionsDeveloperGrants_service [service_dests]

lemma accesscontextmanagerViewerGrants_service: "accesscontextmanagerViewerGrants p \<Longrightarrow> HasPrefix p ''accesscontextmanager.''"
  by (auto simp: accesscontextmanagerViewerGrants_def go_simps split: if_splits dest: service_dests)

declare accesscontextmanagerViewerGrants_service [service_dests]

lemma accesscontextmanagerEditorGrants_service: "accesscontextmanagerEditorGrants p \<Longrightarrow> HasPrefix p ''accesscontextmanager.''"
  by (auto simp: accesscontextmanagerEditorGrants_def go_simps split: if_splits dest: service_dests)

declare accesscontextmanagerEditorGrants_service [service_dests]

lemma cloudassetViewerGrants_service: "cloudassetViewerGrants p \<Longrightarrow> HasPrefix p ''cloudasset.''"
  by (auto simp: cloudassetViewerGrants_def go_simps split: if_splits dest: service_dests)

declare cloudassetViewerGrants_service [service_dests]

lemma cloudtasksViewerGrants_service: "cloudtasksViewerGrants p \<Longrightarrow> HasPrefix p ''cloudtasks.''"
  by (auto simp: cloudtasksViewerGrants_def go_simps split: if_splits dest: service_dests)

declare cloudtasksViewerGrants_service [service_dests]

lemma cloudtasksEditorGrants_service: "cloudtasksEditorGrants p \<Longrightarrow> HasPrefix p ''cloudtasks.''"
  by (auto simp: cloudtasksEditorGrants_def go_simps split: if_splits dest: service_dests)

declare cloudtasksEditorGrants_service [service_dests]

lemma storageObjectViewerGrants_service: "storageObjectViewerGrants p \<Longrightarrow> HasPrefix p ''storage.''"
  by (auto simp: storageObjectViewerGrants_def go_simps split: if_splits dest: service_dests)

declare storageObjectViewerGrants_service [service_dests]

lemma storageObjectCreatorGrants_service: "storageObjectCreatorGrants p \<Longrightarrow> HasPrefix p ''storage.''"
  by (auto simp: storageObjectCreatorGrants_def go_simps split: if_splits dest: service_dests)

declare storageObjectCreatorGrants_service [service_dests]

lemma storageObjectAdminGrants_service: "storageObjectAdminGrants p \<Longrightarrow> HasPrefix p ''storage.''"
  by (auto simp: storageObjectAdminGrants_def go_simps split: if_splits dest: service_dests)

declare storageObjectAdminGrants_service [service_dests]

lemma artifactregistryReaderGrants_service: "artifactregistryReaderGrants p \<Longrightarrow> HasPrefix p ''artifactregistry.''"
  by (auto simp: artifactregistryReaderGrants_def go_simps split: if_splits dest: service_dests)

declare artifactregistryReaderGrants_service [service_dests]

lemma artifactregistryWriterGrants_service: "artifactregistryWriterGrants p \<Longrightarrow> HasPrefix p ''artifactregistry.''"
  by (auto simp: artifactregistryWriterGrants_def go_simps split: if_splits dest: service_dests)

declare artifactregistryWriterGrants_service [service_dests]

lemma artifactregistryRepoAdminGrants_service: "artifactregistryRepoAdminGrants p \<Longrightarrow> HasPrefix p ''artifactregistry.''"
  by (auto simp: artifactregistryRepoAdminGrants_def go_simps split: if_splits dest: service_dests)

declare artifactregistryRepoAdminGrants_service [service_dests]

lemma datastoreViewerGrants_service: "datastoreViewerGrants p \<Longrightarrow> HasPrefix p ''datastore.''"
  by (auto simp: datastoreViewerGrants_def go_simps split: if_splits dest: service_dests)

declare datastoreViewerGrants_service [service_dests]

lemma datastoreUserGrants_service: "datastoreUserGrants p \<Longrightarrow> HasPrefix p ''datastore.''"
  by (auto simp: datastoreUserGrants_def go_simps split: if_splits dest: service_dests)

declare datastoreUserGrants_service [service_dests]

lemma spannerViewerGrants_service: "spannerViewerGrants p \<Longrightarrow> HasPrefix p ''spanner.''"
  by (auto simp: spannerViewerGrants_def go_simps split: if_splits dest: service_dests)

declare spannerViewerGrants_service [service_dests]

lemma spannerDatabaseUserGrants_service: "spannerDatabaseUserGrants p \<Longrightarrow> HasPrefix p ''spanner.''"
  by (auto simp: spannerDatabaseUserGrants_def go_simps split: if_splits dest: service_dests)

declare spannerDatabaseUserGrants_service [service_dests]

lemma spannerDatabaseAdminGrants_service: "spannerDatabaseAdminGrants p \<Longrightarrow> HasPrefix p ''spanner.''"
  by (auto simp: spannerDatabaseAdminGrants_def go_simps split: if_splits dest: service_dests)

declare spannerDatabaseAdminGrants_service [service_dests]

lemma cloudschedulerViewerGrants_service: "cloudschedulerViewerGrants p \<Longrightarrow> HasPrefix p ''cloudscheduler.''"
  by (auto simp: cloudschedulerViewerGrants_def go_simps split: if_splits dest: service_dests)

declare cloudschedulerViewerGrants_service [service_dests]

lemma cloudschedulerJobRunnerGrants_service: "cloudschedulerJobRunnerGrants p \<Longrightarrow> HasPrefix p ''cloudscheduler.''"
  by (auto simp: cloudschedulerJobRunnerGrants_def go_simps split: if_splits dest: service_dests)

declare cloudschedulerJobRunnerGrants_service [service_dests]

lemma eventarcViewerGrants_service: "eventarcViewerGrants p \<Longrightarrow> HasPrefix p ''eventarc.''"
  by (auto simp: eventarcViewerGrants_def go_simps split: if_splits dest: service_dests)

declare eventarcViewerGrants_service [service_dests]

lemma eventarcDeveloperGrants_service: "eventarcDeveloperGrants p \<Longrightarrow> HasPrefix p ''eventarc.''"
  by (auto simp: eventarcDeveloperGrants_def go_simps split: if_splits dest: service_dests)

declare eventarcDeveloperGrants_service [service_dests]

lemma cloudbuildViewerGrants_service: "cloudbuildViewerGrants p \<Longrightarrow> HasPrefix p ''cloudbuild.''"
  by (auto simp: cloudbuildViewerGrants_def go_simps split: if_splits dest: service_dests)

declare cloudbuildViewerGrants_service [service_dests]

lemma cloudbuildEditorGrants_service: "cloudbuildEditorGrants p \<Longrightarrow> HasPrefix p ''cloudbuild.''"
  by (auto simp: cloudbuildEditorGrants_def go_simps split: if_splits dest: service_dests)

declare cloudbuildEditorGrants_service [service_dests]

lemma firebaseauthViewerGrants_service: "firebaseauthViewerGrants p \<Longrightarrow> HasPrefix p ''firebaseauth.''"
  by (auto simp: firebaseauthViewerGrants_def go_simps split: if_splits dest: service_dests)

declare firebaseauthViewerGrants_service [service_dests]

lemma identitytoolkitViewerGrants_service: "identitytoolkitViewerGrants p \<Longrightarrow> HasPrefix p ''identitytoolkit.''"
  by (auto simp: identitytoolkitViewerGrants_def go_simps split: if_splits dest: service_dests)

declare identitytoolkitViewerGrants_service [service_dests]

lemma iam_cases_service:
  "(labels, g) \<in> set iam_cases \<Longrightarrow> role \<in> set labels \<Longrightarrow> g p \<Longrightarrow> role \<noteq> ''roles/iam.securityReviewer'' \<Longrightarrow>
     same_service ''iam'' role p"
  by (auto simp: iam_cases_def same_service_def go_simps dest: service_dests elim!: HasPrefixE)

lemma resource_manager_cases_service:
  "(labels, g) \<in> set resource_manager_cases \<Longrightarrow> role \<in> set labels \<Longrightarrow> g p \<Longrightarrow>
     same_service ''resourcemanager'' role p"
  by (auto simp: resource_manager_cases_def same_service_def go_simps dest: service_dests elim!: HasPrefixE)

lemma service_usage_cases_service:
  "(labels, g) \<in> set service_usage_cases \<Longrightarrow> role \<in> set labels \<Longrightarrow> g p \<Longrightarrow>
     same_service ''serviceusage'' role p"
  by (auto simp: service_usage_cases_def same_service_def go_simps dest: service_dests elim!: HasPrefixE)

lemma pub_sub_cases_service:
  "(labels, g) \<in> set pub_sub_cases \<Longrightarrow> role \<in> set labels \<Longrightarrow> g p \<Longrightarrow>
     same_service ''pubsub'' role p"
  by (auto simp: pub_sub_cases_def same_service_def go_simps dest: service_dests elim!: HasPrefixE)

lemma bigquery_cases_service:
  "(labels, g) \<in> set bigquery_cases \<Longrightarrow> role \<in> set labels \<Longrightarrow> g p \<Longrightarrow>
     same_service ''bigquery'' role p"
  by (auto simp: bigquery_cases_def same_service_def go_simps dest: service_dests elim!: HasPrefixE)

lemma logging_cases_service:
  "(labels, g) \<in> set logging_cases \<Longrightarrow> role \<in> set labels \<Longrightarrow> g p \<Longrightarrow>
     same_service ''logging'' role p"
  by (auto simp: logging_cases_def same_service_def go_simps dest: service_dests elim!: HasPrefixE)

lemma monitoring_cases_service:
  "(labels, g) \<in> set monitoring_cases \<Longrightarrow> role \<in> set labels \<Longrightarrow> g p \<Longrightarrow>
     same_service ''monitoring'' role p"
  by (auto simp: monitoring_cases_def same_service_def go_simps dest: service_dests elim!: HasPrefixE)

lemma cloud_run_cases_service:
  "(labels, g) \<in> set cloud_run_cases \<Longrightarrow> role \<in> set labels \<Longrightarrow> g p \<Longrightarrow>
     same_service ''run'' role p"
  by (auto simp: cloud_run_cases_def same_service_def go_simps dest: service_dests elim!: HasPrefixE)

lemma cloud_functions_cases_service:
  "(labels, g) \<in> set cloud_functions_cases \<Longrightarrow> role \<in> set labels \<Longrightarrow> g p \<Longrightarrow>
     same_service ''cloudfunctions'' role p"
  by (auto simp: cloud_functions_cases_def same_service_def go_simps dest: service_dests elim!: HasPrefixE)

lemma access_context_manager_cases_service:
  "(labels, g) \<in> set access_context_manager_cases \<Longrightarrow> role \<in> set labels \<Longrightarrow> g p \<Longrightarrow>
     same_service ''accesscontextmanager'' role p"
  by (auto simp: access_context_manager_cases_def same_service_def go_simps dest: service_dests elim!: HasPrefixE)

lemma binary_authorization_cases_service:
  "(labels, g) \<in> set binary_authorization_cases \<Longrightarrow> role \<in> set labels \<Longrightarrow> g p \<Longrightarrow>
     same_service ''binaryauthorization'' role p"
  by (auto simp: binary_authorization_cases_def same_service_def go_simps dest: service_dests elim!: HasPrefixE)

lemma cloud_asset_inventory_cases_service:
  "(labels, g) \<in> set cloud_asset_inventory_cases \<Longrightarrow> role \<in> set labels \<Longrightarrow> g p \<Longrightarrow>
     same_service ''cloudasset'' role p"
  by (auto simp: cloud_asset_inventory_cases_def same_service_def go_simps dest: service_dests elim!: HasPrefixE)

lemma container_analysis_cases_service:
  "(labels, g) \<in> set container_analysis_cases \<Longrightarrow> role \<in> set labels \<Longrightarrow> g p \<Longrightarrow>
     same_service ''containeranalysis'' role p"
  by (auto simp: container_analysis_cases_def same_service_def go_simps dest: service_dests elim!: HasPrefixE)

lemma cloud_tasks_cases_service:
  "(labels, g) \<in> set cloud_tasks_cases \<Longrightarrow> role \<in> set labels \<Longrightarrow> g p \<Longrightarrow>
     same_service ''cloudtasks'' role p"
  by (auto simp: cloud_tasks_cases_def same_service_def go_simps dest: service_dests elim!: HasPrefixE)

lemma organization_policy_cases_service:
  "(labels, g) \<in> set organization_policy_cases \<Longrightarrow> role \<in> set labels \<Longrightarrow> g p \<Longrightarrow>
     same_service ''orgpolicy'' role p"
  by (auto simp: organization_policy_cases_def same_service_def go_simps dest: service_dests elim!: HasPrefixE)

lemma cloud_storage_cases_service:
  "(labels, g) \<in> set cloud_storage_cases \<Longrightarrow> role \<in> set labels \<Longrightarrow> g p \<Longrightarrow>
     same_service ''storage'' role p"
  by (auto simp: cloud_storage_cases_def same_service_def go_simps dest: service_dests elim!: HasPrefixE)

lemma artifact_registry_cases_service:
  "(labels, g) \<in> set artifact_registry_cases \<Longrightarrow> role \<in> set labels \<Longrightarrow> g p \<Longrightarrow>
     same_service ''artifactregistry'' role p"
  by (auto simp: artifact_registry_cases_def same_service_def go_simps dest: service_dests elim!: HasPrefixE)

lemma cloud_spanner_cases_service:
  "(labels, g) \<in> set cloud_spanner_cases \<Longrightarrow> role \<in> set labels \<Longrightarrow> g p \<Longrightarrow>
     same_service ''spanner'' role p"
  by (auto simp: cloud_spanner_cases_def same_service_def go_simps dest: service_dests elim!: HasPrefixE)

lemma cloud_scheduler_cases_service:
  "(labels, g) \<in> set cloud_scheduler_cases \<Longrightarrow> role \<in> set labels \<Longrightarrow> g p \<Longrightarrow>
     same_service ''cloudscheduler'' role p"
  by (auto simp: cloud_scheduler_cases_def same_service_def go_simps dest: service_dests elim!: HasPrefixE)

lemma eventarc_cases_service:
  "(labels, g) \<in> set eventarc_cases \<Longrightarrow> role \<in> set labels \<Longrightarrow> g p \<Longrightarrow>
     same_service ''eventarc'' role p"
  by (auto simp: eventarc_cases_def same_service_def go_simps dest: service_dests elim!: HasPrefixE)

lemma cloud_build_cases_service:
  "(labels, g) \<in> set cloud_build_cases \<Longrightarrow> role \<in> set labels \<Longrightarrow> g p \<Longrightarrow>
     same_service ''cloudbuild'' role p"
  by (auto simp: cloud_build_cases_def same_service_def go_simps dest: service_dests elim!: HasPrefixE)

lemma datastore_firestore_cases_service:
  "(labels, g) \<in> set datastore_firestore_cases \<Longrightarrow> role \<in> set labels \<Longrightarrow> g p \<Longrightarrow> own_service role p"
  by (auto simp: datastore_firestore_cases_def own_service_def role_service_def
      datastoreOwnerGrants_def dest: service_dests)

lemma firebase_auth_identity_toolkit_cases_service:
  "(labels, g) \<in> set firebase_auth_identity_toolkit_cases \<Longrightarrow> role \<in> set labels \<Longrightarrow> g p \<Longrightarrow>
     own_service role p"
  by (auto simp: firebase_auth_identity_toolkit_cases_def own_service_def role_service_def
      dest: service_dests)

lemmas cases_service =
  iam_cases_service resource_manager_cases_service service_usage_cases_service
  pub_sub_cases_service bigquery_cases_service logging_cases_service monitoring_cases_service
  cloud_run_cases_service cloud_functions_cases_service access_context_manager_cases_service
  binary_authorization_cases_service cloud_asset_inventory_cases_service
  container_analysis_cases_service cloud_tasks_cases_service organization_policy_cases_service
  cloud_storage_cases_service artifact_registry_cases_service cloud_spanner_cases_service
  cloud_scheduler_cases_service eventarc_cases_service cloud_build_cases_service

lemma catalogue_own_service:
  assumes "(labels, g) \<in> set predefined_cases" "role \<in> set labels" "g p"
    and "role \<noteq> ''roles/iam.securityReviewer''"
  shows "own_service role p"
proof -
  note rules = cases_service [THEN same_service_own] datastore_firestore_cases_service
    firebase_auth_identity_toolkit_cases_service
  show ?thesis
    using assms unfolding predefined_cases_def by (auto dest: rules)
qed

section \<open>The roles that reach a set of permissions\<close>

text \<open>
  The pairs of a role and a permission of \<open>ps\<close> such that a case of the table for that role
  grants the permission: an executable index of the table, evaluated once per set of
  permissions of interest.
\<close>

definition reach :: "(string \<Rightarrow> bool) switch_table \<Rightarrow> string list \<Rightarrow> (string \<times> string) list" where
  "reach t ps =
     concat (map (\<lambda>(labels, g). concat (map (\<lambda>role. map (Pair role) (filter g ps)) labels)) t)"

lemma reach_eval:
  "reach [] ps = []"
  "reach ((labels, g) # t) ps =
     (let qs = filter g ps in
      if qs = [] then [] else concat (map (\<lambda>role. map (Pair role) qs) labels)) @ reach t ps"
  by (auto simp: reach_def Let_def)

lemma reach_append: "reach (t @ u) ps = reach t ps @ reach u ps"
  by (simp add: reach_def)

lemma reachI:
  assumes "(labels, g) \<in> set t" "role \<in> set labels" "g p" "p \<in> set ps"
  shows "(role, p) \<in> set (reach t ps)"
  using assms
proof (induction t)
  case (Cons a t)
  then show ?case by (cases a) (auto simp: reach_eval Let_def filter_empty_conv)
qed simp

end
