(* ===== verification/Role_Grants.thy ===== *)
theory Role_Grants
  imports Role_Catalogue
begin

text \<open>
  The role to permission map of the IAM evaluator, \<open>roleGrants\<close> and its helpers in
  \<^verbatim>\<open>internal/kernel/authz/iam.go\<close>.

  The role store of the evaluator (\<open>RoleStore\<close>, an interface that may be nil) is a parameter
  of \<open>roleGrants\<close>: \<open>None\<close> is the nil interface, a lookup returns an error, \<open>None\<close> (not ok) or the
  permissions the custom role includes. The properties say which roles can reach the dangerous
  permissions (minting credentials, reading secret payloads, using keys), that unknown roles
  grant nothing, and how the basic roles compare.
\<close>

section \<open>Permission sets of iam.go\<close>

definition tokenCreatorGrants :: "string \<Rightarrow> bool" where
  "tokenCreatorGrants permission \<longleftrightarrow>
     permission \<in> set
      [''iam.serviceAccounts.getAccessToken'', ''iam.serviceAccounts.actAs'',
       ''iam.serviceAccounts.signBlob'', ''iam.serviceAccounts.signJwt'',
       ''iam.serviceAccounts.implicitDelegation'', ''iam.serviceAccounts.generateAccessToken'',
       ''iam.serviceAccounts.generateIdToken'']"

definition serviceAccountAdminGrants :: "string \<Rightarrow> bool" where
  "serviceAccountAdminGrants permission \<longleftrightarrow>
     permission \<in> set
      [''iam.serviceAccounts.create'', ''iam.serviceAccounts.delete'',
       ''iam.serviceAccounts.disable'', ''iam.serviceAccounts.enable'',
       ''iam.serviceAccounts.get'', ''iam.serviceAccounts.getIamPolicy'',
       ''iam.serviceAccounts.list'', ''iam.serviceAccounts.setIamPolicy'',
       ''iam.serviceAccounts.undelete'', ''iam.serviceAccounts.update'',
       ''iam.serviceAccountKeys.create'', ''iam.serviceAccountKeys.delete'',
       ''iam.serviceAccountKeys.disable'', ''iam.serviceAccountKeys.enable'',
       ''iam.serviceAccountKeys.get'', ''iam.serviceAccountKeys.list'']"


definition securityAdminGrants :: "string \<Rightarrow> bool" where
  "securityAdminGrants permission \<longleftrightarrow>
     (if permission \<in> set
        [''iam.roles.create'', ''iam.roles.delete'', ''iam.roles.get'', ''iam.roles.list'',
         ''iam.roles.undelete'', ''iam.roles.update'',
         ''iam.serviceAccounts.get'', ''iam.serviceAccounts.list'',
         ''iam.serviceAccounts.getIamPolicy'', ''iam.serviceAccounts.setIamPolicy'',
         ''iam.serviceAccountKeys.get'', ''iam.serviceAccountKeys.list'',
         ''iam.workloadIdentityPools.create'', ''iam.workloadIdentityPools.delete'',
         ''iam.workloadIdentityPools.get'', ''iam.workloadIdentityPools.list'',
         ''iam.workloadIdentityPools.update'',
         ''iam.workloadIdentityPoolProviders.create'',
         ''iam.workloadIdentityPoolProviders.delete'',
         ''iam.workloadIdentityPoolProviders.get'',
         ''iam.workloadIdentityPoolProviders.list'',
         ''iam.workloadIdentityPoolProviders.update'',
         ''resourcemanager.projects.get'', ''resourcemanager.projects.list'',
         ''resourcemanager.projects.getIamPolicy'', ''resourcemanager.projects.setIamPolicy'',
         ''resourcemanager.folders.get'', ''resourcemanager.folders.getIamPolicy'',
         ''resourcemanager.folders.setIamPolicy'',
         ''resourcemanager.organizations.get'', ''resourcemanager.organizations.getIamPolicy'',
         ''resourcemanager.organizations.setIamPolicy'']
      then True
      else if HasSuffix permission ''.getIamPolicy'' \<or> HasSuffix permission ''.setIamPolicy''
      then True
      else False)"

definition editorDeniesTokenCreatorClass :: "string \<Rightarrow> bool" where
  "editorDeniesTokenCreatorClass permission \<longleftrightarrow>
     (if \<not> HasPrefix permission ''iam.serviceAccounts.'' then False
      else let verb = TrimPrefix permission ''iam.serviceAccounts.'' in
        verb \<notin> set [''get'', ''list'', ''create'', ''delete'', ''update'', ''enable'', ''disable'',
          ''undelete'', ''getIamPolicy'', ''testIamPermissions''])"

definition editorGrants :: "string \<Rightarrow> bool" where
  "editorGrants permission \<longleftrightarrow>
     (if permission = [] then False
      else if HasSuffix permission ''.setIamPolicy'' then False
      else if editorDeniesTokenCreatorClass permission then False
      else permission \<notin> set
        [''secretmanager.versions.access'',
         ''cloudkms.cryptoKeyVersions.useToEncrypt'',
         ''cloudkms.cryptoKeyVersions.useToDecrypt'',
         ''cloudkms.cryptoKeyVersions.useToSign'',
         ''cloudkms.cryptoKeyVersions.viewPublicKey'',
         ''orgpolicy.policies.create'',
         ''orgpolicy.policies.update'',
         ''orgpolicy.policies.delete''])"

definition secretmanagerViewerGrants :: "string \<Rightarrow> bool" where
  "secretmanagerViewerGrants permission \<longleftrightarrow>
     permission \<in> set
      [''secretmanager.secrets.get'', ''secretmanager.secrets.list'',
       ''secretmanager.versions.get'', ''secretmanager.versions.list'',
       ''secretmanager.secrets.getIamPolicy'', ''secretmanager.locations.get'',
       ''secretmanager.locations.list'']"

definition secretmanagerSecretAccessorGrants :: "string \<Rightarrow> bool" where
  "secretmanagerSecretAccessorGrants permission \<longleftrightarrow>
     permission \<in> set
      [''secretmanager.versions.access'', ''secretmanager.versions.get'',
       ''secretmanager.versions.list'', ''secretmanager.secrets.get'',
       ''secretmanager.secrets.list'']"

definition secretmanagerSecretVersionManagerGrants :: "string \<Rightarrow> bool" where
  "secretmanagerSecretVersionManagerGrants permission \<longleftrightarrow>
     permission \<in> set
      [''secretmanager.versions.add'', ''secretmanager.versions.enable'',
       ''secretmanager.versions.disable'', ''secretmanager.versions.destroy'',
       ''secretmanager.versions.get'', ''secretmanager.versions.list'',
       ''secretmanager.secrets.get'', ''secretmanager.secrets.list'']"

definition cloudkmsViewerGrants :: "string \<Rightarrow> bool" where
  "cloudkmsViewerGrants permission \<longleftrightarrow>
     permission \<in> set
      [''cloudkms.keyRings.get'', ''cloudkms.keyRings.list'', ''cloudkms.cryptoKeys.get'',
       ''cloudkms.cryptoKeys.list'', ''cloudkms.cryptoKeyVersions.get'',
       ''cloudkms.cryptoKeyVersions.list'', ''cloudkms.cryptoKeys.getIamPolicy'',
       ''cloudkms.locations.get'', ''cloudkms.locations.list'']"

definition viewerGrants :: "string \<Rightarrow> bool" where
  "viewerGrants permission \<longleftrightarrow>
     (if permission = [] then False else
      (if HasSuffix permission ''.get'' \<or>
           HasSuffix permission ''.list'' \<or>
           HasSuffix permission ''.getIamPolicy'' \<or>
           HasSuffix permission ''.search'' then True else
      permission \<in> set
      [''resourcemanager.projects.get'', ''resourcemanager.projects.getIamPolicy'',
       ''resourcemanager.projects.list'', ''resourcemanager.projects.search'',
       ''iam.serviceAccounts.get'', ''iam.serviceAccounts.list'',
       ''iam.serviceAccountKeys.get'', ''iam.serviceAccountKeys.list'',
       ''serviceusage.services.get'', ''serviceusage.services.list'', ''storage.buckets.get'',
       ''storage.buckets.list'', ''storage.objects.get'', ''storage.objects.list'',
       ''pubsub.topics.get'', ''pubsub.topics.list'', ''pubsub.subscriptions.get'',
       ''pubsub.subscriptions.list'', ''pubsub.snapshots.get'', ''pubsub.snapshots.list'',
       ''secretmanager.secrets.get'', ''secretmanager.secrets.list'',
       ''secretmanager.versions.get'', ''secretmanager.versions.list'',
       ''cloudkms.cryptoKeys.get'', ''cloudkms.cryptoKeys.list'', ''cloudkms.keyRings.get'',
       ''cloudkms.keyRings.list'', ''logging.logEntries.list'', ''logging.logs.list'',
       ''run.services.get'', ''run.services.list'', ''run.revisions.get'',
       ''run.revisions.list'', ''cloudfunctions.functions.get'',
       ''cloudfunctions.functions.list'', ''cloudscheduler.jobs.get'',
       ''cloudscheduler.jobs.list'', ''cloudtasks.queues.get'', ''cloudtasks.queues.list'',
       ''cloudtasks.tasks.get'', ''cloudtasks.tasks.list'', ''bigquery.datasets.get'',
       ''bigquery.datasets.list'', ''bigquery.tables.get'', ''bigquery.tables.list'',
       ''monitoring.metricDescriptors.get'', ''monitoring.metricDescriptors.list'',
       ''monitoring.timeSeries.list'', ''datastore.entities.get'', ''datastore.entities.list'',
       ''eventarc.triggers.get'', ''eventarc.triggers.list'', ''firestore.documents.get'',
       ''firestore.documents.list'', ''cloudasset.assets.searchAllResources'',
       ''cloudasset.assets.listResource'', ''cloudasset.feeds.get'', ''cloudasset.feeds.list'']))"

definition cloudkmsAdminGrants :: "string \<Rightarrow> bool" where
  "cloudkmsAdminGrants permission \<longleftrightarrow>
     (if permission = ''cloudkms.cryptoKeyVersions.useToEncrypt'' \<or>
         permission = ''cloudkms.cryptoKeyVersions.useToDecrypt'' \<or>
         permission = ''cloudkms.cryptoKeyVersions.useToSign'' \<or>
         permission = ''cloudkms.cryptoKeyVersions.viewPublicKey''
      then False
      else HasPrefix permission ''cloudkms.'')"

section \<open>The switch of roleGrants\<close>

text \<open>The cases of the switch before its default, in the order of the source.\<close>

definition basic_role_cases :: "(string \<Rightarrow> bool) switch_table" where
  "basic_role_cases =
    [([''roles/owner''], \<lambda>_. True),
     ([''roles/editor''], editorGrants),
     ([''roles/viewer''], viewerGrants),
     ([''roles/iam.securityAdmin''], securityAdminGrants),
     ([''roles/iam.serviceAccountAdmin''], serviceAccountAdminGrants),
     ([''roles/iam.serviceAccountTokenCreator''], tokenCreatorGrants),
     ([''roles/serviceusage.serviceUsageAdmin''], \<lambda>p. HasPrefix p ''serviceusage.''),
     ([''roles/run.invoker''], \<lambda>p. p = ''run.routes.invoke''),
     ([''roles/cloudfunctions.invoker''], \<lambda>p. p = ''cloudfunctions.functions.invoke''),
     ([''roles/cloudbuild.workerPoolUser''],
       \<lambda>p. p = ''cloudbuild.workerpools.use'' \<or> p = ''cloudbuild.workerpools.get''),
     ([''roles/logging.viewAccessor''],
       \<lambda>p. p = ''logging.views.get'' \<or> p = ''logging.views.list''),
     ([''roles/secretmanager.viewer''], secretmanagerViewerGrants),
     ([''roles/secretmanager.secretAccessor''], secretmanagerSecretAccessorGrants),
     ([''roles/secretmanager.secretVersionManager''], secretmanagerSecretVersionManagerGrants),
     ([''roles/secretmanager.admin''], \<lambda>p. HasPrefix p ''secretmanager.''),
     ([''roles/cloudkms.viewer''], cloudkmsViewerGrants),
     ([''roles/cloudkms.admin''], cloudkmsAdminGrants),
     ([''roles/cloudkms.cryptoKeyEncrypterDecrypter''],
       \<lambda>p. p = ''cloudkms.cryptoKeyVersions.useToEncrypt'' \<or>
           p = ''cloudkms.cryptoKeyVersions.useToDecrypt'' \<or>
           p = ''cloudkms.cryptoKeys.get''),
     ([''roles/cloudkms.cryptoKeyEncrypter''],
       \<lambda>p. p = ''cloudkms.cryptoKeyVersions.useToEncrypt'' \<or> p = ''cloudkms.cryptoKeys.get''),
     ([''roles/cloudkms.cryptoKeyDecrypter''],
       \<lambda>p. p = ''cloudkms.cryptoKeyVersions.useToDecrypt'' \<or> p = ''cloudkms.cryptoKeys.get''),
     ([''roles/cloudkms.signer'', ''roles/cloudkms.signerVerifier''],
       \<lambda>p. p = ''cloudkms.cryptoKeyVersions.useToSign'' \<or>
           p = ''cloudkms.cryptoKeyVersions.viewPublicKey'' \<or>
           p = ''cloudkms.cryptoKeys.get''),
     ([''roles/cloudkms.publicKeyViewer''],
       \<lambda>p. p = ''cloudkms.cryptoKeyVersions.viewPublicKey'' \<or> p = ''cloudkms.cryptoKeys.get'')]"

definition isCustomRoleName :: "string \<Rightarrow> bool" where
  "isCustomRoleName role \<longleftrightarrow>
     (HasPrefix role ''projects/'' \<and> Contains role ''/roles/'') \<or>
     (HasPrefix role ''organizations/'' \<and> Contains role ''/roles/'')"

definition labPredefinedServicePrefixes :: "string \<rightharpoonup> bool" where
  "labPredefinedServicePrefixes = Map.empty"

type_synonym role_store = "string \<Rightarrow> error + string list option"

definition roleGrants :: "role_store option \<Rightarrow> string \<Rightarrow> string \<Rightarrow> error + bool" where
  "roleGrants roles role permission =
     (case switch_case basic_role_cases role of
        Some grants \<Rightarrow> Inr (grants permission)
      | None \<Rightarrow>
          if isCustomRoleName role then
            (case roles of
               None \<Rightarrow> Inr False
             | Some included \<Rightarrow>
                 bindE (included role) (\<lambda>r.
                   case r of
                     None \<Rightarrow> Inr False
                   | Some perms \<Rightarrow> Inr (permission \<in> set perms)))
          else
            (case predefinedServiceRoleGrants role permission of
               (granted, True) \<Rightarrow> Inr granted
             | (_, False) \<Rightarrow>
                 if HasPrefix role ''roles/'' then
                   (let rest = TrimPrefix role ''roles/'' in
                    case IndexByte rest (CHR ''.'') of
                      None \<Rightarrow> Inr False
                    | Some i \<Rightarrow>
                        let svc = take i rest in
                        if 0 < i \<and> labPredefinedServicePrefixes svc = Some True
                        then Inr (HasPrefix permission (svc @ ''.''))
                        else Inr False)
                 else Inr False))"

section \<open>Lemmas\<close>

lemmas basic_permission_sets =
  editorGrants_def editorDeniesTokenCreatorClass_def viewerGrants_def securityAdminGrants_def
  serviceAccountAdminGrants_def tokenCreatorGrants_def secretmanagerViewerGrants_def
  secretmanagerSecretAccessorGrants_def secretmanagerSecretVersionManagerGrants_def
  cloudkmsViewerGrants_def cloudkmsAdminGrants_def

lemmas basic_reach_eval =
  basic_role_cases_def reach_eval basic_permission_sets go_simps TrimPrefix_def Let_def

lemmas catalogue_reach_eval =
  predefined_cases_def catalogue_tables reach_append reach_eval permission_sets go_simps

lemma basic_role_label:
  "(labels, g) \<in> set basic_role_cases \<Longrightarrow> role \<in> set labels \<Longrightarrow> HasPrefix role ''roles/''"
  by (auto simp: basic_role_cases_def go_simps)

lemma custom_role_not_builtin: "isCustomRoleName role \<Longrightarrow> \<not> HasPrefix role ''roles/''"
  by (auto simp: isCustomRoleName_def go_simps elim!: HasPrefixE)

lemma builtin_role_not_custom: "HasPrefix role ''roles/'' \<Longrightarrow> \<not> isCustomRoleName role"
  using custom_role_not_builtin by blast

lemma custom_role_not_basic: "isCustomRoleName role \<Longrightarrow> switch_case basic_role_cases role = None"
  using switch_case_SomeD [of basic_role_cases role] basic_role_label custom_role_not_builtin
  by (cases "switch_case basic_role_cases role") auto

lemma roleGrants_builtin:
  "\<not> isCustomRoleName role \<Longrightarrow>
   roleGrants roles role p =
     (case switch_case basic_role_cases role of
        Some g \<Rightarrow> Inr (g p)
      | None \<Rightarrow>
          (case switch_case predefined_cases role of Some g \<Rightarrow> Inr (g p) | None \<Rightarrow> Inr False))"
  by (auto simp: roleGrants_def predefinedServiceRoleGrants_def labPredefinedServicePrefixes_def
      Let_def split: option.splits)

lemma roleGrants_custom:
  "isCustomRoleName role \<Longrightarrow>
   roleGrants roles role p =
     (case roles of None \<Rightarrow> Inr False
      | Some included \<Rightarrow>
          bindE (included role)
            (\<lambda>r. Inr (case r of None \<Rightarrow> False | Some perms \<Rightarrow> p \<in> set perms)))"
  by (auto simp: roleGrants_def custom_role_not_basic bindE_def split: option.splits sum.splits)

text \<open>
  A builtin role is denied unless one of the tables reaches the permission; the two premises are
  closed by evaluating \<open>reach\<close>.
\<close>

lemma roleGrants_reach:
  assumes "\<not> isCustomRoleName role" and "p \<in> set ps"
    and "(role, p) \<notin> set (reach basic_role_cases ps)"
    and "(role, p) \<notin> set (reach predefined_cases ps)"
  shows "roleGrants roles role p = Inr False"
proof (cases "switch_case basic_role_cases role")
  case None
  show ?thesis
  proof (cases "switch_case predefined_cases role")
    case None
    with \<open>switch_case basic_role_cases role = None\<close> show ?thesis
      by (simp add: roleGrants_builtin [OF assms(1)])
  next
    case (Some g)
    with switch_case_SomeD [OF Some] reachI [of _ g predefined_cases role p ps] assms(2,4)
    have "\<not> g p" by blast
    with None Some show ?thesis by (simp add: roleGrants_builtin [OF assms(1)])
  qed
next
  case (Some g)
  with switch_case_SomeD [OF Some] reachI [of _ g basic_role_cases role p ps] assms(2,3)
  have "\<not> g p" by blast
  with Some show ?thesis by (simp add: roleGrants_builtin [OF assms(1)])
qed

lemma roleGrants_exactly:
  assumes "\<not> isCustomRoleName role" and "p \<in> set ps"
    and "reach predefined_cases ps = []"
    and "set (reach basic_role_cases ps) = S"
    and "\<And>role p. (role, p) \<in> S \<Longrightarrow> roleGrants roles role p = Inr True"
  shows "roleGrants roles role p = Inr ((role, p) \<in> S)"
  using roleGrants_reach [OF assms(1,2), of roles] assms(3-5) by (cases "(role, p) \<in> S") simp_all

section \<open>Which roles reach the dangerous permissions\<close>

definition minting_permissions :: "string list" where
  "minting_permissions =
     [''iam.serviceAccounts.getAccessToken'', ''iam.serviceAccounts.generateAccessToken'',
      ''iam.serviceAccounts.generateIdToken'', ''iam.serviceAccounts.signBlob'',
      ''iam.serviceAccounts.signJwt'', ''iam.serviceAccounts.implicitDelegation'']"

definition kms_use_permissions :: "string list" where
  "kms_use_permissions =
     [''cloudkms.cryptoKeyVersions.useToEncrypt'', ''cloudkms.cryptoKeyVersions.useToDecrypt'',
      ''cloudkms.cryptoKeyVersions.useToSign'']"

definition kms_use_roles :: "(string \<times> string) list" where
  "kms_use_roles =
     [(''roles/owner'', ''cloudkms.cryptoKeyVersions.useToEncrypt''),
      (''roles/owner'', ''cloudkms.cryptoKeyVersions.useToDecrypt''),
      (''roles/owner'', ''cloudkms.cryptoKeyVersions.useToSign''),
      (''roles/cloudkms.cryptoKeyEncrypterDecrypter'', ''cloudkms.cryptoKeyVersions.useToEncrypt''),
      (''roles/cloudkms.cryptoKeyEncrypterDecrypter'', ''cloudkms.cryptoKeyVersions.useToDecrypt''),
      (''roles/cloudkms.cryptoKeyEncrypter'', ''cloudkms.cryptoKeyVersions.useToEncrypt''),
      (''roles/cloudkms.cryptoKeyDecrypter'', ''cloudkms.cryptoKeyVersions.useToDecrypt''),
      (''roles/cloudkms.signer'', ''cloudkms.cryptoKeyVersions.useToSign''),
      (''roles/cloudkms.signerVerifier'', ''cloudkms.cryptoKeyVersions.useToSign'')]"

lemma catalogue_no_minting: "reach predefined_cases minting_permissions = []"
  by (simp add: catalogue_reach_eval minting_permissions_def)

lemma basic_minting:
  "reach basic_role_cases minting_permissions =
     map (Pair ''roles/owner'') minting_permissions @
     map (Pair ''roles/iam.serviceAccountTokenCreator'') minting_permissions"
  by (simp add: basic_reach_eval minting_permissions_def)

lemma catalogue_no_kms_use: "reach predefined_cases kms_use_permissions = []"
  by (simp add: catalogue_reach_eval kms_use_permissions_def)

lemma basic_kms_use: "reach basic_role_cases kms_use_permissions = kms_use_roles"
  by (simp add: basic_reach_eval kms_use_permissions_def kms_use_roles_def)

lemma catalogue_no_payload: "reach predefined_cases [''secretmanager.versions.access''] = []"
  by (simp add: catalogue_reach_eval)

lemma basic_payload:
  "reach basic_role_cases [''secretmanager.versions.access''] =
     map (\<lambda>role. (role, ''secretmanager.versions.access''))
       [''roles/owner'', ''roles/secretmanager.secretAccessor'', ''roles/secretmanager.admin'']"
  by (simp add: basic_reach_eval)

lemma basic_role_grants [simp]:
  "roleGrants roles ''roles/owner'' p = Inr True"
  "roleGrants roles ''roles/editor'' p = Inr (editorGrants p)"
  "roleGrants roles ''roles/viewer'' p = Inr (viewerGrants p)"
  "roleGrants roles ''roles/iam.serviceAccountTokenCreator'' p = Inr (tokenCreatorGrants p)"
  "roleGrants roles ''roles/secretmanager.admin'' p = Inr (HasPrefix p ''secretmanager.'')"
  "roleGrants roles ''roles/secretmanager.secretAccessor'' p =
     Inr (secretmanagerSecretAccessorGrants p)"
  by (simp_all add: roleGrants_def basic_role_cases_def)

lemma minting_tokenCreator: "list_all tokenCreatorGrants minting_permissions"
  by (simp add: minting_permissions_def tokenCreatorGrants_def)

lemma kms_use_roles_grant: "list_all (\<lambda>(role, p). roleGrants roles role p = Inr True) kms_use_roles"
  by (simp add: roleGrants_def basic_role_cases_def kms_use_roles_def)

text \<open>Only the owner and the token creator role can mint credentials: for every builtin role and
  every permission that mints a token or signs as a service account, \<open>roleGrants\<close> answers true exactly
  for \<open>roles/owner\<close> and \<open>roles/iam.serviceAccountTokenCreator\<close>, without an error, whatever the role store.\<close>
theorem minting_roles:
  assumes "p \<in> set minting_permissions" and "\<not> isCustomRoleName role"
  shows "roleGrants roles role p =
    Inr (role \<in> {''roles/owner'', ''roles/iam.serviceAccountTokenCreator''})"
proof -
  have "roleGrants roles role p =
      Inr ((role, p) \<in> {''roles/owner'', ''roles/iam.serviceAccountTokenCreator''} \<times> set minting_permissions)"
    by (rule roleGrants_exactly [OF assms(2,1) catalogue_no_minting])
       (use minting_tokenCreator in \<open>auto simp: basic_minting list_all_iff\<close>)
  with assms(1) show ?thesis by simp
qed

theorem minting_roles_witness:
  "roleGrants None ''roles/pubsub.admin'' ''iam.serviceAccounts.signJwt'' = Inr False"
proof -
  have "''iam.serviceAccounts.signJwt'' \<in> set minting_permissions"
    by (simp add: minting_permissions_def)
  moreover have "\<not> isCustomRoleName ''roles/pubsub.admin''"
    by (simp add: isCustomRoleName_def go_simps)
  ultimately show ?thesis by (simp add: minting_roles)
qed

text \<open>The payload of a secret version is readable through exactly three builtin roles:
  \<open>roles/owner\<close>, \<open>roles/secretmanager.admin\<close> and \<open>roles/secretmanager.secretAccessor\<close>; neither the editor
  nor any role of the catalogue has it.\<close>
theorem secret_payload_roles:
  assumes "\<not> isCustomRoleName role"
  shows "roleGrants roles role ''secretmanager.versions.access'' =
    Inr (role \<in> {''roles/owner'', ''roles/secretmanager.admin'', ''roles/secretmanager.secretAccessor''})"
proof -
  let ?p = "''secretmanager.versions.access''"
  have "roleGrants roles role ?p =
      Inr ((role, ?p) \<in> {''roles/owner'', ''roles/secretmanager.secretAccessor'',
        ''roles/secretmanager.admin''} \<times> {?p})"
    by (rule roleGrants_exactly [OF assms _ catalogue_no_payload])
       (auto simp: basic_payload secretmanagerSecretAccessorGrants_def go_simps)
  then show ?thesis by auto
qed

theorem secret_payload_roles_witness:
  "roleGrants None ''roles/editor'' ''secretmanager.versions.access'' = Inr False"
proof -
  have "\<not> isCustomRoleName ''roles/editor''"
    by (simp add: isCustomRoleName_def go_simps)
  from secret_payload_roles [OF this, of None] show ?thesis by simp
qed

text \<open>Using a key (encrypt, decrypt, sign) needs the owner or the crypto role made for it: a builtin
  role has a cryptographic permission exactly when the pair is in \<open>kms_use_roles\<close>, so the KMS
  administrator, the editor and the viewer have none.\<close>
theorem kms_use_needs_crypto_role:
  assumes "p \<in> set kms_use_permissions" and "\<not> isCustomRoleName role"
  shows "roleGrants roles role p = Inr ((role, p) \<in> set kms_use_roles)"
  by (rule roleGrants_exactly [OF assms(2,1) catalogue_no_kms_use])
     (use kms_use_roles_grant [of roles] in \<open>auto simp: basic_kms_use list_all_iff\<close>)

theorem kms_use_needs_crypto_role_witness:
  "roleGrants None ''roles/cloudkms.admin'' ''cloudkms.cryptoKeyVersions.useToDecrypt'' = Inr False"
proof -
  have "''cloudkms.cryptoKeyVersions.useToDecrypt'' \<in> set kms_use_permissions"
    by (simp add: kms_use_permissions_def)
  moreover have "\<not> isCustomRoleName ''roles/cloudkms.admin''"
    by (simp add: isCustomRoleName_def go_simps)
  ultimately show ?thesis by (simp add: kms_use_needs_crypto_role kms_use_roles_def)
qed

text \<open>Unknown roles fail closed: a role that is not custom and that neither switch of the evaluator
  lists grants no permission at all, without an error; there is no prefix shortcut for
  \<open>roles/service.anything\<close>.\<close>
theorem unknown_role_grants_nothing:
  assumes "\<not> isCustomRoleName role"
    and "list_all (\<lambda>(labels, _). role \<notin> set labels) (basic_role_cases @ predefined_cases)"
  shows "roleGrants roles role permission = Inr False"
proof -
  have "switch_case basic_role_cases role = None" "switch_case predefined_cases role = None"
    using assms(2) by (auto simp: switch_case_None list_all_iff)
  then show ?thesis by (simp add: roleGrants_builtin [OF assms(1)])
qed

theorem unknown_role_grants_nothing_witness:
  "roleGrants None ''roles/xyz.admin'' ''pubsub.topics.publish'' = Inr False"
  by (rule unknown_role_grants_nothing)
     (simp_all add: isCustomRoleName_def go_simps basic_role_cases_def predefined_cases_def catalogue_tables)

text \<open>A custom role grants its included permissions and nothing else: the answer is the membership
  in the list its store returns, false for a nil store or an inactive role, an error only if the store
  fails; no builtin case or prefix rule applies to it.\<close>
theorem custom_role_grants_included:
  assumes "isCustomRoleName role"
  shows "roleGrants roles role permission =
    (case roles of
       None \<Rightarrow> Inr False
     | Some included \<Rightarrow>
         (case included role of
            Inl err \<Rightarrow> Inl err
          | Inr None \<Rightarrow> Inr False
          | Inr (Some perms) \<Rightarrow> Inr (permission \<in> set perms)))"
  using assms by (auto simp: roleGrants_custom bindE_def split: option.split sum.split)

theorem custom_role_grants_included_witness:
  "roleGrants (Some (\<lambda>_. Inr (Some [''storage.objects.get'']))) ''projects/p/roles/owner''
     ''storage.objects.delete'' = Inr False"
proof -
  have "isCustomRoleName ''projects/p/roles/owner''" by (simp add: isCustomRoleName_def go_simps)
  from custom_role_grants_included [OF this] show ?thesis by simp
qed

text \<open>Service confinement: a role of the catalogue grants permissions of its own service only
  (\<open>roles/pubsub.editor\<close> those of \<open>pubsub\<close>, and so on); \<open>roles/iam.securityReviewer\<close>, which
  reads policies across services, is the one exception.\<close>
theorem catalogue_role_confined:
  assumes "predefinedServiceRoleGrants role permission = (True, True)"
    and "role \<noteq> ''roles/iam.securityReviewer''"
  shows "own_service role permission"
proof -
  from predefinedServiceRoleGrants_grantedD [OF assms(1)] obtain labels g where
    "(labels, g) \<in> set predefined_cases" "role \<in> set labels" "g permission" by blast
  then show ?thesis by (rule catalogue_own_service) (rule assms(2))
qed

theorem catalogue_role_confined_witness:
  "own_service ''roles/pubsub.publisher'' ''pubsub.topics.publish''"
  by (rule catalogue_role_confined)
     (simp_all add: predefinedServiceRoleGrants_def predefined_cases_def catalogue_tables
        switch_case_append permission_sets go_simps)

lemma editor_denies_tokenCreator:
  assumes "tokenCreatorGrants permission"
  shows "\<not> editorGrants permission"
proof -
  have "list_all (\<lambda>p. \<not> editorGrants p)
      [''iam.serviceAccounts.getAccessToken'', ''iam.serviceAccounts.actAs'',
       ''iam.serviceAccounts.signBlob'', ''iam.serviceAccounts.signJwt'',
       ''iam.serviceAccounts.implicitDelegation'', ''iam.serviceAccounts.generateAccessToken'',
       ''iam.serviceAccounts.generateIdToken'']"
    by (simp add: editorGrants_def editorDeniesTokenCreatorClass_def TrimPrefix_def go_simps)
  with assms show ?thesis unfolding tokenCreatorGrants_def list_all_iff by (rule bspec [rotated])
qed

definition serviceAccount_verb :: "string \<Rightarrow> string" where
  "serviceAccount_verb verb = ''iam.serviceAccounts.'' @ verb"

definition ordinary_verbs :: "string list" where
  "ordinary_verbs = [''get'', ''list'', ''create'', ''delete'', ''update'', ''enable'', ''disable'',
     ''undelete'', ''getIamPolicy'', ''testIamPermissions'']"

lemma editor_denies_unknown_verb:
  assumes "verb \<notin> set ordinary_verbs"
  shows "\<not> editorGrants (serviceAccount_verb verb)"
proof -
  define q where "q = ''iam.serviceAccounts.''"
  have "editorDeniesTokenCreatorClass (q @ verb)"
    using assms unfolding editorDeniesTokenCreatorClass_def q_def [symmetric] ordinary_verbs_def
      TrimPrefix_append HasPrefix_append Let_def by simp
  then show ?thesis by (simp add: editorGrants_def serviceAccount_verb_def q_def)
qed

lemma editor_no_setIamPolicy: "HasSuffix permission ''.setIamPolicy'' \<Longrightarrow> \<not> editorGrants permission"
  by (simp add: editorGrants_def)

text \<open>The editor cannot escalate: \<open>roles/editor\<close> sets no IAM policy and has none of the permissions
  of the token creator, so an editor can neither grant itself a role nor become a service account; any
  unknown verb on service accounts is denied to it as well.\<close>
theorem editor_cannot_escalate:
  assumes "HasSuffix permission ''.setIamPolicy'' \<or> tokenCreatorGrants permission \<or>
    permission = serviceAccount_verb verb \<and> verb \<notin> set ordinary_verbs"
  shows "roleGrants roles ''roles/editor'' permission = Inr False"
proof -
  from assms have "\<not> editorGrants permission"
    using editor_denies_tokenCreator editor_no_setIamPolicy editor_denies_unknown_verb
    by (elim disjE) auto
  then show ?thesis by (simp only: basic_role_grants)
qed

theorem editor_cannot_escalate_witness:
  "roleGrants None ''roles/editor'' ''iam.serviceAccounts.getOpenIdToken'' = Inr False"
proof -
  have "''iam.serviceAccounts.getOpenIdToken'' = serviceAccount_verb ''getOpenIdToken''"
    by (simp add: serviceAccount_verb_def)
  moreover have "''getOpenIdToken'' \<notin> set ordinary_verbs" by (simp add: ordinary_verbs_def)
  ultimately show ?thesis using editor_cannot_escalate by blast
qed

end
