(* ===== verification/Go_Json.thy ===== *)
theory Go_Json
  imports Go_Base Complex_Main "HOL-Library.Multiset"
begin

text \<open>
  The part of \<open>encoding/json\<close> the modelled code uses: values, documents, and the decoding of a
  value into a Go struct.

  A column or a request body that holds JSON is a \<open>document\<close>: the value its bytes denote, or
  \<open>Malformed\<close> bytes, which \<open>json.Unmarshal\<close> refuses. The object members keep their order, so that
  repeated keys are decoded one after the other into the same field, as Go does. A key selects
  the field whose name it is, otherwise a field whose name it is up to case; other keys are
  skipped. \<open>null\<close> leaves a string or struct field as it is and resets a slice or pointer. A slice
  is a list: Go's nil slice and its empty slice are both \<open>[]\<close>. A number is the rational its literal
  denotes (the rounding to a \<open>float64\<close> is left out).
\<close>

datatype json =
    JNull
  | JBool bool
  | JNum rat
  | JStr string
  | JArr "json list"
  | JObj "(string \<times> json) list"

datatype document = Json json | Malformed string

definition json_type_error :: error where
  "json_type_error = Errorf ''json: cannot unmarshal''"

definition json_syntax_error :: error where
  "json_syntax_error = Errorf ''json: syntax error''"

type_synonym 'a decoder = "json \<Rightarrow> 'a \<Rightarrow> error + 'a"

fun decode_string :: "string decoder" where
  "decode_string (JStr s) old = Inr s"
| "decode_string JNull old = Inr old"
| "decode_string _ old = Inl json_type_error"

fun decode_bool :: "bool decoder" where
  "decode_bool (JBool b) old = Inr b"
| "decode_bool JNull old = Inr old"
| "decode_bool _ old = Inl json_type_error"

text \<open>Element \<open>i\<close> of an array is decoded into element \<open>i\<close> of the old slice, if there is one.\<close>

fun decode_elements :: "'a decoder \<Rightarrow> 'a \<Rightarrow> json list \<Rightarrow> 'a list \<Rightarrow> error + 'a list" where
  "decode_elements dec zero [] olds = Inr []"
| "decode_elements dec zero (v # vs) olds =
     bindE (dec v (case olds of [] \<Rightarrow> zero | x # _ \<Rightarrow> x)) (\<lambda>y.
     bindE (decode_elements dec zero vs (drop 1 olds)) (\<lambda>ys. Inr (y # ys)))"

fun decode_slice :: "'a decoder \<Rightarrow> 'a \<Rightarrow> 'a list decoder" where
  "decode_slice dec zero (JArr vs) olds = decode_elements dec zero vs olds"
| "decode_slice dec zero JNull olds = Inr []"
| "decode_slice dec zero _ olds = Inl json_type_error"

fun decode_pointer :: "'a decoder \<Rightarrow> 'a \<Rightarrow> 'a option decoder" where
  "decode_pointer dec zero JNull old = Inr None"
| "decode_pointer dec zero v old =
     bindE (dec v (case old of None \<Rightarrow> zero | Some x \<Rightarrow> x)) (\<lambda>y. Inr (Some y))"

type_synonym 'r fields = "(string \<times> 'r decoder) list"

definition field_of :: "'r fields \<Rightarrow> string \<Rightarrow> 'r decoder option" where
  "field_of fs key =
     (case map_of fs key of
        Some dec \<Rightarrow> Some dec
      | None \<Rightarrow> map_option snd (find (\<lambda>(name, _). EqualFold name key) fs))"

fun decode_members :: "'r fields \<Rightarrow> (string \<times> json) list \<Rightarrow> 'r \<Rightarrow> error + 'r" where
  "decode_members fs [] r = Inr r"
| "decode_members fs ((key, v) # ms) r =
     (case field_of fs key of
        None \<Rightarrow> decode_members fs ms r
      | Some dec \<Rightarrow> bindE (dec v r) (decode_members fs ms))"

fun decode_struct :: "'r fields \<Rightarrow> 'r decoder" where
  "decode_struct fs (JObj ms) r = decode_members fs ms r"
| "decode_struct fs JNull r = Inr r"
| "decode_struct fs _ r = Inl json_type_error"

text \<open>A field of a struct: decode into its old value, then assign.\<close>

definition json_field :: "('r \<Rightarrow> 'a) \<Rightarrow> ('a \<Rightarrow> 'r \<Rightarrow> 'r) \<Rightarrow> 'a decoder \<Rightarrow> 'r decoder" where
  "json_field get put dec v r = bindE (dec v (get r)) (\<lambda>x. Inr (put x r))"

fun Unmarshal :: "'a decoder \<Rightarrow> document \<Rightarrow> 'a \<Rightarrow> error + 'a" where
  "Unmarshal dec (Json v) zero = dec v zero"
| "Unmarshal dec (Malformed _) zero = Inl json_syntax_error"

text \<open>The struct tag \<open>omitempty\<close> of a string field.\<close>

definition omitempty :: "string \<Rightarrow> string \<Rightarrow> (string \<times> json) list" where
  "omitempty name s = (if s = [] then [] else [(name, JStr s)])"

section \<open>Maps from strings to values\<close>

text \<open>A map that is marshalled is an association list; \<open>json.Marshal\<close> writes its keys in order.\<close>

definition assign :: "string \<Rightarrow> 'v \<Rightarrow> (string \<times> 'v) list \<Rightarrow> (string \<times> 'v) list" where
  "assign k v m = filter (\<lambda>(k', _). k' \<noteq> k) m @ [(k, v)]"

definition marshal_map :: "(string \<times> json) list \<Rightarrow> json" where
  "marshal_map m = JObj (sort_key fst m)"

definition remove_key :: "string \<Rightarrow> (string \<times> 'v) list \<Rightarrow> (string \<times> 'v) list" where
  "remove_key k m = filter (\<lambda>(k', _). k' \<noteq> k) m"

text \<open>Decoding an object into a map: of a repeated key the last value stays.\<close>

definition map_of_members :: "(string \<times> 'v) list \<Rightarrow> (string \<times> 'v) list" where
  "map_of_members ms = foldl (\<lambda>m (k, v). assign k v m) [] ms"

text \<open>What decoding a value into an interface and encoding it again gives.\<close>

fun canonical :: "json \<Rightarrow> json" where
  "canonical (JObj ms) = marshal_map (map_of_members (map (\<lambda>(k, v). (k, canonical v)) ms))"
| "canonical (JArr vs) = JArr (map canonical vs)"
| "canonical JNull = JNull"
| "canonical (JBool b) = JBool b"
| "canonical (JNum x) = JNum x"
| "canonical (JStr s) = JStr s"

section \<open>Lemmas\<close>

text \<open>Decoding what was encoded, element by element, into a fresh slice.\<close>

lemma decode_elements_map:
  assumes "\<And>x. x \<in> set xs \<Longrightarrow> dec (enc x) zero = Inr x"
  shows "decode_elements dec zero (map enc xs) [] = Inr xs"
  using assms by (induction xs) auto

lemma decode_elements_length:
  "decode_elements dec zero vs olds = Inr ys \<Longrightarrow> length ys = length vs"
  by (induction vs arbitrary: olds ys) (auto simp: bindE_eq_Inr)

lemma decode_members_append:
  "decode_members fs (ms @ ns) r = bindE (decode_members fs ms r) (decode_members fs ns)"
proof (induction fs ms r rule: decode_members.induct)
  case (2 fs key v ms r)
  then show ?case
    by (cases "field_of fs key") (auto simp: bindE_def split: sum.splits)
qed simp

lemma decode_string_list [simp]:
  "decode_slice decode_string [] (JArr (map JStr xs)) [] = Inr xs"
  by (simp add: decode_elements_map)

text \<open>The inverse of \<open>json.Marshal\<close> on a slice of strings.\<close>

definition marshal_strings :: "string list \<Rightarrow> document" where
  "marshal_strings xs = Json (JArr (map JStr xs))"

lemma unmarshal_strings [simp]:
  "Unmarshal (decode_slice decode_string []) (marshal_strings xs) [] = Inr xs"
  by (simp add: marshal_strings_def del: decode_slice.simps)

lemma map_of_assign [simp]: "map_of (assign k v m) = (map_of m)(k \<mapsto> v)"
proof
  fix x
  have "map_of (filter (\<lambda>(k', _). k' \<noteq> k) m) x = (if x = k then None else map_of m x)"
    by (induction m) auto
  then show "map_of (assign k v m) x = ((map_of m)(k \<mapsto> v)) x"
    by (simp add: assign_def map_add_def split: option.split)
qed

lemma distinct_assign [simp]: "distinct (map fst m) \<Longrightarrow> distinct (map fst (assign k v m))"
  by (induction m) (auto simp: assign_def)

lemma map_of_marshal:
  assumes "distinct (map fst m)"
  shows "map_of (rev (sort_key fst m)) = map_of m"
proof -
  have "set (rev (sort_key fst m)) = set m" by simp
  moreover have "distinct (map fst (rev (sort_key fst m)))"
  proof -
    have "mset (map fst (sort_key fst m)) = mset (map fst m)" by simp
    with assms have "distinct (map fst (sort_key fst m))" by (metis mset_eq_imp_distinct_iff)
    then show ?thesis by (simp add: rev_map [symmetric])
  qed
  ultimately show ?thesis using assms by (metis map_of_inject_set)
qed

subsection \<open>Canonical values\<close>

lemma sort_key_unique:
  assumes "distinct (map fst xs)" and "distinct (map fst ys)" and "set xs = set ys"
  shows "sort_key fst xs = sort_key fst ys"
proof (rule properties_for_sort_key)
  have "mset xs = mset ys"
    using assms by (metis distinct_map set_eq_iff_mset_eq_distinct)
  then show "mset (sort_key fst ys) = mset xs" by simp
  show "filter (\<lambda>x. fst k = fst x) (sort_key fst ys) = filter (\<lambda>x. fst k = fst x) xs" if "k \<in> set (sort_key fst ys)" for k
  proof -
    have single: "filter (\<lambda>x. fst k = fst x) zs = [k]" if "distinct (map fst zs)" "k \<in> set zs" for zs
      using that by (induction zs) (auto simp: filter_empty_conv intro: rev_image_eqI)
    have "mset (map fst (sort_key fst ys)) = mset (map fst ys)" by simp
    then have "distinct (map fst (sort_key fst ys))" using assms(2) by (metis mset_eq_imp_distinct_iff)
    with single that assms show ?thesis by simp
  qed
  show "sorted (map fst (sort_key fst ys))" by simp
qed

lemma sort_key_idem [simp]: "sort_key f (sort_key f xs) = sort_key f xs"
  by (rule sort_key_id_if_sorted) simp

lemma distinct_sort_key: "distinct (map fst xs) \<Longrightarrow> distinct (map fst (sort_key fst xs))"
proof -
  assume "distinct (map fst xs)"
  moreover have "mset (map fst (sort_key fst xs)) = mset (map fst xs)" by simp
  ultimately show ?thesis by (metis mset_eq_imp_distinct_iff)
qed

lemma set_assign: "distinct (map fst m) \<Longrightarrow> map_of m k = Some v \<Longrightarrow> set (assign k v m) = set m"
  by (auto simp: assign_def dest: map_of_SomeD eq_key_imp_eq_value)

lemma marshal_assign_same:
  "distinct (map fst m) \<Longrightarrow> map_of m k = Some v \<Longrightarrow> marshal_map (assign k v m) = marshal_map m"
  unfolding marshal_map_def by (simp add: sort_key_unique [OF distinct_assign] set_assign)

text \<open>Decoding an object with distinct keys gives its members.\<close>

lemma assign_fresh: "k \<notin> fst ` set m \<Longrightarrow> assign k v m = m @ [(k, v)]"
  by (force simp: assign_def filter_id_conv)

lemma map_of_members_append:
  "distinct (map fst (m @ ms)) \<Longrightarrow> foldl (\<lambda>m (k, v). assign k v m) m ms = m @ ms"
proof (induction ms arbitrary: m)
  case (Cons a ms)
  obtain k v where a: "a = (k, v)" by fastforce
  with Cons.prems have "k \<notin> fst ` set m" by auto
  with Cons.IH [of "m @ [a]"] Cons.prems show ?case by (simp add: a assign_fresh)
qed simp

lemma map_of_members_distinct [simp]: "distinct (map fst ms) \<Longrightarrow> map_of_members ms = ms"
  using map_of_members_append [of "[]"] by (simp add: map_of_members_def)

lemma distinct_map_of_members: "distinct (map fst (map_of_members ms))"
proof -
  have "distinct (map fst m) \<Longrightarrow> distinct (map fst (foldl (\<lambda>m (k, v). assign k v m) m ms))" for m
    by (induction ms arbitrary: m) (auto split: prod.split)
  from this [of "[]"] show ?thesis by (simp add: map_of_members_def)
qed

lemma map_of_members_values: "set (map_of_members ms) \<subseteq> set ms"
proof -
  have "set (foldl (\<lambda>m (k, v). assign k v m) m ms) \<subseteq> set m \<union> set ms" for m
    by (induction ms arbitrary: m) (fastforce simp: assign_def split: prod.split)+
  from this [of "[]"] show ?thesis by (simp add: map_of_members_def)
qed

text \<open>A value is canonical when decoding and encoding leaves it as it is.\<close>

definition canonical_map :: "(string \<times> json) list \<Rightarrow> bool" where
  "canonical_map m \<longleftrightarrow> distinct (map fst m) \<and> (\<forall>(k, v)\<in>set m. canonical v = v)"

lemma canonical_marshal:
  assumes "canonical_map m"
  shows "canonical (marshal_map m) = marshal_map m"
proof -
  have "map (\<lambda>(k, v). (k, canonical v)) (sort_key fst m) = sort_key fst m"
    using assms by (intro map_idI) (auto simp: canonical_map_def)
  with assms show ?thesis
    by (simp add: marshal_map_def canonical_map_def distinct_sort_key)
qed

lemma canonical_map_members:
  assumes "\<And>k v. (k, v) \<in> set ms \<Longrightarrow> canonical (canonical v) = canonical v"
  shows "canonical_map (map_of_members (map (\<lambda>(k, v). (k, canonical v)) ms))"
proof -
  have "canonical v = v" if "(k, v) \<in> set (map_of_members (map (\<lambda>(k, v). (k, canonical v)) ms))" for k v
  proof -
    from map_of_members_values that have "(k, v) \<in> set (map (\<lambda>(k, v). (k, canonical v)) ms)" by (rule subsetD)
    then obtain w where "(k, w) \<in> set ms" "v = canonical w" by auto
    with assms [of k w] show ?thesis by simp
  qed
  then show ?thesis
    unfolding canonical_map_def by (intro conjI distinct_map_of_members ballI) blast
qed

lemma canonical_idem [simp]: "canonical (canonical v) = canonical v"
proof (induction v rule: canonical.induct)
  case (1 ms)
  have "canonical (canonical v) = canonical v" if "(k, v) \<in> set ms" for k v
    using 1 [OF that refl] .
  then have "canonical_map (map_of_members (map (\<lambda>(k, v). (k, canonical v)) ms))"
    by (rule canonical_map_members)
  from canonical_marshal [OF this] show ?case by (simp only: canonical.simps)
qed simp_all

lemma canonical_map_sort [simp]: "canonical_map m \<Longrightarrow> canonical_map (sort_key fst m)"
  by (simp add: canonical_map_def distinct_sort_key)

lemma canonical_map_assign: "canonical_map m \<Longrightarrow> canonical v = v \<Longrightarrow> canonical_map (assign k v m)"
  unfolding canonical_map_def using distinct_assign [of m k v] by (auto simp: assign_def)

lemma map_of_sort: "distinct (map fst m) \<Longrightarrow> map_of (sort_key fst m) = map_of m"
  by (simp add: distinct_sort_key map_of_inject_set)

lemma map_of_remove_key [simp]: "map_of (remove_key k m) = (map_of m)(k := None)"
  by (rule ext, induction m) (auto simp: remove_key_def)

lemma canonical_map_remove: "canonical_map m \<Longrightarrow> canonical_map (remove_key k m)"
  by (auto simp: canonical_map_def remove_key_def distinct_map_filter)

lemma canonical_JObj: "canonical (JObj m) = JObj m \<Longrightarrow> canonical_map m"
proof -
  assume "canonical (JObj m) = JObj m"
  then have m: "m = sort_key fst (map_of_members (map (\<lambda>(k, v). (k, canonical v)) m))"
    by (simp add: marshal_map_def)
  have "canonical_map (map_of_members (map (\<lambda>(k, v). (k, canonical v)) m))"
    by (rule canonical_map_members) simp
  from canonical_map_sort [OF this] show ?thesis by (subst m)
qed

section \<open>Maps from strings to strings\<close>

type_synonym string_map = "(string \<times> string) list"

definition map_index :: "string_map \<Rightarrow> string \<Rightarrow> string" where
  "map_index m k = (case map_of m k of None \<Rightarrow> [] | Some v \<Rightarrow> v)"

definition encodeStringMap :: "string_map \<Rightarrow> document" where
  "encodeStringMap m = Json (JObj (sort_key fst (map (\<lambda>(k, v). (k, JStr v)) m)))"

fun string_value :: "json \<Rightarrow> string" where
  "string_value (JStr s) = s"
| "string_value _ = []"

fun decodeStringMap :: "document \<Rightarrow> string_map" where
  "decodeStringMap (Json (JObj ms)) = map_of_members (map (\<lambda>(k, v). (k, string_value v)) ms)"
| "decodeStringMap _ = []"

end
