(* ===== verification/Iam_Evaluator.thy ===== *)
theory Iam_Evaluator
  imports Role_Grants Go_Json
begin

text \<open>
  The IAM allow policy evaluator: \<^verbatim>\<open>internal/kernel/authz/iam.go\<close> and the condition evaluation
  of \<^verbatim>\<open>internal/kernel/celutil/celutil.go\<close>.

  A policy is stored as a JSON document. \<open>Evaluate\<close> looks up the documents of the resource, of
  the project it is nested in and of the ancestors of that project, and asks each binding in turn
  whether it names the member, whether its condition holds and whether its role grants the
  permission. The interfaces of the evaluator (\<open>PolicyStore\<close>, \<open>RoleStore\<close>, \<open>CRMParentStore\<close>) are
  functions, \<open>None\<close> is a nil interface. The CEL library is the parameter \<open>cel\<close> of the \<open>runtime\<close>:
  what compiling and evaluating an expression with \<open>request.time\<close> bound gives. Times are
  nanoseconds since the epoch; one evaluation reads one clock value.
\<close>

section \<open>Data\<close>

record Expr =
  Expression :: string
  Title :: string
  Description :: string

record Binding =
  Role :: string
  Members :: "string list"
  Condition :: "Expr option"

record Policy =
  Bindings :: "Binding list"
  Etag :: string

type_synonym policy_store = "string \<Rightarrow> error + document option"
type_synonym crm_parent_store = "string \<Rightarrow> error + string option"

record Evaluator =
  Policies :: "policy_store option"
  Roles :: "role_store option"
  Parents :: "crm_parent_store option"
  Now :: "int option"

text \<open>What the compilation and evaluation of a CEL expression gives.\<close>

datatype cel_result = CelError | CelNil | CelBool bool | CelOther string

record runtime =
  cel :: "string \<Rightarrow> int \<Rightarrow> cel_result"
  wall_clock :: int

subsection \<open>Policies as JSON\<close>

definition zero_Expr :: Expr where
  "zero_Expr = \<lparr>Expression = [], Title = [], Description = []\<rparr>"

definition zero_Binding :: Binding where
  "zero_Binding = \<lparr>Role = [], Members = [], Condition = None\<rparr>"

definition zero_Policy :: Policy where
  "zero_Policy = \<lparr>Bindings = [], Etag = []\<rparr>"

definition Expr_fields :: "Expr fields" where
  "Expr_fields =
     [(''expression'', json_field Expression (\<lambda>x r. r\<lparr>Expression := x\<rparr>) decode_string),
      (''title'', json_field Title (\<lambda>x r. r\<lparr>Title := x\<rparr>) decode_string),
      (''description'', json_field Description (\<lambda>x r. r\<lparr>Description := x\<rparr>) decode_string)]"

definition Binding_fields :: "Binding fields" where
  "Binding_fields =
     [(''role'', json_field Role (\<lambda>x r. r\<lparr>Role := x\<rparr>) decode_string),
      (''members'', json_field Members (\<lambda>x r. r\<lparr>Members := x\<rparr>) (decode_slice decode_string [])),
      (''condition'', json_field Condition (\<lambda>x r. r\<lparr>Condition := x\<rparr>)
          (decode_pointer (decode_struct Expr_fields) zero_Expr))]"

definition Policy_fields :: "Policy fields" where
  "Policy_fields =
     [(''bindings'', json_field Bindings (\<lambda>x r. r\<lparr>Bindings := x\<rparr>)
          (decode_slice (decode_struct Binding_fields) zero_Binding)),
      (''etag'', json_field Etag (\<lambda>x r. r\<lparr>Etag := x\<rparr>) decode_string)]"

definition unmarshal_policy :: "document \<Rightarrow> error + Policy" where
  "unmarshal_policy raw = Unmarshal (decode_struct Policy_fields) raw zero_Policy"

definition Expr_json :: "Expr \<Rightarrow> json" where
  "Expr_json x = JObj (omitempty ''expression'' (Expression x) @ omitempty ''title'' (Title x) @
     omitempty ''description'' (Description x))"

definition Binding_json :: "Binding \<Rightarrow> json" where
  "Binding_json b = JObj
     ([(''role'', JStr (Role b)), (''members'', JArr (map JStr (Members b)))] @
      (case Condition b of None \<Rightarrow> [] | Some x \<Rightarrow> [(''condition'', Expr_json x)]))"

definition marshal_policy :: "Policy \<Rightarrow> document" where
  "marshal_policy pol = Json (JObj
     ([(''bindings'', JArr (map Binding_json (Bindings pol)))] @ omitempty ''etag'' (Etag pol)))"

section \<open>Members and conditions\<close>

definition memberIdentity :: "string \<Rightarrow> string" where
  "memberIdentity email =
     (let email = TrimSpace email in
      if Contains email '':'' then email else ''serviceAccount:'' @ email)"

text \<open>The loop of \<open>memberIn\<close> over the members, \<open>toolkit\<close> being \<open>toolkitPrincipal\<close>.\<close>

fun memberIn_loop :: "bool \<Rightarrow> string \<Rightarrow> string list \<Rightarrow> bool" where
  "memberIn_loop toolkit want [] = False"
| "memberIn_loop toolkit want (m # ms) =
     (if m = want then True
      else if toolkit then memberIn_loop toolkit want ms
      else if m = ''allUsers'' \<or> m = ''allAuthenticatedUsers'' then True
      else memberIn_loop toolkit want ms)"

definition memberIn :: "string list \<Rightarrow> string \<Rightarrow> bool" where
  "memberIn members want = memberIn_loop (HasPrefix want ''user:'') want members"

definition exactMemberIn :: "string list \<Rightarrow> string \<Rightarrow> bool" where
  "exactMemberIn members want \<longleftrightarrow> want \<in> set members"

definition EvalRequestTime :: "runtime \<Rightarrow> string \<Rightarrow> int \<Rightarrow> bool" where
  "EvalRequestTime rt expr now =
     (let expr = TrimSpace expr in
      if expr = [] then True
      else case cel rt expr now of
          CelError \<Rightarrow> False
        | CelNil \<Rightarrow> False
        | CelBool v \<Rightarrow> v
        | CelOther _ \<Rightarrow> False)"

definition conditionAllows :: "runtime \<Rightarrow> Evaluator \<Rightarrow> Binding \<Rightarrow> bool" where
  "conditionAllows rt e b =
     (case Condition b of
        None \<Rightarrow> True
      | Some c \<Rightarrow>
          if TrimSpace (Expression c) = [] then True
          else let now = (case Now e of Some t \<Rightarrow> t | None \<Rightarrow> wall_clock rt) in
            EvalRequestTime rt (Expression c) now)"

section \<open>The chain of resources\<close>

definition resourcePolicyChain :: "string \<Rightarrow> string list" where
  "resourcePolicyChain resource =
     (if \<not> HasPrefix resource ''projects/'' then [resource]
      else
        let rest = TrimPrefix resource ''projects/'' in
        case IndexByte rest (CHR ''/'') of
          None \<Rightarrow> [resource]
        | Some i \<Rightarrow>
            if 0 < i then
              let parent = ''projects/'' @ take i rest in
              if parent \<noteq> resource then [resource, parent] else [resource]
            else [resource])"

definition crmAncestryMaxDepth :: nat where
  "crmAncestryMaxDepth = 32"

fun isCRMHierarchy_loop :: "string list \<Rightarrow> string \<Rightarrow> bool" where
  "isCRMHierarchy_loop [] resource = False"
| "isCRMHierarchy_loop (p # ps) resource =
     (if \<not> HasPrefix resource p then isCRMHierarchy_loop ps resource
      else let rest = TrimPrefix resource p in rest \<noteq> [] \<and> \<not> Contains rest ''/'')"

definition isCRMHierarchyResource :: "string \<Rightarrow> bool" where
  "isCRMHierarchyResource resource =
     isCRMHierarchy_loop [''projects/'', ''folders/'', ''organizations/''] resource"

text \<open>
  The ancestry loop of \<open>policyChain\<close>: \<open>depth\<close> counts the iterations left, \<open>seen\<close> is the map of
  visited resources, \<open>out\<close> the chain so far.
\<close>

fun crm_walk ::
  "crm_parent_store \<Rightarrow> nat \<Rightarrow> string \<Rightarrow> string list \<Rightarrow> string list \<Rightarrow> error + string list" where
  "crm_walk parent_of 0 cur seen out = Inr out"
| "crm_walk parent_of (Suc depth) cur seen out =
     (case parent_of cur of
        Inl err \<Rightarrow> Inl (Wrap (''crm parent for '' @ cur) err)
      | Inr None \<Rightarrow> Inr out
      | Inr (Some parent) \<Rightarrow>
          if parent = [] then Inr out
          else if parent \<in> set seen then Inr out
          else if HasPrefix parent ''organizations/'' then Inr (out @ [parent])
          else crm_walk parent_of depth parent (parent # seen) (out @ [parent]))"

definition policyChain :: "Evaluator \<Rightarrow> string \<Rightarrow> error + string list" where
  "policyChain e resource =
     (let out = resourcePolicyChain resource in
      case Parents e of
        None \<Rightarrow> Inr out
      | Some parent_of \<Rightarrow>
          (case find isCRMHierarchyResource (rev out) of
             None \<Rightarrow> Inr out
           | Some anchor \<Rightarrow> crm_walk parent_of crmAncestryMaxDepth anchor out out))"

section \<open>Evaluation\<close>

text \<open>
  \<open>evaluateOnResource\<close> and \<open>evaluateExactMemberOnResource\<close> differ in how a binding is matched
  with the member; \<open>policies\<close> is the policy store of the evaluator, which their callers have found
  not to be nil.
\<close>

definition bindingGrants ::
  "runtime \<Rightarrow> Evaluator \<Rightarrow> (string list \<Rightarrow> bool) \<Rightarrow> string \<Rightarrow> Binding \<Rightarrow> error + bool" where
  "bindingGrants rt e matches permission b =
     (if \<not> matches (Members b) then Inr False
      else if \<not> conditionAllows rt e b then Inr False
      else roleGrants (Roles e) (Role b) permission)"

definition evaluateOnResource ::
  "runtime \<Rightarrow> Evaluator \<Rightarrow> policy_store \<Rightarrow> string \<Rightarrow> string \<Rightarrow> string \<Rightarrow> error + bool" where
  "evaluateOnResource rt e policies principalEmail permission resource =
     bindE (policies resource) (\<lambda>found.
       case found of
         None \<Rightarrow> Inr False
       | Some raw \<Rightarrow>
           (case unmarshal_policy raw of
              Inl err \<Rightarrow> Inl (Wrap (''parse iam policy for '' @ resource) err)
            | Inr pol \<Rightarrow>
                let member = memberIdentity principalEmail in
                anyE (bindingGrants rt e (\<lambda>members. memberIn members member) permission)
                  (Bindings pol)))"

definition evaluateExactMemberOnResource ::
  "runtime \<Rightarrow> Evaluator \<Rightarrow> policy_store \<Rightarrow> string \<Rightarrow> string \<Rightarrow> string \<Rightarrow> error + bool" where
  "evaluateExactMemberOnResource rt e policies member permission resource =
     bindE (policies resource) (\<lambda>found.
       case found of
         None \<Rightarrow> Inr False
       | Some raw \<Rightarrow>
           (case unmarshal_policy raw of
              Inl err \<Rightarrow> Inl (Wrap (''parse iam policy for '' @ resource) err)
            | Inr pol \<Rightarrow>
                anyE (bindingGrants rt e (\<lambda>members. exactMemberIn members member) permission)
                  (Bindings pol)))"

text \<open>The receiver is \<open>None\<close> for a nil \<open>*Evaluator\<close>.\<close>

definition Evaluate ::
  "runtime \<Rightarrow> Evaluator option \<Rightarrow> string \<Rightarrow> bool \<Rightarrow> string \<Rightarrow> string \<Rightarrow> error + bool" where
  "Evaluate rt recv principalEmail isRoot permission resource =
     (if isRoot then Inr True
      else case recv of
        None \<Rightarrow> Inr False
      | Some e \<Rightarrow>
          if principalEmail = [] \<or> permission = [] \<or> resource = [] then Inr False
          else case Policies e of
              None \<Rightarrow> Inr False
            | Some policies \<Rightarrow>
                bindE (policyChain e resource) (\<lambda>chain.
                  anyE (evaluateOnResource rt e policies principalEmail permission) chain))"

definition EvaluateAny ::
  "runtime \<Rightarrow> Evaluator option \<Rightarrow> string \<Rightarrow> bool \<Rightarrow> string \<Rightarrow> string list \<Rightarrow> error + bool" where
  "EvaluateAny rt recv principalEmail isRoot permission resources =
     (if isRoot then Inr True
      else case recv of
        None \<Rightarrow> Inr False
      | Some _ \<Rightarrow>
          anyE (\<lambda>resource. if resource = [] then Inr False
            else Evaluate rt recv principalEmail isRoot permission resource) resources)"

definition EvaluateAllUsers ::
  "runtime \<Rightarrow> Evaluator option \<Rightarrow> string \<Rightarrow> string \<Rightarrow> error + bool" where
  "EvaluateAllUsers rt recv permission resource =
     (case recv of
        None \<Rightarrow> Inr False
      | Some e \<Rightarrow>
          (case Policies e of
             None \<Rightarrow> Inr False
           | Some policies \<Rightarrow>
               if permission = [] \<or> resource = [] then Inr False
               else bindE (policyChain e resource) (\<lambda>chain.
                 anyE (evaluateExactMemberOnResource rt e policies ''allUsers'' permission) chain)))"

definition EvaluateAllUsersAny ::
  "runtime \<Rightarrow> Evaluator option \<Rightarrow> string \<Rightarrow> string list \<Rightarrow> error + bool" where
  "EvaluateAllUsersAny rt recv permission resources =
     (case recv of
        None \<Rightarrow> Inr False
      | Some _ \<Rightarrow>
          anyE (\<lambda>resource. if resource = [] then Inr False
            else EvaluateAllUsers rt recv permission resource) resources)"

definition AllowPrincipalOrAllUsers ::
  "runtime \<Rightarrow> Evaluator option \<Rightarrow> string \<Rightarrow> bool \<Rightarrow> bool \<Rightarrow> string \<Rightarrow> string list \<Rightarrow> error + bool" where
  "AllowPrincipalOrAllUsers rt recv principalEmail isRoot hasPrincipal permission resources =
     (if hasPrincipal then EvaluateAny rt recv principalEmail isRoot permission resources
      else EvaluateAllUsersAny rt recv permission resources)"

text \<open>The loop of \<open>TestIamPermissions\<close> and \<open>TestIamPermissionsAny\<close>: keep the granted ones.\<close>

fun filterE :: "('a \<Rightarrow> error + bool) \<Rightarrow> 'a list \<Rightarrow> error + 'a list" where
  "filterE f [] = Inr []"
| "filterE f (x # xs) =
     bindE (f x) (\<lambda>ok. bindE (filterE f xs) (\<lambda>out. Inr (if ok then x # out else out)))"

definition TestIamPermissions ::
  "runtime \<Rightarrow> Evaluator option \<Rightarrow> string \<Rightarrow> bool \<Rightarrow> string \<Rightarrow> string list \<Rightarrow> error + string list" where
  "TestIamPermissions rt recv principalEmail isRoot resource permissions =
     filterE (\<lambda>p. Evaluate rt recv principalEmail isRoot p resource) permissions"

definition TestIamPermissionsAny ::
  "runtime \<Rightarrow> Evaluator option \<Rightarrow> string \<Rightarrow> bool \<Rightarrow> string list \<Rightarrow> string list \<Rightarrow> error + string list" where
  "TestIamPermissionsAny rt recv principalEmail isRoot resources permissions =
     filterE (\<lambda>p. EvaluateAny rt recv principalEmail isRoot p resources) permissions"

end
