(* ===== verification/Iam_Decisions.thy ===== *)
theory Iam_Decisions
  imports Iam_Evaluator
begin

text \<open>
  What the IAM evaluator decides. A policy survives its storage as JSON; the decision of
  \<open>Evaluate\<close> is the declarative predicate \<open>granted\<close> over the bindings of the resource chain; the
  chain starts at the resource, has no repetition and at most 34 members; Identity Toolkit
  users are matched by name only; a permission granted to everyone is granted to each principal.
\<close>

section \<open>Policies survive storage\<close>

lemma field_of_Expr:
  "field_of Expr_fields ''expression'' = Some (json_field Expression (\<lambda>x r. r\<lparr>Expression := x\<rparr>) decode_string)"
  "field_of Expr_fields ''title'' = Some (json_field Title (\<lambda>x r. r\<lparr>Title := x\<rparr>) decode_string)"
  "field_of Expr_fields ''description'' =
     Some (json_field Description (\<lambda>x r. r\<lparr>Description := x\<rparr>) decode_string)"
  by (simp_all add: field_of_def Expr_fields_def)

lemma field_of_Binding:
  "field_of Binding_fields ''role'' = Some (json_field Role (\<lambda>x r. r\<lparr>Role := x\<rparr>) decode_string)"
  "field_of Binding_fields ''members'' =
     Some (json_field Members (\<lambda>x r. r\<lparr>Members := x\<rparr>) (decode_slice decode_string []))"
  "field_of Binding_fields ''condition'' =
     Some (json_field Condition (\<lambda>x r. r\<lparr>Condition := x\<rparr>)
       (decode_pointer (decode_struct Expr_fields) zero_Expr))"
  by (simp_all add: field_of_def Binding_fields_def)

lemma field_of_Policy:
  "field_of Policy_fields ''bindings'' = Some (json_field Bindings (\<lambda>x r. r\<lparr>Bindings := x\<rparr>)
     (decode_slice (decode_struct Binding_fields) zero_Binding))"
  "field_of Policy_fields ''etag'' = Some (json_field Etag (\<lambda>x r. r\<lparr>Etag := x\<rparr>) decode_string)"
  by (simp_all add: field_of_def Policy_fields_def)

lemmas policy_field_lookup = field_of_Expr field_of_Binding field_of_Policy

lemma decode_omitempty:
  assumes "field_of fs name = Some (json_field get put decode_string)"
    and "get r = []" and "put [] r = r"
  shows "decode_members fs (omitempty name s) r = Inr (put s r)"
  using assms by (simp add: omitempty_def json_field_def)

lemma decode_Expr: "decode_struct Expr_fields (Expr_json x) zero_Expr = Inr x"
proof -
  have "decode_struct Expr_fields (Expr_json x) zero_Expr =
      Inr (zero_Expr\<lparr>Expression := Expression x, Title := Title x, Description := Description x\<rparr>)"
    by (simp add: Expr_json_def decode_members_append zero_Expr_def
        decode_omitempty [OF field_of_Expr(1)] decode_omitempty [OF field_of_Expr(2)]
        decode_omitempty [OF field_of_Expr(3)])
  then show ?thesis by (simp add: zero_Expr_def)
qed

lemma decode_Binding: "decode_struct Binding_fields (Binding_json b) zero_Binding = Inr b"
proof -
  have ptr: "decode_pointer (decode_struct Expr_fields) zero_Expr (Expr_json x) None = Inr (Some x)" for x
    using decode_Expr [of x] by (simp add: Expr_json_def)
  show ?thesis
    by (cases b; cases "Condition b")
       (simp_all add: Binding_json_def zero_Binding_def policy_field_lookup json_field_def ptr
          del: decode_slice.simps)
qed

lemma decode_Bindings:
  "decode_slice (decode_struct Binding_fields) zero_Binding (JArr (map Binding_json bs)) [] = Inr bs"
  by (simp add: decode_elements_map decode_Binding)

lemma policy_json_unmarshal: "unmarshal_policy (marshal_policy pol) = Inr pol"
  by (simp add: unmarshal_policy_def marshal_policy_def zero_Policy_def policy_field_lookup
      json_field_def decode_Bindings decode_omitempty [OF field_of_Policy(2)]
      del: decode_slice.simps)

lemma unmarshal_malformed: "unmarshal_policy (Malformed s) = Inl json_syntax_error"
  by (simp add: unmarshal_policy_def)

text \<open>Storing a policy loses nothing: decoding what \<open>json.Marshal\<close> wrote for a policy gives that
  policy back, with every binding, member and condition in its place.\<close>
theorem policy_json_roundtrip: "unmarshal_policy (marshal_policy pol) = Inr pol"
  by (rule policy_json_unmarshal)

section \<open>The meaning of a decision\<close>

definition bindings_at :: "policy_store \<Rightarrow> string \<Rightarrow> Binding list" where
  "bindings_at policies resource =
     (case policies resource of
        Inr (Some raw) \<Rightarrow> (case unmarshal_policy raw of Inr pol \<Rightarrow> Bindings pol | Inl _ \<Rightarrow> [])
      | _ \<Rightarrow> [])"

definition justifies ::
  "runtime \<Rightarrow> Evaluator \<Rightarrow> (string list \<Rightarrow> bool) \<Rightarrow> string \<Rightarrow> Binding \<Rightarrow> bool" where
  "justifies rt e matches permission b \<longleftrightarrow>
     matches (Members b) \<and> conditionAllows rt e b \<and> roleGrants (Roles e) (Role b) permission = Inr True"

definition granted ::
  "runtime \<Rightarrow> Evaluator \<Rightarrow> policy_store \<Rightarrow> (string list \<Rightarrow> bool) \<Rightarrow> string \<Rightarrow> string list \<Rightarrow> bool" where
  "granted rt e policies matches permission chain \<longleftrightarrow>
     (\<exists>resource\<in>set chain. \<exists>b\<in>set (bindings_at policies resource). justifies rt e matches permission b)"

text \<open>The lookups on a resource answer: no error, and what is found is a policy; and the role lookups
  of its bindings answer.\<close>

definition answers :: "Evaluator \<Rightarrow> policy_store \<Rightarrow> string \<Rightarrow> string \<Rightarrow> bool" where
  "answers e policies permission resource \<longleftrightarrow>
     (case policies resource of
        Inl _ \<Rightarrow> False
      | Inr None \<Rightarrow> True
      | Inr (Some raw) \<Rightarrow>
          (case unmarshal_policy raw of
             Inl _ \<Rightarrow> False
           | Inr pol \<Rightarrow> list_all (\<lambda>b. \<not> isl (roleGrants (Roles e) (Role b) permission)) (Bindings pol)))"

lemma bindingGrants_True:
  "bindingGrants rt e matches permission b = Inr True \<longleftrightarrow> justifies rt e matches permission b"
  by (auto simp: bindingGrants_def justifies_def)

lemma bindingGrants_answer:
  "\<not> isl (roleGrants (Roles e) (Role b) permission) \<Longrightarrow>
     bindingGrants rt e matches permission b = Inr (justifies rt e matches permission b)"
  by (cases "roleGrants (Roles e) (Role b) permission") (simp_all add: bindingGrants_def justifies_def)

lemma policy_lookup:
  obtains (failed) err where "policies resource = Inl err"
  | (absent) "policies resource = Inr None"
  | (unreadable) raw err where "policies resource = Inr (Some raw)" "unmarshal_policy raw = Inl err"
  | (policy) raw pol where "policies resource = Inr (Some raw)" "unmarshal_policy raw = Inr pol"
proof (cases "policies resource")
  case (Inr found)
  then show ?thesis
  proof (cases found)
    case (Some raw)
    with Inr that(3,4) show ?thesis by (cases "unmarshal_policy raw") auto
  qed (use that(2) in auto)
qed (use that(1) in auto)

text \<open>The two evaluation loops over one resource, in one form.\<close>

definition evaluateBindings ::
  "runtime \<Rightarrow> Evaluator \<Rightarrow> policy_store \<Rightarrow> (string list \<Rightarrow> bool) \<Rightarrow> string \<Rightarrow> string \<Rightarrow> error + bool" where
  "evaluateBindings rt e policies matches permission resource =
     bindE (policies resource) (\<lambda>found.
       case found of
         None \<Rightarrow> Inr False
       | Some raw \<Rightarrow>
           (case unmarshal_policy raw of
              Inl err \<Rightarrow> Inl (Wrap (''parse iam policy for '' @ resource) err)
            | Inr pol \<Rightarrow> anyE (bindingGrants rt e matches permission) (Bindings pol)))"

lemma evaluateOnResource_bindings:
  "evaluateOnResource rt e policies email permission resource =
     evaluateBindings rt e policies (\<lambda>ms. memberIn ms (memberIdentity email)) permission resource"
  unfolding evaluateOnResource_def evaluateBindings_def Let_def ..

lemma evaluateExactMember_bindings:
  "evaluateExactMemberOnResource rt e policies member permission resource =
     evaluateBindings rt e policies (\<lambda>ms. exactMemberIn ms member) permission resource"
  by (simp add: evaluateExactMemberOnResource_def evaluateBindings_def)

lemma evaluateBindings_True:
  assumes "evaluateBindings rt e policies matches permission resource = Inr True"
  shows "\<exists>b\<in>set (bindings_at policies resource). justifies rt e matches permission b"
  using assms
  by (cases policies resource rule: policy_lookup)
     (auto simp: evaluateBindings_def bindings_at_def bindingGrants_True dest!: anyE_TrueD)

lemma evaluateBindings_answer:
  assumes "answers e policies permission resource"
  shows "evaluateBindings rt e policies matches permission resource =
     Inr (\<exists>b\<in>set (bindings_at policies resource). justifies rt e matches permission b)"
proof -
  have list: "anyE (bindingGrants rt e matches permission) (Bindings pol) =
      Inr (\<exists>b\<in>set (Bindings pol). justifies rt e matches permission b)"
    if "list_all (\<lambda>b. \<not> isl (roleGrants (Roles e) (Role b) permission)) (Bindings pol)" for pol
    using that by (intro anyE_no_error bindingGrants_answer) (auto simp: list_all_iff)
  show ?thesis
    by (cases policies resource rule: policy_lookup)
       (use assms in \<open>simp_all add: evaluateBindings_def bindings_at_def answers_def list\<close>)
qed

lemma chain_granted:
  assumes "anyE (evaluateBindings rt e policies matches permission) chain = Inr True"
  shows "granted rt e policies matches permission chain"
  using anyE_TrueD [OF assms] evaluateBindings_True unfolding granted_def by blast

lemma chain_answer:
  assumes "list_all (answers e policies permission) chain"
  shows "anyE (evaluateBindings rt e policies matches permission) chain =
     Inr (granted rt e policies matches permission chain)"
  unfolding granted_def
  by (rule anyE_no_error) (use assms in \<open>auto simp: list_all_iff evaluateBindings_answer\<close>)

lemma evaluateOnResource_eq:
  "evaluateOnResource rt e policies email permission =
     evaluateBindings rt e policies (\<lambda>ms. memberIn ms (memberIdentity email)) permission"
  by (rule ext) (rule evaluateOnResource_bindings)

lemma evaluateExactMember_eq:
  "evaluateExactMemberOnResource rt e policies member permission =
     evaluateBindings rt e policies (\<lambda>ms. exactMemberIn ms member) permission"
  by (rule ext) (rule evaluateExactMember_bindings)

lemma Evaluate_True_iff:
  "Evaluate rt recv email False permission resource = Inr True \<longleftrightarrow>
     (\<exists>e policies chain. recv = Some e \<and> Policies e = Some policies \<and>
        email \<noteq> [] \<and> permission \<noteq> [] \<and> resource \<noteq> [] \<and> policyChain e resource = Inr chain \<and>
        anyE (evaluateBindings rt e policies (\<lambda>ms. memberIn ms (memberIdentity email)) permission) chain
          = Inr True)"
  by (auto simp: Evaluate_def evaluateOnResource_eq bindE_eq_Inr split: option.splits)

lemma EvaluateAllUsers_True_iff:
  "EvaluateAllUsers rt recv permission resource = Inr True \<longleftrightarrow>
     (\<exists>e policies chain. recv = Some e \<and> Policies e = Some policies \<and>
        permission \<noteq> [] \<and> resource \<noteq> [] \<and> policyChain e resource = Inr chain \<and>
        anyE (evaluateBindings rt e policies (\<lambda>ms. exactMemberIn ms ''allUsers'') permission) chain
          = Inr True)"
  by (auto simp: EvaluateAllUsers_def evaluateExactMember_eq bindE_eq_Inr split: option.splits)

section \<open>The resource chain\<close>

fun crm_path :: "crm_parent_store \<Rightarrow> string \<Rightarrow> string list \<Rightarrow> bool" where
  "crm_path parent_of cur [] = True"
| "crm_path parent_of cur (a # as) = (parent_of cur = Inr (Some a) \<and> crm_path parent_of a as)"

lemma crm_walk_shape:
  assumes "crm_walk parent_of depth cur seen out = Inr chain"
    and "distinct out" and "set out \<subseteq> set seen"
  shows "\<exists>anc. chain = out @ anc \<and> distinct chain \<and> length anc \<le> depth \<and> crm_path parent_of cur anc
    \<and> set anc \<inter> set seen = {}"
  using assms
proof (induction parent_of depth cur seen out arbitrary: chain rule: crm_walk.induct)
  case (1 parent_of cur seen out)
  then show ?case by auto
next
  case (2 parent_of depth cur seen out)
  show ?case
  proof (cases "\<exists>p. parent_of cur = Inr (Some p) \<and> p \<noteq> [] \<and> p \<notin> set seen")
    case False
    with "2.prems" have "chain = out"
      by (auto split: sum.splits option.splits if_splits)
    with "2.prems" show ?thesis by auto
  next
    case True
    then obtain p where p: "parent_of cur = Inr (Some p)" "p \<noteq> []" "p \<notin> set seen" by blast
    show ?thesis
    proof (cases "HasPrefix p ''organizations/''")
      case True
      with p "2.prems" have "chain = out @ [p]" by simp
      with p "2.prems" show ?thesis by auto
    next
      case False
      with p "2.prems" have "crm_walk parent_of depth p (p # seen) (out @ [p]) = Inr chain"
        by simp
      with "2.IH" [OF p(1) refl p(2,3) False] p "2.prems" obtain anc where
        "chain = (out @ [p]) @ anc" "distinct chain" "length anc \<le> depth" "crm_path parent_of p anc"
        "set anc \<inter> set (p # seen) = {}" by fastforce
      with p show ?thesis by (intro exI [of _ "p # anc"]) auto
    qed
  qed
qed

lemma resourcePolicyChain_cases:
  obtains "resourcePolicyChain resource = [resource]"
  | parent where "resourcePolicyChain resource = [resource, parent]" "parent \<noteq> resource"
proof -
  have "resourcePolicyChain resource = [resource] \<or>
      (\<exists>parent. resourcePolicyChain resource = [resource, parent] \<and> parent \<noteq> resource)"
    by (simp add: resourcePolicyChain_def Let_def split: option.split)
  with that show ?thesis by blast
qed

lemma policyChain_Inr:
  assumes "policyChain e resource = Inr chain"
  shows "chain = resourcePolicyChain resource \<or>
    (\<exists>parent_of anchor anc. Parents e = Some parent_of \<and>
       find isCRMHierarchyResource (rev (resourcePolicyChain resource)) = Some anchor \<and>
       chain = resourcePolicyChain resource @ anc \<and> distinct chain \<and>
       length anc \<le> crmAncestryMaxDepth \<and> crm_path parent_of anchor anc)"
proof -
  have d: "distinct (resourcePolicyChain resource)"
    by (cases resource rule: resourcePolicyChain_cases) simp_all
  show ?thesis
  proof (cases "Parents e")
    case None
    with assms show ?thesis by (simp add: policyChain_def)
  next
    case (Some parent_of)
    show ?thesis
    proof (cases "find isCRMHierarchyResource (rev (resourcePolicyChain resource))")
      case None
      with Some assms show ?thesis by (simp add: policyChain_def)
    next
      case (Some anchor)
      with \<open>Parents e = Some parent_of\<close> assms
      have "crm_walk parent_of crmAncestryMaxDepth anchor (resourcePolicyChain resource)
          (resourcePolicyChain resource) = Inr chain"
        by (simp add: policyChain_def Let_def)
      from crm_walk_shape [OF this d subset_refl] Some \<open>Parents e = Some parent_of\<close>
      show ?thesis by blast
    qed
  qed
qed

lemma Contains_char: "Contains s [c] \<longleftrightarrow> c \<in> set s"
  by (auto simp: Contains_def sublist_def in_set_conv_decomp)

lemma hierarchy_project:
  assumes "p \<noteq> []" "CHR ''/'' \<notin> set p"
  shows "isCRMHierarchyResource (''projects/'' @ p)"
proof -
  define q where "q = ''projects/''"
  from assms show ?thesis
    unfolding isCRMHierarchyResource_def q_def [symmetric] by (simp add: Contains_char)
qed

lemma chain_nested:
  assumes "p \<noteq> []" "CHR ''/'' \<notin> set p"
  shows "resourcePolicyChain (''projects/'' @ p @ CHR ''/'' # rest) =
     [''projects/'' @ p @ CHR ''/'' # rest, ''projects/'' @ p]"
proof -
  define q where "q = ''projects/''"
  from assms show ?thesis
    unfolding resourcePolicyChain_def q_def [symmetric]
    by (simp add: IndexByte_append)
qed

lemma chain_project:
  assumes "CHR ''/'' \<notin> set p"
  shows "resourcePolicyChain (''projects/'' @ p) = [''projects/'' @ p]"
proof -
  define q where "q = ''projects/''"
  from assms have "IndexByte p (CHR ''/'') = None" by (simp add: IndexByte_None)
  then show ?thesis
    unfolding resourcePolicyChain_def q_def [symmetric] by simp
qed

lemma crm_walk_frame:
  assumes "\<And>cur. parent_of cur \<noteq> Inr (Some x)" and "set seen' = insert x (set seen)"
  shows "crm_walk parent_of depth cur seen' (x # out) =
     bindE (crm_walk parent_of depth cur seen out) (\<lambda>chain. Inr (x # chain))"
  using assms
proof (induction parent_of depth cur seen out arbitrary: seen' rule: crm_walk.induct)
  case (2 parent_of' depth cur seen out)
  show ?case
  proof (cases "\<exists>p. parent_of' cur = Inr (Some p) \<and> p \<noteq> [] \<and> p \<notin> set seen \<and>
      \<not> HasPrefix p ''organizations/''")
    case True
    then obtain p where p: "parent_of' cur = Inr (Some p)" "p \<noteq> []" "p \<notin> set seen"
      "\<not> HasPrefix p ''organizations/''" by blast
    then have "p \<notin> set seen'" using "2.prems" by auto
    with p "2.IH" [OF p(1) refl p(2,3,4), of "p # seen'"] "2.prems" show ?thesis
      by (simp add: insert_commute)
  next
    case False
    have "p \<noteq> x" if "parent_of' cur = Inr (Some p)" for p using "2.prems"(1) that by auto
    with False "2.prems"(2) show ?thesis
      by (auto split: sum.splits option.splits)
  qed
qed simp

lemma policyChain_nested:
  assumes "p \<noteq> []" "CHR ''/'' \<notin> set p"
    and "\<And>parent_of cur. Parents e = Some parent_of \<Longrightarrow>
      parent_of cur \<noteq> Inr (Some (''projects/'' @ p @ CHR ''/'' # rest))"
  shows "policyChain e (''projects/'' @ p @ CHR ''/'' # rest) =
     bindE (policyChain e (''projects/'' @ p))
       (\<lambda>chain. Inr ((''projects/'' @ p @ CHR ''/'' # rest) # chain))"
proof -
  define nested project where "nested = ''projects/'' @ p @ CHR ''/'' # rest"
    and "project = ''projects/'' @ p"
  have chains: "resourcePolicyChain nested = [nested, project]" "resourcePolicyChain project = [project]"
    and "isCRMHierarchyResource project"
    using chain_nested [OF assms(1,2)] chain_project [OF assms(2)] hierarchy_project [OF assms(1,2)]
    by (simp_all only: nested_def project_def)
  moreover have "crm_walk parent_of d project [nested, project] [nested, project] =
      bindE (crm_walk parent_of d project [project] [project]) (\<lambda>chain. Inr (nested # chain))"
    if "Parents e = Some parent_of" for parent_of d
    by (rule crm_walk_frame) (use assms(3) [OF that] in \<open>simp_all add: nested_def\<close>)
  ultimately have "policyChain e nested = bindE (policyChain e project) (\<lambda>chain. Inr (nested # chain))"
    by (cases "Parents e") (simp_all add: policyChain_def Let_def)
  then show ?thesis by (simp only: nested_def project_def)
qed

section \<open>Members\<close>

lemma memberIn_loop_iff:
  "memberIn_loop toolkit want ms \<longleftrightarrow>
     want \<in> set ms \<or> \<not> toolkit \<and> (''allUsers'' \<in> set ms \<or> ''allAuthenticatedUsers'' \<in> set ms)"
  by (induction ms) auto

lemma memberIn_iff:
  "memberIn ms want \<longleftrightarrow> want \<in> set ms \<or>
     \<not> HasPrefix want ''user:'' \<and> (''allUsers'' \<in> set ms \<or> ''allAuthenticatedUsers'' \<in> set ms)"
  by (simp add: memberIn_def memberIn_loop_iff)

lemma memberIdentity_user: "HasPrefix (memberIdentity (''user:'' @ x)) ''user:''"
proof -
  have "HasPrefix (TrimSpace (''user:'' @ x)) ''user:''"
    by (rule TrimSpace_keeps_prefix [where c = "CHR ''u''" and q = "''ser''" and d = "CHR '':''"])
       (simp_all add: plain_char_def)
  moreover from this have "Contains (TrimSpace (''user:'' @ x)) '':''"
    by (elim HasPrefixE) (simp add: Contains_char)
  ultimately show ?thesis by (simp add: memberIdentity_def Let_def)
qed

lemma justifies_mono:
  "justifies rt e f permission b \<Longrightarrow> (f (Members b) \<Longrightarrow> g (Members b)) \<Longrightarrow> justifies rt e g permission b"
  by (simp add: justifies_def)

lemma granted_mono:
  "granted rt e policies f permission chain \<Longrightarrow> (\<And>ms. f ms \<Longrightarrow> g ms) \<Longrightarrow>
     granted rt e policies g permission chain"
  unfolding granted_def by (meson justifies_mono)

section \<open>An example\<close>

text \<open>Project \<open>p1\<close> in folder \<open>f1\<close> of organization \<open>o1\<close>: a viewer by name on the project, public
  object readers on the folder.\<close>

definition example_runtime :: runtime where
  "example_runtime = \<lparr>cel = (\<lambda>_ _. CelError), wall_clock = 0\<rparr>"

definition example_binding :: "string \<Rightarrow> string \<Rightarrow> Binding" where
  "example_binding role m = \<lparr>Role = role, Members = [m], Condition = None\<rparr>"

definition example_policies :: policy_store where
  "example_policies resource =
     (if resource = ''projects/p1'' then Inr (Some (marshal_policy
        \<lparr>Bindings = [example_binding ''roles/viewer'' ''serviceAccount:ci@p1''], Etag = ''ACAB''\<rparr>))
      else if resource = ''folders/f1'' then Inr (Some (marshal_policy
        \<lparr>Bindings = [example_binding ''roles/storage.objectViewer'' ''allUsers''], Etag = ''ACAB''\<rparr>))
      else if resource = ''projects/broken'' then Inr (Some (Malformed ''{''))
      else Inr None)"

definition example_parents :: crm_parent_store where
  "example_parents resource =
     (if resource = ''projects/p1'' then Inr (Some ''folders/f1'')
      else if resource = ''folders/f1'' then Inr (Some ''organizations/o1'')
      else Inr None)"

definition example_evaluator :: Evaluator where
  "example_evaluator = \<lparr>Policies = Some example_policies, Roles = None, Parents = Some example_parents,
     Now = None\<rparr>"

lemma example_chain:
  "policyChain example_evaluator ''projects/p1/topics/t'' =
     Inr [''projects/p1/topics/t'', ''projects/p1'', ''folders/f1'', ''organizations/o1'']"
  by (simp add: policyChain_def example_evaluator_def example_parents_def resourcePolicyChain_def
      isCRMHierarchyResource_def crmAncestryMaxDepth_def numeral_eq_Suc TrimPrefix_def go_simps Let_def)

lemma example_bindings:
  "bindings_at example_policies resource =
     (if resource = ''projects/p1'' then [example_binding ''roles/viewer'' ''serviceAccount:ci@p1'']
      else if resource = ''folders/f1'' then [example_binding ''roles/storage.objectViewer'' ''allUsers'']
      else [])"
  by (simp add: bindings_at_def example_policies_def policy_json_unmarshal unmarshal_malformed)

section \<open>Properties\<close>

lemma example_answers: "answers example_evaluator example_policies ''pubsub.topics.get'' resource"
  if "resource \<noteq> ''projects/broken''" for resource
  using that
  by (simp add: answers_def example_policies_def policy_json_unmarshal example_binding_def
      example_evaluator_def roleGrants_builtin isCustomRoleName_def go_simps split: option.split)

lemma example_viewer: "viewerGrants ''pubsub.topics.get''"
  by (simp add: viewerGrants_def go_simps)

lemma example_member: "memberIdentity ''ci@p1'' = ''serviceAccount:ci@p1''"
proof -
  have "TrimSpace ''ci@p1'' = ''ci@p1''"
    by (rule TrimSpace_plain_ends) (simp add: plain_char_def)
  then show ?thesis by (simp add: memberIdentity_def go_simps)
qed

lemma example_granted:
  "granted example_runtime example_evaluator example_policies (\<lambda>ms. memberIn ms ''serviceAccount:ci@p1'')
     ''pubsub.topics.get''
     [''projects/p1/topics/t'', ''projects/p1'', ''folders/f1'', ''organizations/o1'']"
  by (simp add: granted_def example_bindings justifies_def example_viewer example_binding_def
      memberIn_def conditionAllows_def)

lemma Evaluate_answers:
  assumes "Policies e = Some policies" and "policyChain e resource = Inr chain"
    and "list_all (answers e policies permission) chain"
  shows "Evaluate rt (Some e) email isRoot permission resource =
    Inr (isRoot \<or> email \<noteq> [] \<and> permission \<noteq> [] \<and> resource \<noteq> [] \<and>
      granted rt e policies (\<lambda>ms. memberIn ms (memberIdentity email)) permission chain)"
  using assms by (simp add: Evaluate_def evaluateOnResource_eq chain_answer)

lemma example_policy_store: "Policies example_evaluator = Some example_policies"
  by (simp add: example_evaluator_def)

lemma example_Evaluate:
  "Evaluate example_runtime (Some example_evaluator) ''ci@p1'' False ''pubsub.topics.get''
     ''projects/p1/topics/t'' = Inr True"
  using Evaluate_answers [OF example_policy_store example_chain, of "''pubsub.topics.get''"]
  by (simp add: example_answers example_granted example_member)

text \<open>C2. Every grant is justified: when \<open>Evaluate\<close> allows a caller that is not root, the evaluator and its
  policy store are there, and some binding in the policy of the resource or of one of the resources of its
  chain names the caller, has a condition that holds and a role that grants the permission. Errors, a nil
  evaluator, unreadable policies and roles never allow.\<close>
theorem Evaluate_justified:
  assumes "Evaluate rt recv email False permission resource = Inr True"
  shows "\<exists>e policies chain. recv = Some e \<and> Policies e = Some policies \<and>
    policyChain e resource = Inr chain \<and>
    granted rt e policies (\<lambda>ms. memberIn ms (memberIdentity email)) permission chain"
  using assms chain_granted unfolding Evaluate_True_iff by blast

theorem Evaluate_justified_witness:
  "\<exists>policies chain. Policies example_evaluator = Some policies \<and>
    policyChain example_evaluator ''projects/p1/topics/t'' = Inr chain \<and>
    granted example_runtime example_evaluator policies
      (\<lambda>ms. memberIn ms (memberIdentity ''ci@p1'')) ''pubsub.topics.get'' chain"
  using Evaluate_justified [OF example_Evaluate] by auto

text \<open>C1. The evaluator implements its specification: when the chain can be computed and the lookups on
  its resources answer, \<open>Evaluate\<close> returns without error exactly \<open>granted\<close>, the existence of a
  justifying binding somewhere in the chain (or true for root, false for an empty argument); the order of
  the resources and of the bindings does not matter.\<close>
theorem Evaluate_refines_granted:
  assumes "Policies e = Some policies" and "policyChain e resource = Inr chain"
    and "list_all (answers e policies permission) chain"
  shows "Evaluate rt (Some e) email isRoot permission resource =
    Inr (isRoot \<or> email \<noteq> [] \<and> permission \<noteq> [] \<and> resource \<noteq> [] \<and>
      granted rt e policies (\<lambda>ms. memberIn ms (memberIdentity email)) permission chain)"
  by (rule Evaluate_answers [OF assms])

theorem Evaluate_refines_granted_witness:
  "Evaluate example_runtime (Some example_evaluator) ''ci@p1'' False ''pubsub.topics.get''
     ''projects/p1/topics/t'' = Inr True"
  using Evaluate_refines_granted [OF example_policy_store example_chain, of "''pubsub.topics.get''"]
  by (simp add: example_answers example_granted example_member)

text \<open>C34. The chain of resources is well formed, whatever the parent store answers (cycles included): it
  starts at the resource, has no repetition and at most 34 members, the resource, its project and the 32
  ancestors of \<open>crmAncestryMaxDepth\<close>.\<close>
theorem policyChain_shape:
  assumes "policyChain e resource = Inr chain"
  shows "hd chain = resource \<and> distinct chain \<and> length chain \<le> 34"
  using policyChain_Inr [OF assms]
  by (cases resource rule: resourcePolicyChain_cases) (auto simp: crmAncestryMaxDepth_def)

theorem policyChain_shape_witness:
  "distinct [''projects/p1/topics/t'', ''projects/p1'', ''folders/f1'', ''organizations/o1'']"
  using policyChain_shape [OF example_chain] by blast

text \<open>Permissions are inherited from the project: a caller allowed on \<open>projects/p\<close> is allowed on every
  resource \<open>projects/p/...\<close> nested in it, as long as the lookups on the nested resource answer.\<close>
theorem project_inheritance:
  assumes "Evaluate rt (Some e) email isRoot permission (''projects/'' @ p) = Inr True"
    and "p \<noteq> []" and "CHR ''/'' \<notin> set p"
    and "\<And>policies. Policies e = Some policies \<Longrightarrow>
      answers e policies permission (''projects/'' @ p @ CHR ''/'' # rest)"
    and "\<And>parent_of cur. Parents e = Some parent_of \<Longrightarrow>
      parent_of cur \<noteq> Inr (Some (''projects/'' @ p @ CHR ''/'' # rest))"
  shows "Evaluate rt (Some e) email isRoot permission (''projects/'' @ p @ CHR ''/'' # rest) = Inr True"
proof (cases isRoot)
  case False
  with assms(1) obtain policies chain where e: "Policies e = Some policies" "email \<noteq> []"
    "permission \<noteq> []" "policyChain e (''projects/'' @ p) = Inr chain"
    "anyE (evaluateBindings rt e policies (\<lambda>ms. memberIn ms (memberIdentity email)) permission) chain
      = Inr True"
    by (auto simp: Evaluate_True_iff)
  define nested where "nested = ''projects/'' @ p @ CHR ''/'' # rest"
  have "policyChain e nested = bindE (policyChain e (''projects/'' @ p)) (\<lambda>chain. Inr (nested # chain))"
    unfolding nested_def by (rule policyChain_nested) (fact assms)+
  moreover have "answers e policies permission nested"
    unfolding nested_def by (rule assms(4)) (rule e(1))
  moreover have "nested \<noteq> []" by (simp add: nested_def)
  ultimately have "Evaluate rt (Some e) email False permission nested = Inr True"
    unfolding Evaluate_True_iff using e by (simp add: evaluateBindings_answer)
  with False show ?thesis by (simp add: nested_def)
qed (simp add: Evaluate_def)

theorem project_inheritance_witness:
  "Evaluate example_runtime (Some example_evaluator) ''ci@p1'' False ''pubsub.topics.get''
     ''projects/p1/subscriptions/s'' = Inr True"
proof -
  have chain: "policyChain example_evaluator ''projects/p1'' =
      Inr [''projects/p1'', ''folders/f1'', ''organizations/o1'']"
    by (simp add: policyChain_def example_evaluator_def example_parents_def resourcePolicyChain_def
      isCRMHierarchyResource_def crmAncestryMaxDepth_def numeral_eq_Suc TrimPrefix_def go_simps Let_def)
  have g: "granted example_runtime example_evaluator example_policies
      (\<lambda>ms. memberIn ms ''serviceAccount:ci@p1'') ''pubsub.topics.get''
      [''projects/p1'', ''folders/f1'', ''organizations/o1'']"
    by (simp add: granted_def example_bindings justifies_def example_viewer example_binding_def
      memberIn_def conditionAllows_def)
  have pol: "Policies example_evaluator = Some example_policies"
    and par: "Parents example_evaluator = Some example_parents" by (simp_all add: example_evaluator_def)
  have "Evaluate example_runtime (Some example_evaluator) ''ci@p1'' False ''pubsub.topics.get''
     ''projects/p1'' = Inr True"
    using Evaluate_answers [OF pol chain, of "''pubsub.topics.get''"]
    by (simp add: example_answers g example_member)
  from project_inheritance [where p = "''p1''" and rest = "''subscriptions/s''", simplified, OF this]
  show ?thesis by (simp add: pol par example_answers example_parents_def)
qed

text \<open>Identity Toolkit users are matched by name only: when \<open>Evaluate\<close> allows a principal of the form
  \<open>user:...\<close>, the justifying binding lists that very member; \<open>allUsers\<close> and \<open>allAuthenticatedUsers\<close>
  do not make it pass.\<close>
theorem toolkit_user_needs_exact_binding:
  assumes "Evaluate rt (Some e) (''user:'' @ uid) False permission resource = Inr True"
  shows "\<exists>policies chain. Policies e = Some policies \<and> policyChain e resource = Inr chain \<and>
    granted rt e policies (\<lambda>ms. exactMemberIn ms (memberIdentity (''user:'' @ uid))) permission chain"
proof -
  from assms obtain policies chain where e: "Policies e = Some policies" "policyChain e resource = Inr chain"
    and "granted rt e policies (\<lambda>ms. memberIn ms (memberIdentity (''user:'' @ uid))) permission chain"
    using chain_granted unfolding Evaluate_True_iff by blast
  from this(3) have "granted rt e policies
      (\<lambda>ms. exactMemberIn ms (memberIdentity (''user:'' @ uid))) permission chain"
    unfolding memberIn_iff exactMemberIn_def using memberIdentity_user by (blast intro: granted_mono)
  with e show ?thesis by blast
qed

text \<open>A Toolkit user bound by name on the project.\<close>

definition toolkit_evaluator :: Evaluator where
  "toolkit_evaluator = \<lparr>Policies = Some (\<lambda>resource. Inr (if resource = ''projects/p1'' then
     Some (marshal_policy \<lparr>Bindings = [example_binding ''roles/viewer'' ''user:u1''], Etag = []\<rparr>)
     else None)), Roles = None, Parents = None, Now = None\<rparr>"

lemma toolkit_member: "memberIdentity ''user:u1'' = ''user:u1''"
proof -
  have "TrimSpace ''user:u1'' = ''user:u1''"
    by (rule TrimSpace_plain_ends) (simp add: plain_char_def)
  then show ?thesis by (simp add: memberIdentity_def go_simps)
qed

lemma toolkit_allowed:
  "Evaluate rt (Some toolkit_evaluator) ''user:u1'' False ''pubsub.topics.get'' ''projects/p1'' = Inr True"
  by (simp add: Evaluate_def toolkit_evaluator_def policyChain_def resourcePolicyChain_def go_simps
      TrimPrefix_def evaluateOnResource_eq evaluateBindings_def policy_json_unmarshal bindingGrants_def
      example_binding_def memberIn_def toolkit_member conditionAllows_def example_viewer)

theorem toolkit_user_needs_exact_binding_witness:
  "\<exists>policies chain. Policies toolkit_evaluator = Some policies \<and>
    policyChain toolkit_evaluator ''projects/p1'' = Inr chain \<and>
    granted example_runtime toolkit_evaluator policies
      (\<lambda>ms. exactMemberIn ms (memberIdentity ''user:u1'')) ''pubsub.topics.get'' chain"
  using toolkit_user_needs_exact_binding [of example_runtime toolkit_evaluator "''u1''"
      "''pubsub.topics.get''" "''projects/p1''"] toolkit_allowed by simp

text \<open>Anonymous access needs \<open>allUsers\<close> by name: when \<open>AllowPrincipalOrAllUsers\<close> lets a request
  without a principal through, a binding that lists \<open>allUsers\<close> itself justifies it on the chain of one of
  the resources; \<open>allAuthenticatedUsers\<close> does not open a resource to the public, and neither the
  email nor the root flag of the missing principal matters.\<close>
theorem anonymous_needs_allUsers:
  assumes "AllowPrincipalOrAllUsers rt recv email isRoot False permission resources = Inr True"
  shows "\<exists>e policies resource chain. recv = Some e \<and> Policies e = Some policies \<and>
    resource \<in> set resources \<and> resource \<noteq> [] \<and> policyChain e resource = Inr chain \<and>
    granted rt e policies (\<lambda>ms. exactMemberIn ms ''allUsers'') permission chain"
proof -
  from assms obtain resource where "resource \<in> set resources" "resource \<noteq> []"
    "EvaluateAllUsers rt recv permission resource = Inr True"
    by (auto simp: AllowPrincipalOrAllUsers_def EvaluateAllUsersAny_def split: option.splits if_splits
        dest!: anyE_TrueD)
  with chain_granted show ?thesis unfolding EvaluateAllUsers_True_iff by blast
qed

lemma example_public_role:
  "roleGrants roles ''roles/storage.objectViewer'' ''storage.objects.get'' = Inr True"
  "roleGrants roles ''roles/viewer'' ''storage.objects.get'' = Inr True"
  by (simp_all add: roleGrants_builtin isCustomRoleName_def basic_role_cases_def predefined_cases_def
      catalogue_tables switch_case_append permission_sets viewerGrants_def go_simps)

lemma example_public:
  "EvaluateAllUsers rt (Some example_evaluator) ''storage.objects.get'' ''projects/p1/topics/t'' = Inr True"
  by (simp add: EvaluateAllUsers_def example_policy_store example_chain evaluateExactMember_eq
      evaluateBindings_def example_policies_def policy_json_unmarshal bindingGrants_def
      example_binding_def exactMemberIn_def conditionAllows_def example_public_role)

theorem anonymous_needs_allUsers_witness:
  "\<exists>policies resource chain. Policies example_evaluator = Some policies \<and>
    resource \<in> {''projects/p1/topics/t''} \<and> policyChain example_evaluator resource = Inr chain \<and>
    granted example_runtime example_evaluator policies
      (\<lambda>ms. exactMemberIn ms ''allUsers'') ''storage.objects.get'' chain"
  using anonymous_needs_allUsers [of example_runtime "Some example_evaluator" "[]" True
      "''storage.objects.get''" "[''projects/p1/topics/t'']"]
  by (auto simp: AllowPrincipalOrAllUsers_def EvaluateAllUsersAny_def example_public)

text \<open>What is public is open to every service account and user: if \<open>allUsers\<close> is granted a permission on a
  resource, \<open>Evaluate\<close> allows every named principal that is not an Identity Toolkit user.\<close>
theorem public_grants_every_principal:
  assumes "EvaluateAllUsers rt (Some e) permission resource = Inr True"
    and "email \<noteq> []" and "\<not> HasPrefix (memberIdentity email) ''user:''"
    and "\<And>policies chain. Policies e = Some policies \<Longrightarrow> policyChain e resource = Inr chain \<Longrightarrow>
      list_all (answers e policies permission) chain"
  shows "Evaluate rt (Some e) email isRoot permission resource = Inr True"
proof -
  from assms(1) obtain policies chain where e: "Policies e = Some policies"
    "policyChain e resource = Inr chain" "permission \<noteq> []" "resource \<noteq> []"
    and "granted rt e policies (\<lambda>ms. exactMemberIn ms ''allUsers'') permission chain"
    using chain_granted unfolding EvaluateAllUsers_True_iff by blast
  from this(5) have "granted rt e policies (\<lambda>ms. memberIn ms (memberIdentity email)) permission chain"
    by (rule granted_mono) (simp add: memberIn_iff exactMemberIn_def assms(3))
  with Evaluate_answers [OF e(1,2) assms(4) [OF e(1,2)]] e(3,4) assms(2) show ?thesis by simp
qed

lemma example_answers_objects:
  "resource \<noteq> ''projects/broken'' \<Longrightarrow>
     answers example_evaluator example_policies ''storage.objects.get'' resource"
  by (simp add: answers_def example_policies_def policy_json_unmarshal example_binding_def
      example_public_role split: option.split)

theorem public_grants_every_principal_witness:
  "Evaluate example_runtime (Some example_evaluator) ''ci@p1'' False ''storage.objects.get''
     ''projects/p1/topics/t'' = Inr True"
  by (rule public_grants_every_principal [OF example_public])
     (auto simp: example_member go_simps example_policy_store example_chain example_answers_objects)

lemma filterE_filter: "filterE f xs = Inr ys \<Longrightarrow> ys = filter (\<lambda>x. f x = Inr True) xs"
  by (induction xs arbitrary: ys) (auto simp: bindE_eq_Inr)

lemma filterE_error: "isl (filterE f xs) \<longleftrightarrow> (\<exists>x\<in>set xs. isl (f x))"
  by (induction xs) (auto simp: bindE_def split: sum.splits)

text \<open>\<open>TestIamPermissions\<close> agrees with \<open>Evaluate\<close>: it fails exactly when one of the
  evaluations fails, and otherwise returns, in the order asked, the permissions \<open>Evaluate\<close> allows.\<close>
theorem TestIamPermissions_is_filter:
  "TestIamPermissions rt recv email isRoot resource permissions =
     (case find (\<lambda>p. isl (Evaluate rt recv email isRoot p resource)) permissions of
        Some p \<Rightarrow> Inl (projl (Evaluate rt recv email isRoot p resource))
      | None \<Rightarrow> Inr (filter (\<lambda>p. Evaluate rt recv email isRoot p resource = Inr True) permissions))"
  unfolding TestIamPermissions_def
proof (induction permissions)
  case (Cons p ps)
  then show ?case
    by (cases "Evaluate rt recv email isRoot p resource") (auto split: option.splits)
qed simp

text \<open>An unreadable policy is not skipped: when the policy stored for the resource itself is not a
  policy document, \<open>Evaluate\<close> stops with an error, although an ancestor might have granted the
  permission.\<close>
theorem unreadable_policy_stops:
  assumes "Policies e = Some policies" and "policies resource = Inr (Some raw)"
    and "unmarshal_policy raw = Inl err" and "policyChain e resource = Inr chain"
    and "email \<noteq> []" "permission \<noteq> []" "resource \<noteq> []"
  shows "Evaluate rt (Some e) email False permission resource =
    Inl (Wrap (''parse iam policy for '' @ resource) err)"
proof -
  from policyChain_Inr [OF assms(4)] obtain rest where "chain = resource # rest"
    by (cases resource rule: resourcePolicyChain_cases) auto
  with assms show ?thesis
    by (simp add: Evaluate_def evaluateOnResource_eq evaluateBindings_def)
qed

theorem unreadable_policy_stops_witness:
  "isl (Evaluate example_runtime (Some example_evaluator) ''ci@p1'' False ''pubsub.topics.get''
     ''projects/broken'')"
proof -
  have "policyChain example_evaluator ''projects/broken'' = Inr [''projects/broken'']"
    by (simp add: policyChain_def example_evaluator_def example_parents_def resourcePolicyChain_def
      isCRMHierarchyResource_def crmAncestryMaxDepth_def numeral_eq_Suc TrimPrefix_def go_simps Let_def)
  then show ?thesis
    by (simp add: unreadable_policy_stops [OF example_policy_store _ unmarshal_malformed]
        example_policies_def)
qed

end
