(* ===== verification/Sql_Monad.thy ===== *)
theory Sql_Monad
  imports Go_Base
begin

text \<open>
  The database under \<^verbatim>\<open>internal/store\<close>: SQLite tables and the statements the code runs on them.

  A table is the list of its rows in insertion order. A store operation is an \<open>action\<close> on a
  connection, which holds the tables and the schedule of the statements that will fail: each
  \<open>Exec\<close>, \<open>Query\<close>, \<open>Begin\<close> and \<open>Commit\<close> takes the head of \<open>faults\<close>, \<open>None\<close> (or an empty schedule)
  when it succeeds, otherwise the error it returns. So every \<open>if err != nil\<close> of the code is a branch
  of the model. A transaction restores the tables when it does not commit. A statement that changes
  rows returns how many it changed (\<open>RowsAffected\<close>).

  \<open>preserves I m\<close> says that the action \<open>m\<close> keeps the invariant \<open>I\<close> of the tables whatever fails; its
  rules (\<open>preserves_intros\<close>) follow the structure of an action.
\<close>

named_theorems preserves_intros \<open>composition rules for invariants of actions\<close>

record 'db connection =
  tables :: 'db
  faults :: "error option list"

type_synonym ('db, 'a) action = "'db connection \<Rightarrow> (error + 'a) \<times> 'db connection"

definition returnM :: "'a \<Rightarrow> ('db, 'a) action" where
  "returnM x s = (Inr x, s)"

definition raiseM :: "error \<Rightarrow> ('db, 'a) action" where
  "raiseM e s = (Inl e, s)"

definition bindM :: "('db, 'a) action \<Rightarrow> ('a \<Rightarrow> ('db, 'b) action) \<Rightarrow> ('db, 'b) action" where
  "bindM m f s = (case m s of (Inl e, s') \<Rightarrow> (Inl e, s') | (Inr x, s') \<Rightarrow> f x s')"

text \<open>The result of a function that may fail, as an action.\<close>

definition liftE :: "error + 'a \<Rightarrow> ('db, 'a) action" where
  "liftE r = (case r of Inl e \<Rightarrow> raiseM e | Inr x \<Rightarrow> returnM x)"

text \<open>Run \<open>m\<close> and continue with its result, error or value.\<close>

definition catchM :: "('db, 'a) action \<Rightarrow> (error + 'a \<Rightarrow> ('db, 'b) action) \<Rightarrow> ('db, 'b) action" where
  "catchM m f s = (case m s of (r, s') \<Rightarrow> f r s')"

text \<open>\<open>fmt.Errorf("...: %w", err)\<close> around the error of an action.\<close>

definition wrapM :: "string \<Rightarrow> ('db, 'a) action \<Rightarrow> ('db, 'a) action" where
  "wrapM msg m = catchM m (\<lambda>r. case r of Inl err \<Rightarrow> raiseM (Wrap msg err) | Inr x \<Rightarrow> returnM x)"

fun mapM_unit :: "('x \<Rightarrow> ('db, unit) action) \<Rightarrow> 'x list \<Rightarrow> ('db, unit) action" where
  "mapM_unit f [] = returnM ()"
| "mapM_unit f (x # xs) = bindM (f x) (\<lambda>_. mapM_unit f xs)"

fun mapM :: "('x \<Rightarrow> ('db, 'a) action) \<Rightarrow> 'x list \<Rightarrow> ('db, 'a list) action" where
  "mapM f [] = returnM []"
| "mapM f (x # xs) = bindM (f x) (\<lambda>y. bindM (mapM f xs) (\<lambda>ys. returnM (y # ys)))"

section \<open>Statements\<close>

definition next_fault :: "'db connection \<Rightarrow> error option \<times> 'db connection" where
  "next_fault s =
     (case faults s of [] \<Rightarrow> (None, s) | f # fs \<Rightarrow> (f, s\<lparr>faults := fs\<rparr>))"

definition query :: "('db \<Rightarrow> 'a) \<Rightarrow> ('db, 'a) action" where
  "query q s =
     (case next_fault s of
        (Some e, s') \<Rightarrow> (Inl e, s')
      | (None, s') \<Rightarrow> (Inr (q (tables s')), s'))"

definition exec :: "('db \<Rightarrow> error + nat \<times> 'db) \<Rightarrow> ('db, nat) action" where
  "exec u s =
     (case next_fault s of
        (Some e, s') \<Rightarrow> (Inl e, s')
      | (None, s') \<Rightarrow>
          (case u (tables s') of
             Inl e \<Rightarrow> (Inl e, s')
           | Inr (n, db) \<Rightarrow> (Inr n, s'\<lparr>tables := db\<rparr>)))"

definition transaction :: "('db, 'a) action \<Rightarrow> ('db, 'a) action" where
  "transaction m s =
     (case next_fault s of
        (Some e, s') \<Rightarrow> (Inl e, s')
      | (None, s') \<Rightarrow>
          (case m s' of
             (Inl e, s'') \<Rightarrow> (Inl e, s''\<lparr>tables := tables s\<rparr>)
           | (Inr x, s'') \<Rightarrow>
               (case next_fault s'' of
                  (Some e, s3) \<Rightarrow> (Inl e, s3\<lparr>tables := tables s\<rparr>)
                | (None, s3) \<Rightarrow> (Inr x, s3))))"

text \<open>A transaction whose body may return before the commit: the deferred \<open>Rollback\<close> then restores the tables.\<close>

definition transaction_option :: "('db, 'a option) action \<Rightarrow> ('db, 'a option) action" where
  "transaction_option m s =
     (case next_fault s of
        (Some e, s') \<Rightarrow> (Inl e, s')
      | (None, s') \<Rightarrow>
          (case m s' of
             (Inl e, s'') \<Rightarrow> (Inl e, s''\<lparr>tables := tables s\<rparr>)
           | (Inr None, s'') \<Rightarrow> (Inr None, s''\<lparr>tables := tables s\<rparr>)
           | (Inr (Some x), s'') \<Rightarrow>
               (case next_fault s'' of
                  (Some e, s3) \<Rightarrow> (Inl e, s3\<lparr>tables := tables s\<rparr>)
                | (None, s3) \<Rightarrow> (Inr (Some x), s3))))"

section \<open>Rows\<close>

definition unique_violation :: error where
  "unique_violation = SqlError ''UNIQUE constraint failed''"

definition insert_row :: "('r \<Rightarrow> 'r \<Rightarrow> bool) \<Rightarrow> 'r \<Rightarrow> 'r list \<Rightarrow> error + nat \<times> 'r list" where
  "insert_row clash r t =
     (if \<exists>r'\<in>set t. clash r' r then Inl unique_violation else Inr (1, t @ [r]))"

definition insert_or_ignore :: "('r \<Rightarrow> 'r \<Rightarrow> bool) \<Rightarrow> 'r \<Rightarrow> 'r list \<Rightarrow> nat \<times> 'r list" where
  "insert_or_ignore clash r t = (if \<exists>r'\<in>set t. clash r' r then (0, t) else (1, t @ [r]))"

definition insert_or_replace :: "('r \<Rightarrow> 'r \<Rightarrow> bool) \<Rightarrow> 'r \<Rightarrow> 'r list \<Rightarrow> nat \<times> 'r list" where
  "insert_or_replace clash r t = (1, filter (\<lambda>r'. \<not> clash r' r) t @ [r])"

text \<open>\<open>INSERT ... ON CONFLICT DO UPDATE\<close>, \<open>upd\<close> being the update of the conflicting row.\<close>

definition upsert :: "('r \<Rightarrow> 'r \<Rightarrow> bool) \<Rightarrow> ('r \<Rightarrow> 'r) \<Rightarrow> 'r \<Rightarrow> 'r list \<Rightarrow> nat \<times> 'r list" where
  "upsert clash upd r t =
     (1, if \<exists>r'\<in>set t. clash r' r then map (\<lambda>r'. if clash r' r then upd r' else r') t else t @ [r])"

definition update_rows :: "('r \<Rightarrow> bool) \<Rightarrow> ('r \<Rightarrow> 'r) \<Rightarrow> 'r list \<Rightarrow> nat \<times> 'r list" where
  "update_rows P f t = (length (filter P t), map (\<lambda>r. if P r then f r else r) t)"

definition delete_rows :: "('r \<Rightarrow> bool) \<Rightarrow> 'r list \<Rightarrow> nat \<times> 'r list" where
  "delete_rows P t = (length (filter P t), filter (\<lambda>r. \<not> P r) t)"

definition same :: "('r \<Rightarrow> 'k) \<Rightarrow> 'r \<Rightarrow> 'r \<Rightarrow> bool" where
  "same key r' r \<longleftrightarrow> key r' = key r"

definition keys_distinct :: "('r \<Rightarrow> 'k) \<Rightarrow> 'r list \<Rightarrow> bool" where
  "keys_distinct key t \<longleftrightarrow> distinct (map key t)"

text \<open>Statements on one table: read it, run the row operation, write it back.\<close>

definition on_table ::
  "('db \<Rightarrow> 'r list) \<Rightarrow> (('r list \<Rightarrow> 'r list) \<Rightarrow> 'db \<Rightarrow> 'db) \<Rightarrow> ('r list \<Rightarrow> nat \<times> 'r list) \<Rightarrow> ('db, nat) action" where
  "on_table get put f = exec (\<lambda>db. case f (get db) of (n, t) \<Rightarrow> Inr (n, put (\<lambda>_. t) db))"

definition on_table_checked ::
  "('db \<Rightarrow> 'r list) \<Rightarrow> (('r list \<Rightarrow> 'r list) \<Rightarrow> 'db \<Rightarrow> 'db) \<Rightarrow> ('r list \<Rightarrow> error + nat \<times> 'r list) \<Rightarrow>
     ('db, nat) action" where
  "on_table_checked get put f =
     exec (\<lambda>db. case f (get db) of Inl e \<Rightarrow> Inl e | Inr (n, t) \<Rightarrow> Inr (n, put (\<lambda>_. t) db))"

section \<open>Lemmas on actions\<close>

lemma bindM_return [simp]: "bindM (returnM x) f = f x"
  by (rule ext) (simp add: bindM_def returnM_def)

lemma bindM_raise [simp]: "bindM (raiseM e) f = raiseM e"
  by (rule ext) (simp add: bindM_def raiseM_def)

lemma bindM_assoc: "bindM (bindM m f) g = bindM m (\<lambda>x. bindM (f x) g)"
  by (rule ext) (auto simp: bindM_def split: prod.split sum.split)

lemma bindM_Inr: "bindM m f s = (Inr y, s') \<longleftrightarrow> (\<exists>x s1. m s = (Inr x, s1) \<and> f x s1 = (Inr y, s'))"
  by (auto simp: bindM_def split: prod.splits sum.splits)

lemma bindM_return_Inr:
  assumes "bindM m (\<lambda>_. returnM v) s = (Inr y, s1)"
  shows "(\<exists>n. m s = (Inr n, s1)) \<and> y = v"
  using bindM_Inr [THEN iffD1, OF assms] by (auto simp: returnM_def)

lemma bindM_step: "m s = (Inr x, s1) \<Longrightarrow> bindM m f s = f x s1"
  by (simp add: bindM_def)

lemma bindM_fails: "m s = (Inl e, s1) \<Longrightarrow> bindM m f s = (Inl e, s1)"
  by (simp add: bindM_def)

text \<open>A connection whose statements all succeed.\<close>

definition ok_connection :: "'db connection \<Rightarrow> bool" where
  "ok_connection s \<longleftrightarrow> faults s = []"

lemma next_fault_ok [simp]: "ok_connection s \<Longrightarrow> next_fault s = (None, s)"
  by (simp add: next_fault_def ok_connection_def)

lemma query_ok [simp]: "ok_connection s \<Longrightarrow> query q s = (Inr (q (tables s)), s)"
  by (simp add: query_def)

lemma exec_ok [simp]:
  "ok_connection s \<Longrightarrow> exec u s =
     (case u (tables s) of Inl e \<Rightarrow> (Inl e, s) | Inr (n, db) \<Rightarrow> (Inr n, s\<lparr>tables := db\<rparr>))"
  by (simp add: exec_def)

lemma ok_connection_update [simp]: "ok_connection (s\<lparr>tables := db\<rparr>) = ok_connection s"
  by (simp add: ok_connection_def)

lemma connection_update_same [simp]: "s\<lparr>tables := tables s\<rparr> = s"
  by simp

lemma bindM_query_ok [simp]: "ok_connection s \<Longrightarrow> bindM (query q) f s = f (q (tables s)) s"
  by (simp add: bindM_def)

lemma bindM_exec_ok [simp]:
  "ok_connection s \<Longrightarrow> bindM (exec u) f s =
     (case u (tables s) of Inl e \<Rightarrow> (Inl e, s) | Inr (n, db) \<Rightarrow> f n (s\<lparr>tables := db\<rparr>))"
  by (auto simp: bindM_def split: sum.split prod.split)

lemma catchM_exec_ok [simp]:
  "ok_connection s \<Longrightarrow> catchM (exec u) f s =
     (case u (tables s) of Inl e \<Rightarrow> f (Inl e) s | Inr (n, db) \<Rightarrow> f (Inr n) (s\<lparr>tables := db\<rparr>))"
  by (auto simp: catchM_def split: sum.split prod.split)

lemma transaction_ok:
  "ok_connection s \<Longrightarrow> m s = (Inr x, s') \<Longrightarrow> ok_connection s' \<Longrightarrow> transaction m s = (Inr x, s')"
  by (simp add: transaction_def)

lemma returnM_apply [simp]: "returnM x s = (Inr x, s)"
  by (simp add: returnM_def)

lemma raiseM_apply [simp]: "raiseM e s = (Inl e, s)"
  by (simp add: raiseM_def)

lemma bindM_Pair [simp]: "bindM (Pair (Inr x)) f = f x"
  by (rule ext) (simp add: bindM_def)

lemma transaction_body:
  assumes "ok_connection s" and "transaction m s = (Inr x, s')"
    and "\<exists>db. m s = (Inr x, s\<lparr>tables := db\<rparr>) \<and> Q db"
  shows "Q (tables s') \<and> ok_connection s'"
proof -
  from assms(3) obtain db where db: "m s = (Inr x, s\<lparr>tables := db\<rparr>)" "Q db" by blast
  from transaction_ok [where m = m and x = x and s' = "s\<lparr>tables := db\<rparr>", OF assms(1) db(1)] assms(1,2) have "s' = s\<lparr>tables := db\<rparr>" by simp
  with db(2) assms(1) show ?thesis by simp
qed

lemma transaction_returns:
  assumes "ok_connection s" and "\<exists>db. m s = (Inr x, s\<lparr>tables := db\<rparr>) \<and> Q db"
  shows "\<exists>s'. transaction m s = (Inr x, s')"
proof -
  from assms(2) obtain db where "m s = (Inr x, s\<lparr>tables := db\<rparr>)" by blast
  with assms(1) show ?thesis by (simp add: transaction_def)
qed

subsection \<open>Atomicity\<close>

text \<open>A transaction that fails leaves the tables as they were, whatever the statement that failed.\<close>

lemma next_fault_tables [simp]: "next_fault s = (f, s') \<Longrightarrow> tables s' = tables s"
  by (auto simp: next_fault_def split: list.splits)

lemma transaction_atomic:
  "transaction m s = (Inl e, s') \<Longrightarrow> tables s' = tables s"
  by (auto simp: transaction_def split: prod.splits option.splits sum.splits)

lemma exec_error_unchanged: "exec u s = (Inl e, s') \<Longrightarrow> tables s' = tables s"
  by (auto simp: exec_def split: prod.splits option.splits sum.splits)

lemma query_unchanged: "query q s = (r, s') \<Longrightarrow> tables s' = tables s"
  by (auto simp: query_def split: prod.splits option.splits)

subsection \<open>Invariants\<close>

definition preserves :: "('db \<Rightarrow> bool) \<Rightarrow> ('db, 'a) action \<Rightarrow> bool" where
  "preserves I m \<longleftrightarrow> (\<forall>s. I (tables s) \<longrightarrow> I (tables (snd (m s))))"

lemma preservesD: "preserves I m \<Longrightarrow> I (tables s) \<Longrightarrow> m s = (r, s') \<Longrightarrow> I (tables s')"
  by (metis preserves_def snd_conv)

lemma preserves_return [preserves_intros]: "preserves I (returnM x)"
  by (simp add: preserves_def)

lemma preserves_raise [preserves_intros]: "preserves I (raiseM e)"
  by (simp add: preserves_def)

lemma preserves_bind [preserves_intros]:
  assumes "preserves I m" and "\<And>x. preserves I (f x)"
  shows "preserves I (bindM m f)"
  using assms by (fastforce simp: preserves_def bindM_def split: prod.splits sum.splits)

lemma preserves_catch [preserves_intros]:
  assumes "preserves I m" and "\<And>r. preserves I (f r)"
  shows "preserves I (catchM m f)"
  using assms by (fastforce simp: preserves_def catchM_def split: prod.splits)

lemma preserves_query [preserves_intros]: "preserves I (query q)"
  by (auto simp: preserves_def query_def split: prod.splits option.splits)

lemma preserves_exec [preserves_intros]:
  assumes "\<And>db n db'. I db \<Longrightarrow> u db = Inr (n, db') \<Longrightarrow> I db'"
  shows "preserves I (exec u)"
  using assms by (auto simp: preserves_def exec_def split: prod.splits option.splits sum.splits)

lemma preserves_if [preserves_intros]:
  "preserves I m1 \<Longrightarrow> preserves I m2 \<Longrightarrow> preserves I (if b then m1 else m2)"
  by simp

lemma preserves_option [preserves_intros]:
  "preserves I m \<Longrightarrow> (\<And>x. preserves I (f x)) \<Longrightarrow>
     preserves I (case r of None \<Rightarrow> m | Some x \<Rightarrow> f x)"
  by (cases r) auto

lemma preserves_sum [preserves_intros]:
  "(\<And>e. preserves I (g e)) \<Longrightarrow> (\<And>x. preserves I (f x)) \<Longrightarrow>
     preserves I (case r of Inl e \<Rightarrow> g e | Inr x \<Rightarrow> f x)"
  by (cases r) auto

lemma preserves_pair [preserves_intros]:
  "(\<And>x y. preserves I (f x y)) \<Longrightarrow> preserves I (case r of (x, y) \<Rightarrow> f x y)"
  by (cases r) auto

lemma preserves_let [preserves_intros]:
  "(\<And>x. preserves I (f x)) \<Longrightarrow> preserves I (let x = v in f x)"
  by (simp add: Let_def)

lemma preserves_transaction [preserves_intros]:
  assumes "preserves I m"
  shows "preserves I (transaction m)"
  unfolding preserves_def
proof (intro allI impI)
  fix s :: "'a connection"
  assume I: "I (tables s)"
  obtain f s1 where s1: "next_fault s = (f, s1)" by fastforce
  obtain r s2 where s2: "m s1 = (r, s2)" by fastforce
  obtain g s3 where s3: "next_fault s2 = (g, s3)" by fastforce
  have "I (tables s2)" using preservesD [OF assms _ s2] I s1 by simp
  then show "I (tables (snd (transaction m s)))"
    using I s1 s2 s3 by (auto simp: transaction_def split: option.split sum.split)
qed

lemma preserves_transaction_option [preserves_intros]:
  assumes "preserves I m"
  shows "preserves I (transaction_option m)"
  unfolding preserves_def
proof (intro allI impI)
  fix s :: "'a connection"
  assume I: "I (tables s)"
  obtain f s1 where s1: "next_fault s = (f, s1)" by fastforce
  obtain r s2 where s2: "m s1 = (r, s2)" by fastforce
  obtain g s3 where s3: "next_fault s2 = (g, s3)" by fastforce
  have "I (tables s2)" using preservesD [OF assms _ s2] I s1 by simp
  then have "I (tables s3)" using s3 by simp
  with I s1 s2 s3 show "I (tables (snd (transaction_option m s)))"
    by (cases f; cases r; cases g) (auto simp: transaction_option_def split: option.splits)
qed

lemma preserves_wrap [preserves_intros]: "preserves I m \<Longrightarrow> preserves I (wrapM msg m)"
  by (auto simp: wrapM_def intro!: preserves_intros)

lemma preserves_mapM_unit [preserves_intros]:
  "(\<And>x. preserves I (f x)) \<Longrightarrow> preserves I (mapM_unit f xs)"
  by (induction xs) (auto intro: preserves_intros)

lemma preserves_mapM [preserves_intros]:
  "(\<And>x. preserves I (f x)) \<Longrightarrow> preserves I (mapM f xs)"
  by (induction xs) (auto intro: preserves_intros)

section \<open>Lemmas on rows\<close>

lemma keys_distinct_Nil [simp]: "keys_distinct key []"
  by (simp add: keys_distinct_def)

lemma keys_distinct_appendI:
  "keys_distinct key t \<Longrightarrow> (\<And>r'. r' \<in> set t \<Longrightarrow> key r' \<noteq> key r) \<Longrightarrow> keys_distinct key (t @ [r])"
  by (force simp: keys_distinct_def)

lemma keys_distinct_map:
  "keys_distinct key t \<Longrightarrow> (\<And>r. r \<in> set t \<Longrightarrow> key (f r) = key r) \<Longrightarrow> keys_distinct key (map f t)"
  by (simp add: keys_distinct_def comp_def cong: map_cong)

lemma keys_distinct_filter: "keys_distinct key t \<Longrightarrow> keys_distinct key (filter P t)"
  by (simp add: keys_distinct_def distinct_map_filter)

lemma keys_distinct_insert_row:
  "insert_row clash r t = Inr (n, t') \<Longrightarrow> keys_distinct key t \<Longrightarrow>
     (\<And>r'. key r' = key r \<Longrightarrow> clash r' r) \<Longrightarrow> keys_distinct key t'"
  by (auto simp: insert_row_def split: if_splits intro!: keys_distinct_appendI)

lemma keys_distinct_insert_or_ignore:
  "insert_or_ignore clash r t = (n, t') \<Longrightarrow> keys_distinct key t \<Longrightarrow>
     (\<And>r'. key r' = key r \<Longrightarrow> clash r' r) \<Longrightarrow> keys_distinct key t'"
  by (auto simp: insert_or_ignore_def split: if_splits intro!: keys_distinct_appendI)

lemma keys_distinct_insert_or_replace:
  "insert_or_replace clash r t = (n, t') \<Longrightarrow> keys_distinct key t \<Longrightarrow>
     (\<And>r'. key r' = key r \<Longrightarrow> clash r' r) \<Longrightarrow> keys_distinct key t'"
  by (auto simp: insert_or_replace_def keys_distinct_filter intro!: keys_distinct_appendI)

lemma keys_distinct_upsert:
  "upsert clash upd r t = (n, t') \<Longrightarrow> keys_distinct key t \<Longrightarrow>
     (\<And>r'. key r' = key r \<Longrightarrow> clash r' r) \<Longrightarrow> (\<And>r'. clash r' r \<Longrightarrow> key (upd r') = key r') \<Longrightarrow>
     keys_distinct key t'"
  by (auto simp: upsert_def split: if_splits intro!: keys_distinct_map keys_distinct_appendI)

lemma keys_distinct_update:
  "update_rows P f t = (n, t') \<Longrightarrow> keys_distinct key t \<Longrightarrow>
     (\<And>r. P r \<Longrightarrow> key (f r) = key r) \<Longrightarrow> keys_distinct key t'"
  by (auto simp: update_rows_def intro!: keys_distinct_map)

lemma keys_distinct_delete:
  "delete_rows P t = (n, t') \<Longrightarrow> keys_distinct key t \<Longrightarrow> keys_distinct key t'"
  by (auto simp: delete_rows_def keys_distinct_filter)

text \<open>A row operation that keeps a key unique.\<close>

definition keeps :: "('r \<Rightarrow> 'k) \<Rightarrow> ('r list \<Rightarrow> nat \<times> 'r list) \<Rightarrow> bool" where
  "keeps key f \<longleftrightarrow> (\<forall>t. keys_distinct key t \<longrightarrow> keys_distinct key (snd (f t)))"

definition keeps_checked :: "('r \<Rightarrow> 'k) \<Rightarrow> ('r list \<Rightarrow> error + nat \<times> 'r list) \<Rightarrow> bool" where
  "keeps_checked key f \<longleftrightarrow> (\<forall>t n t'. keys_distinct key t \<longrightarrow> f t = Inr (n, t') \<longrightarrow> keys_distinct key t')"

lemma keeps_insert_or_ignore [preserves_intros]:
  "(\<And>r'. key r' = key r \<Longrightarrow> clash r' r) \<Longrightarrow> keeps key (insert_or_ignore clash r)"
  unfolding keeps_def by (blast intro: keys_distinct_insert_or_ignore [OF prod.collapse [symmetric]])

lemma keeps_insert_or_replace [preserves_intros]:
  "(\<And>r'. key r' = key r \<Longrightarrow> clash r' r) \<Longrightarrow> keeps key (insert_or_replace clash r)"
  unfolding keeps_def by (blast intro: keys_distinct_insert_or_replace [OF prod.collapse [symmetric]])

lemma keeps_upsert [preserves_intros]:
  "(\<And>r'. key r' = key r \<Longrightarrow> clash r' r) \<Longrightarrow> (\<And>r'. clash r' r \<Longrightarrow> key (upd r') = key r') \<Longrightarrow>
     keeps key (upsert clash upd r)"
  unfolding keeps_def by (blast intro: keys_distinct_upsert [OF prod.collapse [symmetric]])

lemma keeps_update [preserves_intros]:
  "(\<And>r. key (f r) = key r) \<Longrightarrow> keeps key (update_rows P f)"
  unfolding keeps_def by (blast intro: keys_distinct_update [OF prod.collapse [symmetric]])

lemma keeps_delete [preserves_intros]: "keeps key (delete_rows P)"
  unfolding keeps_def by (blast intro: keys_distinct_delete [OF prod.collapse [symmetric]])

lemma keeps_insert_row [preserves_intros]:
  "(\<And>r'. key r' = key r \<Longrightarrow> clash r' r) \<Longrightarrow> keeps_checked key (insert_row clash r)"
  unfolding keeps_checked_def by (meson keys_distinct_insert_row)

text \<open>Reading by key.\<close>

lemma find_key_unique:
  assumes "keys_distinct key t" and "r \<in> set t"
  shows "find (\<lambda>r'. key r' = key r) t = Some r"
  using assms by (induction t) (auto simp: keys_distinct_def)

lemma find_map_same:
  assumes "\<And>r. r \<in> set t \<Longrightarrow> P (f r) = P r"
  shows "find P (map f t) = map_option f (find P t)"
  using assms by (induction t) auto

lemma find_append: "find P (xs @ ys) = (case find P xs of None \<Rightarrow> find P ys | Some x \<Rightarrow> Some x)"
  by (induction xs) auto

lemma find_SomeD: "find P t = Some r \<Longrightarrow> r \<in> set t \<and> P r"
  by (auto simp: find_Some_iff)

lemma find_filter: "find P (filter Q t) = find (\<lambda>r. P r \<and> Q r) t"
  by (induction t) auto

lemma find_upsert_same:
  assumes "\<And>r'. key (upd r') = key r'"
  shows "find (\<lambda>r'. key r' = k) (snd (upsert (same key) upd r t)) =
     (if k = key r then
        (case find (\<lambda>r'. key r' = k) t of None \<Rightarrow> Some r | Some r' \<Rightarrow> Some (upd r'))
      else find (\<lambda>r'. key r' = k) t)"
proof (cases "\<exists>r'\<in>set t. key r' = key r")
  case True
  have "find (\<lambda>r'. key r' = k) (map (\<lambda>r'. if key r' = key r then upd r' else r') t) =
      map_option (\<lambda>r'. if key r' = key r then upd r' else r') (find (\<lambda>r'. key r' = k) t)"
    by (rule find_map_same) (simp add: assms)
  moreover have "key r' = k" if "find (\<lambda>r'. key r' = k) t = Some r'" for r'
    using find_SomeD [OF that] by simp
  moreover have "find (\<lambda>r'. key r' = key r) t \<noteq> None"
    using True by (auto simp: find_None_iff)
  ultimately show ?thesis
    using True by (cases "find (\<lambda>r'. key r' = k) t") (auto simp: upsert_def same_def)
next
  case False
  then have none: "find (\<lambda>r'. key r' = key r) t = None" by (auto simp: find_None_iff)
  from False have "snd (upsert (same key) upd r t) = t @ [r]" by (simp add: upsert_def same_def)
  with none show ?thesis by (cases "find (\<lambda>r'. key r' = k) t") (auto simp: find_append)
qed

subsection \<open>Statements on a table\<close>

lemma on_table_ok [simp]:
  "ok_connection s \<Longrightarrow> on_table get put f s =
     (Inr (fst (f (get (tables s)))), s\<lparr>tables := put (\<lambda>_. snd (f (get (tables s)))) (tables s)\<rparr>)"
  by (simp add: on_table_def split: prod.split)

lemma bindM_on_table_ok [simp]:
  "ok_connection s \<Longrightarrow> bindM (on_table get put f) g s =
     g (fst (f (get (tables s)))) (s\<lparr>tables := put (\<lambda>_. snd (f (get (tables s)))) (tables s)\<rparr>)"
  by (simp add: on_table_def split: prod.split)

lemma preserves_on_table:
  assumes "\<And>db n t. I db \<Longrightarrow> f (get db) = (n, t) \<Longrightarrow> I (put (\<lambda>_. t) db)"
  shows "preserves I (on_table get put f)"
  unfolding on_table_def
  by (rule preserves_exec) (use assms in \<open>auto split: prod.splits\<close>)

lemma preserves_on_table_checked:
  assumes "\<And>db n t. I db \<Longrightarrow> f (get db) = Inr (n, t) \<Longrightarrow> I (put (\<lambda>_. t) db)"
  shows "preserves I (on_table_checked get put f)"
  unfolding on_table_checked_def
  by (rule preserves_exec) (use assms in \<open>auto split: prod.splits sum.splits\<close>)

text \<open>Rules that run an action on a concrete connection.\<close>

lemmas action_eval =
  bindM_def catchM_def query_def exec_def next_fault_def transaction_def on_table_def
  on_table_checked_def update_rows_def insert_row_def insert_or_ignore_def delete_rows_def

text \<open>The results of the row operations, as the operations use them.\<close>

lemma fst_update_rows [simp]: "fst (update_rows P f t) = length (filter P t)"
  by (simp add: update_rows_def)

lemma snd_update_rows [simp]: "snd (update_rows P f t) = map (\<lambda>r. if P r then f r else r) t"
  by (simp add: update_rows_def)

lemma no_row_matches: "length (filter P t) = 0 \<longleftrightarrow> find P t = None"
  by (auto simp: find_None_iff filter_empty_conv)

lemma snd_eqD: "p = (x, y) \<Longrightarrow> y = snd p"
  by simp

lemma preserves_elsewhere:
  "(\<And>db t. I (put (\<lambda>_. t) db) = I db) \<Longrightarrow> preserves I (on_table get put f)"
  "(\<And>db t. I (put (\<lambda>_. t) db) = I db) \<Longrightarrow> preserves I (on_table_checked get put g)"
  by (rule preserves_on_table preserves_on_table_checked; simp)+

lemma preserves_conj:
  "preserves I m \<Longrightarrow> preserves J m \<Longrightarrow> preserves (\<lambda>db. I db \<and> J db) m"
  by (simp add: preserves_def)

lemma wrapM_ok: "m s = (Inr x, s') \<Longrightarrow> wrapM msg m s = (Inr x, s')"
  by (simp add: wrapM_def catchM_def)

lemma bindM_wrapM_ok: "m s = (Inr x, s') \<Longrightarrow> bindM (wrapM msg m) f s = f x s'"
  by (simp add: bindM_def wrapM_ok)

text \<open>What is read of tables that satisfy the invariant may be used.\<close>

lemma preserves_bind_query:
  assumes "\<And>db. I db \<Longrightarrow> preserves I (f (q db))"
  shows "preserves I (bindM (query q) f)"
  unfolding preserves_def
proof (intro allI impI)
  fix s :: "'a connection"
  assume I: "I (tables s)"
  obtain e s1 where s1: "next_fault s = (e, s1)" by fastforce
  then have "I (tables s1)" using I by simp
  moreover have "preserves I (f (q (tables s1)))" by (rule assms) fact
  ultimately show "I (tables (snd (bindM (query q) f s)))"
    using I s1 by (cases e) (auto simp: bindM_def query_def preserves_def)
qed

text \<open>
  \<open>yields I Q m\<close>: on tables that satisfy \<open>I\<close> the action keeps \<open>I\<close>, whatever fails, and a value that it
  returns satisfies \<open>Q\<close>.
\<close>

definition yields :: "('db \<Rightarrow> bool) \<Rightarrow> ('a \<Rightarrow> bool) \<Rightarrow> ('db, 'a) action \<Rightarrow> bool" where
  "yields I Q m \<longleftrightarrow> preserves I m \<and> (\<forall>s x s'. I (tables s) \<longrightarrow> m s = (Inr x, s') \<longrightarrow> Q x)"

lemma yields_preserves: "yields I Q m \<Longrightarrow> preserves I m"
  by (simp add: yields_def)

lemma yieldsI: "preserves I m \<Longrightarrow> yields I (\<lambda>_. True) m"
  by (simp add: yields_def)

lemma yields_return: "Q x \<Longrightarrow> yields I Q (returnM x)"
  by (simp add: yields_def preserves_return)

lemma yields_raise: "yields I Q (raiseM e)"
  by (simp add: yields_def preserves_raise)

lemma query_Inr: "query q s = (Inr x, s') \<Longrightarrow> x = q (tables s)"
  by (cases "faults s") (auto simp: query_def next_fault_def split: option.splits)

lemma yields_query: "(\<And>db. I db \<Longrightarrow> Q (q db)) \<Longrightarrow> yields I Q (query q)"
  unfolding yields_def using preserves_query query_Inr by metis

lemma preserves_bind_yields:
  assumes "yields I R m" and "\<And>x. R x \<Longrightarrow> preserves I (f x)"
  shows "preserves I (bindM m f)"
  unfolding preserves_def
proof (intro allI impI)
  fix s :: "'a connection"
  assume I: "I (tables s)"
  obtain r s1 where s1: "m s = (r, s1)" by fastforce
  have I1: "I (tables s1)" by (rule preservesD [OF yields_preserves [OF assms(1)] I s1])
  show "I (tables (snd (bindM m f s)))"
  proof (cases r)
    case (Inl e)
    then show ?thesis using s1 I1 by (simp add: bindM_def)
  next
    case (Inr x)
    then have "R x" using assms(1) I s1 unfolding yields_def by blast
    then show ?thesis using assms(2) I1 s1 Inr by (simp add: bindM_def preserves_def)
  qed
qed

lemma yields_bind:
  assumes "yields I R m" and "\<And>x. R x \<Longrightarrow> yields I Q (f x)"
  shows "yields I Q (bindM m f)"
  unfolding yields_def
proof (intro conjI allI impI)
  show "preserves I (bindM m f)"
    using assms by (blast intro: preserves_bind_yields yields_preserves)
next
  fix s x s'
  assume I: "I (tables s)" and run: "bindM m f s = (Inr x, s')"
  then obtain y s1 where s1: "m s = (Inr y, s1)" "f y s1 = (Inr x, s')" by (auto simp: bindM_Inr)
  have "I (tables s1)" by (rule preservesD [OF yields_preserves [OF assms(1)] I s1(1)])
  moreover have "R y" using assms(1) I s1(1) unfolding yields_def by blast
  ultimately show "Q x" using assms(2) s1(2) unfolding yields_def by blast
qed

lemma yields_option:
  assumes "\<And>x. r = Some x \<Longrightarrow> yields I Q (f x)" and "r = None \<Longrightarrow> yields I Q m"
  shows "yields I Q (case r of None \<Rightarrow> m | Some x \<Rightarrow> f x)"
  using assms by (cases r) auto

text \<open>What is known after a statement that succeeded.\<close>

lemma exec_Inr:
  assumes "exec u s = (Inr n, s1)"
  shows "\<exists>db. u (tables s) = Inr (n, db) \<and> tables s1 = db"
proof -
  obtain e s0 where s0: "next_fault s = (e, s0)" by fastforce
  then show ?thesis using assms by (auto simp: exec_def split: option.splits sum.splits)
qed

lemma on_table_Inr:
  "on_table get put f s = (Inr n, s1) \<Longrightarrow>
     n = fst (f (get (tables s))) \<and> tables s1 = put (\<lambda>_. snd (f (get (tables s)))) (tables s)"
  unfolding on_table_def by (drule exec_Inr) (auto split: prod.splits)

lemma on_table_checked_Inr:
  "on_table_checked get put f s = (Inr n, s1) \<Longrightarrow>
     \<exists>t. f (get (tables s)) = Inr (n, t) \<and> tables s1 = put (\<lambda>_. t) (tables s)"
  unfolding on_table_checked_def by (drule exec_Inr) (auto split: prod.splits sum.splits)

lemma preserves_option_dep:
  assumes "\<And>x. r = Some x \<Longrightarrow> preserves I (f x)" and "preserves I m"
  shows "preserves I (case r of None \<Rightarrow> m | Some x \<Rightarrow> f x)"
  using assms by (cases r) auto

text \<open>
  \<open>establishes db I m\<close>: run on the tables \<open>db\<close>, the action ends on tables that satisfy \<open>I\<close>. What an action
  has read is then known to be true of the tables until it writes.
\<close>

definition establishes :: "'db \<Rightarrow> ('db \<Rightarrow> bool) \<Rightarrow> ('db, 'a) action \<Rightarrow> bool" where
  "establishes db I m \<longleftrightarrow> (\<forall>s. tables s = db \<longrightarrow> I (tables (snd (m s))))"

lemma preserves_establishes: "(\<And>db. I db \<Longrightarrow> establishes db I m) \<Longrightarrow> preserves I m"
  by (simp add: preserves_def establishes_def)

lemma establishes_preserves: "I db \<Longrightarrow> preserves I m \<Longrightarrow> establishes db I m"
  by (simp add: preserves_def establishes_def)

lemma establishes_query:
  assumes "I db" and "establishes db I (f (q db))"
  shows "establishes db I (bindM (query q) f)"
  unfolding establishes_def
proof (intro allI impI)
  fix s :: "'a connection"
  assume s: "tables s = db"
  obtain e s1 where s1: "next_fault s = (e, s1)" by fastforce
  then have "tables s1 = db" using s by simp
  then show "I (tables (snd (bindM (query q) f s)))"
    using assms s1 by (cases e) (auto simp: bindM_def query_def establishes_def)
qed

lemma establishes_option:
  "(r = None \<Longrightarrow> establishes db I m) \<Longrightarrow> (\<And>x. r = Some x \<Longrightarrow> establishes db I (f x)) \<Longrightarrow>
     establishes db I (case r of None \<Rightarrow> m | Some x \<Rightarrow> f x)"
  by (cases r) auto

lemma establishes_if:
  "(b \<Longrightarrow> establishes db I m1) \<Longrightarrow> (\<not> b \<Longrightarrow> establishes db I m2) \<Longrightarrow> establishes db I (if b then m1 else m2)"
  by simp

lemma establishes_lift:
  "I db \<Longrightarrow> (\<And>x. r = Inr x \<Longrightarrow> establishes db I (f x)) \<Longrightarrow> establishes db I (bindM (wrapM msg (liftE r)) f)"
  "I db \<Longrightarrow> (\<And>x. r = Inr x \<Longrightarrow> establishes db I (f x)) \<Longrightarrow> establishes db I (bindM (liftE r) f)"
  by (cases r; simp add: establishes_def wrapM_def catchM_def liftE_def bindM_def)+

lemma establishes_bind:
  assumes "establishes db I m" and "\<And>x. preserves I (f x)"
  shows "establishes db I (bindM m f)"
  using assms by (fastforce simp: establishes_def preserves_def bindM_def split: prod.splits sum.splits)

lemma establishes_on_table:
  "I db \<Longrightarrow> I (put (\<lambda>_. snd (f (get db))) db) \<Longrightarrow> establishes db I (on_table get put f)"
  "I db \<Longrightarrow> (\<And>n t. g (get db) = Inr (n, t) \<Longrightarrow> I (put (\<lambda>_. t) db)) \<Longrightarrow>
     establishes db I (on_table_checked get put g)"
  by (auto simp: establishes_def on_table_def on_table_checked_def exec_def
      split: prod.splits option.splits sum.splits)

text \<open>After a statement the tables are those it wrote.\<close>

lemma establishes_step:
  assumes "I db" and "establishes (put (\<lambda>_. snd (f (get db))) db) I (g (fst (f (get db))))"
  shows "establishes db I (bindM (on_table get put f) g)"
  unfolding establishes_def
proof (intro allI impI)
  fix s :: "'a connection"
  assume s: "tables s = db"
  obtain e s1 where s1: "next_fault s = (e, s1)" by fastforce
  then have "tables s1 = db" using s by simp
  then show "I (tables (snd (bindM (on_table get put f) g s)))"
    using assms s1 by (cases e) (auto simp: bindM_def on_table_def exec_def establishes_def split: prod.split)
qed

lemma establishes_transaction:
  assumes "I db" and "establishes db I m"
  shows "establishes db I (transaction m)"
  unfolding establishes_def
proof (intro allI impI)
  fix s :: "'a connection"
  assume s: "tables s = db"
  obtain e s1 where s1: "next_fault s = (e, s1)" by fastforce
  obtain r s2 where s2: "m s1 = (r, s2)" by fastforce
  obtain e' s3 where s3: "next_fault s2 = (e', s3)" by fastforce
  have "tables s1 = db" using s s1 by simp
  with assms(2) s2 have "I (tables s2)" unfolding establishes_def by (metis snd_conv)
  with s3 have "I (tables s3)" by simp
  with assms(1) s s1 s2 s3 \<open>tables s1 = db\<close> show "I (tables (snd (transaction m s)))"
    by (cases e; cases r; cases e') (auto simp: transaction_def)
qed

lemma preserves_if_dep:
  "(b \<Longrightarrow> preserves I m1) \<Longrightarrow> (\<not> b \<Longrightarrow> preserves I m2) \<Longrightarrow> preserves I (if b then m1 else m2)"
  by simp

text \<open>Row operations that keep a property of every row.\<close>

definition keeps_all :: "('r \<Rightarrow> bool) \<Rightarrow> ('r list \<Rightarrow> nat \<times> 'r list) \<Rightarrow> bool" where
  "keeps_all P f \<longleftrightarrow> (\<forall>t. (\<forall>r \<in> set t. P r) \<longrightarrow> (\<forall>r \<in> set (snd (f t)). P r))"

definition keeps_all_checked :: "('r \<Rightarrow> bool) \<Rightarrow> ('r list \<Rightarrow> error + nat \<times> 'r list) \<Rightarrow> bool" where
  "keeps_all_checked P f \<longleftrightarrow> (\<forall>t n t'. (\<forall>r \<in> set t. P r) \<longrightarrow> f t = Inr (n, t') \<longrightarrow> (\<forall>r \<in> set t'. P r))"

lemma keeps_all_insert_or_ignore [preserves_intros]: "P r \<Longrightarrow> keeps_all P (insert_or_ignore clash r)"
  by (auto simp: keeps_all_def insert_or_ignore_def)

lemma keeps_all_insert_row [preserves_intros]: "P r \<Longrightarrow> keeps_all_checked P (insert_row clash r)"
  by (auto simp: keeps_all_checked_def insert_row_def split: if_splits)

lemma keeps_all_update [preserves_intros]:
  "(\<And>r. P r \<Longrightarrow> C r \<Longrightarrow> P (f r)) \<Longrightarrow> keeps_all P (update_rows C f)"
  by (auto simp: keeps_all_def update_rows_def)

lemma keeps_all_delete [preserves_intros]: "keeps_all P (delete_rows C)"
  by (auto simp: keeps_all_def delete_rows_def)

section \<open>Runs\<close>

text \<open>
  A run performs operations one after the other, some of which may fail; its trace has the operations and
  their results. \<open>perform\<close> is what an operation of the component does.
\<close>

inductive runs ::
  "('op \<Rightarrow> ('db, 'r) action) \<Rightarrow> 'db connection \<Rightarrow> ('op \<times> (error + 'r)) list \<Rightarrow> 'db connection \<Rightarrow> bool"
  for perform where
  run_done: "runs perform s [] s"
| run_op: "perform op s = (r, s1) \<Longrightarrow> runs perform s1 tr s2 \<Longrightarrow> runs perform s ((op, r) # tr) s2"

inductive_cases run_NilE: "runs perform s [] s'"
inductive_cases run_ConsE: "runs perform s (e # tr) s'"
inductive_simps run_Nil_iff [simp]: "runs perform s [] s'"

text \<open>An invariant of the operations of a run is an invariant of the run.\<close>

lemma run_preserves:
  assumes "runs perform s tr s'" and "\<forall>(op, r) \<in> set tr. preserves I (perform op)" and "I (tables s)"
  shows "I (tables s')"
  using assms
proof (induction rule: runs.induct)
  case (run_op op s r s1 tr s2)
  then have "preserves I (perform op)" by simp
  then have "I (tables s1)" by (rule preservesD) (use run_op in simp_all)
  then show ?case using run_op by simp
qed simp

text \<open>The result of an operation that hands nothing out.\<close>

definition silent :: "('db, 'a) action \<Rightarrow> ('db, 'b list) action" where
  "silent m = bindM m (\<lambda>_. returnM [])"

lemma preserves_silent: "preserves I m \<Longrightarrow> preserves I (silent m)"
  unfolding silent_def by (intro preserves_bind preserves_return)

lemma silent_returns: "silent m s = (Inr out, s') \<Longrightarrow> out = []"
  unfolding silent_def by (blast dest: bindM_return_Inr)

section \<open>Stores read and written by key\<close>

text \<open>
  The contract of a table that is read by key and written by an upsert: \<open>get\<close> after \<open>put\<close>.
\<close>

locale keyed_store =
  fixes get :: "'s \<Rightarrow> 'k \<Rightarrow> 'v option"
    and put :: "'k \<Rightarrow> 'v \<Rightarrow> 's \<Rightarrow> 's"
  assumes get_put: "get (put k v s) k' = (if k' = k then Some v else get s k')"
begin

lemma get_put_same [simp]: "get (put k v s) k = Some v"
  by (simp add: get_put)

lemma get_put_other [simp]: "k' \<noteq> k \<Longrightarrow> get (put k v s) k' = get s k'"
  by (simp add: get_put)

lemma last_put_wins: "get (put k v (put k w s)) k' = get (put k v s) k'"
  by (simp add: get_put)

lemma puts_commute: "k \<noteq> l \<Longrightarrow> get (put k v (put l w s)) k' = get (put l w (put k v s)) k'"
  by (simp add: get_put)

text \<open>A batch of writes of one value.\<close>

lemma get_put_all:
  "get (fold (\<lambda>k. put k v) ks s) k' = (if k' \<in> set ks then Some v else get s k')"
  by (induction ks arbitrary: s) (auto simp: get_put)

end

end
