(* ===== verification/Store_Tables.thy ===== *)
theory Store_Tables
  imports Sql_Monad Iam_Evaluator
begin

text \<open>
  The tables of the store that the modelled operations use, with the row types of the Go structs of
  \<^verbatim>\<open>internal/store\<close>; a field of the struct \<open>T\<close> is named \<open>T_Field\<close>. A column that holds JSON the
  code decodes is a \<open>document\<close>, an integer column used as a flag is a \<open>bool\<close>, time stamps that are
  only shown are strings, and the expiry of an access token is the instant it denotes. The keys that
  must be unique are those of the schema.
\<close>

record Project =
  Project_ID :: string
  Project_DisplayName :: string
  Project_State :: string
  Project_LabelsJSON :: string
  Project_CreatedAt :: string

record ServiceAccount =
  ServiceAccount_ProjectID :: string
  ServiceAccount_Email :: string
  ServiceAccount_UniqueID :: string
  ServiceAccount_DisplayName :: string
  ServiceAccount_Disabled :: bool
  ServiceAccount_DeletedAt :: string
  ServiceAccount_CreatedAt :: string

record ServiceAccountKey =
  ServiceAccountKey_Name :: string
  ServiceAccountKey_SAEmail :: string
  ServiceAccountKey_KeyAlgorithm :: string
  ServiceAccountKey_PrivateKeyType :: string
  ServiceAccountKey_PrivateKeyData :: string
  ServiceAccountKey_ValidAfterTime :: string
  ServiceAccountKey_ValidBeforeTime :: string
  ServiceAccountKey_CreatedAt :: string

record ServiceUsage =
  ServiceUsage_ProjectID :: string
  ServiceUsage_ServiceName :: string
  ServiceUsage_State :: string

record IamPolicyRow =
  IamPolicyRow_resource :: string
  IamPolicyRow_etag :: string
  IamPolicyRow_policy_json :: document

record AccessToken =
  AccessToken_token_hash :: string
  AccessToken_principal_email :: string
  AccessToken_expires_at :: int
  AccessToken_created_at :: string

text \<open>A row of \<open>iam_custom_roles\<close>; \<open>included_permissions_json\<close> is decoded by the operations.\<close>

record CustomRoleRow =
  CustomRoleRow_name :: string
  CustomRoleRow_project_id :: string
  CustomRoleRow_role_id :: string
  CustomRoleRow_title :: string
  CustomRoleRow_description :: string
  CustomRoleRow_permissions :: document
  CustomRoleRow_stage :: string
  CustomRoleRow_etag :: string
  CustomRoleRow_deleted :: bool
  CustomRoleRow_created_at :: string
  CustomRoleRow_updated_at :: string

record Organization =
  Organization_Name :: string
  Organization_OrgID :: string
  Organization_DisplayName :: string
  Organization_State :: string
  Organization_CreatedAt :: string
  Organization_UpdatedAt :: string

record Folder =
  Folder_Name :: string
  Folder_FolderID :: string
  Folder_Parent :: string
  Folder_DisplayName :: string
  Folder_State :: string
  Folder_Etag :: string
  Folder_CreatedAt :: string
  Folder_UpdatedAt :: string
  Folder_DeleteTime :: string

record OrgPolicy =
  OrgPolicy_Name :: string
  OrgPolicy_Parent :: string
  OrgPolicy_Constraint :: string
  OrgPolicy_SpecJSON :: document
  OrgPolicy_Etag :: string
  OrgPolicy_UpdatedAt :: string

record AccessPolicy =
  AccessPolicy_Name :: string
  AccessPolicy_PolicyID :: string
  AccessPolicy_Parent :: string
  AccessPolicy_Title :: string
  AccessPolicy_ScopesJSON :: string
  AccessPolicy_Etag :: string
  AccessPolicy_BodyJSON :: string
  AccessPolicy_CreatedAt :: string
  AccessPolicy_UpdatedAt :: string

text \<open>A column that holds the configuration of a perimeter: its text is blank, \<open>\{\}\<close> or \<open>null\<close> up to
  white space, or another text, which denotes a document.\<close>

datatype config_column = NoConfig | Config document

record ServicePerimeter =
  ServicePerimeter_Name :: string
  ServicePerimeter_PolicyName :: string
  ServicePerimeter_PerimeterID :: string
  ServicePerimeter_Title :: string
  ServicePerimeter_Description :: string
  ServicePerimeter_PerimeterType :: string
  ServicePerimeter_StatusJSON :: config_column
  ServicePerimeter_SpecJSON :: config_column
  ServicePerimeter_UseExplicitDryRunSpec :: bool
  ServicePerimeter_Etag :: string
  ServicePerimeter_BodyJSON :: string
  ServicePerimeter_CreatedAt :: string
  ServicePerimeter_UpdatedAt :: string

text \<open>The workload identity pools and providers, as the perimeter check reads them.\<close>

record WifPool =
  WifPool_name :: string
  WifPool_project_id :: string
  WifPool_state :: string

record WifProvider =
  WifProvider_pool_name :: string
  WifProvider_provider_id :: string
  WifProvider_state :: string

record Db =
  projects :: "Project list"
  service_accounts :: "ServiceAccount list"
  sa_keys :: "ServiceAccountKey list"
  service_usage :: "ServiceUsage list"
  iam_policies :: "IamPolicyRow list"
  access_tokens :: "AccessToken list"
  iam_custom_roles :: "CustomRoleRow list"
  crm_organizations :: "Organization list"
  crm_folders :: "Folder list"
  org_policies :: "OrgPolicy list"
  acm_access_policies :: "AccessPolicy list"
  acm_service_perimeters :: "ServicePerimeter list"
  wif_pools :: "WifPool list"
  wif_providers :: "WifProvider list"

definition empty_Db :: Db where
  "empty_Db =
     \<lparr>projects = [], service_accounts = [], sa_keys = [], service_usage = [], iam_policies = [],
      access_tokens = [], iam_custom_roles = [], crm_organizations = [], crm_folders = [],
      org_policies = [], acm_access_policies = [], acm_service_perimeters = [], wif_pools = [],
      wif_providers = []\<rparr>"

definition ServiceUsage_key :: "ServiceUsage \<Rightarrow> string \<times> string" where
  "ServiceUsage_key u = (ServiceUsage_ProjectID u, ServiceUsage_ServiceName u)"

definition CustomRoleRow_key :: "CustomRoleRow \<Rightarrow> string \<times> string" where
  "CustomRoleRow_key r = (CustomRoleRow_project_id r, CustomRoleRow_role_id r)"

definition OrgPolicy_key :: "OrgPolicy \<Rightarrow> string \<times> string" where
  "OrgPolicy_key p = (OrgPolicy_Parent p, OrgPolicy_Constraint p)"

definition ServicePerimeter_key :: "ServicePerimeter \<Rightarrow> string \<times> string" where
  "ServicePerimeter_key p = (ServicePerimeter_PolicyName p, ServicePerimeter_PerimeterID p)"

text \<open>The unique keys of the schema hold.\<close>

definition schema_ok :: "Db \<Rightarrow> bool" where
  "schema_ok db \<longleftrightarrow>
     keys_distinct Project_ID (projects db) \<and>
     keys_distinct ServiceAccount_Email (service_accounts db) \<and>
     keys_distinct ServiceAccount_UniqueID (service_accounts db) \<and>
     keys_distinct ServiceAccountKey_Name (sa_keys db) \<and>
     keys_distinct ServiceUsage_key (service_usage db) \<and>
     keys_distinct IamPolicyRow_resource (iam_policies db) \<and>
     keys_distinct AccessToken_token_hash (access_tokens db) \<and>
     keys_distinct CustomRoleRow_name (iam_custom_roles db) \<and>
     keys_distinct CustomRoleRow_key (iam_custom_roles db) \<and>
     keys_distinct Organization_Name (crm_organizations db) \<and>
     keys_distinct Organization_OrgID (crm_organizations db) \<and>
     keys_distinct Folder_Name (crm_folders db) \<and>
     keys_distinct Folder_FolderID (crm_folders db) \<and>
     keys_distinct OrgPolicy_Name (org_policies db) \<and>
     keys_distinct OrgPolicy_key (org_policies db) \<and>
     keys_distinct AccessPolicy_Name (acm_access_policies db) \<and>
     keys_distinct AccessPolicy_PolicyID (acm_access_policies db) \<and>
     keys_distinct ServicePerimeter_Name (acm_service_perimeters db) \<and>
     keys_distinct ServicePerimeter_key (acm_service_perimeters db)"

lemma schema_ok_empty: "schema_ok empty_Db"
  by (simp add: schema_ok_def empty_Db_def)

section \<open>The schema is an invariant\<close>

text \<open>A statement on one table keeps the schema when it keeps the keys of that table unique.\<close>

lemma schema_on_projects [preserves_intros]:
  "keeps Project_ID f \<Longrightarrow>
     preserves schema_ok (on_table projects projects_update f)"
  by (rule preserves_on_table) (auto simp: schema_ok_def keeps_def dest: snd_eqD)

lemma schema_on_projects_checked [preserves_intros]:
  "keeps_checked Project_ID f \<Longrightarrow>
     preserves schema_ok (on_table_checked projects projects_update f)"
  by (rule preserves_on_table_checked) (auto simp: schema_ok_def keeps_checked_def dest: snd_eqD)

lemma schema_on_service_accounts [preserves_intros]:
  "keeps ServiceAccount_Email f \<Longrightarrow> keeps ServiceAccount_UniqueID f \<Longrightarrow>
     preserves schema_ok (on_table service_accounts service_accounts_update f)"
  by (rule preserves_on_table) (auto simp: schema_ok_def keeps_def dest: snd_eqD)

lemma schema_on_service_accounts_checked [preserves_intros]:
  "keeps_checked ServiceAccount_Email f \<Longrightarrow> keeps_checked ServiceAccount_UniqueID f \<Longrightarrow>
     preserves schema_ok (on_table_checked service_accounts service_accounts_update f)"
  by (rule preserves_on_table_checked) (auto simp: schema_ok_def keeps_checked_def dest: snd_eqD)

lemma schema_on_sa_keys [preserves_intros]:
  "keeps ServiceAccountKey_Name f \<Longrightarrow>
     preserves schema_ok (on_table sa_keys sa_keys_update f)"
  by (rule preserves_on_table) (auto simp: schema_ok_def keeps_def dest: snd_eqD)

lemma schema_on_sa_keys_checked [preserves_intros]:
  "keeps_checked ServiceAccountKey_Name f \<Longrightarrow>
     preserves schema_ok (on_table_checked sa_keys sa_keys_update f)"
  by (rule preserves_on_table_checked) (auto simp: schema_ok_def keeps_checked_def dest: snd_eqD)

lemma schema_on_service_usage [preserves_intros]:
  "keeps ServiceUsage_key f \<Longrightarrow>
     preserves schema_ok (on_table service_usage service_usage_update f)"
  by (rule preserves_on_table) (auto simp: schema_ok_def keeps_def dest: snd_eqD)

lemma schema_on_service_usage_checked [preserves_intros]:
  "keeps_checked ServiceUsage_key f \<Longrightarrow>
     preserves schema_ok (on_table_checked service_usage service_usage_update f)"
  by (rule preserves_on_table_checked) (auto simp: schema_ok_def keeps_checked_def dest: snd_eqD)

lemma schema_on_iam_policies [preserves_intros]:
  "keeps IamPolicyRow_resource f \<Longrightarrow>
     preserves schema_ok (on_table iam_policies iam_policies_update f)"
  by (rule preserves_on_table) (auto simp: schema_ok_def keeps_def dest: snd_eqD)

lemma schema_on_iam_policies_checked [preserves_intros]:
  "keeps_checked IamPolicyRow_resource f \<Longrightarrow>
     preserves schema_ok (on_table_checked iam_policies iam_policies_update f)"
  by (rule preserves_on_table_checked) (auto simp: schema_ok_def keeps_checked_def dest: snd_eqD)

lemma schema_on_access_tokens [preserves_intros]:
  "keeps AccessToken_token_hash f \<Longrightarrow>
     preserves schema_ok (on_table access_tokens access_tokens_update f)"
  by (rule preserves_on_table) (auto simp: schema_ok_def keeps_def dest: snd_eqD)

lemma schema_on_access_tokens_checked [preserves_intros]:
  "keeps_checked AccessToken_token_hash f \<Longrightarrow>
     preserves schema_ok (on_table_checked access_tokens access_tokens_update f)"
  by (rule preserves_on_table_checked) (auto simp: schema_ok_def keeps_checked_def dest: snd_eqD)

lemma schema_on_iam_custom_roles [preserves_intros]:
  "keeps CustomRoleRow_name f \<Longrightarrow> keeps CustomRoleRow_key f \<Longrightarrow>
     preserves schema_ok (on_table iam_custom_roles iam_custom_roles_update f)"
  by (rule preserves_on_table) (auto simp: schema_ok_def keeps_def dest: snd_eqD)

lemma schema_on_iam_custom_roles_checked [preserves_intros]:
  "keeps_checked CustomRoleRow_name f \<Longrightarrow> keeps_checked CustomRoleRow_key f \<Longrightarrow>
     preserves schema_ok (on_table_checked iam_custom_roles iam_custom_roles_update f)"
  by (rule preserves_on_table_checked) (auto simp: schema_ok_def keeps_checked_def dest: snd_eqD)

lemma schema_on_crm_organizations [preserves_intros]:
  "keeps Organization_Name f \<Longrightarrow> keeps Organization_OrgID f \<Longrightarrow>
     preserves schema_ok (on_table crm_organizations crm_organizations_update f)"
  by (rule preserves_on_table) (auto simp: schema_ok_def keeps_def dest: snd_eqD)

lemma schema_on_crm_organizations_checked [preserves_intros]:
  "keeps_checked Organization_Name f \<Longrightarrow> keeps_checked Organization_OrgID f \<Longrightarrow>
     preserves schema_ok (on_table_checked crm_organizations crm_organizations_update f)"
  by (rule preserves_on_table_checked) (auto simp: schema_ok_def keeps_checked_def dest: snd_eqD)

lemma schema_on_crm_folders [preserves_intros]:
  "keeps Folder_Name f \<Longrightarrow> keeps Folder_FolderID f \<Longrightarrow>
     preserves schema_ok (on_table crm_folders crm_folders_update f)"
  by (rule preserves_on_table) (auto simp: schema_ok_def keeps_def dest: snd_eqD)

lemma schema_on_crm_folders_checked [preserves_intros]:
  "keeps_checked Folder_Name f \<Longrightarrow> keeps_checked Folder_FolderID f \<Longrightarrow>
     preserves schema_ok (on_table_checked crm_folders crm_folders_update f)"
  by (rule preserves_on_table_checked) (auto simp: schema_ok_def keeps_checked_def dest: snd_eqD)

lemma schema_on_org_policies [preserves_intros]:
  "keeps OrgPolicy_Name f \<Longrightarrow> keeps OrgPolicy_key f \<Longrightarrow>
     preserves schema_ok (on_table org_policies org_policies_update f)"
  by (rule preserves_on_table) (auto simp: schema_ok_def keeps_def dest: snd_eqD)

lemma schema_on_org_policies_checked [preserves_intros]:
  "keeps_checked OrgPolicy_Name f \<Longrightarrow> keeps_checked OrgPolicy_key f \<Longrightarrow>
     preserves schema_ok (on_table_checked org_policies org_policies_update f)"
  by (rule preserves_on_table_checked) (auto simp: schema_ok_def keeps_checked_def dest: snd_eqD)

lemma schema_on_acm_access_policies [preserves_intros]:
  "keeps AccessPolicy_Name f \<Longrightarrow> keeps AccessPolicy_PolicyID f \<Longrightarrow>
     preserves schema_ok (on_table acm_access_policies acm_access_policies_update f)"
  by (rule preserves_on_table) (auto simp: schema_ok_def keeps_def dest: snd_eqD)

lemma schema_on_acm_access_policies_checked [preserves_intros]:
  "keeps_checked AccessPolicy_Name f \<Longrightarrow> keeps_checked AccessPolicy_PolicyID f \<Longrightarrow>
     preserves schema_ok (on_table_checked acm_access_policies acm_access_policies_update f)"
  by (rule preserves_on_table_checked) (auto simp: schema_ok_def keeps_checked_def dest: snd_eqD)

lemma schema_on_acm_service_perimeters [preserves_intros]:
  "keeps ServicePerimeter_Name f \<Longrightarrow> keeps ServicePerimeter_key f \<Longrightarrow>
     preserves schema_ok (on_table acm_service_perimeters acm_service_perimeters_update f)"
  by (rule preserves_on_table) (auto simp: schema_ok_def keeps_def dest: snd_eqD)

lemma schema_on_acm_service_perimeters_checked [preserves_intros]:
  "keeps_checked ServicePerimeter_Name f \<Longrightarrow> keeps_checked ServicePerimeter_key f \<Longrightarrow>
     preserves schema_ok (on_table_checked acm_service_perimeters acm_service_perimeters_update f)"
  by (rule preserves_on_table_checked) (auto simp: schema_ok_def keeps_checked_def dest: snd_eqD)

end
