(* ===== verification/Identity_Store.thy ===== *)
theory Identity_Store
  imports Store_Tables
begin

text \<open>
  Projects, IAM policies, service accounts and their keys, access tokens and the state of the
  services: \<^verbatim>\<open>internal/store/identity.go\<close> and the identity part of \<^verbatim>\<open>internal/store/store.go\<close>.

  Each method of \<open>Store\<close> is an action of the same name. The clock is an argument: \<open>now\<close> is
  \<open>time.Now()\<close> as the code formats it, \<open>nanos\<close> its \<open>UnixNano\<close>. A method that returns a row and a flag
  returns \<open>None\<close> when the flag is false.
\<close>

section \<open>Project numbers\<close>

fun project_number_loop :: "64 word \<Rightarrow> string \<Rightarrow> 64 word" where
  "project_number_loop n [] = n"
| "project_number_loop n (c # cs) = project_number_loop (n * 131 + of_nat (of_char c)) cs"

definition LabProjectNumber :: "string \<Rightarrow> string" where
  "LabProjectNumber pid =
     (let pid = TrimSpace pid in
      if pid = [] then []
      else
        let n = project_number_loop 0 pid mod 1000000000000;
            n = (if n = 0 then 1 else n)
        in itoa (unat n))"

section \<open>Projects\<close>

definition scanProject :: "Project \<Rightarrow> Project" where
  "scanProject p = (if Project_LabelsJSON p = [] then p\<lparr>Project_LabelsJSON := ''{}''\<rparr> else p)"

definition GetProject :: "string \<Rightarrow> (Db, Project option) action" where
  "GetProject pid =
     query (\<lambda>db. map_option scanProject (find (\<lambda>p. Project_ID p = pid) (projects db)))"

definition ListProjects :: "(Db, Project list) action" where
  "ListProjects = query (\<lambda>db. map scanProject (sort_key Project_ID (projects db)))"

text \<open>The SQL operator \<open>LIKE\<close>: \<open>\%\<close> is any text, \<open>\_\<close> any character, letters match up to case.\<close>

fun like :: "string \<Rightarrow> string \<Rightarrow> bool" where
  "like [] s = (s = [])"
| "like (p # ps) [] = (p = CHR 0x25 \<and> like ps [])"
| "like (p # ps) (c # cs) =
     (if p = CHR 0x25 then like ps (c # cs) \<or> like (p # ps) cs
      else (p = CHR ''_'' \<or> lower_char p = lower_char c) \<and> like ps cs)"

definition SearchProjects :: "string \<Rightarrow> (Db, Project list) action" where
  "SearchProjects q =
     (let q = TrimSpace q in
      if q = [] then ListProjects
      else
        let pat = [CHR 0x25] @ ToLower q @ [CHR 0x25] in
        query (\<lambda>db. map scanProject (sort_key Project_ID
          (filter (\<lambda>p. like pat (ToLower (Project_ID p)) \<or> like pat (ToLower (Project_DisplayName p)))
            (projects db)))))"

definition ContainsAny :: "string \<Rightarrow> string \<Rightarrow> bool" where
  "ContainsAny s chars \<longleftrightarrow> list_ex (\<lambda>c. c \<in> set chars) s"

definition CreateProject :: "string \<Rightarrow> Project \<Rightarrow> (Db, Project option) action" where
  "CreateProject now p =
     (let pid = TrimSpace (Project_ID p) in
      if pid = [] \<or> pid = ''-'' \<or> ContainsAny pid [CHR ''/'', CHR '':'', CHR '' '', CHR 0x09, CHR 0x0A] then
        raiseM (Errorf ''project id required'')
      else
        let p = p\<lparr>Project_ID := pid,
            Project_DisplayName := (if Project_DisplayName p = [] then pid else Project_DisplayName p),
            Project_State := (if Project_State p = [] then ''ACTIVE'' else Project_State p),
            Project_LabelsJSON := (if Project_LabelsJSON p = [] then ''{}'' else Project_LabelsJSON p),
            Project_CreatedAt := (if Project_CreatedAt p = [] then now else Project_CreatedAt p)\<rparr>
        in catchM (on_table projects projects_update (insert_or_ignore (same Project_ID) p)) (\<lambda>r.
          case r of
            Inl err \<Rightarrow> raiseM (Wrap ''create project'' err)
          | Inr n \<Rightarrow> if n = 0 then returnM None else GetProject pid))"

definition UpdateProject ::
  "string \<Rightarrow> string \<Rightarrow> string \<Rightarrow> bool \<Rightarrow> bool \<Rightarrow> (Db, Project option) action" where
  "UpdateProject pid displayName labelsJSON setDisplay setLabels =
     (if \<not> setDisplay \<and> \<not> setLabels then GetProject pid
      else bindM (GetProject pid) (\<lambda>cur.
        case cur of
          None \<Rightarrow> returnM None
        | Some cur \<Rightarrow>
            let displayName = (if setDisplay then displayName else Project_DisplayName cur);
                labelsJSON = (if setLabels then labelsJSON else Project_LabelsJSON cur);
                labelsJSON = (if labelsJSON = [] then ''{}'' else labelsJSON)
            in bindM (on_table projects projects_update (update_rows (\<lambda>p. Project_ID p = pid)
                (\<lambda>p. p\<lparr>Project_DisplayName := displayName, Project_LabelsJSON := labelsJSON\<rparr>))) (\<lambda>n.
              if n = 0 then returnM None else GetProject pid)))"

definition UpdateProjectDisplayName :: "string \<Rightarrow> string \<Rightarrow> (Db, Project option) action" where
  "UpdateProjectDisplayName pid displayName = UpdateProject pid displayName [] True False"

section \<open>IAM policies and access tokens\<close>

definition PutIAMPolicyJSON :: "string \<Rightarrow> Policy \<Rightarrow> (Db, unit) action" where
  "PutIAMPolicyJSON resource policy =
     (if resource = [] then raiseM (Errorf ''resource required'')
      else
        let policy = (if Etag policy = [] then policy\<lparr>Etag := ''ACAB''\<rparr> else policy);
            row = \<lparr>IamPolicyRow_resource = resource, IamPolicyRow_etag = Etag policy,
              IamPolicyRow_policy_json = marshal_policy policy\<rparr>
        in bindM (on_table iam_policies iam_policies_update
            (upsert (same IamPolicyRow_resource)
              (\<lambda>r. r\<lparr>IamPolicyRow_etag := IamPolicyRow_etag row,
                 IamPolicyRow_policy_json := IamPolicyRow_policy_json row\<rparr>) row))
          (\<lambda>_. returnM ()))"

definition GetIAMPolicyJSON :: "string \<Rightarrow> (Db, document option) action" where
  "GetIAMPolicyJSON resource =
     query (\<lambda>db. map_option IamPolicyRow_policy_json
       (find (\<lambda>r. IamPolicyRow_resource r = resource) (iam_policies db)))"

definition LookupAccessToken :: "string \<Rightarrow> int \<Rightarrow> (Db, string option) action" where
  "LookupAccessToken tokenHash now =
     bindM (query (\<lambda>db. find (\<lambda>r. AccessToken_token_hash r = tokenHash) (access_tokens db))) (\<lambda>row.
       case row of
         None \<Rightarrow> returnM None
       | Some r \<Rightarrow>
           if \<not> now < AccessToken_expires_at r then returnM None
           else returnM (Some (AccessToken_principal_email r)))"

definition PutAccessToken :: "string \<Rightarrow> string \<Rightarrow> string \<Rightarrow> int \<Rightarrow> (Db, unit) action" where
  "PutAccessToken now tokenHash principalEmail expiresAt =
     bindM (on_table access_tokens access_tokens_update
       (insert_or_replace (same AccessToken_token_hash)
         \<lparr>AccessToken_token_hash = tokenHash, AccessToken_principal_email = principalEmail,
          AccessToken_expires_at = expiresAt, AccessToken_created_at = now\<rparr>))
       (\<lambda>_. returnM ())"

section \<open>Service accounts\<close>

fun Error_text :: "error \<Rightarrow> string" where
  "Error_text (Errorf m) = m"
| "Error_text (Wrap m err) = m @ '': '' @ Error_text err"
| "Error_text (SqlError m) = m"
| "Error_text ErrAlreadyExists = ''already exists''"
| "Error_text ErrServiceDisabled = ''service is disabled''"
| "Error_text ErrVPCSCPerimeter = ''Request is denied because of VPC Service Controls''"
| "Error_text ErrDenied = ''permission denied''"
| "Error_text ErrUnauthenticated = ''unauthenticated''"
| "Error_text ErrNotAllowed = ''http egress: destination not allowed''"
| "Error_text ErrInvalidGCSBucketName = ''invalid bucket name''"

definition isUniqueViolation :: "error \<Rightarrow> bool" where
  "isUniqueViolation err =
     (let msg = ToLower (Error_text err) in
      Contains msg ''unique constraint'' \<or> Contains msg ''constraint failed'')"

definition CreateServiceAccount :: "string \<Rightarrow> ServiceAccount \<Rightarrow> (Db, unit) action" where
  "CreateServiceAccount now sa =
     (if ServiceAccount_ProjectID sa = [] \<or> ServiceAccount_Email sa = [] \<or> ServiceAccount_UniqueID sa = []
      then raiseM (Errorf ''project_id, email, and unique_id required'')
      else
        let sa = sa\<lparr>ServiceAccount_CreatedAt :=
              (if ServiceAccount_CreatedAt sa = [] then now else ServiceAccount_CreatedAt sa),
            ServiceAccount_DeletedAt := []\<rparr>
        in catchM (on_table_checked service_accounts service_accounts_update
            (insert_row (\<lambda>a b. same ServiceAccount_Email a b \<or> same ServiceAccount_UniqueID a b) sa)) (\<lambda>r.
          case r of
            Inl err \<Rightarrow> if isUniqueViolation err then raiseM ErrAlreadyExists else raiseM err
          | Inr _ \<Rightarrow> returnM ()))"

definition active :: "ServiceAccount \<Rightarrow> bool" where
  "active sa \<longleftrightarrow> ServiceAccount_DeletedAt sa = []"

definition GetServiceAccount :: "string \<Rightarrow> (Db, ServiceAccount option) action" where
  "GetServiceAccount email =
     query (\<lambda>db. find (\<lambda>sa. ServiceAccount_Email sa = email \<and> active sa) (service_accounts db))"

definition GetServiceAccountInProject :: "string \<Rightarrow> string \<Rightarrow> (Db, ServiceAccount option) action" where
  "GetServiceAccountInProject projectID emailOrID =
     query (\<lambda>db. find (\<lambda>sa. ServiceAccount_ProjectID sa = projectID \<and> active sa \<and>
       (ServiceAccount_Email sa = emailOrID \<or> ServiceAccount_UniqueID sa = emailOrID))
       (service_accounts db))"

definition GetDeletedServiceAccountInProject ::
  "string \<Rightarrow> string \<Rightarrow> (Db, ServiceAccount option) action" where
  "GetDeletedServiceAccountInProject projectID emailOrID =
     query (\<lambda>db. find (\<lambda>sa. ServiceAccount_ProjectID sa = projectID \<and> \<not> active sa \<and>
       (ServiceAccount_Email sa = emailOrID \<or> ServiceAccount_UniqueID sa = emailOrID))
       (service_accounts db))"

definition ListServiceAccounts :: "string \<Rightarrow> (Db, ServiceAccount list) action" where
  "ListServiceAccounts projectID =
     query (\<lambda>db. sort_key ServiceAccount_Email
       (filter (\<lambda>sa. ServiceAccount_ProjectID sa = projectID \<and> active sa) (service_accounts db)))"

definition pad_left :: "nat \<Rightarrow> string \<Rightarrow> string" where
  "pad_left width s = replicate (width - length s) (CHR ''0'') @ s"

text \<open>\<open>fmt.Sprintf("1\%019d", nanos \% 1e18)\<close>\<close>

definition generated_unique_id :: "nat \<Rightarrow> string" where
  "generated_unique_id nanos = ''1'' @ pad_left 19 (itoa (nanos mod 1000000000000000000))"

definition EnsureServiceAccount ::
  "string \<Rightarrow> nat \<Rightarrow> string \<Rightarrow> string \<Rightarrow> string \<Rightarrow> (Db, unit) action" where
  "EnsureServiceAccount now nanos projectID email displayName =
     (let projectID = TrimSpace projectID; email = TrimSpace email in
      if projectID = [] \<or> email = [] then raiseM (Errorf ''project_id and email required'')
      else bindM (GetServiceAccount email) (\<lambda>found.
        case found of
          Some _ \<Rightarrow> returnM ()
        | None \<Rightarrow>
            catchM (CreateServiceAccount now
              \<lparr>ServiceAccount_ProjectID = projectID, ServiceAccount_Email = email,
               ServiceAccount_UniqueID = generated_unique_id nanos,
               ServiceAccount_DisplayName =
                 (if displayName = [] then ''lab service account'' else displayName),
               ServiceAccount_Disabled = False, ServiceAccount_DeletedAt = [],
               ServiceAccount_CreatedAt = []\<rparr>) (\<lambda>r.
              case r of
                Inl err \<Rightarrow> if err \<noteq> ErrAlreadyExists then raiseM err else returnM ()
              | Inr _ \<Rightarrow> returnM ())))"

definition SetServiceAccountDisabled :: "string \<Rightarrow> bool \<Rightarrow> (Db, ServiceAccount option) action" where
  "SetServiceAccountDisabled email disabled =
     bindM (on_table service_accounts service_accounts_update
       (update_rows (\<lambda>sa. ServiceAccount_Email sa = email \<and> active sa)
         (\<lambda>sa. sa\<lparr>ServiceAccount_Disabled := disabled\<rparr>)))
       (\<lambda>n. if n = 0 then returnM None else GetServiceAccount email)"

definition UpdateServiceAccountDisplayName :: "string \<Rightarrow> string \<Rightarrow> (Db, ServiceAccount option) action" where
  "UpdateServiceAccountDisplayName email displayName =
     bindM (on_table service_accounts service_accounts_update
       (update_rows (\<lambda>sa. ServiceAccount_Email sa = email \<and> active sa)
         (\<lambda>sa. sa\<lparr>ServiceAccount_DisplayName := displayName\<rparr>)))
       (\<lambda>n. if n = 0 then returnM None else GetServiceAccount email)"

definition DeleteServiceAccount :: "string \<Rightarrow> string \<Rightarrow> (Db, bool) action" where
  "DeleteServiceAccount now email =
     bindM (on_table service_accounts service_accounts_update
       (update_rows (\<lambda>sa. ServiceAccount_Email sa = email \<and> active sa)
         (\<lambda>sa. sa\<lparr>ServiceAccount_DeletedAt := now\<rparr>)))
       (\<lambda>n. returnM (0 < n))"

definition UndeleteServiceAccount :: "string \<Rightarrow> (Db, ServiceAccount option) action" where
  "UndeleteServiceAccount email =
     bindM (on_table service_accounts service_accounts_update
       (update_rows (\<lambda>sa. ServiceAccount_Email sa = email \<and> \<not> active sa)
         (\<lambda>sa. sa\<lparr>ServiceAccount_DeletedAt := []\<rparr>)))
       (\<lambda>n. if n = 0 then returnM None else GetServiceAccount email)"

section \<open>Service account keys\<close>

definition CreateServiceAccountKey :: "string \<Rightarrow> ServiceAccountKey \<Rightarrow> (Db, unit) action" where
  "CreateServiceAccountKey now k =
     (if ServiceAccountKey_Name k = [] \<or> ServiceAccountKey_SAEmail k = [] \<or>
         ServiceAccountKey_PrivateKeyData k = []
      then raiseM (Errorf ''name, sa_email, and private_key_data required'')
      else
        let k = k\<lparr>ServiceAccountKey_KeyAlgorithm := (if ServiceAccountKey_KeyAlgorithm k = []
                then ''KEY_ALG_RSA_2048'' else ServiceAccountKey_KeyAlgorithm k),
            ServiceAccountKey_PrivateKeyType := (if ServiceAccountKey_PrivateKeyType k = []
                then ''TYPE_GOOGLE_CREDENTIALS_FILE'' else ServiceAccountKey_PrivateKeyType k),
            ServiceAccountKey_CreatedAt := (if ServiceAccountKey_CreatedAt k = []
                then now else ServiceAccountKey_CreatedAt k)\<rparr>
        in catchM (on_table_checked sa_keys sa_keys_update
            (insert_row (same ServiceAccountKey_Name) k)) (\<lambda>r.
          case r of
            Inl err \<Rightarrow> if isUniqueViolation err then raiseM ErrAlreadyExists else raiseM err
          | Inr _ \<Rightarrow> returnM ()))"

definition GetServiceAccountKey :: "string \<Rightarrow> (Db, ServiceAccountKey option) action" where
  "GetServiceAccountKey name = query (\<lambda>db. find (\<lambda>k. ServiceAccountKey_Name k = name) (sa_keys db))"

text \<open>\<open>strconv.Atoi\<close>: an optional sign and digits, within 64 bits.\<close>

definition Atoi :: "string \<Rightarrow> int option" where
  "Atoi s =
     (let neg = HasPrefix s ''-'';
          ds = (if neg \<or> HasPrefix s ''+'' then drop 1 s else s);
          v = (if neg then - int (decimal_value ds) else int (decimal_value ds))
      in if ds = [] \<or> \<not> list_all is_digit ds then None
         else if v < - (2 ^ 63) \<or> 2 ^ 63 \<le> v then None
         else Some v)"

definition ListServiceAccountKeysPage ::
  "string \<Rightarrow> int \<Rightarrow> string \<Rightarrow> (Db, ServiceAccountKey list \<times> string) action" where
  "ListServiceAccountKeysPage saEmail pageSize pageToken =
     (let pageSize = (if pageSize \<le> 0 then 100 else pageSize);
          pageSize = (if 100 < pageSize then 100 else pageSize);
          offset = (if pageToken = [] then Some 0
            else case Atoi pageToken of
                None \<Rightarrow> None
              | Some n \<Rightarrow> if n < 0 then None else Some n)
      in case offset of
          None \<Rightarrow> raiseM (Errorf ''invalid pageToken'')
        | Some offset \<Rightarrow>
            bindM (query (\<lambda>db. take (nat pageSize) (drop (nat offset)
              (sort_key ServiceAccountKey_CreatedAt
                (filter (\<lambda>k. ServiceAccountKey_SAEmail k = saEmail) (sa_keys db)))))) (\<lambda>out.
              returnM (out, if int (length out) = pageSize then itoa (nat (offset + pageSize)) else [])))"

definition ListServiceAccountKeys :: "string \<Rightarrow> (Db, ServiceAccountKey list) action" where
  "ListServiceAccountKeys saEmail =
     bindM (ListServiceAccountKeysPage saEmail 0 []) (\<lambda>(keys, _). returnM keys)"

definition DeleteServiceAccountKey :: "string \<Rightarrow> (Db, bool) action" where
  "DeleteServiceAccountKey name =
     bindM (on_table sa_keys sa_keys_update (delete_rows (\<lambda>k. ServiceAccountKey_Name k = name)))
       (\<lambda>n. returnM (0 < n))"

section \<open>Service usage\<close>

definition put_usage :: "string \<Rightarrow> string \<Rightarrow> string \<Rightarrow> (Db, nat) action" where
  "put_usage projectID name state =
     on_table service_usage service_usage_update
       (upsert (same ServiceUsage_key) (\<lambda>u. u\<lparr>ServiceUsage_State := state\<rparr>)
         \<lparr>ServiceUsage_ProjectID = projectID, ServiceUsage_ServiceName = name,
          ServiceUsage_State = state\<rparr>)"

definition ListServiceUsage :: "string \<Rightarrow> string \<Rightarrow> (Db, ServiceUsage list) action" where
  "ListServiceUsage projectID stateFilter =
     (let stateFilter = ToUpper (TrimSpace stateFilter) in
      if stateFilter = [] then
        query (\<lambda>db. sort_key ServiceUsage_ServiceName
          (filter (\<lambda>u. ServiceUsage_ProjectID u = projectID) (service_usage db)))
      else if stateFilter \<noteq> ''ENABLED'' \<and> stateFilter \<noteq> ''DISABLED'' then
        raiseM (Errorf ''state filter must be ENABLED or DISABLED'')
      else
        query (\<lambda>db. sort_key ServiceUsage_ServiceName
          (filter (\<lambda>u. ServiceUsage_ProjectID u = projectID \<and> ServiceUsage_State u = stateFilter)
            (service_usage db))))"

definition BatchEnableServiceUsage :: "string \<Rightarrow> string list \<Rightarrow> (Db, unit) action" where
  "BatchEnableServiceUsage projectID serviceNames =
     (if serviceNames = [] then raiseM (Errorf ''serviceIds required'')
      else if 20 < length serviceNames then raiseM (Errorf ''at most 20 services per batchEnable'')
      else transaction (mapM_unit (\<lambda>name.
        let name = TrimSpace name in
        if name = [] then raiseM (Errorf ''empty service id'')
        else bindM (put_usage projectID name ''ENABLED'') (\<lambda>_. returnM ())) serviceNames))"

definition BatchDisableServiceUsage :: "string \<Rightarrow> string list \<Rightarrow> (Db, unit) action" where
  "BatchDisableServiceUsage projectID serviceNames =
     (if serviceNames = [] then raiseM (Errorf ''serviceIds required'')
      else if 20 < length serviceNames then raiseM (Errorf ''at most 20 services per batchDisable'')
      else transaction (mapM_unit (\<lambda>name.
        let name = TrimSpace name in
        if name = [] then raiseM (Errorf ''empty service id'')
        else bindM (put_usage projectID name ''DISABLED'') (\<lambda>_. returnM ())) serviceNames))"

definition GetServiceUsage :: "string \<Rightarrow> string \<Rightarrow> (Db, ServiceUsage option) action" where
  "GetServiceUsage projectID serviceName =
     query (\<lambda>db. find (\<lambda>u. ServiceUsage_key u = (projectID, serviceName)) (service_usage db))"

definition BatchGetServiceUsage :: "string \<Rightarrow> string list \<Rightarrow> (Db, ServiceUsage list) action" where
  "BatchGetServiceUsage projectID serviceNames =
     (if serviceNames = [] then raiseM (Errorf ''names required'')
      else if 30 < length serviceNames then raiseM (Errorf ''at most 30 services per batchGet'')
      else mapM (\<lambda>name.
        let name = TrimSpace name in
        if name = [] then raiseM (Errorf ''empty service name'')
        else bindM (GetServiceUsage projectID name) (\<lambda>u.
          returnM (case u of
            Some u \<Rightarrow> u
          | None \<Rightarrow> \<lparr>ServiceUsage_ProjectID = projectID, ServiceUsage_ServiceName = name,
              ServiceUsage_State = ''DISABLED''\<rparr>))) serviceNames)"

definition IsServiceEnabled :: "string \<Rightarrow> string \<Rightarrow> (Db, bool) action" where
  "IsServiceEnabled projectID serviceName =
     bindM (GetServiceUsage projectID serviceName) (\<lambda>u.
       returnM (case u of None \<Rightarrow> False | Some u \<Rightarrow> ServiceUsage_State u = ''ENABLED''))"

definition SetServiceUsageState :: "string \<Rightarrow> string \<Rightarrow> string \<Rightarrow> (Db, unit) action" where
  "SetServiceUsageState projectID serviceName state =
     (let state = ToUpper (TrimSpace state) in
      if state \<noteq> ''ENABLED'' \<and> state \<noteq> ''DISABLED'' then
        raiseM (Errorf ''state must be ENABLED or DISABLED'')
      else bindM (put_usage projectID serviceName state) (\<lambda>_. returnM ()))"

section \<open>The seed of a project\<close>

text \<open>The services that a new lab project has enabled.\<close>

definition wave1 :: "string list" where
  "wave1 =
     [''cloudresourcemanager.googleapis.com'', ''iam.googleapis.com'', ''serviceusage.googleapis.com'',
      ''storage.googleapis.com'', ''pubsub.googleapis.com'', ''secretmanager.googleapis.com'',
      ''firestore.googleapis.com'', ''cloudkms.googleapis.com'', ''logging.googleapis.com'',
      ''run.googleapis.com'', ''cloudfunctions.googleapis.com'', ''cloudscheduler.googleapis.com'',
      ''cloudtasks.googleapis.com'', ''bigquery.googleapis.com'', ''identitytoolkit.googleapis.com'',
      ''monitoring.googleapis.com'', ''datastore.googleapis.com'', ''eventarc.googleapis.com'',
      ''appengine.googleapis.com'', ''artifactregistry.googleapis.com'', ''cloudbuild.googleapis.com'',
      ''workflows.googleapis.com'', ''spanner.googleapis.com'', ''dns.googleapis.com'',
      ''dataflow.googleapis.com'', ''compute.googleapis.com'', ''bigtableadmin.googleapis.com'',
      ''redis.googleapis.com'', ''sqladmin.googleapis.com'', ''certificatemanager.googleapis.com'',
      ''file.googleapis.com'', ''aiplatform.googleapis.com'', ''container.googleapis.com'',
      ''managedkafka.googleapis.com'', ''containeranalysis.googleapis.com'',
      ''binaryauthorization.googleapis.com'', ''cloudasset.googleapis.com'',
      ''securitycenter.googleapis.com'', ''orgpolicy.googleapis.com'',
      ''accesscontextmanager.googleapis.com'']"

definition root_policy :: "string \<Rightarrow> Policy" where
  "root_policy rootSAEmail =
     \<lparr>Bindings = [\<lparr>Role = ''roles/owner'', Members = [''serviceAccount:'' @ rootSAEmail], Condition = None\<rparr>],
      Etag = ''ACAB''\<rparr>"

text \<open>The transaction of \<open>EnsureRoot\<close>; the log routing and the lab organization are seeded after it.\<close>

definition EnsureRoot_seed ::
  "string \<Rightarrow> nat \<Rightarrow> string \<Rightarrow> string \<Rightarrow> string \<Rightarrow> (Db, unit) action" where
  "EnsureRoot_seed now nanos projectID rootSAEmail rootDisplay =
     (if projectID = [] then raiseM (Errorf ''project id required'')
      else if rootSAEmail = [] then raiseM (Errorf ''root service account required'')
      else transaction (
        bindM (wrapM ''seed project'' (on_table projects projects_update
          (insert_or_ignore (same Project_ID)
            \<lparr>Project_ID = projectID, Project_DisplayName = projectID, Project_State = ''ACTIVE'',
             Project_LabelsJSON = ''{}'', Project_CreatedAt = now\<rparr>))) (\<lambda>_.
        bindM (wrapM ''seed root service account'' (on_table service_accounts service_accounts_update
          (insert_or_ignore (\<lambda>a b. same ServiceAccount_Email a b \<or> same ServiceAccount_UniqueID a b)
            \<lparr>ServiceAccount_ProjectID = projectID, ServiceAccount_Email = rootSAEmail,
             ServiceAccount_UniqueID = generated_unique_id nanos,
             ServiceAccount_DisplayName = rootDisplay, ServiceAccount_Disabled = False,
             ServiceAccount_DeletedAt = [], ServiceAccount_CreatedAt = now\<rparr>))) (\<lambda>_.
        bindM (query (\<lambda>db. find (\<lambda>r. IamPolicyRow_resource r = ''projects/'' @ projectID)
            (iam_policies db))) (\<lambda>existing.
        bindM (case existing of
            Some _ \<Rightarrow> returnM 0
          | None \<Rightarrow> wrapM ''seed iam policy'' (on_table_checked iam_policies iam_policies_update
              (insert_row (same IamPolicyRow_resource)
                \<lparr>IamPolicyRow_resource = ''projects/'' @ projectID, IamPolicyRow_etag = ''ACAB'',
                 IamPolicyRow_policy_json = marshal_policy (root_policy rootSAEmail)\<rparr>))) (\<lambda>_.
        mapM_unit (\<lambda>svc. bindM (wrapM (''seed service usage '' @ svc)
          (on_table service_usage service_usage_update
            (insert_or_ignore (same ServiceUsage_key)
              \<lparr>ServiceUsage_ProjectID = projectID, ServiceUsage_ServiceName = svc,
               ServiceUsage_State = ''ENABLED''\<rparr>))) (\<lambda>_. returnM ())) wave1))))))"

end
