(* ===== verification/Identity_Theorems.thy ===== *)
theory Identity_Theorems
  imports Identity_Store
begin

text \<open>
  The identity operations of the store are correct: they keep the keys of the schema unique whatever
  fails, a batch of service changes is all or nothing, deleting and undeleting a service account is
  the identity on the tables, and a registered access token is found until it expires. The table of
  service states is an instance of the contract \<open>keyed_store\<close>.
\<close>

section \<open>The schema is an invariant\<close>

lemma preserves_put_usage [preserves_intros]: "preserves schema_ok (put_usage projectID name state)"
  by (auto simp: put_usage_def same_def ServiceUsage_key_def intro!: preserves_intros)

lemmas identity_reads =
  GetProject_def ListProjects_def SearchProjects_def GetIAMPolicyJSON_def LookupAccessToken_def
  GetServiceAccount_def GetServiceAccountInProject_def GetDeletedServiceAccountInProject_def
  ListServiceAccounts_def GetServiceAccountKey_def ListServiceAccountKeysPage_def
  ListServiceAccountKeys_def ListServiceUsage_def GetServiceUsage_def BatchGetServiceUsage_def
  IsServiceEnabled_def

lemmas identity_writes =
  CreateProject_def UpdateProject_def UpdateProjectDisplayName_def PutIAMPolicyJSON_def PutAccessToken_def
  CreateServiceAccount_def EnsureServiceAccount_def SetServiceAccountDisabled_def
  UpdateServiceAccountDisplayName_def DeleteServiceAccount_def UndeleteServiceAccount_def
  CreateServiceAccountKey_def DeleteServiceAccountKey_def BatchEnableServiceUsage_def
  BatchDisableServiceUsage_def SetServiceUsageState_def EnsureRoot_seed_def

lemma preserves_CreateProject [preserves_intros]: "preserves schema_ok (CreateProject now p)"
  unfolding CreateProject_def GetProject_def by (intro preserves_intros; simp add: same_def)

lemma preserves_UpdateProject [preserves_intros]: "preserves schema_ok (UpdateProject pid name labels setDisplay setLabels)"
  unfolding UpdateProject_def GetProject_def by (intro preserves_intros; simp add: same_def)

lemma preserves_PutIAMPolicyJSON [preserves_intros]: "preserves schema_ok (PutIAMPolicyJSON resource policy)"
  unfolding PutIAMPolicyJSON_def by (intro preserves_intros; simp add: same_def)

lemma preserves_PutAccessToken [preserves_intros]: "preserves schema_ok (PutAccessToken now hash email expires)"
  unfolding PutAccessToken_def by (intro preserves_intros; simp add: same_def)

lemma preserves_CreateServiceAccount [preserves_intros]: "preserves schema_ok (CreateServiceAccount now sa)"
  unfolding CreateServiceAccount_def by (intro preserves_intros; simp add: same_def)

lemma preserves_EnsureServiceAccount [preserves_intros]: "preserves schema_ok (EnsureServiceAccount now nanos pid email name)"
  unfolding EnsureServiceAccount_def GetServiceAccount_def by (intro preserves_intros; simp add: same_def)

lemma preserves_SetServiceAccountDisabled [preserves_intros]: "preserves schema_ok (SetServiceAccountDisabled email disabled)"
  unfolding SetServiceAccountDisabled_def GetServiceAccount_def by (intro preserves_intros; simp add: same_def)

lemma preserves_UpdateServiceAccountDisplayName [preserves_intros]: "preserves schema_ok (UpdateServiceAccountDisplayName email name)"
  unfolding UpdateServiceAccountDisplayName_def GetServiceAccount_def by (intro preserves_intros; simp add: same_def)

lemma preserves_DeleteServiceAccount [preserves_intros]: "preserves schema_ok (DeleteServiceAccount now email)"
  unfolding DeleteServiceAccount_def by (intro preserves_intros; simp add: same_def)

lemma preserves_UndeleteServiceAccount [preserves_intros]: "preserves schema_ok (UndeleteServiceAccount email)"
  unfolding UndeleteServiceAccount_def GetServiceAccount_def by (intro preserves_intros; simp add: same_def)

lemma preserves_CreateServiceAccountKey [preserves_intros]: "preserves schema_ok (CreateServiceAccountKey now k)"
  unfolding CreateServiceAccountKey_def by (intro preserves_intros; simp add: same_def)

lemma preserves_DeleteServiceAccountKey [preserves_intros]: "preserves schema_ok (DeleteServiceAccountKey key)"
  unfolding DeleteServiceAccountKey_def by (intro preserves_intros; simp add: same_def)

lemma preserves_BatchEnableServiceUsage [preserves_intros]: "preserves schema_ok (BatchEnableServiceUsage pid names)"
  unfolding BatchEnableServiceUsage_def by (intro preserves_intros; simp add: same_def)

lemma preserves_BatchDisableServiceUsage [preserves_intros]: "preserves schema_ok (BatchDisableServiceUsage pid names)"
  unfolding BatchDisableServiceUsage_def by (intro preserves_intros; simp add: same_def)

lemma preserves_SetServiceUsageState [preserves_intros]: "preserves schema_ok (SetServiceUsageState pid svc state)"
  unfolding SetServiceUsageState_def by (intro preserves_intros; simp add: same_def)

lemma preserves_EnsureRoot_seed [preserves_intros]: "preserves schema_ok (EnsureRoot_seed now nanos pid email name)"
  unfolding EnsureRoot_seed_def by (intro preserves_intros; simp add: same_def)

text \<open>The keys of the identity tables stay unique: every operation that writes projects, IAM policies,
  access tokens, service accounts, keys or service states preserves the unique keys of the schema,
  whichever of its statements fails.\<close>
theorem identity_preserves_schema:
  "preserves schema_ok (CreateProject now p) \<and>
   preserves schema_ok (UpdateProject pid name labels setDisplay setLabels) \<and>
   preserves schema_ok (PutIAMPolicyJSON resource policy) \<and>
   preserves schema_ok (PutAccessToken now hash email expires) \<and>
   preserves schema_ok (CreateServiceAccount now sa) \<and>
   preserves schema_ok (EnsureServiceAccount now nanos pid email name) \<and>
   preserves schema_ok (SetServiceAccountDisabled email disabled) \<and>
   preserves schema_ok (UpdateServiceAccountDisplayName email name) \<and>
   preserves schema_ok (DeleteServiceAccount now email) \<and>
   preserves schema_ok (UndeleteServiceAccount email) \<and>
   preserves schema_ok (CreateServiceAccountKey now k) \<and>
   preserves schema_ok (DeleteServiceAccountKey key) \<and>
   preserves schema_ok (BatchEnableServiceUsage pid names) \<and>
   preserves schema_ok (BatchDisableServiceUsage pid names) \<and>
   preserves schema_ok (SetServiceUsageState pid svc state) \<and>
   preserves schema_ok (EnsureRoot_seed now nanos pid email name)"
  by (intro conjI preserves_intros)


section \<open>Service states\<close>

definition usage_get :: "ServiceUsage list \<Rightarrow> string \<times> string \<Rightarrow> string option" where
  "usage_get t k = map_option ServiceUsage_State (find (\<lambda>u. ServiceUsage_key u = k) t)"

definition usage_put :: "string \<times> string \<Rightarrow> string \<Rightarrow> ServiceUsage list \<Rightarrow> ServiceUsage list" where
  "usage_put k state t =
     snd (upsert (same ServiceUsage_key) (\<lambda>u. u\<lparr>ServiceUsage_State := state\<rparr>)
       \<lparr>ServiceUsage_ProjectID = fst k, ServiceUsage_ServiceName = snd k, ServiceUsage_State = state\<rparr> t)"

text \<open>The service table is a keyed store: reading after an upsert.\<close>

interpretation usage: keyed_store usage_get usage_put
proof
  fix k k' :: "string \<times> string" and v t
  show "usage_get (usage_put k v t) k' = (if k' = k then Some v else usage_get t k')"
    unfolding usage_get_def usage_put_def
    by (subst find_upsert_same) (auto simp: ServiceUsage_key_def split: option.split)
qed

lemma put_usage_table:
  "put_usage projectID name state s = (Inr n, s') \<Longrightarrow>
     tables s' = service_usage_update (usage_put (projectID, name) state) (tables s)"
  by (auto simp: put_usage_def on_table_def exec_def usage_put_def split: prod.splits option.splits
      dest!: next_fault_tables snd_eqD)

text \<open>The body of a batch, when it runs to its end.\<close>

lemma batch_body:
  assumes "mapM_unit (\<lambda>name. let name = TrimSpace name in
      if name = [] then raiseM err else bindM (put_usage projectID name state) (\<lambda>_. returnM ())) names s
    = (Inr (), s')"
  shows "tables s' = service_usage_update
    (fold (\<lambda>k. usage_put k state) (map (\<lambda>name. (projectID, TrimSpace name)) names)) (tables s)"
  using assms
proof (induction names arbitrary: s)
  case (Cons name names)
  from Cons.prems obtain n s1 where "put_usage projectID (TrimSpace name) state s = (Inr n, s1)"
    and rest: "mapM_unit (\<lambda>name. let name = TrimSpace name in
      if name = [] then raiseM err else bindM (put_usage projectID name state) (\<lambda>_. returnM ())) names s1
      = (Inr (), s')"
    by (auto simp: bindM_Inr Let_def split: if_splits)
  with Cons.IH [OF rest] put_usage_table show ?case by (simp add: comp_def)
qed simp

lemma transaction_success:
  assumes "transaction m s = (Inr x, s')"
  shows "\<exists>s1 s2. tables s1 = tables s \<and> m s1 = (Inr x, s2) \<and> tables s' = tables s2"
proof -
  obtain f s1 where s1: "next_fault s = (f, s1)" by fastforce
  obtain r s2 where s2: "m s1 = (r, s2)" by fastforce
  obtain g s3 where s3: "next_fault s2 = (g, s3)" by fastforce
  from assms s1 s2 s3 have "r = Inr x" "s' = s3"
    by (auto simp: transaction_def split: option.splits sum.splits)
  with s1 s2 s3 show ?thesis by (metis next_fault_tables)
qed

lemma batch_success:
  assumes "transaction (mapM_unit (\<lambda>name. let name = TrimSpace name in
      if name = [] then raiseM err else bindM (put_usage projectID name state) (\<lambda>_. returnM ())) names) s
    = (Inr (), s')"
  shows "usage_get (service_usage (tables s')) k =
    (if k \<in> (\<lambda>name. (projectID, TrimSpace name)) ` set names then Some state
     else usage_get (service_usage (tables s)) k)"
proof -
  from transaction_success [OF assms] obtain s1 s2 where "tables s1 = tables s" "tables s' = tables s2"
    and body: "mapM_unit (\<lambda>name. let name = TrimSpace name in
      if name = [] then raiseM err else bindM (put_usage projectID name state) (\<lambda>_. returnM ())) names s1
      = (Inr (), s2)" by blast
  with batch_body [OF body] show ?thesis by (simp add: usage.get_put_all)
qed

text \<open>C32. A batch of service changes is atomic: whichever statement fails, \<open>BatchEnableServiceUsage\<close>
  either returns an error and leaves every table as it was, or enables exactly the named services (names
  trimmed) of the project and leaves the state of all others.\<close>
theorem batch_enable_atomic:
  "case BatchEnableServiceUsage projectID names s of
     (Inl _, s') \<Rightarrow> tables s' = tables s
   | (Inr _, s') \<Rightarrow> (\<forall>p svc. usage_get (service_usage (tables s')) (p, svc) =
       (if p = projectID \<and> svc \<in> TrimSpace ` set names then Some ''ENABLED''
        else usage_get (service_usage (tables s)) (p, svc)))"
proof (cases "BatchEnableServiceUsage projectID names s")
  case (Pair r s')
  show ?thesis
  proof (cases r)
    case (Inl e)
    with Pair show ?thesis
      by (auto simp: BatchEnableServiceUsage_def split: if_splits dest: transaction_atomic)
  next
    case (Inr u)
    with Pair have "transaction (mapM_unit (\<lambda>name. let name = TrimSpace name in
        if name = [] then raiseM (Errorf ''empty service id'')
        else bindM (put_usage projectID name ''ENABLED'') (\<lambda>_. returnM ())) names) s = (Inr (), s')"
      by (auto simp: BatchEnableServiceUsage_def split: if_splits)
    from batch_success [OF this] Pair Inr show ?thesis by auto
  qed
qed


section \<open>Service accounts and tokens\<close>

definition example_sa :: ServiceAccount where
  "example_sa = \<lparr>ServiceAccount_ProjectID = ''p'', ServiceAccount_Email = ''ci@p'',
     ServiceAccount_UniqueID = ''1'', ServiceAccount_DisplayName = ''ci'', ServiceAccount_Disabled = True,
     ServiceAccount_DeletedAt = [], ServiceAccount_CreatedAt = ''t0''\<rparr>"

definition example_connection :: "Db connection" where
  "example_connection = \<lparr>tables = empty_Db\<lparr>service_accounts := [example_sa]\<rparr>, faults = []\<rparr>"

lemma email_unique:
  assumes "keys_distinct ServiceAccount_Email t" "sa \<in> set t" "r \<in> set t"
    and "ServiceAccount_Email r = ServiceAccount_Email sa"
  shows "r = sa"
  using assms by (auto simp: keys_distinct_def distinct_map inj_on_def)

lemma find_account:
  assumes "keys_distinct ServiceAccount_Email t" "sa \<in> set t"
  shows "find (\<lambda>r. ServiceAccount_Email r = ServiceAccount_Email sa \<and> P r) t = (if P sa then Some sa else None)"
proof (cases "P sa")
  case True
  with find_key_unique [OF assms] email_unique [OF assms] show ?thesis
    by (cases "find (\<lambda>r. ServiceAccount_Email r = ServiceAccount_Email sa \<and> P r) t")
       (auto simp: find_None_iff dest!: find_SomeD intro: assms(2))
next
  case False
  with email_unique [OF assms] have "\<not> (ServiceAccount_Email r = ServiceAccount_Email sa \<and> P r)"
    if "r \<in> set t" for r using that by blast
  then have "find (\<lambda>r. ServiceAccount_Email r = ServiceAccount_Email sa \<and> P r) t = None"
    by (auto simp: find_None_iff)
  with False show ?thesis by simp
qed

text \<open>Deleting a service account hides it and undeleting brings it back as it was: on a store whose
  statements succeed, after \<open>DeleteServiceAccount\<close> the account is not found, and
  \<open>UndeleteServiceAccount\<close> then restores the very tables, its display name, disabled flag and ids
  included.\<close>
theorem undelete_restores_account:
  assumes "ok_connection s" and "schema_ok (tables s)"
    and "sa \<in> set (service_accounts (tables s))" and "active sa" and "now \<noteq> []"
  shows "\<exists>s'. DeleteServiceAccount now (ServiceAccount_Email sa) s = (Inr True, s') \<and>
    GetServiceAccount (ServiceAccount_Email sa) s' = (Inr None, s') \<and>
    UndeleteServiceAccount (ServiceAccount_Email sa) s' = (Inr (Some sa), s)"
proof -
  let ?email = "ServiceAccount_Email sa" and ?t = "service_accounts (tables s)"
  let ?del = "\<lambda>r. if ServiceAccount_Email r = ?email \<and> active r then r\<lparr>ServiceAccount_DeletedAt := now\<rparr> else r"
  let ?undel = "\<lambda>r. if ServiceAccount_Email r = ?email \<and> \<not> active r then r\<lparr>ServiceAccount_DeletedAt := []\<rparr> else r"
  let ?s' = "s\<lparr>tables := service_accounts_update (\<lambda>_. map ?del ?t) (tables s)\<rparr>"
  have keys: "keys_distinct ServiceAccount_Email ?t" using assms(2) by (simp add: schema_ok_def)
  have only: "r = sa" if "r \<in> set ?t" "ServiceAccount_Email r = ?email" for r
    using email_unique [OF keys assms(3)] that by blast
  have "sa\<lparr>ServiceAccount_DeletedAt := []\<rparr> = sa"
    using assms(4) by (cases sa) (simp add: active_def)
  then have "?undel (?del r) = r" if "r \<in> set ?t" for r
    using only [OF that] assms(4,5) by (cases "ServiceAccount_Email r = ?email") (auto simp: active_def)
  then have restored: "map ?undel (map ?del ?t) = ?t" by (simp add: map_idI)
  have ne: "filter (\<lambda>r. ServiceAccount_Email r = ?email \<and> active r) ?t \<noteq> []"
    using assms(3,4) by (auto simp: filter_empty_conv)
  have hidden: "find (\<lambda>r. ServiceAccount_Email r = ?email \<and> active r) (map ?del ?t) = None"
    using assms(5) by (auto simp: find_None_iff active_def)
  have del: "DeleteServiceAccount now ?email s = (Inr True, ?s')"
    using ne assms(1) by (simp add: DeleteServiceAccount_def)
  have get: "GetServiceAccount ?email ?s' = (Inr None, ?s')"
    using hidden assms(1) by (simp add: GetServiceAccount_def)
  have "?del sa \<in> set (map ?del ?t)" unfolding set_map by (rule imageI) (rule assms(3))
  moreover have "ServiceAccount_Email (?del sa) = ?email \<and> \<not> active (?del sa)"
    using assms(4,5) by (simp add: active_def)
  ultimately have "filter (\<lambda>r. ServiceAccount_Email r = ?email \<and> \<not> active r) (map ?del ?t) \<noteq> []"
    unfolding filter_empty_conv by blast
  then have "UndeleteServiceAccount ?email ?s' = GetServiceAccount ?email s"
    using assms(1) restored by (simp add: UndeleteServiceAccount_def del: length_filter_map)
  then have "UndeleteServiceAccount ?email ?s' = (Inr (Some sa), s)"
    using find_account [OF keys assms(3)] assms(1,4) by (simp add: GetServiceAccount_def)
  with del get show ?thesis by blast
qed

theorem undelete_restores_account_witness:
  "\<exists>s'. DeleteServiceAccount ''t1'' ''ci@p'' example_connection = (Inr True, s') \<and>
    GetServiceAccount ''ci@p'' s' = (Inr None, s') \<and>
    UndeleteServiceAccount ''ci@p'' s' = (Inr (Some example_sa), example_connection)"
  using undelete_restores_account [of example_connection example_sa "''t1''"]
  by (simp add: example_connection_def ok_connection_def example_sa_def active_def schema_ok_def
      empty_Db_def keys_distinct_def)

lemma find_replaced:
  "find (\<lambda>r'. key r' = k) (snd (insert_or_replace (same key) r t)) =
     (if k = key r then Some r else find (\<lambda>r'. key r' = k) t)"
proof -
  have "find (\<lambda>r'. key r' = k) (filter (\<lambda>r'. key r' \<noteq> key r) t) = find (\<lambda>r'. key r' = k) t" if "k \<noteq> key r"
    unfolding find_filter using that by (metis (mono_tags, lifting))
  moreover have "find (\<lambda>r'. key r' = key r) (filter (\<lambda>r'. key r' \<noteq> key r) t) = None"
    by (auto simp: find_None_iff)
  ultimately show ?thesis
    by (auto simp: insert_or_replace_def same_def find_append split: option.split)
qed

text \<open>A registered token works until it expires: after \<open>PutAccessToken\<close>, \<open>LookupAccessToken\<close> of the
  same hash answers the principal it was registered for before the expiry, nothing from the expiry on
  (not even an earlier registration of the hash), and other hashes are looked up as before.\<close>
theorem access_token_roundtrip:
  assumes "ok_connection s" and "PutAccessToken created hash email expires s = (Inr (), s')"
  shows "LookupAccessToken h now s' =
    (if h = hash then Inr (if now < expires then Some email else None)
     else fst (LookupAccessToken h now s), s')"
proof -
  let ?row = "\<lparr>AccessToken_token_hash = hash, AccessToken_principal_email = email,
          AccessToken_expires_at = expires, AccessToken_created_at = created\<rparr>"
  from assms have s': "s' = s\<lparr>tables := access_tokens_update (\<lambda>_. snd (insert_or_replace
      (same AccessToken_token_hash) ?row (access_tokens (tables s)))) (tables s)\<rparr>"
    by (auto simp: PutAccessToken_def)
  show ?thesis
    using assms(1) by (auto simp: s' LookupAccessToken_def find_replaced split: option.split)
qed

theorem access_token_roundtrip_witness:
  "\<exists>s'. PutAccessToken ''t'' ''h'' ''ci@p'' 100 example_connection = (Inr (), s') \<and>
     LookupAccessToken ''h'' 99 s' = (Inr (Some ''ci@p''), s') \<and>
     LookupAccessToken ''h'' 100 s' = (Inr None, s')"
proof -
  have ok: "ok_connection example_connection" by (simp add: example_connection_def ok_connection_def)
  then obtain s' where "PutAccessToken ''t'' ''h'' ''ci@p'' 100 example_connection = (Inr (), s')"
    by (simp add: PutAccessToken_def)
  with access_token_roundtrip [OF ok this] show ?thesis by simp
qed

end
