(* ===== verification/Custom_Roles.thy ===== *)
theory Custom_Roles
  imports Store_Tables
begin

text \<open>
  Custom IAM roles: \<^verbatim>\<open>internal/store/iam_roles.go\<close>. A role is active, soft deleted, or
  disabled by its stage; \<open>GetRoleIncludedPermissions\<close> is the role store of the evaluator.
\<close>

record CustomRole =
  CustomRole_Name :: string
  CustomRole_ProjectID :: string
  CustomRole_RoleID :: string
  CustomRole_Title :: string
  CustomRole_Description :: string
  CustomRole_IncludedPermissions :: "string list"
  CustomRole_Stage :: string
  CustomRole_Etag :: string
  CustomRole_Deleted :: bool
  CustomRole_CreatedAt :: string
  CustomRole_UpdatedAt :: string

definition validCustomRoleID :: "string \<Rightarrow> bool" where
  "validCustomRoleID rid =
     (if length rid < 3 \<or> 64 < length rid then False
      else list_all (\<lambda>c. let n = (of_char c :: nat) in
        97 \<le> n \<and> n \<le> 122 \<or> 65 \<le> n \<and> n \<le> 90 \<or> 48 \<le> n \<and> n \<le> 57 \<or>
        c = CHR ''_'' \<or> c = CHR ''.'') rid)"

definition decodePermissionList :: "document \<Rightarrow> error + string list" where
  "decodePermissionList raw =
     (if (case raw of Malformed s \<Rightarrow> TrimSpace s = [] | Json _ \<Rightarrow> False) then Inr []
      else case Unmarshal (decode_slice decode_string []) raw [] of
          Inl err \<Rightarrow> Inl (Wrap ''decode includedPermissions'' err)
        | Inr perms \<Rightarrow> Inr perms)"

text \<open>\<open>Scan\<close> of a row and the decoding of its permissions.\<close>

definition scanCustomRole :: "CustomRoleRow \<Rightarrow> error + CustomRole" where
  "scanCustomRole r =
     bindE (decodePermissionList (CustomRoleRow_permissions r)) (\<lambda>perms. Inr
       \<lparr>CustomRole_Name = CustomRoleRow_name r, CustomRole_ProjectID = CustomRoleRow_project_id r,
        CustomRole_RoleID = CustomRoleRow_role_id r, CustomRole_Title = CustomRoleRow_title r,
        CustomRole_Description = CustomRoleRow_description r, CustomRole_IncludedPermissions = perms,
        CustomRole_Stage = CustomRoleRow_stage r, CustomRole_Etag = CustomRoleRow_etag r,
        CustomRole_Deleted = CustomRoleRow_deleted r, CustomRole_CreatedAt = CustomRoleRow_created_at r,
        CustomRole_UpdatedAt = CustomRoleRow_updated_at r\<rparr>)"

definition custom_role_name :: "string \<Rightarrow> string \<Rightarrow> string" where
  "custom_role_name projectID roleID = ''projects/'' @ projectID @ ''/roles/'' @ roleID"

definition new_role_row ::
  "string \<Rightarrow> string \<Rightarrow> string \<Rightarrow> string \<Rightarrow> string \<Rightarrow> string \<Rightarrow> string list \<Rightarrow> CustomRoleRow" where
  "new_role_row now projectID roleID title description stage includedPermissions =
     \<lparr>CustomRoleRow_name = custom_role_name projectID roleID, CustomRoleRow_project_id = projectID,
      CustomRoleRow_role_id = roleID, CustomRoleRow_title = title,
      CustomRoleRow_description = description,
      CustomRoleRow_permissions = marshal_strings includedPermissions,
      CustomRoleRow_stage = stage, CustomRoleRow_etag = ''ACAB'', CustomRoleRow_deleted = False,
      CustomRoleRow_created_at = now, CustomRoleRow_updated_at = now\<rparr>"

definition CreateCustomRole ::
  "string \<Rightarrow> string \<Rightarrow> string \<Rightarrow> string \<Rightarrow> string \<Rightarrow> string \<Rightarrow> string list \<Rightarrow> (Db, CustomRole) action" where
  "CreateCustomRole now projectID roleID title description stage includedPermissions =
     (let projectID = TrimSpace projectID; roleID = TrimSpace roleID in
      if projectID = [] \<or> roleID = [] then raiseM (Errorf ''project and roleId required'')
      else if \<not> validCustomRoleID roleID then raiseM (Errorf ''invalid roleId'')
      else
        let stage = (if stage = [] then ''GA'' else stage)
        in bindM (on_table iam_custom_roles iam_custom_roles_update
            (insert_or_ignore (\<lambda>a b. same CustomRoleRow_name a b \<or> same CustomRoleRow_key a b)
              (new_role_row now projectID roleID title description stage includedPermissions))) (\<lambda>n.
            if n = 0 then raiseM ErrAlreadyExists
            else returnM
              \<lparr>CustomRole_Name = custom_role_name projectID roleID, CustomRole_ProjectID = projectID,
               CustomRole_RoleID = roleID, CustomRole_Title = title,
               CustomRole_Description = description,
               CustomRole_IncludedPermissions = includedPermissions, CustomRole_Stage = stage,
               CustomRole_Etag = ''ACAB'', CustomRole_Deleted = False, CustomRole_CreatedAt = now,
               CustomRole_UpdatedAt = now\<rparr>))"

definition GetCustomRole :: "string \<Rightarrow> (Db, CustomRole option) action" where
  "GetCustomRole name =
     bindM (query (\<lambda>db. find (\<lambda>r. CustomRoleRow_name r = name) (iam_custom_roles db))) (\<lambda>row.
       case row of
         None \<Rightarrow> returnM None
       | Some r \<Rightarrow> bindM (liftE (scanCustomRole r)) (\<lambda>x. returnM (Some x)))"

definition GetRoleIncludedPermissions :: "string \<Rightarrow> (Db, string list option) action" where
  "GetRoleIncludedPermissions roleName =
     bindM (GetCustomRole roleName) (\<lambda>r.
       case r of
         None \<Rightarrow> returnM None
       | Some r \<Rightarrow>
           if CustomRole_Deleted r then returnM None
           else if EqualFold (TrimSpace (CustomRole_Stage r)) ''DISABLED'' then returnM None
           else returnM (Some (CustomRole_IncludedPermissions r)))"

definition ListCustomRoles :: "string \<Rightarrow> bool \<Rightarrow> (Db, CustomRole list) action" where
  "ListCustomRoles projectID showDeleted =
     (let projectID = TrimSpace projectID in
      bindM (query (\<lambda>db. sort_key CustomRoleRow_role_id (filter (\<lambda>r.
          CustomRoleRow_project_id r = projectID \<and> (showDeleted \<or> \<not> CustomRoleRow_deleted r))
          (iam_custom_roles db)))) (\<lambda>rows.
        mapM (\<lambda>r. liftE (scanCustomRole r)) rows))"

definition UpdateCustomRole ::
  "string \<Rightarrow> string \<Rightarrow> string \<Rightarrow> string \<Rightarrow> string \<Rightarrow> string list \<Rightarrow> bool \<Rightarrow> bool \<Rightarrow> bool \<Rightarrow> bool \<Rightarrow>
     (Db, CustomRole option) action" where
  "UpdateCustomRole now name title description stage includedPermissions
       updateTitle updateDescription updateStage updatePerms =
     bindM (GetCustomRole name) (\<lambda>r.
       case r of
         None \<Rightarrow> returnM None
       | Some r \<Rightarrow>
           if CustomRole_Deleted r then returnM None
           else
             let r = (if updateTitle then r\<lparr>CustomRole_Title := title\<rparr> else r);
                 r = (if updateDescription then r\<lparr>CustomRole_Description := description\<rparr> else r);
                 r = (if updateStage
                   then r\<lparr>CustomRole_Stage := (if stage = [] then ''GA'' else stage)\<rparr> else r);
                 r = (if updatePerms
                   then r\<lparr>CustomRole_IncludedPermissions := includedPermissions\<rparr> else r);
                 r = r\<lparr>CustomRole_Etag := ''ACAB'', CustomRole_UpdatedAt := now\<rparr>
             in bindM (on_table iam_custom_roles iam_custom_roles_update (update_rows
                 (\<lambda>row. CustomRoleRow_name row = name \<and> \<not> CustomRoleRow_deleted row)
                 (\<lambda>row. row\<lparr>CustomRoleRow_title := CustomRole_Title r,
                    CustomRoleRow_description := CustomRole_Description r,
                    CustomRoleRow_permissions := marshal_strings (CustomRole_IncludedPermissions r),
                    CustomRoleRow_stage := CustomRole_Stage r, CustomRoleRow_etag := CustomRole_Etag r,
                    CustomRoleRow_updated_at := now\<rparr>))) (\<lambda>n.
               if n = 0 then returnM None else returnM (Some r)))"

definition DeleteCustomRole :: "string \<Rightarrow> string \<Rightarrow> (Db, CustomRole option) action" where
  "DeleteCustomRole now name =
     bindM (GetCustomRole name) (\<lambda>r.
       case r of
         None \<Rightarrow> returnM None
       | Some r \<Rightarrow>
           if CustomRole_Deleted r then returnM None
           else bindM (on_table iam_custom_roles iam_custom_roles_update (update_rows
               (\<lambda>row. CustomRoleRow_name row = name \<and> \<not> CustomRoleRow_deleted row)
               (\<lambda>row. row\<lparr>CustomRoleRow_deleted := True, CustomRoleRow_updated_at := now\<rparr>))) (\<lambda>n.
             if n = 0 then returnM None
             else returnM (Some (r\<lparr>CustomRole_Deleted := True, CustomRole_UpdatedAt := now\<rparr>))))"

definition UndeleteCustomRole :: "string \<Rightarrow> string \<Rightarrow> (Db, CustomRole option) action" where
  "UndeleteCustomRole now name =
     bindM (on_table iam_custom_roles iam_custom_roles_update (update_rows
       (\<lambda>row. CustomRoleRow_name row = name \<and> CustomRoleRow_deleted row)
       (\<lambda>row. row\<lparr>CustomRoleRow_deleted := False, CustomRoleRow_updated_at := now\<rparr>)))
       (\<lambda>n. if n = 0 then returnM None else GetCustomRole name)"

section \<open>Lemmas\<close>

lemma preserves_liftE [preserves_intros]: "preserves I (liftE r)"
  by (cases r) (simp_all add: liftE_def preserves_intros)

lemma preserves_GetCustomRole [preserves_intros]: "preserves I (GetCustomRole name)"
  unfolding GetCustomRole_def by (intro preserves_intros)

lemma decode_marshal_permissions [simp]: "decodePermissionList (marshal_strings ps) = Inr ps"
  by (simp add: decodePermissionList_def marshal_strings_def del: decode_slice.simps)

text \<open>The permissions of every stored role decode.\<close>

definition roles_decode :: "Db \<Rightarrow> bool" where
  "roles_decode db \<longleftrightarrow>
     list_all (\<lambda>r. \<not> isl (decodePermissionList (CustomRoleRow_permissions r))) (iam_custom_roles db)"

lemma preserves_roles_decode:
  assumes "\<And>t. list_all (\<lambda>r. \<not> isl (decodePermissionList (CustomRoleRow_permissions r))) t \<Longrightarrow>
     list_all (\<lambda>r. \<not> isl (decodePermissionList (CustomRoleRow_permissions r))) (snd (f t))"
  shows "preserves roles_decode (on_table iam_custom_roles iam_custom_roles_update f)"
  by (rule preserves_on_table) (use assms in \<open>auto simp: roles_decode_def dest: snd_eqD\<close>)

lemma custom_roles_decode [preserves_intros]:
  "preserves roles_decode (CreateCustomRole now p rid title descr stage perms)"
  "preserves roles_decode (UpdateCustomRole now name title descr stage perms b1 b2 b3 b4)"
  "preserves roles_decode (DeleteCustomRole now name)"
  "preserves roles_decode (UndeleteCustomRole now name)"
  unfolding CreateCustomRole_def UpdateCustomRole_def DeleteCustomRole_def UndeleteCustomRole_def
  by (intro preserves_intros preserves_roles_decode;
      force simp: insert_or_ignore_def update_rows_def list_all_iff new_role_row_def)+

lemma custom_roles_schema [preserves_intros]:
  "preserves schema_ok (CreateCustomRole now p rid title descr stage perms)"
  "preserves schema_ok (UpdateCustomRole now name title descr stage perms b1 b2 b3 b4)"
  "preserves schema_ok (DeleteCustomRole now name)"
  "preserves schema_ok (UndeleteCustomRole now name)"
  unfolding CreateCustomRole_def UpdateCustomRole_def DeleteCustomRole_def UndeleteCustomRole_def
  by (intro preserves_intros; simp add: same_def CustomRoleRow_key_def)+

text \<open>What the evaluator sees of a role.\<close>

definition included :: "CustomRoleRow list \<Rightarrow> string \<Rightarrow> error + string list option" where
  "included t name =
     (case find (\<lambda>r. CustomRoleRow_name r = name) t of
        None \<Rightarrow> Inr None
      | Some r \<Rightarrow> bindE (decodePermissionList (CustomRoleRow_permissions r)) (\<lambda>perms.
          Inr (if CustomRoleRow_deleted r \<or> EqualFold (TrimSpace (CustomRoleRow_stage r)) ''DISABLED''
            then None else Some perms)))"

lemma GetRoleIncludedPermissions_ok:
  "ok_connection s \<Longrightarrow> GetRoleIncludedPermissions name s =
     (included (iam_custom_roles (tables s)) name, s)"
  by (simp add: GetRoleIncludedPermissions_def GetCustomRole_def bindM_assoc included_def)
     (auto simp: bindM_def liftE_def scanCustomRole_def bindE_def split: option.split sum.split)

lemma GetCustomRole_ok:
  "ok_connection s \<Longrightarrow> find (\<lambda>r. CustomRoleRow_name r = name) (iam_custom_roles (tables s)) = Some r \<Longrightarrow>
     decodePermissionList (CustomRoleRow_permissions r) = Inr perms \<Longrightarrow>
     \<exists>x. GetCustomRole name s = (Inr (Some x), s) \<and> CustomRole_Deleted x = CustomRoleRow_deleted r \<and>
       scanCustomRole r = Inr x"
  by (simp add: GetCustomRole_def bindM_def liftE_def scanCustomRole_def)

section \<open>Properties\<close>

text \<open>The table of custom roles stays well formed: creating, updating, deleting and undeleting roles
  keeps their names and their pairs of project and role id unique, and every stored permission list
  decodable, whichever statement fails.\<close>
theorem custom_roles_well_formed:
  "preserves (\<lambda>db. schema_ok db \<and> roles_decode db) (CreateCustomRole now p rid title descr stage perms) \<and>
   preserves (\<lambda>db. schema_ok db \<and> roles_decode db)
     (UpdateCustomRole now name title descr stage perms b1 b2 b3 b4) \<and>
   preserves (\<lambda>db. schema_ok db \<and> roles_decode db) (DeleteCustomRole now name) \<and>
   preserves (\<lambda>db. schema_ok db \<and> roles_decode db) (UndeleteCustomRole now name)"
  using custom_roles_decode custom_roles_schema by (simp add: preserves_def)

lemma role_store_roleGrants:
  assumes "isCustomRoleName name" and "ok_connection s"
  shows "roleGrants (Some (\<lambda>role. fst (GetRoleIncludedPermissions role s))) name permission =
    bindE (included (iam_custom_roles (tables s)) name)
      (\<lambda>r. Inr (case r of None \<Rightarrow> False | Some perms \<Rightarrow> permission \<in> set perms))"
  using assms by (simp add: roleGrants_custom GetRoleIncludedPermissions_ok)

lemma GetCustomRole_Some:
  assumes "ok_connection s" and "GetCustomRole name s = (Inr (Some x), s1)"
  shows "s1 = s \<and> (\<exists>row. find (\<lambda>r. CustomRoleRow_name r = name) (iam_custom_roles (tables s)) = Some row \<and>
    decodePermissionList (CustomRoleRow_permissions row) = Inr (CustomRole_IncludedPermissions x) \<and>
    CustomRole_Deleted x = CustomRoleRow_deleted row \<and> CustomRole_Stage x = CustomRoleRow_stage row)"
  using assms
  by (auto simp: GetCustomRole_def bindM_def liftE_def scanCustomRole_def bindE_def
      split: option.splits sum.splits)

lemma find_updated:
  "(\<And>r. CustomRoleRow_name (f r) = CustomRoleRow_name r) \<Longrightarrow>
     find (\<lambda>r. CustomRoleRow_name r = name) (map (\<lambda>r. if P r then f r else r) t) =
     map_option (\<lambda>r. if P r then f r else r) (find (\<lambda>r. CustomRoleRow_name r = name) t)"
  by (rule find_map_same) simp

lemma DeleteCustomRole_Some:
  assumes "ok_connection s" and "DeleteCustomRole now name s = (Inr (Some r), s')"
  shows "ok_connection s' \<and> (\<exists>row.
    find (\<lambda>r. CustomRoleRow_name r = name) (iam_custom_roles (tables s)) = Some row \<and>
    \<not> isl (decodePermissionList (CustomRoleRow_permissions row)) \<and> \<not> CustomRoleRow_deleted row \<and>
    tables s' = iam_custom_roles_update (map (\<lambda>row. if CustomRoleRow_name row = name \<and> \<not> CustomRoleRow_deleted row
      then row\<lparr>CustomRoleRow_deleted := True, CustomRoleRow_updated_at := now\<rparr> else row)) (tables s))"
proof -
  from assms(2) obtain x s1 where "GetCustomRole name s = (Inr x, s1)"
    by (auto simp: DeleteCustomRole_def bindM_Inr)
  with assms(2) obtain y where y: "GetCustomRole name s = (Inr (Some y), s1)"
    by (cases x) (auto simp: DeleteCustomRole_def bindM_def)
  note row = GetCustomRole_Some [OF assms(1) this]
  with assms y show ?thesis
    by (auto simp: DeleteCustomRole_def bindM_def split: if_splits)
qed

text \<open>C33. Deleting a role revokes it at once and undeleting restores it: on a store whose statements
  succeed, after \<open>DeleteCustomRole\<close> the role grants no permission, and after \<open>UndeleteCustomRole\<close> it
  grants exactly what it granted before.\<close>
theorem delete_role_revokes:
  assumes "ok_connection s" and "isCustomRoleName name"
    and "DeleteCustomRole now name s = (Inr (Some r), s1)"
    and "UndeleteCustomRole later name s1 = (Inr (Some r'), s2)"
  shows "roleGrants (Some (\<lambda>role. fst (GetRoleIncludedPermissions role s1))) name permission = Inr False \<and>
    roleGrants (Some (\<lambda>role. fst (GetRoleIncludedPermissions role s2))) name permission =
    roleGrants (Some (\<lambda>role. fst (GetRoleIncludedPermissions role s))) name permission"
proof -
  let ?t = "iam_custom_roles (tables s)" and ?t1 = "iam_custom_roles (tables s1)"
  from DeleteCustomRole_Some [OF assms(1,3)] obtain row where ok: "ok_connection s1"
    and row: "find (\<lambda>r. CustomRoleRow_name r = name) ?t = Some row"
    "\<not> isl (decodePermissionList (CustomRoleRow_permissions row))" "\<not> CustomRoleRow_deleted row"
    and s1: "tables s1 = iam_custom_roles_update (map (\<lambda>row. if CustomRoleRow_name row = name \<and> \<not> CustomRoleRow_deleted row
      then row\<lparr>CustomRoleRow_deleted := True, CustomRoleRow_updated_at := now\<rparr> else row)) (tables s)"
    by blast
  have row1: "find (\<lambda>r. CustomRoleRow_name r = name) ?t1 =
      Some (row\<lparr>CustomRoleRow_deleted := True, CustomRoleRow_updated_at := now\<rparr>)"
    using find_SomeD [OF row(1)] row(1,3) by (simp add: s1 find_updated)
  then have inc1: "included ?t1 name = Inr None"
    using row(2) by (auto simp: included_def isl_def bindE_def split: sum.split)
  from assms(4) ok have s2: "iam_custom_roles (tables s2) =
      map (\<lambda>row. if CustomRoleRow_name row = name \<and> CustomRoleRow_deleted row
        then row\<lparr>CustomRoleRow_deleted := False, CustomRoleRow_updated_at := later\<rparr> else row) ?t1"
    and ok2: "ok_connection s2"
    using GetCustomRole_Some [of "s1\<lparr>tables := iam_custom_roles_update (\<lambda>_. map (\<lambda>row.
        if CustomRoleRow_name row = name \<and> CustomRoleRow_deleted row
        then row\<lparr>CustomRoleRow_deleted := False, CustomRoleRow_updated_at := later\<rparr> else row) ?t1) (tables s1)\<rparr>"
        name r' s2]
    by (auto simp: UndeleteCustomRole_def split: if_splits)
  have "included (iam_custom_roles (tables s2)) name = included ?t name"
    using find_SomeD [OF row(1)] row(1,3) by (simp add: s2 included_def find_updated row1)
  with inc1 show ?thesis
    by (simp add: role_store_roleGrants [OF assms(2)] ok ok2 assms(1))
qed

lemma custom_role_name_custom: "isCustomRoleName (custom_role_name projectID roleID)"
proof -
  have "HasPrefix (custom_role_name projectID roleID) ''projects/''"
    unfolding custom_role_name_def by (rule HasPrefix_append)
  moreover have "Contains (custom_role_name projectID roleID) ''/roles/''"
    using Contains_append [of "''projects/'' @ projectID" "''/roles/''" roleID]
    unfolding custom_role_name_def append_assoc .
  ultimately show ?thesis by (simp add: isCustomRoleName_def)
qed

text \<open>A new role grants its permissions and only those: after \<open>CreateCustomRole\<close> succeeds, the
  evaluator answers for the role exactly the membership in the given list, or denies everything when
  the role was created in stage \<open>DISABLED\<close>; the created name is that of a custom role.\<close>
theorem created_role_grants_exactly:
  assumes "ok_connection s"
    and "CreateCustomRole now projectID roleID title descr stage perms s = (Inr r, s')"
  shows "isCustomRoleName (CustomRole_Name r) \<and>
    roleGrants (Some (\<lambda>role. fst (GetRoleIncludedPermissions role s'))) (CustomRole_Name r) permission =
    Inr (permission \<in> set perms \<and> \<not> EqualFold (TrimSpace stage) ''DISABLED'')"
proof -
  let ?p = "TrimSpace projectID" and ?r = "TrimSpace roleID" and ?t = "iam_custom_roles (tables s)"
  let ?stage = "if stage = [] then ''GA'' else stage"
  let ?row = "new_role_row now ?p ?r title descr ?stage perms" and ?name = "custom_role_name ?p ?r"
  have r: "CustomRole_Name r = ?name"
    and s': "s' = s\<lparr>tables := iam_custom_roles_update (\<lambda>_. ?t @ [?row]) (tables s)\<rparr>"
    and new: "\<forall>r'\<in>set ?t. CustomRoleRow_name r' \<noteq> ?name"
    using assms unfolding CreateCustomRole_def Let_def
    by (auto simp: insert_or_ignore_def same_def new_role_row_def split: if_split_asm)
  have "included (?t @ [?row]) ?name =
      Inr (if EqualFold (TrimSpace ?stage) ''DISABLED'' then None else Some perms)"
  proof -
    have "find (\<lambda>r. CustomRoleRow_name r = ?name) ?t = None" using new by (auto simp: find_None_iff)
    then show ?thesis by (simp add: included_def find_append new_role_row_def)
  qed
  moreover have "EqualFold (TrimSpace ?stage) ''DISABLED'' = EqualFold (TrimSpace stage) ''DISABLED''"
    using TrimSpace_plain_ends [of "''GA''"] by (simp add: EqualFold_def ToLower_def lower_char_def plain_char_def)
  ultimately show ?thesis
    using assms(1) by (simp add: r s' role_store_roleGrants custom_role_name_custom)
qed


text \<open>A role created in an empty store, deleted and undeleted.\<close>

definition example_store :: "Db connection" where
  "example_store = \<lparr>tables = empty_Db\<lparr>iam_custom_roles :=
     [new_role_row ''t0'' ''p1'' ''reader'' ''Reader'' [] ''GA'' [''storage.objects.get'']]\<rparr>, faults = []\<rparr>"

lemma example_role_name: "custom_role_name ''p1'' ''reader'' = ''projects/p1/roles/reader''"
  by (simp add: custom_role_name_def)

lemma example_role_trims: "TrimSpace ''p1'' = ''p1''" "TrimSpace ''reader'' = ''reader''" "TrimSpace ''GA'' = ''GA''"
  by (rule TrimSpace_plain_ends; simp add: plain_char_def)+

theorem delete_role_revokes_witness:
  "\<exists>s1 s2. DeleteCustomRole ''t1'' ''projects/p1/roles/reader'' example_store = s1 \<and>
    UndeleteCustomRole ''t2'' ''projects/p1/roles/reader'' (snd s1) = s2 \<and>
    roleGrants (Some (\<lambda>role. fst (GetRoleIncludedPermissions role (snd s1))))
      ''projects/p1/roles/reader'' ''storage.objects.get'' = Inr False"
proof -
  obtain r s1 where s1: "DeleteCustomRole ''t1'' ''projects/p1/roles/reader'' example_store = (Inr (Some r), s1)"
    and u: "\<exists>r' s2. UndeleteCustomRole ''t2'' ''projects/p1/roles/reader'' s1 = (Inr (Some r'), s2)"
    by (simp add: DeleteCustomRole_def UndeleteCustomRole_def GetCustomRole_def example_store_def
        action_eval new_role_row_def example_role_name liftE_def scanCustomRole_def empty_Db_def)
  have "ok_connection example_store" by (simp add: example_store_def ok_connection_def)
  moreover have "isCustomRoleName ''projects/p1/roles/reader''" by (simp add: isCustomRoleName_def go_simps)
  ultimately show ?thesis using delete_role_revokes [OF _ _ s1] u s1 by fastforce
qed

theorem created_role_grants_exactly_witness:
  "\<exists>r s'. CreateCustomRole ''t0'' ''p1'' ''reader'' ''Reader'' [] [] [''storage.objects.get'']
      \<lparr>tables = empty_Db, faults = []\<rparr> = (Inr r, s') \<and>
    roleGrants (Some (\<lambda>role. fst (GetRoleIncludedPermissions role s'))) (CustomRole_Name r)
      ''storage.objects.get'' = Inr True"
proof -
  have ok: "ok_connection \<lparr>tables = empty_Db, faults = []\<rparr>" by (simp add: ok_connection_def)
  then obtain r s' where c: "CreateCustomRole ''t0'' ''p1'' ''reader'' ''Reader'' [] [] [''storage.objects.get'']
      \<lparr>tables = empty_Db, faults = []\<rparr> = (Inr r, s')"
    by (simp add: CreateCustomRole_def example_role_trims validCustomRoleID_def action_eval
        empty_Db_def Let_def)
  with created_role_grants_exactly [OF ok c, of "''storage.objects.get''"] show ?thesis
    by (simp add: EqualFold_def ToLower_def)
qed

end
