(* ===== verification/Crm_Store.thy ===== *)
theory Crm_Store
  imports Store_Tables
begin

text \<open>
  The resource hierarchy: organizations and folders of \<^verbatim>\<open>internal/store/appengine_crm.go\<close>.
  \<open>CRMParent\<close> is the parent store of the evaluator and of the organization policies. The clock and
  the random parts of ids and etags are arguments.
\<close>

definition DefaultOrganizationName :: string where
  "DefaultOrganizationName = ''organizations/noctaxris-gcp-org''"

definition DefaultOrganizationID :: string where
  "DefaultOrganizationID = ''noctaxris-gcp-org''"

definition default_to :: "string \<Rightarrow> string \<Rightarrow> string" where
  "default_to d s = (if s = [] then d else s)"

section \<open>Organizations\<close>

definition organization_clash :: "Organization \<Rightarrow> Organization \<Rightarrow> bool" where
  "organization_clash a b \<longleftrightarrow> same Organization_Name a b \<or> same Organization_OrgID a b"

definition EnsureLabOrganization :: "string \<Rightarrow> (Db, unit) action" where
  "EnsureLabOrganization now =
     bindM (on_table crm_organizations crm_organizations_update (insert_or_ignore organization_clash
       \<lparr>Organization_Name = DefaultOrganizationName, Organization_OrgID = DefaultOrganizationID,
        Organization_DisplayName = ''Noctaxris-GCP Lab Org'', Organization_State = ''ACTIVE'',
        Organization_CreatedAt = now, Organization_UpdatedAt = now\<rparr>)) (\<lambda>_. returnM ())"

definition CreateOrganization :: "string \<Rightarrow> Organization \<Rightarrow> (Db, bool) action" where
  "CreateOrganization now org =
     (if Organization_OrgID org = [] then raiseM (Errorf ''org id required'')
      else
        let created = default_to now (Organization_CreatedAt org);
            org = org\<lparr>
              Organization_Name := default_to (''organizations/'' @ Organization_OrgID org) (Organization_Name org),
              Organization_DisplayName := default_to (Organization_OrgID org) (Organization_DisplayName org),
              Organization_State := default_to ''ACTIVE'' (Organization_State org),
              Organization_CreatedAt := created,
              Organization_UpdatedAt := default_to created (Organization_UpdatedAt org)\<rparr>
        in bindM (on_table crm_organizations crm_organizations_update
            (insert_or_ignore organization_clash org)) (\<lambda>n. returnM (0 < n)))"

definition GetOrganization :: "string \<Rightarrow> (Db, Organization option) action" where
  "GetOrganization nameOrID =
     (let nameOrID = TrimPrefix (TrimSpace nameOrID) ''organizations/'' in
      if nameOrID = [] then returnM None
      else query (\<lambda>db. find (\<lambda>org. Organization_Name org = ''organizations/'' @ nameOrID \<or>
        Organization_OrgID org = nameOrID) (crm_organizations db)))"

definition ListOrganizations :: "(Db, Organization list) action" where
  "ListOrganizations = query (\<lambda>db. sort_key Organization_OrgID (crm_organizations db))"

section \<open>Folders\<close>

definition folder_clash :: "Folder \<Rightarrow> Folder \<Rightarrow> bool" where
  "folder_clash a b \<longleftrightarrow> same Folder_Name a b \<or> same Folder_FolderID a b"

definition GetFolder :: "string \<Rightarrow> (Db, Folder option) action" where
  "GetFolder nameOrID =
     (let nameOrID = TrimPrefix (TrimSpace nameOrID) ''folders/'' in
      if nameOrID = [] then returnM None
      else query (\<lambda>db. find (\<lambda>f. Folder_Name f = ''folders/'' @ nameOrID \<or> Folder_FolderID f = nameOrID)
        (crm_folders db)))"

text \<open>\<open>CRMParent\<close>: a project hangs under the default organization, a folder under its stored parent.\<close>

definition CRMParent :: "string \<Rightarrow> (Db, string option) action" where
  "CRMParent resource =
     (let resource = TrimSpace resource in
      if HasPrefix resource ''organizations/'' then returnM None
      else if HasPrefix resource ''folders/'' then
        (let rest = TrimPrefix resource ''folders/'' in
         if rest = [] \<or> Contains rest ''/'' then returnM None
         else bindM (GetFolder resource) (\<lambda>f.
           case f of
             None \<Rightarrow> returnM None
           | Some f \<Rightarrow> if Folder_Parent f = [] then returnM None else returnM (Some (Folder_Parent f))))
      else if HasPrefix resource ''projects/'' then
        (let rest = TrimPrefix resource ''projects/'' in
         if rest = [] \<or> Contains rest ''/'' then returnM None
         else returnM (Some DefaultOrganizationName))
      else returnM None)"

definition CreateFolder :: "string \<Rightarrow> string \<Rightarrow> Folder \<Rightarrow> (Db, Folder option) action" where
  "CreateFolder now uuid f =
     (if Folder_Parent f = [] then raiseM (Errorf ''parent required'')
      else if Folder_DisplayName f = [] then raiseM (Errorf ''displayName required'')
      else
        let fid = default_to uuid (Folder_FolderID f);
            created = default_to now (Folder_CreatedAt f);
            f = f\<lparr>Folder_FolderID := fid,
              Folder_Name := default_to (''folders/'' @ fid) (Folder_Name f),
              Folder_State := default_to ''ACTIVE'' (Folder_State f),
              Folder_Etag := default_to ''ACAB'' (Folder_Etag f),
              Folder_CreatedAt := created,
              Folder_UpdatedAt := default_to created (Folder_UpdatedAt f),
              Folder_DeleteTime := []\<rparr>
        in bindM (on_table crm_folders crm_folders_update (insert_or_ignore folder_clash f)) (\<lambda>n.
            if n = 0 then returnM None else GetFolder (Folder_Name f)))"

definition ListFolders :: "string \<Rightarrow> bool \<Rightarrow> (Db, Folder list) action" where
  "ListFolders parent showDeleted =
     query (\<lambda>db. sort_key Folder_DisplayName (filter (\<lambda>f. Folder_Parent f = parent \<and>
       (showDeleted \<or> Folder_State f = ''ACTIVE'')) (crm_folders db)))"

definition UpdateFolderDisplayName ::
  "string \<Rightarrow> string \<Rightarrow> string \<Rightarrow> string \<Rightarrow> (Db, Folder option) action" where
  "UpdateFolderDisplayName now etag nameOrID displayName =
     bindM (GetFolder nameOrID) (\<lambda>f.
       case f of
         None \<Rightarrow> returnM None
       | Some f \<Rightarrow>
           if Folder_State f \<noteq> ''ACTIVE'' then returnM None
           else bindM (on_table crm_folders crm_folders_update (update_rows
               (\<lambda>r. Folder_Name r = Folder_Name f \<and> Folder_State r = ''ACTIVE'')
               (\<lambda>r. r\<lparr>Folder_DisplayName := displayName, Folder_UpdatedAt := now, Folder_Etag := etag\<rparr>)))
             (\<lambda>n. if n = 0 then returnM None else GetFolder (Folder_Name f)))"

definition DeleteFolder :: "string \<Rightarrow> string \<Rightarrow> (Db, Folder option) action" where
  "DeleteFolder now nameOrID =
     bindM (GetFolder nameOrID) (\<lambda>f.
       case f of
         None \<Rightarrow> returnM None
       | Some f \<Rightarrow>
           if Folder_State f = ''DELETE_REQUESTED'' then returnM (Some f)
           else bindM (on_table crm_folders crm_folders_update (update_rows
               (\<lambda>r. Folder_Name r = Folder_Name f)
               (\<lambda>r. r\<lparr>Folder_State := ''DELETE_REQUESTED'', Folder_DeleteTime := now, Folder_UpdatedAt := now\<rparr>)))
             (\<lambda>n. if n = 0 then returnM None else GetFolder (Folder_Name f)))"

definition UndeleteFolder :: "string \<Rightarrow> string \<Rightarrow> string \<Rightarrow> (Db, Folder option) action" where
  "UndeleteFolder now etag nameOrID =
     bindM (GetFolder nameOrID) (\<lambda>f.
       case f of
         None \<Rightarrow> returnM None
       | Some f \<Rightarrow>
           if Folder_State f = ''ACTIVE'' then returnM (Some f)
           else bindM (on_table crm_folders crm_folders_update (update_rows
               (\<lambda>r. Folder_Name r = Folder_Name f)
               (\<lambda>r. r\<lparr>Folder_State := ''ACTIVE'', Folder_DeleteTime := [], Folder_UpdatedAt := now,
                  Folder_Etag := etag\<rparr>)))
             (\<lambda>n. if n = 0 then returnM None else GetFolder (Folder_Name f)))"

definition MoveFolder :: "string \<Rightarrow> string \<Rightarrow> string \<Rightarrow> string \<Rightarrow> (Db, Folder option) action" where
  "MoveFolder now etag nameOrID destinationParent =
     (if destinationParent = [] then raiseM (Errorf ''destinationParent required'')
      else bindM (GetFolder nameOrID) (\<lambda>f.
        case f of
          None \<Rightarrow> returnM None
        | Some f \<Rightarrow>
            if Folder_State f \<noteq> ''ACTIVE'' then returnM None
            else bindM (on_table crm_folders crm_folders_update (update_rows
                (\<lambda>r. Folder_Name r = Folder_Name f \<and> Folder_State r = ''ACTIVE'')
                (\<lambda>r. r\<lparr>Folder_Parent := destinationParent, Folder_UpdatedAt := now, Folder_Etag := etag\<rparr>)))
              (\<lambda>n. if n = 0 then returnM None else GetFolder (Folder_Name f))))"

subsection \<open>Searching folders\<close>

text \<open>\<open>strings.Fields\<close>, the word read so far being kept in reverse.\<close>

function fields_loop :: "string \<Rightarrow> string \<Rightarrow> string list" where
  "fields_loop s word =
     (if s = [] then (if word = [] then [] else [rev word])
      else case find (\<lambda>w. w \<noteq> [] \<and> HasPrefix s w) space_runes of
          Some w \<Rightarrow> (if word = [] then [] else [rev word]) @ fields_loop (drop (length w) s) []
        | None \<Rightarrow> fields_loop (tl s) (hd s # word))"
  by pat_completeness auto
termination
proof (relation "measure (\<lambda>(s, word). length s)", goal_cases)
  case (2 s word)
  then show ?case by (cases s) auto
next
  case (3 s word w)
  then show ?case by (cases s) (auto simp: find_Some_iff)
qed simp

declare fields_loop.simps [simp del]

definition Fields :: "string \<Rightarrow> string list" where
  "Fields s = fields_loop s []"

definition Trim :: "string \<Rightarrow> string \<Rightarrow> string" where
  "Trim s cutset = rev (dropWhile (\<lambda>c. c \<in> set cutset) (rev (dropWhile (\<lambda>c. c \<in> set cutset) s)))"

definition quotes :: string where
  "quotes = [CHR 0x22, CHR 0x27]"

text \<open>One part of the query: \<open>None\<close> when it is skipped, otherwise whether the folder matches it.\<close>

definition match_part :: "Folder \<Rightarrow> string \<Rightarrow> bool option" where
  "match_part f part =
     (let part = TrimSpace part in
      if part = [] \<or> part = ''and'' \<or> part = ''or'' then None
      else if HasPrefix part ''displayname='' then
        (let want = TrimSuffix (Trim (TrimPrefix part ''displayname='') quotes) ''*''
         in Some (Contains (ToLower (Folder_DisplayName f)) want))
      else if HasPrefix part ''parent='' then
        Some (EqualFold (Folder_Parent f) (Trim (TrimPrefix part ''parent='') quotes))
      else if HasPrefix part ''state='' \<or> HasPrefix part ''lifecyclestate='' then
        (let want = drop (case IndexByte part (CHR ''='') of None \<Rightarrow> 0 | Some i \<Rightarrow> i + 1) part
         in Some (EqualFold (Folder_State f) (Trim want quotes)))
      else
        Some (Contains (ToLower (Folder_DisplayName f @ '' '' @ Folder_Parent f @ '' '' @ Folder_State f)) part))"

fun match_parts :: "Folder \<Rightarrow> bool \<Rightarrow> string list \<Rightarrow> bool" where
  "match_parts f matchedAny [] = matchedAny"
| "match_parts f matchedAny (part # parts) =
     (case match_part f part of
        None \<Rightarrow> match_parts f matchedAny parts
      | Some ok \<Rightarrow> if ok then match_parts f True parts else False)"

definition matchFolderSearchQuery :: "Folder \<Rightarrow> string \<Rightarrow> bool" where
  "matchFolderSearchQuery f qLower = match_parts f False (Fields qLower)"

definition SearchFolders :: "string \<Rightarrow> (Db, Folder list) action" where
  "SearchFolders q =
     (let q = TrimSpace q; qLower = ToLower q in
      query (\<lambda>db. filter (\<lambda>f.
        if q = [] then Folder_State f = ''ACTIVE''
        else if Contains qLower ''='' then matchFolderSearchQuery f qLower
        else Contains (ToLower (Folder_DisplayName f @ '' '' @ Folder_Parent f @ '' '' @ Folder_State f @
          '' '' @ Folder_Name f)) qLower)
        (sort_key Folder_DisplayName (crm_folders db))))"

section \<open>Lemmas\<close>

lemma preserves_GetFolder [preserves_intros]: "preserves I (GetFolder n)"
  unfolding GetFolder_def by (intro preserves_intros)

lemma crm_schema [preserves_intros]:
  "preserves schema_ok (EnsureLabOrganization now)"
  "preserves schema_ok (CreateOrganization now org)"
  "preserves schema_ok (CreateFolder now uuid f)"
  "preserves schema_ok (UpdateFolderDisplayName now etag n name)"
  "preserves schema_ok (DeleteFolder now n)"
  "preserves schema_ok (UndeleteFolder now etag n)"
  "preserves schema_ok (MoveFolder now etag n parent)"
  unfolding EnsureLabOrganization_def CreateOrganization_def CreateFolder_def
    UpdateFolderDisplayName_def DeleteFolder_def UndeleteFolder_def MoveFolder_def
  by (intro preserves_intros; simp add: same_def folder_clash_def organization_clash_def)+

text \<open>What \<open>GetFolder\<close> and \<open>CRMParent\<close> answer, as functions of the folder table.\<close>

definition folder_at :: "Folder list \<Rightarrow> string \<Rightarrow> Folder option" where
  "folder_at t nameOrID =
     (let n = TrimPrefix (TrimSpace nameOrID) ''folders/'' in
      if n = [] then None else find (\<lambda>f. Folder_Name f = ''folders/'' @ n \<or> Folder_FolderID f = n) t)"

definition parent_at :: "Folder list \<Rightarrow> string \<Rightarrow> string option" where
  "parent_at t resource =
     (let r = TrimSpace resource in
      if HasPrefix r ''organizations/'' then None
      else if HasPrefix r ''folders/'' then
        (if TrimPrefix r ''folders/'' = [] \<or> Contains (TrimPrefix r ''folders/'') ''/'' then None
         else case folder_at t r of
             None \<Rightarrow> None
           | Some f \<Rightarrow> if Folder_Parent f = [] then None else Some (Folder_Parent f))
      else if HasPrefix r ''projects/'' then
        (if TrimPrefix r ''projects/'' = [] \<or> Contains (TrimPrefix r ''projects/'') ''/'' then None
         else Some DefaultOrganizationName)
      else None)"

lemma GetFolder_ok:
  "ok_connection s \<Longrightarrow> GetFolder n s = (Inr (folder_at (crm_folders (tables s)) n), s)"
  by (simp add: GetFolder_def folder_at_def Let_def)

lemma CRMParent_ok:
  assumes "ok_connection s"
  shows "CRMParent r s = (Inr (parent_at (crm_folders (tables s)) r), s)"
proof -
  define q where "q = TrimSpace r"
  define t where "t = crm_folders (tables s)"
  have folder: "bindM (GetFolder q) (\<lambda>f. case f of None \<Rightarrow> returnM None
      | Some f \<Rightarrow> if Folder_Parent f = [] then returnM None else returnM (Some (Folder_Parent f))) s =
    (Inr (case folder_at t q of None \<Rightarrow> None
      | Some f \<Rightarrow> if Folder_Parent f = [] then None else Some (Folder_Parent f)), s)"
    by (cases "folder_at t q") (simp_all add: bindM_def GetFolder_ok [OF assms] t_def [symmetric])
  show ?thesis
    unfolding CRMParent_def parent_at_def Let_def q_def [symmetric] t_def [symmetric]
    by (simp only: folder returnM_apply if_distribR split: if_split) simp
qed

end
