(* ===== verification/Iam_On_Store.thy ===== *)
theory Iam_On_Store
  imports Iam_Decisions Identity_Theorems Custom_Roles Crm_Store
begin

text \<open>
  The evaluator on the store: \<open>New\<close> in \<^verbatim>\<open>internal/server/server.go\<close> gives the IAM evaluator the store as
  its policy store, its role store and its parent store. Here the evaluator of \<open>Iam_Evaluator\<close> reads
  the tables of \<open>Identity_Store\<close>, \<open>Custom_Roles\<close> and \<open>Crm_Store\<close>, and the operations that change these
  tables are related to the decisions they change.

  The locale \<open>policy_service\<close> is the contract between the two sides: policies are read back as they
  were written, roles and parents do not depend on them. It is interpreted on the store.
\<close>

section \<open>The evaluator of the server\<close>

text \<open>What a read answers on a database whose statements succeed.\<close>

definition sql_read :: "(Db, 'a) action \<Rightarrow> Db \<Rightarrow> error + 'a" where
  "sql_read m db = fst (m \<lparr>tables = db, faults = []\<rparr>)"

definition serverEvaluator :: "int option \<Rightarrow> Db \<Rightarrow> Evaluator" where
  "serverEvaluator now db =
     \<lparr>Policies = Some (\<lambda>resource. sql_read (GetIAMPolicyJSON resource) db),
      Roles = Some (\<lambda>role. sql_read (GetRoleIncludedPermissions role) db),
      Parents = Some (\<lambda>resource. sql_read (CRMParent resource) db),
      Now = now\<rparr>"

section \<open>The contract of a policy service\<close>

locale policy_service =
  fixes evaluator_of :: "'s \<Rightarrow> Evaluator"
    and policies_of :: "'s \<Rightarrow> policy_store"
    and put_policy :: "string \<Rightarrow> Policy \<Rightarrow> 's \<Rightarrow> 's"
  assumes policies_of: "Policies (evaluator_of s) = Some (policies_of s)"
    and policies_put: "policies_of (put_policy resource pol s) r =
      (if r = resource then Inr (Some (marshal_policy pol)) else policies_of s r)"
    and roles_put: "Roles (evaluator_of (put_policy resource pol s)) = Roles (evaluator_of s)"
    and parents_put: "Parents (evaluator_of (put_policy resource pol s)) = Parents (evaluator_of s)"
    and now_put: "Now (evaluator_of (put_policy resource pol s)) = Now (evaluator_of s)"
begin

lemma chain_put: "policyChain (evaluator_of (put_policy resource pol s)) = policyChain (evaluator_of s)"
  by (rule ext) (simp add: policyChain_def parents_put)

lemma conditionAllows_put:
  "conditionAllows rt (evaluator_of (put_policy resource pol s)) = conditionAllows rt (evaluator_of s)"
  by (rule ext) (simp add: conditionAllows_def now_put split: option.split)

lemma justifies_put:
  "justifies rt (evaluator_of (put_policy resource pol s)) = justifies rt (evaluator_of s)"
  by (intro ext) (simp add: justifies_def conditionAllows_put roles_put)

lemma bindingGrants_put:
  "bindingGrants rt (evaluator_of (put_policy resource pol s)) = bindingGrants rt (evaluator_of s)"
  by (intro ext) (simp add: bindingGrants_def conditionAllows_put roles_put)

lemma bindings_put:
  "bindings_at (policies_of (put_policy resource pol s)) r =
     (if r = resource then Bindings pol else bindings_at (policies_of s) r)"
  by (simp add: bindings_at_def policies_put policy_json_unmarshal)

lemma answers_put:
  "answers (evaluator_of (put_policy resource pol s)) (policies_of (put_policy resource pol s)) permission r =
     (if r = resource
      then list_all (\<lambda>b. \<not> isl (roleGrants (Roles (evaluator_of s)) (Role b) permission)) (Bindings pol)
      else answers (evaluator_of s) (policies_of s) permission r)"
  by (simp add: answers_def policies_put policy_json_unmarshal roles_put split: sum.split option.split)

lemma evaluateBindings_put:
  "r \<noteq> resource \<Longrightarrow>
     evaluateBindings rt (evaluator_of (put_policy resource pol s)) (policies_of (put_policy resource pol s))
       matches permission r =
     evaluateBindings rt (evaluator_of s) (policies_of s) matches permission r"
  by (cases "policies_of s" r rule: policy_lookup)
     (simp_all add: evaluateBindings_def policies_put bindingGrants_put)

text \<open>A policy is consulted on the chain of the resource it is set on, and nowhere else.\<close>

lemma evaluate_off_chain:
  assumes "policyChain (evaluator_of s) r = Inr chain" and "resource \<notin> set chain"
  shows "Evaluate rt (Some (evaluator_of (put_policy resource pol s))) email isRoot permission r =
    Evaluate rt (Some (evaluator_of s)) email isRoot permission r"
proof -
  have "anyE (evaluateBindings rt (evaluator_of (put_policy resource pol s))
        (policies_of (put_policy resource pol s)) matches permission) chain =
      anyE (evaluateBindings rt (evaluator_of s) (policies_of s) matches permission) chain" for matches
    using assms(2) by (intro anyE_cong refl evaluateBindings_put) auto
  then show ?thesis
    using assms(1) by (simp add: Evaluate_def policies_of chain_put evaluateOnResource_eq)
qed

text \<open>On that chain the new bindings decide together with those of the other members of the chain.\<close>

lemma granted_put:
  "granted rt (evaluator_of (put_policy resource pol s)) (policies_of (put_policy resource pol s))
      matches permission chain \<longleftrightarrow>
     (resource \<in> set chain \<and> (\<exists>b\<in>set (Bindings pol). justifies rt (evaluator_of s) matches permission b)) \<or>
     granted rt (evaluator_of s) (policies_of s) matches permission (filter (\<lambda>r. r \<noteq> resource) chain)"
  by (auto simp: granted_def bindings_put justifies_put split: if_splits)

lemma evaluate_put:
  assumes "policyChain (evaluator_of s) r = Inr chain"
    and "\<And>x. x \<in> set chain \<Longrightarrow> x \<noteq> resource \<Longrightarrow> answers (evaluator_of s) (policies_of s) permission x"
    and "list_all (\<lambda>b. \<not> isl (roleGrants (Roles (evaluator_of s)) (Role b) permission)) (Bindings pol)"
    and "email \<noteq> []" "permission \<noteq> []" "r \<noteq> []"
  shows "Evaluate rt (Some (evaluator_of (put_policy resource pol s))) email False permission r =
    Inr ((resource \<in> set chain \<and> (\<exists>b\<in>set (Bindings pol).
            justifies rt (evaluator_of s) (\<lambda>ms. memberIn ms (memberIdentity email)) permission b)) \<or>
      granted rt (evaluator_of s) (policies_of s) (\<lambda>ms. memberIn ms (memberIdentity email)) permission
        (filter (\<lambda>x. x \<noteq> resource) chain))"
proof -
  have "list_all (answers (evaluator_of (put_policy resource pol s))
      (policies_of (put_policy resource pol s)) permission) chain"
    using assms(2,3) by (simp add: list_all_iff answers_put)
  from Evaluate_answers [OF policies_of _ this] assms(1,4-6)
  show ?thesis by (simp add: chain_put granted_put)
qed

end

section \<open>The store is a policy service\<close>

definition stamped :: "Policy \<Rightarrow> Policy" where
  "stamped pol = (if Etag pol = [] then pol\<lparr>Etag := ''ACAB''\<rparr> else pol)"

definition policy_put :: "string \<Rightarrow> Policy \<Rightarrow> Db \<Rightarrow> Db" where
  "policy_put resource pol db =
     (let row = \<lparr>IamPolicyRow_resource = resource, IamPolicyRow_etag = Etag pol,
            IamPolicyRow_policy_json = marshal_policy pol\<rparr>
      in iam_policies_update (\<lambda>_. snd (upsert (same IamPolicyRow_resource)
        (\<lambda>r. r\<lparr>IamPolicyRow_etag := IamPolicyRow_etag row,
           IamPolicyRow_policy_json := IamPolicyRow_policy_json row\<rparr>) row (iam_policies db))) db)"

lemma sql_read_policy:
  "sql_read (GetIAMPolicyJSON resource) db =
     Inr (map_option IamPolicyRow_policy_json (find (\<lambda>r. IamPolicyRow_resource r = resource) (iam_policies db)))"
  by (simp add: sql_read_def GetIAMPolicyJSON_def query_def next_fault_def)

lemma PutIAMPolicyJSON_ok:
  "ok_connection s \<Longrightarrow> resource \<noteq> [] \<Longrightarrow> PutIAMPolicyJSON resource pol s =
     (Inr (), s\<lparr>tables := policy_put resource (stamped pol) (tables s)\<rparr>)"
  by (simp add: PutIAMPolicyJSON_def policy_put_def stamped_def Let_def)

lemma policy_put_roles [simp]: "iam_custom_roles (policy_put resource pol db) = iam_custom_roles db"
  by (simp add: policy_put_def)

lemma sql_read_parent: "sql_read (CRMParent r) db = Inr (parent_at (crm_folders db) r)"
  by (simp add: sql_read_def CRMParent_ok ok_connection_def)

lemma sql_read_role: "sql_read (GetRoleIncludedPermissions role) db = included (iam_custom_roles db) role"
  by (simp add: sql_read_def GetRoleIncludedPermissions_ok ok_connection_def)

lemma policy_put_folders [simp]: "crm_folders (policy_put resource pol db) = crm_folders db"
  by (simp add: policy_put_def)

interpretation server: policy_service "serverEvaluator now"
  "\<lambda>db resource. sql_read (GetIAMPolicyJSON resource) db" policy_put
proof (unfold_locales, goal_cases)
  case (2 resource pol s r)
  then show ?case
    by (cases "find (\<lambda>r. IamPolicyRow_resource r = resource) (iam_policies s)")
       (simp_all add: sql_read_policy policy_put_def Let_def find_upsert_same)
qed (simp_all add: serverEvaluator_def sql_read_role sql_read_parent)

section \<open>Invariant of the IAM tables\<close>

definition policies_decode :: "Db \<Rightarrow> bool" where
  "policies_decode db \<longleftrightarrow>
     list_all (\<lambda>r. \<not> isl (unmarshal_policy (IamPolicyRow_policy_json r))) (iam_policies db)"

definition iam_ok :: "Db \<Rightarrow> bool" where
  "iam_ok db \<longleftrightarrow> schema_ok db \<and> roles_decode db \<and> policies_decode db"

lemma chain_total: "\<exists>chain. policyChain (serverEvaluator now db) resource = Inr chain"
proof -
  have walk: "\<exists>chain. crm_walk parent_of depth cur seen out = Inr chain"
    if "\<And>r. \<exists>p. parent_of r = Inr p" for parent_of depth cur seen out
  proof (induction depth arbitrary: cur seen out)
    case (Suc depth)
    from that obtain p where "parent_of cur = Inr p" by blast
    with Suc show ?case by (cases p) auto
  qed simp
  then show ?thesis
    by (simp add: policyChain_def serverEvaluator_def Let_def sql_read_parent split: option.split)
qed

lemma role_lookup_total:
  assumes "roles_decode db"
  shows "\<exists>ps. sql_read (GetRoleIncludedPermissions role) db = Inr ps"
proof -
  have "\<exists>ps. included (iam_custom_roles db) role = Inr ps"
  proof (cases "find (\<lambda>r. CustomRoleRow_name r = role) (iam_custom_roles db)")
    case (Some r)
    with assms have "\<not> isl (decodePermissionList (CustomRoleRow_permissions r))"
      by (auto simp: roles_decode_def list_all_iff dest: find_SomeD)
    with Some show ?thesis
      by (cases "decodePermissionList (CustomRoleRow_permissions r)") (auto simp: included_def)
  qed (simp add: included_def)
  then show ?thesis by (simp add: sql_read_role)
qed

lemma policy_answers:
  assumes "roles_decode db"
  shows "list_all (\<lambda>b. \<not> isl (roleGrants (Roles (serverEvaluator now db)) (Role b) permission)) bs"
proof -
  have "\<not> isl (roleGrants (Roles (serverEvaluator now db)) role permission)" for role
  proof (cases "isCustomRoleName role")
    case True
    with role_lookup_total [OF assms, of role] show ?thesis
      by (auto simp: roleGrants_custom serverEvaluator_def)
  next
    case False
    then show ?thesis by (simp add: roleGrants_builtin split: option.split)
  qed
  then show ?thesis by (simp add: list_all_iff)
qed

lemma server_answers:
  assumes "iam_ok db"
  shows "answers (serverEvaluator now db) (\<lambda>resource. sql_read (GetIAMPolicyJSON resource) db) permission resource"
proof (cases "find (\<lambda>r. IamPolicyRow_resource r = resource) (iam_policies db)")
  case (Some row)
  with assms have "\<not> isl (unmarshal_policy (IamPolicyRow_policy_json row))"
    by (auto simp: iam_ok_def policies_decode_def list_all_iff dest: find_SomeD)
  then obtain pol where "unmarshal_policy (IamPolicyRow_policy_json row) = Inr pol"
    by (cases "unmarshal_policy (IamPolicyRow_policy_json row)") auto
  with Some assms show ?thesis
    by (simp add: answers_def sql_read_policy policy_answers iam_ok_def)
qed (simp add: answers_def sql_read_policy)

lemma iam_ok_conj: "iam_ok = (\<lambda>db. schema_ok db \<and> roles_decode db \<and> policies_decode db)"
  by (simp add: fun_eq_iff iam_ok_def)

lemma decode_of_marshal [simp]: "\<not> isl (unmarshal_policy (marshal_policy pol))"
  by (simp add: policy_json_unmarshal)

lemma policies_decode_ops:
  "preserves policies_decode (PutIAMPolicyJSON resource pol)"
  "preserves policies_decode (EnsureRoot_seed now nanos projectID email disp)"
  "preserves policies_decode (CreateCustomRole now p rid title descr stage perms)"
  "preserves policies_decode (UpdateCustomRole now name title descr stage perms b1 b2 b3 b4)"
  "preserves policies_decode (DeleteCustomRole now name)"
  "preserves policies_decode (UndeleteCustomRole now name)"
proof -
  have put: "preserves policies_decode (on_table iam_policies iam_policies_update (upsert (same IamPolicyRow_resource)
      (\<lambda>r. r\<lparr>IamPolicyRow_etag := etag, IamPolicyRow_policy_json := marshal_policy p\<rparr>)
      \<lparr>IamPolicyRow_resource = r, IamPolicyRow_etag = etag, IamPolicyRow_policy_json = marshal_policy p\<rparr>))"
    for r etag p
    by (rule preserves_on_table)
       (auto simp: policies_decode_def upsert_def list_all_iff dest!: snd_eqD split: if_splits)
  show "preserves policies_decode (PutIAMPolicyJSON resource pol)"
    unfolding PutIAMPolicyJSON_def by (auto simp: Let_def intro!: preserves_intros put)
  have ins: "preserves policies_decode (on_table_checked iam_policies iam_policies_update
      (insert_row (same IamPolicyRow_resource)
        \<lparr>IamPolicyRow_resource = r, IamPolicyRow_etag = etag, IamPolicyRow_policy_json = marshal_policy p\<rparr>))"
    for r etag p
    by (rule preserves_on_table_checked)
       (auto simp: policies_decode_def insert_row_def list_all_iff split: if_splits)
  show "preserves policies_decode (EnsureRoot_seed now nanos projectID email disp)"
    unfolding EnsureRoot_seed_def wrapM_def
    by (intro preserves_intros preserves_elsewhere ins; simp add: policies_decode_def)
qed (unfold CreateCustomRole_def UpdateCustomRole_def DeleteCustomRole_def UndeleteCustomRole_def,
    intro preserves_intros preserves_elsewhere; simp add: policies_decode_def)+

lemma roles_decode_ops:
  "preserves roles_decode (PutIAMPolicyJSON resource pol)"
  "preserves roles_decode (EnsureRoot_seed now nanos projectID email disp)"
  unfolding PutIAMPolicyJSON_def EnsureRoot_seed_def wrapM_def
  by (intro preserves_intros preserves_elsewhere; simp add: roles_decode_def)+

section \<open>Properties\<close>

lemma iam_ok_ops:
  "preserves iam_ok (PutIAMPolicyJSON resource pol)"
  "preserves iam_ok (EnsureRoot_seed now nanos projectID email disp)"
  "preserves iam_ok (CreateCustomRole now p rid title descr stage perms)"
  "preserves iam_ok (UpdateCustomRole now name title descr stage perms b1 b2 b3 b4)"
  "preserves iam_ok (DeleteCustomRole now name)"
  "preserves iam_ok (UndeleteCustomRole now name)"
  unfolding iam_ok_conj
  by (intro preserves_conj policies_decode_ops roles_decode_ops custom_roles_decode
      custom_roles_schema preserves_PutIAMPolicyJSON preserves_EnsureRoot_seed)+

text \<open>The policies and custom roles in the database can always be read: setting a policy, seeding a
  project and every operation on custom roles keep the tables decodable and their keys unique,
  whatever statement fails.\<close>
theorem iam_tables_invariant:
  "preserves iam_ok (PutIAMPolicyJSON resource pol) \<and>
   preserves iam_ok (EnsureRoot_seed now nanos projectID email disp) \<and>
   preserves iam_ok (CreateCustomRole now p rid title descr stage perms) \<and>
   preserves iam_ok (UpdateCustomRole now name title descr stage perms b1 b2 b3 b4) \<and>
   preserves iam_ok (DeleteCustomRole now name) \<and>
   preserves iam_ok (UndeleteCustomRole now name)"
  by (intro conjI iam_ok_ops)

text \<open>The decision of the server on well formed tables, as a predicate on the tables.\<close>

definition server_grants ::
  "runtime \<Rightarrow> int option \<Rightarrow> Db \<Rightarrow> string \<Rightarrow> string \<Rightarrow> string list \<Rightarrow> bool" where
  "server_grants rt now db email permission =
     granted rt (serverEvaluator now db) (\<lambda>resource. sql_read (GetIAMPolicyJSON resource) db)
       (\<lambda>ms. memberIn ms (memberIdentity email)) permission"

lemma server_Evaluate:
  assumes "iam_ok db" and "policyChain (serverEvaluator now db) resource = Inr chain"
  shows "Evaluate rt (Some (serverEvaluator now db)) email isRoot permission resource =
    Inr (isRoot \<or> email \<noteq> [] \<and> permission \<noteq> [] \<and> resource \<noteq> [] \<and>
      server_grants rt now db email permission chain)"
  unfolding server_grants_def
  by (rule Evaluate_answers [OF _ assms(2)])
     (simp_all add: serverEvaluator_def server_answers [OF assms(1), unfolded serverEvaluator_def] list_all_iff)

text \<open>C35. The server always reaches a decision: on a database in which the policies and roles can be read,
  \<open>Evaluate\<close> answers for every caller, permission and resource, and the answer is whether a binding on
  the chain of the resource grants the permission.\<close>
theorem server_decides:
  assumes "iam_ok db"
  shows "\<exists>chain. policyChain (serverEvaluator now db) resource = Inr chain \<and>
    Evaluate rt (Some (serverEvaluator now db)) email isRoot permission resource =
      Inr (isRoot \<or> email \<noteq> [] \<and> permission \<noteq> [] \<and> resource \<noteq> [] \<and>
        server_grants rt now db email permission chain)"
  using chain_total [of now db resource] server_Evaluate [OF assms] by blast

theorem server_decides_witness:
  "\<exists>chain. policyChain (serverEvaluator None empty_Db) ''projects/p'' = Inr chain \<and>
    Evaluate example_runtime (Some (serverEvaluator None empty_Db)) ''ci@p'' False ''a.b.c'' ''projects/p'' =
      Inr (server_grants example_runtime None empty_Db ''ci@p'' ''a.b.c'' chain)"
  using server_decides [of empty_Db None "''projects/p''" example_runtime "''ci@p''" False "''a.b.c''"]
  by (simp add: iam_ok_def schema_ok_empty roles_decode_def policies_decode_def)
     (simp add: empty_Db_def)

text \<open>C3. Setting a policy changes exactly the decisions below it: after \<open>PutIAMPolicyJSON\<close> on a resource,
  the decisions on resources whose chain does not contain it are the former ones, and on the others a
  caller is allowed when a binding of the new policy or of the rest of the chain grants the permission;
  the bindings the policy had before no longer count.\<close>
theorem set_policy_decides:
  assumes "ok_connection s" and "iam_ok (tables s)" and "resource \<noteq> []"
    and "PutIAMPolicyJSON resource pol s = (Inr (), s')"
    and "policyChain (serverEvaluator now (tables s)) r = Inr chain"
    and "email \<noteq> []" and "permission \<noteq> []" and "r \<noteq> []"
  shows "Evaluate rt (Some (serverEvaluator now (tables s'))) email False permission r =
    (if resource \<in> set chain
     then Inr ((\<exists>b\<in>set (Bindings pol). justifies rt (serverEvaluator now (tables s))
              (\<lambda>ms. memberIn ms (memberIdentity email)) permission b) \<or>
            server_grants rt now (tables s) email permission (filter (\<lambda>x. x \<noteq> resource) chain))
     else Evaluate rt (Some (serverEvaluator now (tables s))) email False permission r)"
proof -
  from assms(1,3,4) have s': "tables s' = policy_put resource (stamped pol) (tables s)"
    by (auto simp: PutIAMPolicyJSON_ok)
  have roles: "roles_decode (tables s)" using assms(2) by (simp add: iam_ok_def)
  show ?thesis
  proof (cases "resource \<in> set chain")
    case True
    with server.evaluate_put [OF assms(5) server_answers [OF assms(2)] policy_answers [OF roles] assms(6-8)]
    show ?thesis by (simp add: s' server_grants_def stamped_def)
  next
    case False
    with server.evaluate_off_chain [OF assms(5)] show ?thesis by (simp add: s')
  qed
qed

lemma example_folderless_chain:
  "crm_folders db = [] \<Longrightarrow> policyChain (serverEvaluator now db) ''projects/p'' = Inr [''projects/p'', DefaultOrganizationName]"
proof -
  have t: "TrimSpace ''projects/p'' = ''projects/p''"
    by (rule TrimSpace_plain_ends) (simp add: plain_char_def)
  show ?thesis
    by (simp add: policyChain_def serverEvaluator_def sql_read_parent parent_at_def t resourcePolicyChain_def
      isCRMHierarchyResource_def crmAncestryMaxDepth_def numeral_eq_Suc TrimPrefix_def go_simps Let_def
      DefaultOrganizationName_def)
qed

lemma empty_iam_ok: "iam_ok empty_Db"
  by (simp add: iam_ok_def schema_ok_empty roles_decode_def policies_decode_def) (simp add: empty_Db_def)

lemma empty_grants: "\<not> server_grants rt now empty_Db email permission chain"
  by (simp add: server_grants_def granted_def bindings_at_def sql_read_policy empty_Db_def)

theorem set_policy_decides_witness:
  "\<exists>s'. PutIAMPolicyJSON ''projects/p'' \<lparr>Bindings = [example_binding ''roles/viewer'' ''serviceAccount:ci@p1''], Etag = []\<rparr>
      \<lparr>tables = empty_Db, faults = []\<rparr> = (Inr (), s') \<and>
    Evaluate example_runtime (Some (serverEvaluator None (tables s'))) ''ci@p1'' False ''pubsub.topics.get''
      ''projects/p'' = Inr True"
proof -
  let ?s = "\<lparr>tables = empty_Db, faults = []\<rparr>"
  let ?pol = "\<lparr>Bindings = [example_binding ''roles/viewer'' ''serviceAccount:ci@p1''], Etag = []\<rparr>"
  have ok: "ok_connection ?s" by (simp add: ok_connection_def)
  have chain: "policyChain (serverEvaluator None (tables ?s)) ''projects/p'' = Inr [''projects/p'', DefaultOrganizationName]"
    using example_folderless_chain [of empty_Db] by (simp add: empty_Db_def)
  have "justifies example_runtime (serverEvaluator None (tables ?s))
      (\<lambda>ms. memberIn ms (memberIdentity ''ci@p1'')) ''pubsub.topics.get''
      (example_binding ''roles/viewer'' ''serviceAccount:ci@p1'')"
    by (simp add: justifies_def example_binding_def memberIn_def example_member conditionAllows_def example_viewer)
  moreover have "PutIAMPolicyJSON ''projects/p'' ?pol ?s =
      (Inr (), ?s\<lparr>tables := policy_put ''projects/p'' (stamped ?pol) empty_Db\<rparr>)"
    by (simp add: PutIAMPolicyJSON_ok [OF ok])
  ultimately show ?thesis
    using set_policy_decides [OF ok _ _ _ chain, of "''projects/p''" ?pol _ "''ci@p1''" "''pubsub.topics.get''"
        example_runtime]
    by (simp add: empty_iam_ok)
qed

lemma grantedI:
  "resource \<in> set chain \<Longrightarrow> b \<in> set (bindings_at policies resource) \<Longrightarrow> justifies rt e matches permission b \<Longrightarrow>
     granted rt e policies matches permission chain"
  by (auto simp: granted_def)

section \<open>The seed of a project\<close>

text \<open>Enabling services leaves everything but the service table as it is.\<close>

lemma seed_services_ok:
  "ok_connection s \<Longrightarrow> \<exists>t. mapM_unit (\<lambda>svc. bindM (wrapM (msg svc) (on_table service_usage service_usage_update
      (insert_or_ignore (same ServiceUsage_key) (row svc)))) (\<lambda>_. returnM ())) svcs s =
    (Inr (), s\<lparr>tables := service_usage_update (\<lambda>_. t) (tables s)\<rparr>)"
proof (induction svcs arbitrary: s)
  case (Cons svc svcs)
  let ?s1 = "s\<lparr>tables := service_usage_update (\<lambda>_. snd (insert_or_ignore (same ServiceUsage_key) (row svc)
      (service_usage (tables s)))) (tables s)\<rparr>"
  from Cons.IH [of ?s1] Cons.prems show ?case
    by (auto simp: bindM_assoc bindM_wrapM_ok)
next
  case Nil
  have "s = s\<lparr>tables := service_usage_update (\<lambda>_. service_usage (tables s)) (tables s)\<rparr>" by simp
  then show ?case by (intro exI [of _ "service_usage (tables s)"]) simp
qed

lemma seed_body_ok:
  assumes "ok_connection s" and "IamPolicyRow_resource row = res"
  shows "\<exists>db. bindM (wrapM m1 (on_table projects projects_update (insert_or_ignore c1 p))) (\<lambda>_.
      bindM (wrapM m2 (on_table service_accounts service_accounts_update (insert_or_ignore c2 a))) (\<lambda>_.
      bindM (query (\<lambda>db. find (\<lambda>r. IamPolicyRow_resource r = res) (iam_policies db))) (\<lambda>existing.
      bindM (case existing of Some _ \<Rightarrow> returnM 0
        | None \<Rightarrow> wrapM m3 (on_table_checked iam_policies iam_policies_update
            (insert_row (same IamPolicyRow_resource) row))) (\<lambda>_.
      mapM_unit (\<lambda>svc. bindM (wrapM (m4 svc) (on_table service_usage service_usage_update
        (insert_or_ignore (same ServiceUsage_key) (usage svc)))) (\<lambda>_. returnM ())) svcs)))) s =
      (Inr (), s\<lparr>tables := db\<rparr>) \<and>
    iam_policies db = iam_policies (tables s) @
      (if find (\<lambda>r. IamPolicyRow_resource r = res) (iam_policies (tables s)) = None then [row] else []) \<and>
    crm_folders db = crm_folders (tables s) \<and> iam_custom_roles db = iam_custom_roles (tables s)"
proof -
  let ?s2 = "s\<lparr>tables := service_accounts_update (\<lambda>_. snd (insert_or_ignore c2 a (service_accounts (tables s))))
      (projects_update (\<lambda>_. snd (insert_or_ignore c1 p (projects (tables s)))) (tables s))\<rparr>"
  let ?old = "find (\<lambda>r. IamPolicyRow_resource r = res) (iam_policies (tables s))"
  let ?s3 = "if ?old = None then ?s2\<lparr>tables := iam_policies_update (\<lambda>t. t @ [row]) (tables ?s2)\<rparr> else ?s2"
  have ins: "on_table_checked iam_policies iam_policies_update (insert_row (same IamPolicyRow_resource) row) ?s2 =
      (Inr 1, ?s2\<lparr>tables := iam_policies_update (\<lambda>t. t @ [row]) (tables ?s2)\<rparr>)" if "?old = None"
    using that assms by (simp add: on_table_checked_def insert_row_def same_def find_None_iff)
  have "ok_connection ?s3" using assms(1) by simp
  from seed_services_ok [OF this, of m4 usage svcs] obtain t where
    t: "mapM_unit (\<lambda>svc. bindM (wrapM (m4 svc) (on_table service_usage service_usage_update
        (insert_or_ignore (same ServiceUsage_key) (usage svc)))) (\<lambda>_. returnM ())) svcs ?s3 =
      (Inr (), ?s3\<lparr>tables := service_usage_update (\<lambda>_. t) (tables ?s3)\<rparr>)" by blast
  show ?thesis
    by (rule exI [of _ "service_usage_update (\<lambda>_. t) (tables ?s3)"], cases ?old)
       (use assms t ins in \<open>simp_all add: bindM_wrapM_ok del: returnM_apply\<close>)
qed

lemma EnsureRoot_seed_returns:
  assumes "ok_connection s" and "projectID \<noteq> []" and "email \<noteq> []"
  shows "\<exists>s'. EnsureRoot_seed now nanos projectID email disp s = (Inr (), s')"
proof -
  define r where "r = ''projects/'' @ projectID"
  show ?thesis
    unfolding EnsureRoot_seed_def r_def [symmetric] if_not_P [OF assms(2)] if_not_P [OF assms(3)]
    by (rule transaction_returns [OF assms(1)], rule seed_body_ok) (simp_all add: assms(1))
qed

lemma EnsureRoot_seed_policies:
  assumes "ok_connection s" and "EnsureRoot_seed now nanos projectID email disp s = (Inr (), s')"
  shows "(iam_policies (tables s') = iam_policies (tables s) @
      (if find (\<lambda>r. IamPolicyRow_resource r = ''projects/'' @ projectID) (iam_policies (tables s)) = None
       then [\<lparr>IamPolicyRow_resource = ''projects/'' @ projectID, IamPolicyRow_etag = ''ACAB'',
         IamPolicyRow_policy_json = marshal_policy (root_policy email)\<rparr>] else []) \<and>
    crm_folders (tables s') = crm_folders (tables s) \<and>
    iam_custom_roles (tables s') = iam_custom_roles (tables s)) \<and> ok_connection s'"
proof -
  define r where "r = ''projects/'' @ projectID"
  have guards: "projectID \<noteq> []" "email \<noteq> []"
    using assms(2) by (auto simp: EnsureRoot_seed_def split: if_splits)
  note seed = assms(2) [unfolded EnsureRoot_seed_def r_def [symmetric] if_not_P [OF guards(1)] if_not_P [OF guards(2)]]
  show ?thesis
    unfolding r_def [symmetric] by (rule transaction_body [OF assms(1) seed], rule seed_body_ok) (simp_all add: assms(1))
qed

text \<open>Seeding a project makes its root service account the owner, and only on a project without a policy:
  after \<open>EnsureRoot\<close>, if the project had no policy, \<open>Evaluate\<close> allows the root service account
  everything on the project and on the resources nested in it; if it had one, no decision changes.\<close>
theorem seed_grants_owner:
  assumes "ok_connection s" and "iam_ok (tables s)"
    and "EnsureRoot_seed started nanos projectID email disp s = (Inr (), s')"
    and "TrimSpace email = email" and "\<not> Contains email '':''" and "email \<noteq> []" and "projectID \<noteq> []"
    and "CHR ''/'' \<notin> set projectID"
    and "r = ''projects/'' @ projectID \<or> r = ''projects/'' @ projectID @ CHR ''/'' # rest"
    and "permission \<noteq> []"
  shows "if find (\<lambda>x. IamPolicyRow_resource x = ''projects/'' @ projectID) (iam_policies (tables s)) = None
    then Evaluate rt (Some (serverEvaluator now (tables s'))) email False permission r = Inr True
    else Evaluate rt (Some (serverEvaluator now (tables s'))) caller False permission r =
      Evaluate rt (Some (serverEvaluator now (tables s))) caller False permission r"
proof -
  define q where "q = ''projects/''"
  note seeded = EnsureRoot_seed_policies [OF assms(1,3), folded q_def]
  have at: "q = ''projects/''" by (rule q_def)
  show ?thesis
  proof (cases "find (\<lambda>x. IamPolicyRow_resource x = q @ projectID) (iam_policies (tables s)) = None")
    case False
    with seeded have "iam_policies (tables s') = iam_policies (tables s)" by simp
    with seeded have "serverEvaluator now (tables s') = serverEvaluator now (tables s)"
      by (simp add: serverEvaluator_def sql_read_policy sql_read_role sql_read_parent)
    with False show ?thesis unfolding q_def [symmetric] by (simp only: if_False)
  next
    case True
    have ok': "iam_ok (tables s')"
      by (rule preservesD [where I = iam_ok, OF iam_ok_ops(2) assms(2,3)])
    obtain chain where chain: "policyChain (serverEvaluator now (tables s')) r = Inr chain"
      using chain_total by blast
    have member: "q @ projectID \<in> set chain"
      using assms(7-9) policyChain_Inr [OF chain] chain_nested chain_project by (fastforce simp: q_def)
    have "bindings_at (\<lambda>resource. sql_read (GetIAMPolicyJSON resource) (tables s')) (q @ projectID) =
        Bindings (root_policy email)"
      using seeded True by (simp add: bindings_at_def sql_read_policy find_append policy_json_unmarshal)
    moreover have "justifies rt (serverEvaluator now (tables s')) (\<lambda>ms. memberIn ms (memberIdentity email))
        permission \<lparr>Role = ''roles/owner'', Members = [''serviceAccount:'' @ email], Condition = None\<rparr>"
      using assms(4,5) by (simp add: justifies_def conditionAllows_def memberIn_def memberIdentity_def)
    ultimately have "server_grants rt now (tables s') email permission chain"
      unfolding server_grants_def by (intro grantedI [OF member]) (auto simp: root_policy_def)
    moreover have "r \<noteq> []" using assms(9) by auto
    ultimately show ?thesis
      using server_Evaluate [OF ok' chain] assms(6,10) True unfolding q_def [symmetric] by simp
  qed
qed

theorem seed_grants_owner_witness:
  "\<exists>s'. EnsureRoot_seed ''t0'' 7 ''p'' ''root@p'' ''root'' \<lparr>tables = empty_Db, faults = []\<rparr> = (Inr (), s') \<and>
    Evaluate example_runtime (Some (serverEvaluator None (tables s'))) ''root@p'' False
      ''secretmanager.versions.access'' ''projects/p/secrets/k'' = Inr True"
proof -
  let ?s = "\<lparr>tables = empty_Db, faults = []\<rparr> :: Db connection"
  have ok: "ok_connection ?s" by (simp add: ok_connection_def)
  have "TrimSpace ''root@p'' = ''root@p''"
    by (rule TrimSpace_plain_ends) (simp add: plain_char_def)
  moreover have "\<not> Contains ''root@p'' '':''" by (simp add: go_simps)
  moreover obtain s' where "EnsureRoot_seed ''t0'' 7 ''p'' ''root@p'' ''root'' ?s = (Inr (), s')"
    using EnsureRoot_seed_returns [OF ok] by blast
  ultimately show ?thesis
    using seed_grants_owner [OF ok _ _ , of "''t0''" 7 "''p''" "''root@p''" "''root''" s'
        "''projects/p/secrets/k''" "''secrets/k''" "''secretmanager.versions.access''" example_runtime None]
    by (simp add: empty_iam_ok) (simp add: empty_Db_def)
qed
end
