(* ===== verification/Go_Path.thy ===== *)
theory Go_Path
  imports Go_Base
begin

text \<open>
  The function \<open>Clean\<close> of the package \<open>path\<close> of Go, and \<open>strings.Join\<close>.

  The elements of the path are pushed on a stack (top first); \<open>..\<close> pops an element, at the root
  of a rooted path it is dropped. The result of cleaning a rooted path is rooted, has no empty, \<open>.\<close>
  or \<open>..\<close> element and is not changed by cleaning it again.
\<close>

fun Join :: "string list \<Rightarrow> string \<Rightarrow> string" where
  "Join [] sep = []"
| "Join [x] sep = x"
| "Join (x # y # xs) sep = x @ sep @ Join (y # xs) sep"

definition clean_push :: "bool \<Rightarrow> string list \<Rightarrow> string \<Rightarrow> string list" where
  "clean_push rooted st c =
     (if c = [] \<or> c = ''.'' then st
      else if c = ''..'' then
        (case st of
           [] \<Rightarrow> if rooted then [] else [c]
         | t # ts \<Rightarrow> if t = ''..'' then c # st else ts)
      else c # st)"

definition Clean :: "string \<Rightarrow> string" where
  "Clean p =
     (if p = [] then ''.''
      else
        let rooted = HasPrefix p ''/'';
            body = Join (rev (foldl (clean_push rooted) [] (Split p ''/''))) ''/''
        in if rooted then ''/'' @ body else if body = [] then ''.'' else body)"

section \<open>Splitting at a character\<close>

lemma Index_char: "Index s [c] = IndexByte s c"
  by (induction s) (auto simp: go_simps)

lemma Split_char_no: "c \<notin> set s \<Longrightarrow> Split s [c] = [s]"
  by (subst Split.simps) (simp add: Index_char IndexByte_None [THEN iffD2])

lemma Split_char_append:
  "c \<notin> set x \<Longrightarrow> Split (x @ c # rest) [c] = x # Split rest [c]"
  by (subst Split.simps) (simp add: Index_char IndexByte_append)

lemma Split_char_parts: "x \<in> set (Split s [c]) \<Longrightarrow> c \<notin> set x"
proof (induction s "[c]" arbitrary: x rule: Split.induct)
  case (1 s)
  show ?case
  proof (cases "c \<in> set s")
    case False
    with "1.prems" show ?thesis by (simp add: Split_char_no)
  next
    case True
    then obtain a b where s: "s = a @ c # b" and a: "c \<notin> set a" by (meson split_list_first)
    then have "Index s [c] = Some (length a)" by (simp add: Index_char IndexByte_append)
    with "1.hyps" [of "length a"] s have "y \<in> set (Split b [c]) \<Longrightarrow> c \<notin> set y" for y by simp
    with "1.prems" s a show ?thesis by (auto simp: Split_char_append)
  qed
qed

lemma Split_Join:
  assumes "xs \<noteq> []" and "\<And>x. x \<in> set xs \<Longrightarrow> c \<notin> set x"
  shows "Split (Join xs [c]) [c] = xs"
  using assms
proof (induction xs "[c]" rule: Join.induct)
  case (3 x y xs)
  then show ?case by (simp add: Split_char_append)
qed (simp_all add: Split_char_no)

lemma Join_Nil_iff: "(\<And>x. x \<in> set xs \<Longrightarrow> x \<noteq> []) \<Longrightarrow> Join xs sep = [] \<longleftrightarrow> xs = []"
  by (induction xs sep rule: Join.induct) auto

lemma Join_Split: "Join (Split s [c]) [c] = s"
proof (induction s "[c]" rule: Split.induct)
  case (1 s)
  show ?case
  proof (cases "c \<in> set s")
    case False
    then show ?thesis by (simp add: Split_char_no)
  next
    case True
    then obtain a b where s: "s = a @ c # b" and a: "c \<notin> set a" by (meson split_list_first)
    then have "Index s [c] = Some (length a)" by (simp add: Index_char IndexByte_append)
    with "1.hyps" [of "length a"] s have "Join (Split b [c]) [c] = b" by simp
    moreover obtain y ys where "Split b [c] = y # ys" using Split_nonempty [of "[c]" b] by (cases "Split b [c]") auto
    ultimately show ?thesis using s a by (simp add: Split_char_append)
  qed
qed

section \<open>Cleaning\<close>

text \<open>An element that cleaning a rooted path keeps.\<close>

definition clean_element :: "string \<Rightarrow> bool" where
  "clean_element x \<longleftrightarrow> x \<noteq> [] \<and> x \<noteq> ''.'' \<and> x \<noteq> ''..'' \<and> CHR ''/'' \<notin> set x"

lemma clean_push_rooted:
  "list_all clean_element st \<Longrightarrow> CHR ''/'' \<notin> set c \<Longrightarrow> list_all clean_element (clean_push True st c)"
  by (cases st) (auto simp: clean_push_def clean_element_def)

lemma clean_fold_rooted:
  "list_all clean_element st \<Longrightarrow> (\<And>c. c \<in> set cs \<Longrightarrow> CHR ''/'' \<notin> set c) \<Longrightarrow>
     list_all clean_element (foldl (clean_push True) st cs)"
  by (induction cs arbitrary: st) (auto simp: clean_push_rooted)

lemma clean_fold_clean:
  "list_all clean_element cs \<Longrightarrow> foldl (clean_push rooted) st cs = rev cs @ st"
  by (induction cs arbitrary: st) (auto simp: clean_push_def clean_element_def)

definition clean_elements :: "string \<Rightarrow> string list" where
  "clean_elements p = rev (foldl (clean_push True) [] (Split p ''/''))"

lemma clean_elements_clean: "list_all clean_element (clean_elements p)"
  using clean_fold_rooted [of "[]" "Split p ''/''"] Split_char_parts
  by (auto simp: clean_elements_def)

lemma Clean_rooted: "HasPrefix p ''/'' \<Longrightarrow> Clean p = ''/'' @ Join (clean_elements p) ''/''"
  by (auto simp: Clean_def clean_elements_def go_simps)

lemma clean_elements_rooted:
  assumes "list_all clean_element xs"
  shows "clean_elements (''/'' @ Join xs ''/'') = xs"
proof -
  have sp: "Split (''/'' @ Join xs ''/'') ''/'' = [] # Split (Join xs ''/'') ''/''"
    using Split_char_append [of "CHR ''/''" "[]"] by simp
  show ?thesis
  proof (cases "xs = []")
    case True
    then show ?thesis
      using sp Split_char_no [of "CHR ''/''" "[]"] by (simp add: clean_elements_def clean_push_def)
  next
    case False
    with assms have "Split (Join xs ''/'') ''/'' = xs"
      by (intro Split_Join) (auto simp: list_all_iff clean_element_def)
    then show ?thesis
      using sp by (simp add: clean_elements_def clean_fold_clean [OF assms] clean_push_def)
  qed
qed

lemma Clean_rooted_idem:
  assumes "HasPrefix p ''/''"
  shows "Clean (Clean p) = Clean p"
proof -
  note eq = Clean_rooted [OF assms]
  have "HasPrefix (Clean p) ''/''" unfolding eq by (rule HasPrefix_append)
  then have "Clean (Clean p) = ''/'' @ Join (clean_elements (Clean p)) ''/''" by (rule Clean_rooted)
  also have "clean_elements (Clean p) = clean_elements p"
    unfolding eq by (rule clean_elements_rooted) (rule clean_elements_clean)
  finally show ?thesis by (simp only: eq)
qed

text \<open>A path that is not rooted stays so.\<close>

definition path_element :: "string \<Rightarrow> bool" where
  "path_element x \<longleftrightarrow> x \<noteq> [] \<and> CHR ''/'' \<notin> set x"

lemma clean_push_unrooted:
  "list_all path_element st \<Longrightarrow> CHR ''/'' \<notin> set c \<Longrightarrow> list_all path_element (clean_push False st c)"
  by (cases st) (auto simp: clean_push_def path_element_def)

lemma clean_fold_unrooted:
  "list_all path_element st \<Longrightarrow> (\<And>c. c \<in> set cs \<Longrightarrow> CHR ''/'' \<notin> set c) \<Longrightarrow>
     list_all path_element (foldl (clean_push False) st cs)"
  by (induction cs arbitrary: st) (auto simp: clean_push_unrooted)

lemma Join_not_rooted:
  assumes "list_all path_element xs"
  shows "\<not> HasPrefix (Join xs sep) ''/''"
proof (cases xs)
  case Nil
  then show ?thesis by (simp add: go_simps)
next
  case (Cons x ys)
  with assms obtain a b where "x = a # b" "a \<noteq> CHR ''/''" by (cases x) (auto simp: path_element_def)
  with Cons show ?thesis by (cases ys) (auto simp: go_simps)
qed

lemma Clean_unrooted:
  assumes "\<not> HasPrefix p ''/''"
  shows "\<not> HasPrefix (Clean p) ''/''"
proof -
  let ?xs = "rev (foldl (clean_push False) [] (Split p ''/''))"
  have "list_all path_element ?xs"
    using clean_fold_unrooted [of "[]" "Split p ''/''"] by (simp add: Split_char_parts)
  then have "\<not> HasPrefix (Join ?xs ''/'') ''/''" by (rule Join_not_rooted)
  moreover have "\<not> HasPrefix ''.'' ''/''" by (simp add: go_simps)
  ultimately show ?thesis using assms unfolding Clean_def Let_def by simp
qed

end
