(* ===== verification/Authn.thy ===== *)
theory Authn
  imports Go_Json Go_Path
begin

text \<open>
  Authentication: \<^verbatim>\<open>internal/kernel/jwtutil/jwtutil.go\<close>, \<^verbatim>\<open>internal/kernel/authn/bearer.go\<close>
  and \<^verbatim>\<open>internal/kernel/authn/identity_toolkit.go\<close>.

  A bearer token is the root token, a registered access token (looked up by its hash), a lab OIDC
  token (RS256) or an Identity Toolkit id token (HS256). The go-jose library, the process keys, the
  SHA-256 digest and the printing of claims that are neither strings nor numbers are the
  parameter \<open>crypto\<close>. Claims are a map from names to JSON values; times are nanoseconds since the epoch.
\<close>

section \<open>jwtutil\<close>

type_synonym claims = "string \<rightharpoonup> json"

record crypto =
  jwks_unmarshal :: "string \<Rightarrow> error + string list"
  rs256_parse :: "string \<Rightarrow> error + string"
  rs256_verify :: "string list \<Rightarrow> string \<Rightarrow> error + document"
  hs256_parse :: "string \<Rightarrow> error + string"
  hs256_verify :: "string \<Rightarrow> string \<Rightarrow> error + document"
  hs256_sign :: "string \<Rightarrow> document \<Rightarrow> error + string"
  LabOIDCJWKS :: "error + string"
  identityToolkitKey :: string
  sha256_hex :: "string \<Rightarrow> string"
  Sprint :: "json \<Rightarrow> string"

definition nanos_per_second :: int where
  "nanos_per_second = 1000000000"

definition Unix :: "int \<Rightarrow> int" where
  "Unix now = now div nanos_per_second"

definition ParseJWKS :: "crypto \<Rightarrow> string \<Rightarrow> error + string list" where
  "ParseJWKS J jwksJSON =
     (if jwksJSON = [] then Inl (Errorf ''jwks: empty'')
      else case jwks_unmarshal J jwksJSON of
          Inl err \<Rightarrow> Inl (Wrap ''jwks: parse'' err)
        | Inr keys \<Rightarrow> if keys = [] then Inl (Errorf ''jwks: no keys'') else Inr keys)"

fun unmarshalClaims :: "document \<Rightarrow> error + claims" where
  "unmarshalClaims (Json (JObj ms)) = Inr (map_of (rev ms))"
| "unmarshalClaims (Json JNull) = Inr Map.empty"
| "unmarshalClaims (Malformed _) = Inl (Wrap ''jwt: claims'' json_syntax_error)"
| "unmarshalClaims _ = Inl (Wrap ''jwt: claims'' json_type_error)"

definition VerifyCompactRS256 :: "crypto \<Rightarrow> string \<Rightarrow> string \<Rightarrow> error + claims" where
  "VerifyCompactRS256 J token jwksJSON =
     (if token = [] then Inl (Errorf ''jwt: empty token'')
      else bindE (ParseJWKS J jwksJSON) (\<lambda>jwks.
        case rs256_parse J token of
          Inl err \<Rightarrow> Inl (Wrap ''jwt: parse'' err)
        | Inr jws \<Rightarrow>
            (case rs256_verify J jwks jws of
               Inl err \<Rightarrow> Inl (Wrap ''jwt: verify'' err)
             | Inr payload \<Rightarrow> unmarshalClaims payload)))"

definition VerifyCompactHS256 :: "crypto \<Rightarrow> string \<Rightarrow> string \<Rightarrow> error + claims" where
  "VerifyCompactHS256 J token key =
     (if token = [] then Inl (Errorf ''jwt: empty token'')
      else if key = [] then Inl (Errorf ''jwt: empty hmac key'')
      else case hs256_parse J token of
          Inl err \<Rightarrow> Inl (Wrap ''jwt: parse'' err)
        | Inr jws \<Rightarrow>
            (case hs256_verify J key jws of
               Inl err \<Rightarrow> Inl (Wrap ''jwt: verify'' err)
             | Inr payload \<Rightarrow> unmarshalClaims payload))"

text \<open>The signer, \<open>Sign\<close> and \<open>CompactSerialize\<close> of the library are one parameter.\<close>

definition SignHS256 :: "crypto \<Rightarrow> document \<Rightarrow> string \<Rightarrow> error + string" where
  "SignHS256 J payload key =
     (if key = [] then Inl (Errorf ''jwt: empty hmac key'')
      else case hs256_sign J key payload of
          Inl err \<Rightarrow> Inl (Wrap ''jwt: sign'' err)
        | Inr token \<Rightarrow> Inr token)"

text \<open>\<open>\%.0f\<close> rounds half to even.\<close>

definition round_half_even :: "rat \<Rightarrow> int" where
  "round_half_even x =
     (let f = floor x; d = x - of_int f in
      if d < 1/2 then f else if 1/2 < d then f + 1 else if even f then f else f + 1)"

definition format_int :: "int \<Rightarrow> string" where
  "format_int n = (if n < 0 then ''-'' @ itoa (nat (- n)) else itoa (nat n))"

definition ClaimString :: "crypto \<Rightarrow> claims \<Rightarrow> string \<Rightarrow> string" where
  "ClaimString J claims key =
     (case claims key of
        None \<Rightarrow> []
      | Some JNull \<Rightarrow> []
      | Some (JStr t) \<Rightarrow> t
      | Some (JNum x) \<Rightarrow>
          (if x < 0 \<and> round_half_even x = 0 then ''-0'' else format_int (round_half_even x))
      | Some v \<Rightarrow> Sprint J v)"

text \<open>The conversion of a \<open>float64\<close> to \<open>int64\<close> drops the fraction.\<close>

definition claimUnixSeconds :: "claims \<Rightarrow> string \<Rightarrow> int option" where
  "claimUnixSeconds claims key =
     (case claims key of
        Some (JNum x) \<Rightarrow> Some (if 0 \<le> x then floor x else ceiling x)
      | _ \<Rightarrow> None)"

definition ClaimExpired :: "claims \<Rightarrow> int \<Rightarrow> bool" where
  "ClaimExpired claims now =
     (case claimUnixSeconds claims ''exp'' of
        None \<Rightarrow> True
      | Some expiry \<Rightarrow> expiry \<le> Unix now)"

definition ClaimNotYetValid :: "claims \<Rightarrow> int \<Rightarrow> bool" where
  "ClaimNotYetValid claims now =
     (if claims ''nbf'' = None then False
      else case claimUnixSeconds claims ''nbf'' of
          None \<Rightarrow> True
        | Some nbf \<Rightarrow> Unix now < nbf)"

text \<open>A type assertion \<open>v, \_ := claims[key].(string)\<close>.\<close>

definition claim_as_string :: "claims \<Rightarrow> string \<Rightarrow> string" where
  "claim_as_string claims key = (case claims key of Some (JStr s) \<Rightarrow> s | _ \<Rightarrow> [])"

section \<open>Identity Toolkit tokens\<close>

definition reservedIdentityToolkitClaims :: "string list" where
  "reservedIdentityToolkitClaims =
     [''user_id'', ''sub'', ''iss'', ''aud'', ''iat'', ''exp'', ''email'', ''firebase'', ''auth_time'']"

definition signHS256 :: "crypto \<Rightarrow> (string \<times> json) list \<Rightarrow> error + string" where
  "signHS256 J claims = SignHS256 J (Json (marshal_map claims)) (identityToolkitKey J)"

definition identityToolkitClaims ::
  "int \<Rightarrow> string \<Rightarrow> string \<Rightarrow> string \<Rightarrow> (string \<times> json) list \<Rightarrow> string \<Rightarrow> (string \<times> json) list" where
  "identityToolkitClaims now projectID localID email extra tenantID =
     (let claims = filter (\<lambda>(k, v). k \<notin> set reservedIdentityToolkitClaims) extra;
          claims = assign ''user_id'' (JStr localID) claims;
          claims = assign ''sub'' (JStr localID) claims;
          claims = assign ''email'' (JStr email) claims;
          firebase = [(''sign_in_provider'', JStr ''password'')];
          t = TrimSpace tenantID;
          firebase = (if t \<noteq> [] then assign ''tenant'' (JStr t) firebase else firebase);
          claims = assign ''firebase'' (marshal_map firebase) claims;
          claims = assign ''iat'' (JNum (of_int (Unix now))) claims;
          claims = assign ''exp'' (JNum (of_int (Unix (now + 3600 * nanos_per_second)))) claims;
          claims = assign ''aud'' (JStr projectID) claims
      in assign ''iss'' (JStr (''https://securetoken.google.com/'' @ projectID)) claims)"

definition MintIdentityToolkitIDToken ::
  "crypto \<Rightarrow> int \<Rightarrow> string \<Rightarrow> string \<Rightarrow> string \<Rightarrow> (string \<times> json) list \<Rightarrow> string \<Rightarrow> error + string" where
  "MintIdentityToolkitIDToken J now projectID localID email extra tenantID =
     (let projectID = TrimSpace projectID; localID = TrimSpace localID in
      if projectID = [] \<or> localID = [] then Inl (Errorf ''project and localId required'')
      else signHS256 J (identityToolkitClaims now projectID localID email extra tenantID))"

definition customTokenAudience :: string where
  "customTokenAudience =
     ''https://identitytoolkit.googleapis.com/google.identity.identitytoolkit.v1.IdentityToolkit''"

definition MintIdentityToolkitCustomToken ::
  "crypto \<Rightarrow> int \<Rightarrow> string \<Rightarrow> string \<Rightarrow> (string \<times> json) list \<Rightarrow> error + string" where
  "MintIdentityToolkitCustomToken J now projectID uid customClaims =
     (let projectID = TrimSpace projectID; uid = TrimSpace uid in
      if projectID = [] \<or> uid = [] then Inl (Errorf ''project and uid required'')
      else
        let claims =
          [(''uid'', JStr uid), (''sub'', JStr uid),
           (''iss'', JStr (''noctaxris-gcp-lab@'' @ projectID @ ''.iam.gserviceaccount.com'')),
           (''aud'', JStr customTokenAudience),
           (''iat'', JNum (of_int (Unix now))),
           (''exp'', JNum (of_int (Unix (now + 3600 * nanos_per_second))))];
          claims = (if customClaims \<noteq> [] then assign ''claims'' (marshal_map customClaims) claims
            else claims)
        in signHS256 J claims)"

definition VerifyIdentityToolkitCustomToken :: "crypto \<Rightarrow> int \<Rightarrow> string \<Rightarrow> string option" where
  "VerifyIdentityToolkitCustomToken J now token =
     (case VerifyCompactHS256 J token (identityToolkitKey J) of
        Inl _ \<Rightarrow> None
      | Inr claims \<Rightarrow>
          if claim_as_string claims ''aud'' \<noteq> customTokenAudience then None
          else if ClaimExpired claims now then None
          else
            let uid = claim_as_string claims ''uid'';
                uid = (if uid = [] then claim_as_string claims ''sub'' else uid)
            in if uid = [] then None else Some uid)"

definition VerifyIdentityToolkitIDToken :: "crypto \<Rightarrow> int \<Rightarrow> string \<Rightarrow> claims option" where
  "VerifyIdentityToolkitIDToken J now token =
     (case VerifyCompactHS256 J token (identityToolkitKey J) of
        Inl _ \<Rightarrow> None
      | Inr claims \<Rightarrow>
          if \<not> HasPrefix (claim_as_string claims ''iss'') ''https://securetoken.google.com/'' then None
          else if ClaimExpired claims now then None
          else Some claims)"

definition LabIdentityToolkitUID :: "crypto \<Rightarrow> int \<Rightarrow> string \<Rightarrow> string option" where
  "LabIdentityToolkitUID J now token =
     (case VerifyIdentityToolkitIDToken J now token of
        None \<Rightarrow> None
      | Some claims \<Rightarrow>
          let uid = claim_as_string claims ''user_id'';
              uid = (if uid = [] then claim_as_string claims ''sub'' else uid)
          in if uid = [] then None else Some uid)"

section \<open>Bearer tokens\<close>

record Principal =
  Email :: string
  IsRoot :: bool

text \<open>
  \<open>TokenLookup\<close> and \<open>ToolkitUserStatus\<close> are interfaces: a lookup answers with an error, \<open>None\<close> (not
  found) or the value; the whole interface may be nil.
\<close>

type_synonym token_lookup = "string \<Rightarrow> int \<Rightarrow> error + string option"
type_synonym toolkit_status = "string \<Rightarrow> error + bool option"

record Authenticator =
  RootServiceAccount :: string
  RootAccessToken :: string
  Tokens :: "token_lookup option"
  ToolkitUsers :: "toolkit_status option"
  AuthNow :: "int option"

definition HashToken :: "crypto \<Rightarrow> string \<Rightarrow> string" where
  "HashToken J token = sha256_hex J token"

definition count_char :: "char \<Rightarrow> string \<Rightarrow> nat" where
  "count_char c s = length (filter (\<lambda>x. x = c) s)"

definition labOIDCPrincipal :: "crypto \<Rightarrow> string \<Rightarrow> Principal option" where
  "labOIDCPrincipal J token =
     (if count_char (CHR ''.'') token \<noteq> 2 then None
      else case LabOIDCJWKS J of
          Inl _ \<Rightarrow> None
        | Inr jwks \<Rightarrow>
            (case VerifyCompactRS256 J token jwks of
               Inl _ \<Rightarrow> None
             | Inr claims \<Rightarrow>
                 let email = TrimSpace (ClaimString J claims ''email'');
                     email = (if email = [] then TrimSpace (ClaimString J claims ''sub'') else email)
                 in if email = [] \<or> \<not> Contains email ''@'' then None
                    else Some \<lparr>Email = email, IsRoot = False\<rparr>))"

definition toolkitPrincipalEmail :: "string \<Rightarrow> string" where
  "toolkitPrincipalEmail localID =
     (let localID = TrimSpace localID in
      if localID = [] then []
      else if HasPrefix localID ''user:'' then localID
      else ''user:'' @ localID)"

definition identityToolkitPrincipalWithStatus ::
  "crypto \<Rightarrow> int \<Rightarrow> string \<Rightarrow> toolkit_status option \<Rightarrow> Principal option" where
  "identityToolkitPrincipalWithStatus J wall token users =
     (case LabIdentityToolkitUID J wall token of
        None \<Rightarrow> None
      | Some uid \<Rightarrow>
          let p = Some \<lparr>Email = toolkitPrincipalEmail uid, IsRoot = False\<rparr> in
          (case users of
             None \<Rightarrow> p
           | Some status \<Rightarrow>
               (case status uid of
                  Inl _ \<Rightarrow> None
                | Inr found \<Rightarrow> if found = Some True then None else p)))"

text \<open>The two fallbacks of \<open>AuthenticateToken\<close> when the token is not registered.\<close>

definition fallbackPrincipal ::
  "crypto \<Rightarrow> int \<Rightarrow> Authenticator \<Rightarrow> string \<Rightarrow> error + Principal" where
  "fallbackPrincipal J wall a token =
     (case labOIDCPrincipal J token of
        Some p \<Rightarrow> Inr p
      | None \<Rightarrow>
          (case identityToolkitPrincipalWithStatus J wall token (ToolkitUsers a) of
             Some p \<Rightarrow> Inr p
           | None \<Rightarrow> Inl ErrUnauthenticated))"

definition AuthenticateToken ::
  "crypto \<Rightarrow> int \<Rightarrow> Authenticator \<Rightarrow> string \<Rightarrow> error + Principal" where
  "AuthenticateToken J wall a token =
     (if RootAccessToken a \<noteq> [] \<and> token = RootAccessToken a then
        (let email = (if RootServiceAccount a = [] then ''root'' else RootServiceAccount a) in
         Inr \<lparr>Email = email, IsRoot = True\<rparr>)
      else case Tokens a of
          None \<Rightarrow> fallbackPrincipal J wall a token
        | Some lookup \<Rightarrow>
            let now = (case AuthNow a of None \<Rightarrow> wall | Some t \<Rightarrow> t) in
            bindE (lookup (HashToken J token) now) (\<lambda>found.
              case found of
                None \<Rightarrow> fallbackPrincipal J wall a token
              | Some email \<Rightarrow>
                  if email = [] then fallbackPrincipal J wall a token
                  else Inr \<lparr>Email = email, IsRoot = False\<rparr>))"

text \<open>The argument is the value of the \<open>Authorization\<close> header.\<close>

definition AuthenticateRequest ::
  "crypto \<Rightarrow> int \<Rightarrow> Authenticator \<Rightarrow> string \<Rightarrow> error + Principal" where
  "AuthenticateRequest J wall a raw =
     (if \<not> HasPrefix raw ''Bearer '' then Inl ErrUnauthenticated
      else
        let token = TrimSpace (TrimPrefix raw ''Bearer '') in
        if token = [] then Inl ErrUnauthenticated
        else AuthenticateToken J wall a token)"

section \<open>Public paths\<close>

definition product_probes :: "string list" where
  "product_probes = [''/_noctaxris-gcp/health'', ''/_noctaxris-gcp/ready'', ''/_noctaxris-gcp/version'']"

definition lab_probes :: "string list" where
  "lab_probes = [''/_lab/health'', ''/_lab/ready'', ''/_lab/version'']"

definition IsInactiveHealthPath :: "string \<Rightarrow> bool \<Rightarrow> bool" where
  "IsInactiveHealthPath raw stripProduct =
     (if raw = [] then False
      else
        let path = Clean raw in
        if path \<in> set product_probes then stripProduct
        else if path \<in> set lab_probes then \<not> stripProduct
        else False)"

definition IsPublicPath :: "string \<Rightarrow> bool \<Rightarrow> bool" where
  "IsPublicPath raw stripProduct =
     (if raw = [] then False
      else
        let path = Clean raw in
        if path = ''.'' \<or> \<not> HasPrefix path ''/'' then False
        else if path \<in> set product_probes then \<not> stripProduct
        else if path \<in> set lab_probes then stripProduct
        else if path \<in> set [''/v1/token'', ''/token'', ''/oauth2/token''] then True
        else if path = ''/_noctaxris-gcp/http-catcher'' \<or>
          HasPrefix path ''/_noctaxris-gcp/http-catcher/'' then True
        else if HasPrefix path ''/identitytoolkit.googleapis.com/v1/accounts'' then True
        else if HasPrefix path ''/lb/'' \<or> HasPrefix path ''/cdn/'' then True
        else if HasPrefix path ''/run/'' then True
        else if HasPrefix path ''/_noctaxris-gcp/oidc-lab/.well-known/'' then True
        else if HasPrefix path ''/computeMetadata/v1'' then True
        else False)"

section \<open>Lemmas on claims\<close>

lemma unmarshal_marshal_map:
  "distinct (map fst m) \<Longrightarrow> unmarshalClaims (Json (marshal_map m)) = Inr (map_of m)"
  by (simp add: marshal_map_def map_of_marshal)

text \<open>What the code relies on of the HS256 of the library: a token it signed with a key parses, and
  verifies under that key to the payload.\<close>

definition hs256_roundtrip :: "crypto \<Rightarrow> bool" where
  "hs256_roundtrip J \<longleftrightarrow>
     (\<forall>key payload token. hs256_sign J key payload = Inr token \<longrightarrow>
        token \<noteq> [] \<and> (\<exists>jws. hs256_parse J token = Inr jws \<and> hs256_verify J key jws = Inr payload))"

lemma signHS256_verifies:
  assumes "hs256_roundtrip J" and "signHS256 J m = Inr token" and "distinct (map fst m)"
  shows "VerifyCompactHS256 J token (identityToolkitKey J) = Inr (map_of m)"
proof -
  from assms(2) have "identityToolkitKey J \<noteq> []"
    "hs256_sign J (identityToolkitKey J) (Json (marshal_map m)) = Inr token"
    by (auto simp: signHS256_def SignHS256_def split: if_splits sum.splits)
  with assms(1) show ?thesis
    by (fastforce simp: hs256_roundtrip_def VerifyCompactHS256_def unmarshal_marshal_map [OF assms(3)])
qed

lemma identityToolkitClaims_distinct:
  "distinct (map fst extra) \<Longrightarrow>
     distinct (map fst (identityToolkitClaims now projectID localID email extra tenantID))"
  by (simp add: identityToolkitClaims_def Let_def distinct_map_filter)

lemma Unix_add: "Unix (now + n * nanos_per_second) = Unix now + n"
  by (simp add: Unix_def nanos_per_second_def)

lemma identityToolkitClaims_lookup:
  "map_of (identityToolkitClaims now p uid email extra t) ''user_id'' = Some (JStr uid)"
  "map_of (identityToolkitClaims now p uid email extra t) ''iss'' =
     Some (JStr (''https://securetoken.google.com/'' @ p))"
  "map_of (identityToolkitClaims now p uid email extra t) ''exp'' =
     Some (JNum (of_int (Unix now + 3600)))"
  by (simp_all add: identityToolkitClaims_def Let_def Unix_add)

lemma expiry_lookup:
  "claims ''exp'' = Some (JNum (of_int n)) \<Longrightarrow> ClaimExpired claims now \<longleftrightarrow> n \<le> Unix now"
  by (simp add: ClaimExpired_def claimUnixSeconds_def)

lemma toolkit_uid:
  assumes "VerifyCompactHS256 J token (identityToolkitKey J) = Inr claims"
    and "claims ''user_id'' = Some (JStr uid)" and "uid \<noteq> []"
    and "claims ''iss'' = Some (JStr (''https://securetoken.google.com/'' @ p))"
    and "claims ''exp'' = Some (JNum (of_int n))"
  shows "LabIdentityToolkitUID J now token = (if Unix now < n then Some uid else None)"
proof -
  have "HasPrefix (claim_as_string claims ''iss'') ''https://securetoken.google.com/''"
    unfolding claim_as_string_def assms(4) option.case json.case by (rule HasPrefix_append)
  moreover have "ClaimExpired claims now \<longleftrightarrow> \<not> Unix now < n"
    using expiry_lookup [of claims n now, OF assms(5)] by auto
  ultimately have "VerifyIdentityToolkitIDToken J now token = (if Unix now < n then Some claims else None)"
    by (simp add: VerifyIdentityToolkitIDToken_def assms(1))
  then show ?thesis
    by (simp add: LabIdentityToolkitUID_def claim_as_string_def assms(2,3))
qed

section \<open>Properties\<close>

text \<open>C37. An Identity Toolkit token names the user it was minted for, for one hour: whatever the custom
  attributes say (they cannot replace \<open>user_id\<close>, the issuer or the expiry), verifying the minted
  token yields the trimmed \<open>localId\<close> until 3600 seconds after minting, and nothing afterwards.\<close>
theorem id_token_roundtrip:
  assumes "hs256_roundtrip J" and "distinct (map fst extra)"
    and "MintIdentityToolkitIDToken J now projectID localID email extra tenantID = Inr token"
  shows "LabIdentityToolkitUID J later token =
    (if Unix later < Unix now + 3600 then Some (TrimSpace localID) else None)"
proof -
  let ?claims = "identityToolkitClaims now (TrimSpace projectID) (TrimSpace localID) email extra tenantID"
  from assms(3) have "TrimSpace localID \<noteq> []" "signHS256 J ?claims = Inr token"
    by (auto simp: MintIdentityToolkitIDToken_def Let_def split: if_splits)
  then show ?thesis
    using identityToolkitClaims_distinct [OF assms(2)]
    by (intro toolkit_uid [where claims = "map_of ?claims" and p = "TrimSpace projectID"]
        signHS256_verifies [OF assms(1)] identityToolkitClaims_lookup)
qed

text \<open>A library that knows one signed token; used to apply the properties.\<close>

definition example_payload :: document where
  "example_payload = Json (marshal_map (identityToolkitClaims 0 ''p'' ''u1'' ''u@x'' [] []))"

definition example_crypto :: crypto where
  "example_crypto =
     \<lparr>jwks_unmarshal = (\<lambda>_. Inl (Errorf ''jwks'')), rs256_parse = (\<lambda>_. Inl (Errorf ''rs256'')),
      rs256_verify = (\<lambda>_ _. Inl (Errorf ''rs256'')), hs256_parse = Inr,
      hs256_verify = (\<lambda>key jws. if jws = ''t'' then Inr example_payload else Inl (Errorf ''hs256'')),
      hs256_sign = (\<lambda>key payload. if payload = example_payload then Inr ''t'' else Inl (Errorf ''hs256'')),
      LabOIDCJWKS = Inl (Errorf ''rsa''), identityToolkitKey = ''k'', sha256_hex = (\<lambda>s. s),
      Sprint = (\<lambda>_. [])\<rparr>"

lemma example_crypto_roundtrip: "hs256_roundtrip example_crypto"
  by (auto simp: hs256_roundtrip_def example_crypto_def split: if_splits)

lemma example_trims: "TrimSpace ''p'' = ''p''" "TrimSpace ''u1'' = ''u1''"
  by (rule TrimSpace_plain_ends; simp add: plain_char_def)+

lemma example_mint: "MintIdentityToolkitIDToken example_crypto 0 ''p'' ''u1'' ''u@x'' [] [] = Inr ''t''"
  by (simp add: MintIdentityToolkitIDToken_def example_trims signHS256_def SignHS256_def example_crypto_def
      example_payload_def [symmetric])

theorem id_token_roundtrip_witness:
  "LabIdentityToolkitUID example_crypto 5000000000 ''t'' = Some ''u1''"
proof -
  have "Unix 5000000000 < Unix 0 + 3600" by (simp add: Unix_def nanos_per_second_def)
  with id_token_roundtrip [OF example_crypto_roundtrip _ example_mint] show ?thesis
    by (simp add: example_trims)
qed

lemma labOIDC_claims:
  assumes "labOIDCPrincipal J token = Some p"
  shows "\<not> IsRoot p \<and> (\<exists>jwks claims. LabOIDCJWKS J = Inr jwks \<and> VerifyCompactRS256 J token jwks = Inr claims \<and>
     Email p = (let email = TrimSpace (ClaimString J claims ''email'') in
                if email = [] then TrimSpace (ClaimString J claims ''sub'') else email) \<and>
     Contains (Email p) ''@'')"
proof -
  have dots: "count_char (CHR ''.'') token = 2"
    using assms by (simp only: labOIDCPrincipal_def split: if_splits) simp
  obtain jwks where jwks: "LabOIDCJWKS J = Inr jwks"
    using assms by (cases "LabOIDCJWKS J") (simp_all add: labOIDCPrincipal_def dots)
  obtain claims where claims: "VerifyCompactRS256 J token jwks = Inr claims"
    using assms by (cases "VerifyCompactRS256 J token jwks") (simp_all add: labOIDCPrincipal_def dots jwks)
  define e where "e = (let email = TrimSpace (ClaimString J claims ''email'') in
      if email = [] then TrimSpace (ClaimString J claims ''sub'') else email)"
  have "labOIDCPrincipal J token = (if e = [] \<or> \<not> Contains e ''@'' then None else Some \<lparr>Email = e, IsRoot = False\<rparr>)"
    by (simp only: labOIDCPrincipal_def dots jwks claims e_def Let_def if_False sum.case simp_thms)
  with assms have "p = \<lparr>Email = e, IsRoot = False\<rparr>" "Contains e ''@''" by (simp_all split: if_split_asm)
  then show ?thesis using jwks claims unfolding e_def by simp
qed

lemma toolkit_claims:
  "LabIdentityToolkitUID J now token = Some uid \<Longrightarrow> \<exists>claims. VerifyCompactHS256 J token (identityToolkitKey J) = Inr claims \<and>
     HasPrefix (claim_as_string claims ''iss'') ''https://securetoken.google.com/'' \<and> \<not> ClaimExpired claims now \<and>
     uid = (if claim_as_string claims ''user_id'' = [] then claim_as_string claims ''sub''
            else claim_as_string claims ''user_id'') \<and> uid \<noteq> []"
  by (auto simp: LabIdentityToolkitUID_def VerifyIdentityToolkitIDToken_def Let_def split: if_splits option.splits sum.splits)

lemma toolkit_status_claims:
  "identityToolkitPrincipalWithStatus J now token users = Some p \<Longrightarrow> \<not> IsRoot p \<and> (\<exists>uid. LabIdentityToolkitUID J now token = Some uid \<and>
     Email p = toolkitPrincipalEmail uid \<and>
     (case users of None \<Rightarrow> True | Some status \<Rightarrow> \<not> isl (status uid) \<and> status uid \<noteq> Inr (Some True)))"
  by (auto simp: identityToolkitPrincipalWithStatus_def Let_def split: if_splits sum.splits option.splits)

lemma toolkit_principal:
  assumes "identityToolkitPrincipalWithStatus J now token users = Some p"
  shows "\<not> IsRoot p \<and> (\<exists>uid claims. VerifyCompactHS256 J token (identityToolkitKey J) = Inr claims \<and>
     HasPrefix (claim_as_string claims ''iss'') ''https://securetoken.google.com/'' \<and> \<not> ClaimExpired claims now \<and>
     uid = (if claim_as_string claims ''user_id'' = [] then claim_as_string claims ''sub''
            else claim_as_string claims ''user_id'') \<and> uid \<noteq> [] \<and>
     Email p = toolkitPrincipalEmail uid \<and>
     (case users of None \<Rightarrow> True | Some status \<Rightarrow> \<not> isl (status uid) \<and> status uid \<noteq> Inr (Some True)))"
proof -
  obtain uid where "\<not> IsRoot p" "LabIdentityToolkitUID J now token = Some uid" "Email p = toolkitPrincipalEmail uid"
    "case users of None \<Rightarrow> True | Some status \<Rightarrow> \<not> isl (status uid) \<and> status uid \<noteq> Inr (Some True)"
    using toolkit_status_claims [OF assms] by blast
  with toolkit_claims [OF this(2)] show ?thesis by blast
qed

lemma fallback_cases:
  "fallbackPrincipal J wall a token = Inr p \<Longrightarrow>
     labOIDCPrincipal J token = Some p \<or> identityToolkitPrincipalWithStatus J wall token (ToolkitUsers a) = Some p"
  by (simp add: fallbackPrincipal_def split: option.splits)

lemma authenticated_cases:
  fixes J a token wall
  defines "now \<equiv> case AuthNow a of None \<Rightarrow> wall | Some t \<Rightarrow> t"
  assumes "AuthenticateToken J wall a token = Inr p"
  shows "(RootAccessToken a \<noteq> [] \<and> token = RootAccessToken a \<and> IsRoot p \<and>
      Email p = (if RootServiceAccount a = [] then ''root'' else RootServiceAccount a)) \<or>
    (\<exists>lookup. Tokens a = Some lookup \<and> lookup (HashToken J token) now = Inr (Some (Email p)) \<and> Email p \<noteq> [] \<and> \<not> IsRoot p) \<or>
    (fallbackPrincipal J wall a token = Inr p \<and> (case Tokens a of None \<Rightarrow> True
        | Some lookup \<Rightarrow> lookup (HashToken J token) now = Inr None \<or> lookup (HashToken J token) now = Inr (Some [])))"
proof (cases "RootAccessToken a \<noteq> [] \<and> token = RootAccessToken a")
  case True
  with assms(2) have "p = \<lparr>Email = (if RootServiceAccount a = [] then ''root'' else RootServiceAccount a), IsRoot = True\<rparr>"
    by (simp add: AuthenticateToken_def Let_def)
  with True show ?thesis by simp
next
  case False
  show ?thesis
  proof (cases "Tokens a")
    case None
    with False assms(2) show ?thesis by (simp only: AuthenticateToken_def if_False option.case simp_thms)
  next
    case (Some lookup)
    with False assms(2) have "bindE (lookup (HashToken J token) now) (\<lambda>found. case found of
        None \<Rightarrow> fallbackPrincipal J wall a token
      | Some email \<Rightarrow> if email = [] then fallbackPrincipal J wall a token else Inr \<lparr>Email = email, IsRoot = False\<rparr>) = Inr p"
      by (simp only: AuthenticateToken_def if_False option.case Let_def now_def)
    then obtain owner where owner: "lookup (HashToken J token) now = Inr owner"
      "(case owner of None \<Rightarrow> fallbackPrincipal J wall a token
      | Some email \<Rightarrow> if email = [] then fallbackPrincipal J wall a token else Inr \<lparr>Email = email, IsRoot = False\<rparr>) = Inr p"
      by (auto simp: bindE_eq_Inr)
    show ?thesis
    proof (cases "owner = None \<or> owner = Some []")
      case True
      then have "fallbackPrincipal J wall a token = Inr p" using owner(2) by auto
      with True owner(1) Some show ?thesis by auto
    next
      case False
      then obtain email where "owner = Some email" "email \<noteq> []" by (cases owner) auto
      with owner have "p = \<lparr>Email = email, IsRoot = False\<rparr>" "lookup (HashToken J token) now = Inr (Some email)" by simp_all
      with Some \<open>email \<noteq> []\<close> show ?thesis by simp
    qed
  qed
qed

text \<open>C30. Who a token authenticates: \<open>AuthenticateToken\<close> yields root only for the configured root token, and only
  under the configured name. Any other principal is the registered owner of the token at the time of the request, or,
  when the token has no registered owner: the address in the claim \<open>email\<close> (in \<open>sub\<close> when there is none) of a lab OIDC
  token that verifies under the lab's own keys, whose expiry is not looked at; or \<open>user:\<close> with the id in the claims of an
  unexpired Identity Toolkit token that verifies under its key and whose user the status store does not report
  disabled.\<close>
theorem AuthenticateToken_justified:
  assumes "AuthenticateToken J wall a token = Inr p"
  shows "let now = (case AuthNow a of None \<Rightarrow> wall | Some t \<Rightarrow> t);
      unregistered = (case Tokens a of
          None \<Rightarrow> True
        | Some lookup \<Rightarrow> lookup (HashToken J token) now = Inr None \<or> lookup (HashToken J token) now = Inr (Some []))
    in
    if IsRoot p then RootAccessToken a \<noteq> [] \<and> token = RootAccessToken a \<and>
      Email p = (if RootServiceAccount a = [] then ''root'' else RootServiceAccount a)
    else (\<exists>lookup. Tokens a = Some lookup \<and>
            lookup (HashToken J token) now = Inr (Some (Email p)) \<and> Email p \<noteq> [])
      \<or> unregistered \<and> (\<exists>jwks claims. LabOIDCJWKS J = Inr jwks \<and> VerifyCompactRS256 J token jwks = Inr claims \<and>
            Email p = (let email = TrimSpace (ClaimString J claims ''email'') in
                       if email = [] then TrimSpace (ClaimString J claims ''sub'') else email) \<and>
            Contains (Email p) ''@'')
      \<or> unregistered \<and> (\<exists>uid claims. VerifyCompactHS256 J token (identityToolkitKey J) = Inr claims \<and>
            HasPrefix (claim_as_string claims ''iss'') ''https://securetoken.google.com/'' \<and> \<not> ClaimExpired claims wall \<and>
            uid = (if claim_as_string claims ''user_id'' = [] then claim_as_string claims ''sub''
                   else claim_as_string claims ''user_id'') \<and> uid \<noteq> [] \<and>
            Email p = toolkitPrincipalEmail uid \<and>
            (case ToolkitUsers a of None \<Rightarrow> True
             | Some status \<Rightarrow> \<not> isl (status uid) \<and> status uid \<noteq> Inr (Some True)))"
proof -
  define now where "now = (case AuthNow a of None \<Rightarrow> wall | Some t \<Rightarrow> t)"
  consider (root) "RootAccessToken a \<noteq> []" "token = RootAccessToken a" "IsRoot p"
      "Email p = (if RootServiceAccount a = [] then ''root'' else RootServiceAccount a)"
    | (owner) lookup where "Tokens a = Some lookup" "lookup (HashToken J token) now = Inr (Some (Email p))"
        "Email p \<noteq> []" "\<not> IsRoot p"
    | (fallback) "fallbackPrincipal J wall a token = Inr p" "case Tokens a of None \<Rightarrow> True
        | Some lookup \<Rightarrow> lookup (HashToken J token) now = Inr None \<or> lookup (HashToken J token) now = Inr (Some [])"
    using authenticated_cases [OF assms] unfolding now_def by blast
  then show ?thesis
  proof cases
    case root
    then show ?thesis by simp
  next
    case owner
    then show ?thesis by (simp add: now_def)
  next
    case fallback
    from fallback_cases [OF fallback(1)] show ?thesis
    proof
      assume "labOIDCPrincipal J token = Some p"
      from labOIDC_claims [OF this] fallback(2) show ?thesis unfolding Let_def now_def by simp
    next
      assume "identityToolkitPrincipalWithStatus J wall token (ToolkitUsers a) = Some p"
      from toolkit_principal [OF this] fallback(2) show ?thesis unfolding Let_def now_def by simp
    qed
  qed
qed

text \<open>A lab whose only token is an OIDC token.\<close>

definition example_oidc_payload :: document where
  "example_oidc_payload = Json (JObj [(''email'', JStr ''ci@p'')])"

definition example_oidc :: crypto where
  "example_oidc = example_crypto\<lparr>LabOIDCJWKS := Inr ''j'', jwks_unmarshal := (\<lambda>_. Inr [''k'']), rs256_parse := Inr,
     rs256_verify := (\<lambda>keys jws. if jws = ''h.c.s'' then Inr example_oidc_payload else Inl (Errorf ''rs256''))\<rparr>"

lemma example_oidc_verifies: "VerifyCompactRS256 example_oidc ''h.c.s'' ''j'' = Inr [''email'' \<mapsto> JStr ''ci@p'']"
  by (simp add: VerifyCompactRS256_def ParseJWKS_def example_oidc_def example_oidc_payload_def)

lemma example_oidc_email: "TrimSpace ''ci@p'' = ''ci@p''" "Contains ''ci@p'' ''@''"
  by (rule TrimSpace_plain_ends, simp add: plain_char_def) (simp add: go_simps)

theorem AuthenticateToken_justified_witness:
  "AuthenticateToken example_oidc 0 \<lparr>RootServiceAccount = [], RootAccessToken = ''t0'', Tokens = None, ToolkitUsers = None,
       AuthNow = None\<rparr> ''h.c.s'' = Inr \<lparr>Email = ''ci@p'', IsRoot = False\<rparr> \<and>
   (\<exists>jwks claims. LabOIDCJWKS example_oidc = Inr jwks \<and> VerifyCompactRS256 example_oidc ''h.c.s'' jwks = Inr claims \<and>
      TrimSpace (ClaimString example_oidc claims ''email'') = ''ci@p'')"
proof -
  let ?a = "\<lparr>RootServiceAccount = [], RootAccessToken = ''t0'', Tokens = None, ToolkitUsers = None, AuthNow = None\<rparr>"
  have jwks: "LabOIDCJWKS example_oidc = Inr ''j''" by (simp add: example_oidc_def)
  have run: "AuthenticateToken example_oidc 0 ?a ''h.c.s'' = Inr \<lparr>Email = ''ci@p'', IsRoot = False\<rparr>"
    by (simp add: AuthenticateToken_def fallbackPrincipal_def labOIDCPrincipal_def count_char_def jwks example_oidc_verifies
        ClaimString_def example_oidc_email)
  have "VerifyCompactHS256 example_oidc ''h.c.s'' (identityToolkitKey example_oidc) \<noteq> Inr claims" for claims
    by (simp add: VerifyCompactHS256_def example_oidc_def example_crypto_def)
  with AuthenticateToken_justified [OF run] run show ?thesis
    by (simp add: jwks example_oidc_verifies ClaimString_def example_oidc_email)
qed

lemma IsPublicPath_unrooted: "\<not> HasPrefix raw ''/'' \<Longrightarrow> \<not> IsPublicPath raw stripProduct"
  using Clean_unrooted [of raw] by (simp add: IsPublicPath_def)

text \<open>The authentication gate cannot be bypassed by dot segments: whether a path is public depends on its
  cleaned form only, and a public path is rooted with a cleaned form none of whose elements is empty,
  \<open>.\<close> or \<open>..\<close>.\<close>
theorem public_path_is_clean:
  "IsPublicPath (Clean raw) stripProduct = (raw \<noteq> [] \<and> IsPublicPath raw stripProduct) \<and>
   (IsPublicPath raw stripProduct \<longrightarrow>
     Clean raw = CHR ''/'' # Join (clean_elements raw) ''/'' \<and> list_all clean_element (clean_elements raw))"
proof (cases "HasPrefix raw ''/''")
  case False
  then have "\<not> IsPublicPath raw stripProduct" "\<not> IsPublicPath (Clean raw) stripProduct"
    using IsPublicPath_unrooted Clean_unrooted by blast+
  then show ?thesis by simp
next
  case True
  then have "raw \<noteq> []" "Clean raw \<noteq> []" by (auto simp: Clean_rooted go_simps)
  then show ?thesis
    using Clean_rooted_idem [OF True] Clean_rooted [OF True] clean_elements_clean [of raw]
    by (simp add: IsPublicPath_def)
qed

theorem public_path_is_clean_witness:
  "\<not> IsPublicPath ''/lb/../v1/projects'' False \<and> IsPublicPath ''/lb/x'' False"
proof -
  have clean: "Clean ''/lb/../v1/projects'' = ''/v1/projects''" "Clean ''/lb/x'' = ''/lb/x''"
    by (simp_all add: Clean_def clean_push_def Split.simps go_simps)
  have "IsPublicPath ''/lb/x'' False"
    by (simp add: IsPublicPath_def clean product_probes_def lab_probes_def go_simps)
  with public_path_is_clean [of "''/lb/x''" False] public_path_is_clean [of "''/lb/../v1/projects''" False]
  show ?thesis by (simp add: clean IsPublicPath_def product_probes_def lab_probes_def go_simps)
qed

end
