(* ===== verification/Http_Gate.thy ===== *)
theory Http_Gate
  imports Authn
begin

text \<open>
  The HTTP front door: \<open>withMiddleware\<close> in \<^verbatim>\<open>internal/server/server.go\<close>, with
  \<open>rewriteLabHostPath\<close> and \<open>isGOOG4HMACAuth\<close> of \<^verbatim>\<open>internal/server/lab_forensics.go\<close>, the signed URL
  tests of \<^verbatim>\<open>internal/store/gcs_signed.go\<close> and \<open>IsRegistryV2Path\<close> of
  \<^verbatim>\<open>internal/services/artifactregistry/registry_v2.go\<close>.

  A request is what the middleware reads of it; the outcome is the response it writes, or the
  request it hands to the handlers, with the principal it put in the context.
\<close>

record request =
  Host :: string
  Path :: string
  Authorization :: string
  ContentType :: string
  Query :: "(string \<times> string list) list"

datatype outcome =
    Respond nat string "(string \<times> string) list"
  | NotFound
  | Serve request "Principal option"

definition LabGCSSignAlgo :: string where
  "LabGCSSignAlgo = ''GOOG4-HMAC-SHA256''"

definition isGOOG4HMACAuth :: "string \<Rightarrow> bool" where
  "isGOOG4HMACAuth auth \<longleftrightarrow> HasPrefix (TrimSpace auth) LabGCSSignAlgo"

text \<open>\<open>Values.Get\<close>: the first value of the key, or empty.\<close>

definition Values_Get :: "(string \<times> string list) list \<Rightarrow> string \<Rightarrow> string" where
  "Values_Get q k = (case map_of q k of Some (v # _) \<Rightarrow> v | _ \<Rightarrow> [])"

fun firstQuery :: "(string \<times> string list) list \<Rightarrow> string list \<Rightarrow> string" where
  "firstQuery q [] = []"
| "firstQuery q (k # ks) = (let v = Values_Get q k in if v \<noteq> [] then v else firstQuery q ks)"

definition HasV4Signature :: "(string \<times> string list) list \<Rightarrow> bool" where
  "HasV4Signature query =
     (let algo = firstQuery query [''X-Goog-Algorithm'', ''x-goog-algorithm''];
          sig = firstQuery query [''X-Goog-Signature'', ''x-goog-signature'']
      in algo \<noteq> [] \<and> sig \<noteq> [])"

definition IsV4SignedURLPath :: "string \<Rightarrow> bool" where
  "IsV4SignedURLPath path =
     (let path = TrimSpace path in
      if path = [] then False
      else if HasPrefix path ''/storage/v1/b/'' then
        (let rest = TrimPrefix path ''/storage/v1/b/'' in
         case IndexByte rest (CHR ''/'') of
           None \<Rightarrow> False
         | Some slash \<Rightarrow>
             let afterBucket = drop slash rest in
             HasPrefix afterBucket ''/o/'' \<and> \<not> Contains afterBucket ''/iam'')
      else if HasPrefix path ''/upload/storage/v1/b/'' then
        HasSuffix path ''/o'' \<or> Contains path ''/o?''
      else False)"

definition IsRegistryV2Path :: "string \<Rightarrow> bool" where
  "IsRegistryV2Path path =
     (if path = ''/v2'' \<or> path = ''/v2/'' then True
      else if \<not> HasPrefix path ''/v2/'' then False
      else Contains path ''/blobs/'' \<or> Contains path ''/manifests/'')"

definition rewriteLabHostPath :: "request \<Rightarrow> request" where
  "rewriteLabHostPath r =
     (let host = ToLower (TrimSpace (Host r));
          host = (case IndexByte host (CHR '':'') of None \<Rightarrow> host | Some i \<Rightarrow> take i host);
          path = Path r
      in
      if host = ''iamcredentials.googleapis.com'' then
        (if \<not> HasPrefix path ''/iamcredentials.googleapis.com/''
         then r\<lparr>Path := ''/iamcredentials.googleapis.com'' @ path\<rparr> else r)
      else if host = ''storage.googleapis.com'' then
        (if HasPrefix path ''/storage/'' \<or> HasPrefix path ''/upload/storage/'' then r
         else if \<not> HasPrefix path ''/storage/xml/'' then r\<lparr>Path := ''/storage/xml'' @ path\<rparr> else r)
      else if host = ''oauth2.googleapis.com'' then
        (if path = [] \<or> path = ''/'' then r\<lparr>Path := ''/token''\<rparr> else r)
      else if host = ''accounts.google.com'' then
        (if path = ''/o/oauth2/token'' then r\<lparr>Path := ''/oauth2/token''\<rparr> else r)
      else r)"

definition withMiddleware ::
  "crypto \<Rightarrow> int \<Rightarrow> Authenticator \<Rightarrow> bool \<Rightarrow> request \<Rightarrow> outcome" where
  "withMiddleware J wall a stripProduct r0 =
     (let r = rewriteLabHostPath r0 in
      if isGOOG4HMACAuth (Authorization r) \<and> \<not> HasPrefix (Path r) ''/storage/xml/'' then
        Respond 401 ''UNAUTHENTICATED'' []
      else if IsInactiveHealthPath (Path r) stripProduct then NotFound
      else if IsPublicPath (Path r) stripProduct then
        (case AuthenticateRequest J wall a (Authorization r) of
           Inr p \<Rightarrow> Serve r (Some p)
         | Inl _ \<Rightarrow> Serve r None)
      else if HasPrefix (ContentType r) ''application/grpc'' then Serve r None
      else if HasV4Signature (Query r) \<and> Authorization r = [] \<and> IsV4SignedURLPath (Path r) then
        Serve r None
      else if isGOOG4HMACAuth (Authorization r) \<and> HasPrefix (Path r) ''/storage/xml/'' then
        Serve r None
      else
        (case AuthenticateRequest J wall a (Authorization r) of
           Inl err \<Rightarrow>
             if errors_Is err ErrUnauthenticated then
               Respond 401 ''UNAUTHENTICATED''
                 (if IsRegistryV2Path (Path r)
                  then [(''Docker-Distribution-API-Version'', ''registry/2.0''), (''WWW-Authenticate'', ''Bearer'')]
                  else [])
             else Respond 500 ''INTERNAL'' []
         | Inr p \<Rightarrow> Serve r (Some p)))"

section \<open>Properties\<close>

text \<open>C31. The front door is closed: a request reaches the handlers either with the principal its
  \<open>Authorization\<close> header authenticates, or without one only on a public path, on the gRPC plane, on
  an object path with a V4 signature and no credentials, or on the XML plane with a GOOG4 signature; it
  never reaches a handler on an inactive health path.\<close>
theorem middleware_gate:
  assumes "withMiddleware J wall a stripProduct r0 = Serve r p"
  shows "r = rewriteLabHostPath r0 \<and> \<not> IsInactiveHealthPath (Path r) stripProduct \<and>
    (case p of
       Some q \<Rightarrow> AuthenticateRequest J wall a (Authorization r) = Inr q
     | None \<Rightarrow> IsPublicPath (Path r) stripProduct \<or> HasPrefix (ContentType r) ''application/grpc'' \<or>
         HasV4Signature (Query r) \<and> Authorization r = [] \<and> IsV4SignedURLPath (Path r) \<or>
         isGOOG4HMACAuth (Authorization r) \<and> HasPrefix (Path r) ''/storage/xml/'')"
  using assms unfolding withMiddleware_def Let_def
  by (auto split: if_split_asm sum.splits)

text \<open>A request for a public path, and one signed with GOOG4 for another plane.\<close>

definition example_request :: "string \<Rightarrow> string \<Rightarrow> request" where
  "example_request path auth =
     \<lparr>Host = ''localhost'', Path = path, Authorization = auth, ContentType = [], Query = []\<rparr>"

definition example_authenticator :: Authenticator where
  "example_authenticator = \<lparr>RootServiceAccount = [], RootAccessToken = ''root'', Tokens = None,
     ToolkitUsers = None, AuthNow = None\<rparr>"

lemma example_rewrite: "rewriteLabHostPath (example_request path auth) = example_request path auth"
proof -
  have "TrimSpace ''localhost'' = ''localhost''"
    by (rule TrimSpace_plain_ends) (simp add: plain_char_def)
  then show ?thesis
    by (simp add: rewriteLabHostPath_def example_request_def ToLower_def lower_char_def Let_def)
qed

lemma example_serve:
  "withMiddleware example_crypto 0 example_authenticator False (example_request ''/token'' []) =
     Serve (example_request ''/token'' []) None"
proof -
  have "Clean ''/token'' = ''/token''"
    by (simp add: Clean_def clean_push_def Split.simps go_simps)
  then show ?thesis
    by (simp add: withMiddleware_def example_rewrite)
       (simp add: example_request_def isGOOG4HMACAuth_def LabGCSSignAlgo_def IsInactiveHealthPath_def
         IsPublicPath_def product_probes_def lab_probes_def AuthenticateRequest_def go_simps)
qed

theorem middleware_gate_witness:
  "\<not> IsInactiveHealthPath ''/token'' False \<and> (IsPublicPath ''/token'' False \<or>
     IsV4SignedURLPath ''/token'')"
  using middleware_gate [OF example_serve]
  by (auto simp: example_request_def isGOOG4HMACAuth_def LabGCSSignAlgo_def HasV4Signature_def
      Values_Get_def go_simps)

text \<open>An HMAC signature authenticates the XML plane only: a request whose header carries GOOG4
  credentials is answered 401 on every path outside \<open>/storage/xml/\<close>, public paths included, so it can
  neither mint a token nor reach another API.\<close>
theorem goog4_confined_to_xml:
  assumes "isGOOG4HMACAuth (Authorization r)"
    and "\<not> HasPrefix (Path (rewriteLabHostPath r)) ''/storage/xml/''"
  shows "withMiddleware J wall a stripProduct r = Respond 401 ''UNAUTHENTICATED'' []"
proof -
  have "Authorization (rewriteLabHostPath r) = Authorization r"
    by (simp add: rewriteLabHostPath_def Let_def)
  with assms show ?thesis by (simp add: withMiddleware_def)
qed

theorem goog4_confined_to_xml_witness:
  "withMiddleware example_crypto 0 example_authenticator False
     (example_request ''/token'' ''GOOG4-HMAC-SHA256 x'') = Respond 401 ''UNAUTHENTICATED'' []"
proof (rule goog4_confined_to_xml)
  have "TrimSpace ''GOOG4-HMAC-SHA256 x'' = ''GOOG4-HMAC-SHA256 x''"
    by (rule TrimSpace_plain_ends) (simp add: plain_char_def)
  then show "isGOOG4HMACAuth (Authorization (example_request ''/token'' ''GOOG4-HMAC-SHA256 x''))"
    by (simp add: example_request_def isGOOG4HMACAuth_def LabGCSSignAlgo_def go_simps)
  show "\<not> HasPrefix (Path (rewriteLabHostPath (example_request ''/token'' ''GOOG4-HMAC-SHA256 x'')))
      ''/storage/xml/''"
    unfolding example_rewrite by (simp add: example_request_def go_simps)
qed

end
