(* ===== verification/Org_Policy.thy ===== *)
theory Org_Policy
  imports Crm_Store Go_Json
begin

text \<open>
  Organization policies: \<^verbatim>\<open>internal/store/orgpolicy.go\<close>. A policy is a specification document stored for a
  constraint on a project, folder or organization; the specification is normalised when it is stored
  and read back when the constraint is checked. \<open>IsOrgPolicyConstraintEnforced\<close> walks the resource
  hierarchy up from a resource and lets the nearest stored policy decide.

  The relation \<open>governs\<close> is the abstract reading of that walk. Every method first runs the schema
  statement of \<open>ensureOrgPolicySchema\<close>, which changes nothing but may fail.
\<close>

section \<open>Names\<close>

definition ConstraintDisableServiceAccountKeyCreation :: string where
  "ConstraintDisableServiceAccountKeyCreation = ''iam.disableServiceAccountKeyCreation''"

definition ConstraintStoragePublicAccessPrevention :: string where
  "ConstraintStoragePublicAccessPrevention = ''storage.publicAccessPrevention''"

definition NormalizeOrgConstraint :: "string \<Rightarrow> string" where
  "NormalizeOrgConstraint c = TrimSpace (TrimPrefix (TrimSpace c) ''constraints/'')"

definition KnownOrgPolicyConstraints :: "string list" where
  "KnownOrgPolicyConstraints =
     [ConstraintDisableServiceAccountKeyCreation, ConstraintStoragePublicAccessPrevention]"

definition IsKnownOrgConstraint :: "string \<Rightarrow> bool" where
  "IsKnownOrgConstraint c \<longleftrightarrow> NormalizeOrgConstraint c \<in> set KnownOrgPolicyConstraints"

definition orgPolicyName :: "string \<Rightarrow> string \<Rightarrow> string" where
  "orgPolicyName parent c = TrimSuffix parent ''/'' @ ''/policies/'' @ NormalizeOrgConstraint c"

definition bare_child :: "string \<Rightarrow> string \<Rightarrow> bool" where
  "bare_child p s = (let rest = TrimPrefix s p in rest \<noteq> [] \<and> \<not> Contains rest ''/'')"

definition validOrgPolicyParent :: "string \<Rightarrow> bool" where
  "validOrgPolicyParent parent =
     (if HasPrefix parent ''projects/'' then bare_child ''projects/'' parent
      else if HasPrefix parent ''folders/'' then bare_child ''folders/'' parent
      else if HasPrefix parent ''organizations/'' then bare_child ''organizations/'' parent
      else False)"

definition splitOrgPolicyName :: "string \<Rightarrow> (string \<times> string) option" where
  "splitOrgPolicyName name =
     (let name = TrimSpace name; marker = ''/policies/'' in
      case LastIndex name marker of
        None \<Rightarrow> None
      | Some i \<Rightarrow>
          let parent = take i name; c = NormalizeOrgConstraint (drop (i + length marker) name) in
          if \<not> validOrgPolicyParent parent \<or> c = [] then None else Some (parent, c))"

section \<open>Specifications\<close>

record SpecRule =
  Enforce :: "bool option"

record PolicySpec =
  Reset :: bool
  Rules :: "SpecRule list"

definition SpecRule_fields :: "SpecRule fields" where
  "SpecRule_fields = [(''enforce'', json_field Enforce (\<lambda>x r. r\<lparr>Enforce := x\<rparr>) (decode_pointer decode_bool False))]"

definition PolicySpec_fields :: "PolicySpec fields" where
  "PolicySpec_fields =
     [(''reset'', json_field Reset (\<lambda>x r. r\<lparr>Reset := x\<rparr>) decode_bool),
      (''rules'', json_field Rules (\<lambda>x r. r\<lparr>Rules := x\<rparr>)
        (decode_slice (decode_struct SpecRule_fields) \<lparr>Enforce = None\<rparr>))]"

text \<open>The first rule that says something decides.\<close>

fun first_enforce :: "SpecRule list \<Rightarrow> bool" where
  "first_enforce [] = False"
| "first_enforce (r # rs) = (case Enforce r of Some b \<Rightarrow> b | None \<Rightarrow> first_enforce rs)"

definition booleanSpecEnforced :: "document \<Rightarrow> bool" where
  "booleanSpecEnforced spec =
     (case Unmarshal (decode_struct PolicySpec_fields) spec \<lparr>Reset = False, Rules = []\<rparr> of
        Inl _ \<Rightarrow> False
      | Inr spec \<Rightarrow> if Reset spec then False else first_enforce (Rules spec))"

fun coerceBool :: "json option \<Rightarrow> error + bool" where
  "coerceBool (Some (JBool b)) = Inr b"
| "coerceBool _ = Inl (Errorf ''not a boolean'')"

definition enforce_rule :: "bool \<Rightarrow> json" where
  "enforce_rule b = JObj [(''enforce'', JBool b)]"

text \<open>One rule of the list, \<open>i\<close> being its index, for the messages: the legacy \<open>enforced\<close> becomes \<open>enforce\<close>,
  and \<open>enforce\<close> must be a boolean.\<close>

definition rename_enforced :: "nat \<Rightarrow> (string \<times> json) list \<Rightarrow> error + (string \<times> json) list" where
  "rename_enforced i rule =
     (case map_of rule ''enforced'' of
        None \<Rightarrow> Inr rule
      | Some v \<Rightarrow>
          if map_of rule ''enforce'' \<noteq> None then Inr (remove_key ''enforced'' rule)
          else
            (case coerceBool (Some v) of
               Inl _ \<Rightarrow> Inl (Errorf (''rules['' @ itoa i @ ''].enforced must be a boolean''))
             | Inr b \<Rightarrow> Inr (remove_key ''enforced'' (assign ''enforce'' (JBool b) rule))))"

definition check_enforce :: "nat \<Rightarrow> (string \<times> json) list \<Rightarrow> error + json" where
  "check_enforce i rule =
     (if map_of rule ''enforce'' = None then Inr (marshal_map rule)
      else case coerceBool (map_of rule ''enforce'') of
          Inl _ \<Rightarrow> Inl (Errorf (''rules['' @ itoa i @ ''].enforce must be a boolean''))
        | Inr b \<Rightarrow> Inr (marshal_map (assign ''enforce'' (JBool b) rule)))"

fun normalize_rule :: "nat \<Rightarrow> json \<Rightarrow> error + json" where
  "normalize_rule i (JObj rule) = bindE (rename_enforced i rule) (check_enforce i)"
| "normalize_rule i _ = Inl (Errorf (''rules['' @ itoa i @ ''] must be an object''))"

fun normalize_rules :: "nat \<Rightarrow> json list \<Rightarrow> error + json list" where
  "normalize_rules i [] = Inr []"
| "normalize_rules i (r # rs) =
     bindE (normalize_rule i r) (\<lambda>r. bindE (normalize_rules (i + 1) rs) (\<lambda>rs. Inr (r # rs)))"

text \<open>The decoded map, its nested values in canonical form; a \<open>null\<close> document gives an empty one.\<close>

fun spec_map :: "document \<Rightarrow> error + (string \<times> json) list" where
  "spec_map (Json (JObj ms)) = Inr (map_of_members (map (\<lambda>(k, v). (k, canonical v)) ms))"
| "spec_map (Json JNull) = Inr []"
| "spec_map _ = Inl (Errorf ''spec must be valid JSON'')"

text \<open>The v1 form \<open>booleanPolicy.enforced\<close> becomes a rule.\<close>

definition expand_booleanPolicy :: "(string \<times> json) list \<Rightarrow> error + (string \<times> json) list" where
  "expand_booleanPolicy raw =
     (case map_of raw ''booleanPolicy'' of
        Some (JObj bp) \<Rightarrow>
          (case coerceBool (map_of bp ''enforced'') of
             Inl _ \<Rightarrow> Inl (Errorf ''booleanPolicy.enforced must be a boolean'')
           | Inr b \<Rightarrow> Inr (remove_key ''booleanPolicy'' (assign ''rules'' (JArr [enforce_rule b]) raw)))
      | _ \<Rightarrow> Inr raw)"

definition normalize_rules_member :: "(string \<times> json) list \<Rightarrow> error + (string \<times> json) list" where
  "normalize_rules_member raw =
     (case map_of raw ''rules'' of
        None \<Rightarrow> Inr (assign ''rules'' (JArr [enforce_rule False]) raw)
      | Some (JArr rules) \<Rightarrow> bindE (normalize_rules 0 rules) (\<lambda>rules. Inr (assign ''rules'' (JArr rules) raw))
      | Some _ \<Rightarrow> Inl (Errorf ''rules must be an array''))"

definition normalizeOrgPolicySpecJSON :: "document \<Rightarrow> error + document" where
  "normalizeOrgPolicySpecJSON spec =
     bindE (spec_map spec) (\<lambda>raw.
     bindE (expand_booleanPolicy raw) (\<lambda>raw.
     bindE (normalize_rules_member raw) (\<lambda>raw. Inr (Json (marshal_map raw)))))"

section \<open>The operations\<close>

definition ensureOrgPolicySchema :: "(Db, unit) action" where
  "ensureOrgPolicySchema =
     catchM (exec (\<lambda>db. Inr (0, db))) (\<lambda>r. case r of
       Inl err \<Rightarrow> raiseM (Wrap ''migrate org policy'' err)
     | Inr _ \<Rightarrow> returnM ())"

definition default_spec :: document where
  "default_spec = Json (JObj [(''rules'', JArr [enforce_rule False])])"

definition blank_document :: "document \<Rightarrow> bool" where
  "blank_document spec = (case spec of Malformed s \<Rightarrow> TrimSpace s = [] | Json _ \<Rightarrow> False)"

text \<open>\<open>ON CONFLICT(parent, constraint\_id)\<close>; a clash of the name alone is a constraint error.\<close>

definition upsert_org_policy :: "OrgPolicy \<Rightarrow> OrgPolicy list \<Rightarrow> error + nat \<times> OrgPolicy list" where
  "upsert_org_policy p t =
     (let r = upsert (same OrgPolicy_key)
          (\<lambda>old. old\<lparr>OrgPolicy_Name := OrgPolicy_Name p, OrgPolicy_SpecJSON := OrgPolicy_SpecJSON p,
             OrgPolicy_Etag := ''ACAB'', OrgPolicy_UpdatedAt := OrgPolicy_UpdatedAt p\<rparr>) p t
      in if keys_distinct OrgPolicy_Name (snd r) then Inr r else Inl unique_violation)"

definition SetOrgPolicy :: "string \<Rightarrow> string \<Rightarrow> string \<Rightarrow> document \<Rightarrow> (Db, OrgPolicy) action" where
  "SetOrgPolicy now parent c spec =
     bindM ensureOrgPolicySchema (\<lambda>_.
       let parent = TrimSpace parent; c = NormalizeOrgConstraint c in
       if parent = [] \<or> c = [] then raiseM (Errorf ''parent and constraint required'')
       else if \<not> validOrgPolicyParent parent then
         raiseM (Errorf ''parent must be projects/{id}, folders/{id}, or organizations/{id}'')
       else if \<not> IsKnownOrgConstraint c then raiseM (Errorf ''unknown constraint'')
       else
         let spec = (if blank_document spec then default_spec else spec) in
         case normalizeOrgPolicySpecJSON spec of
           Inl err \<Rightarrow> raiseM err
         | Inr spec \<Rightarrow>
             let p = \<lparr>OrgPolicy_Name = orgPolicyName parent c, OrgPolicy_Parent = parent,
                  OrgPolicy_Constraint = c, OrgPolicy_SpecJSON = spec, OrgPolicy_Etag = ''ACAB'',
                  OrgPolicy_UpdatedAt = now\<rparr>
             in bindM (on_table_checked org_policies org_policies_update (upsert_org_policy p))
                  (\<lambda>_. returnM p))"

definition GetOrgPolicy :: "string \<Rightarrow> string \<Rightarrow> (Db, OrgPolicy option) action" where
  "GetOrgPolicy parent c =
     bindM ensureOrgPolicySchema (\<lambda>_.
       query (\<lambda>db. find (\<lambda>p. OrgPolicy_Parent p = TrimSpace parent \<and>
         OrgPolicy_Constraint p = NormalizeOrgConstraint c) (org_policies db)))"

definition GetOrgPolicyByName :: "string \<Rightarrow> (Db, OrgPolicy option) action" where
  "GetOrgPolicyByName name =
     (case splitOrgPolicyName name of
        None \<Rightarrow> returnM None
      | Some (parent, c) \<Rightarrow> GetOrgPolicy parent c)"

definition ListOrgPolicies :: "string \<Rightarrow> (Db, OrgPolicy list) action" where
  "ListOrgPolicies parent =
     bindM ensureOrgPolicySchema (\<lambda>_.
       query (\<lambda>db. sort_key OrgPolicy_Constraint
         (filter (\<lambda>p. OrgPolicy_Parent p = TrimSpace parent) (org_policies db))))"

definition DeleteOrgPolicy :: "string \<Rightarrow> string \<Rightarrow> (Db, bool) action" where
  "DeleteOrgPolicy parent c =
     bindM ensureOrgPolicySchema (\<lambda>_.
     bindM (on_table org_policies org_policies_update (delete_rows (\<lambda>p.
         OrgPolicy_Parent p = TrimSpace parent \<and> OrgPolicy_Constraint p = NormalizeOrgConstraint c)))
       (\<lambda>n. returnM (0 < n)))"

text \<open>The loop over the ancestors; \<open>fuel\<close> counts the iterations left.\<close>

fun enforced_walk :: "nat \<Rightarrow> string list \<Rightarrow> string \<Rightarrow> string \<Rightarrow> (Db, bool) action" where
  "enforced_walk 0 seen cur c = returnM False"
| "enforced_walk (Suc fuel) seen cur c =
     (if cur = [] \<or> cur \<in> set seen then returnM False
      else bindM (GetOrgPolicy cur c) (\<lambda>p.
        case p of
          Some p \<Rightarrow> returnM (booleanSpecEnforced (OrgPolicy_SpecJSON p))
        | None \<Rightarrow>
            bindM (CRMParent cur) (\<lambda>parent.
              case parent of
                None \<Rightarrow> returnM False
              | Some parent \<Rightarrow> enforced_walk fuel (cur # seen) parent c)))"

definition IsOrgPolicyConstraintEnforced :: "string \<Rightarrow> string \<Rightarrow> (Db, bool) action" where
  "IsOrgPolicyConstraintEnforced resource c =
     bindM ensureOrgPolicySchema (\<lambda>_.
       let c = NormalizeOrgConstraint c; resource = TrimSpace resource in
       if resource = [] \<or> c = [] then returnM False
       else enforced_walk 32 [] resource c)"

section \<open>Lemmas\<close>

lemma ensureOrgPolicySchema_ok [simp]: "ok_connection s \<Longrightarrow> ensureOrgPolicySchema s = (Inr (), s)"
  by (simp add: ensureOrgPolicySchema_def)

lemma bindM_ensure_ok [simp]: "ok_connection s \<Longrightarrow> bindM ensureOrgPolicySchema f s = f () s"
  by (simp add: bindM_def)

definition explicit_policy :: "Db \<Rightarrow> string \<Rightarrow> string \<Rightarrow> OrgPolicy option" where
  "explicit_policy db parent c = find (\<lambda>p. OrgPolicy_Parent p = TrimSpace parent \<and>
     OrgPolicy_Constraint p = NormalizeOrgConstraint c) (org_policies db)"

lemma GetOrgPolicy_ok:
  "ok_connection s \<Longrightarrow> GetOrgPolicy parent c s = (Inr (explicit_policy (tables s) parent c), s)"
  by (simp add: GetOrgPolicy_def explicit_policy_def)

text \<open>
  The policy \<open>p\<close> that governs a resource is the explicit one of the resource, or that of its nearest
  ancestor, \<open>n\<close> steps up the hierarchy.
\<close>

inductive governs :: "Db \<Rightarrow> string \<Rightarrow> nat \<Rightarrow> string \<Rightarrow> OrgPolicy \<Rightarrow> bool" for db c where
  here: "cur \<noteq> [] \<Longrightarrow> explicit_policy db cur c = Some p \<Longrightarrow> governs db c 0 cur p"
| up: "cur \<noteq> [] \<Longrightarrow> explicit_policy db cur c = None \<Longrightarrow> parent_at (crm_folders db) cur = Some parent \<Longrightarrow>
     governs db c n parent p \<Longrightarrow> governs db c (Suc n) cur p"

inductive_cases governs_hereE: "governs db c 0 cur p"
inductive_simps governs_Suc: "governs db c (Suc n) cur p"
inductive_simps governs_0: "governs db c 0 cur p"

lemma governs_explicit:
  "explicit_policy db cur c = Some p \<Longrightarrow> cur \<noteq> [] \<Longrightarrow> governs db c n cur q \<longleftrightarrow> n = 0 \<and> q = p"
  by (cases n) (auto simp: governs_0 governs_Suc)

lemma governs_inherited:
  "explicit_policy db cur c = None \<Longrightarrow> cur \<noteq> [] \<Longrightarrow> parent_at (crm_folders db) cur = Some parent \<Longrightarrow>
     governs db c n cur q \<longleftrightarrow> (\<exists>m. n = Suc m \<and> governs db c m parent q)"
  by (cases n) (auto simp: governs_0 governs_Suc)

lemma governs_top:
  "explicit_policy db cur c = None \<Longrightarrow> parent_at (crm_folders db) cur = None \<Longrightarrow> \<not> governs db c n cur q"
  by (cases n) (auto simp: governs_0 governs_Suc)

lemma governs_nonempty: "governs db c n cur p \<Longrightarrow> cur \<noteq> []"
  by (auto elim: governs.cases)

text \<open>The visited resources of the walk have no policy of their own and are governed by what governs the
  current one, fewer steps away; so a resource visited twice is governed by nothing.\<close>

lemma enforced_walk_governs:
  assumes "ok_connection s"
    and "\<And>x n p. x \<in> set seen \<Longrightarrow> governs (tables s) c n x p \<Longrightarrow> \<exists>m<n. governs (tables s) c m cur p"
  shows "enforced_walk fuel seen cur c s =
    (Inr (\<exists>n p. n < fuel \<and> governs (tables s) c n cur p \<and> booleanSpecEnforced (OrgPolicy_SpecJSON p)), s)"
  using assms(2)
proof (induction fuel arbitrary: seen cur)
  case (Suc fuel)
  show ?case
  proof (cases "cur = [] \<or> cur \<in> set seen")
    case True
    have "\<not> governs (tables s) c n cur p" for n p
    proof (induction n rule: less_induct)
      case (less n)
      then show ?case using True Suc.prems governs_nonempty by blast
    qed
    with True show ?thesis by simp
  next
    case False
    then have cur: "cur \<noteq> []" "cur \<notin> set seen" by auto
    show ?thesis
    proof (cases "explicit_policy (tables s) cur c")
      case (Some p)
      then show ?thesis
        using cur assms(1) by (auto simp: bindM_def GetOrgPolicy_ok governs_explicit)
    next
      case None
      show ?thesis
      proof (cases "parent_at (crm_folders (tables s)) cur")
        case no: None
        then show ?thesis
          using cur assms(1) None by (simp add: bindM_def GetOrgPolicy_ok CRMParent_ok governs_top)
      next
        case (Some parent)
        note step = governs_inherited [OF None cur(1) Some]
        have inv: "\<exists>m<n. governs (tables s) c m parent p"
          if "x \<in> set (cur # seen)" "governs (tables s) c n x p" for x n p
        proof (cases "x = cur")
          case True
          with that(2) show ?thesis by (auto simp: step)
        next
          case False
          with that Suc.prems [of x n p] obtain m where "m < n" "governs (tables s) c m cur p" by auto
          then show ?thesis by (auto simp: step intro: Suc_lessD)
        qed
        have "enforced_walk fuel (cur # seen) parent c s =
            (Inr (\<exists>n p. n < fuel \<and> governs (tables s) c n parent p \<and> booleanSpecEnforced (OrgPolicy_SpecJSON p)), s)"
          by (rule Suc.IH) (rule inv)
        then show ?thesis
          using cur assms(1) None Some by (auto simp: bindM_def GetOrgPolicy_ok CRMParent_ok step)
      qed
    qed
  qed
qed simp

lemma enforced_by_governing:
  assumes "ok_connection s" and "NormalizeOrgConstraint c \<noteq> []"
  shows "IsOrgPolicyConstraintEnforced resource c s =
    (Inr (\<exists>n p. n < 32 \<and> governs (tables s) (NormalizeOrgConstraint c) n (TrimSpace resource) p \<and>
      booleanSpecEnforced (OrgPolicy_SpecJSON p)), s)"
proof (cases "TrimSpace resource = []")
  case True
  then show ?thesis
    using assms(1) governs_nonempty by (force simp: IsOrgPolicyConstraintEnforced_def Let_def)
next
  case False
  then show ?thesis
    using assms enforced_walk_governs [OF assms(1), of "[]"]
    by (simp add: IsOrgPolicyConstraintEnforced_def Let_def)
qed

text \<open>C8. The nearest policy decides: on a store whose statements succeed, \<open>IsOrgPolicyConstraintEnforced\<close> answers
  whether the policy that governs the resource, its own or that of its nearest ancestor with one, enforces
  the constraint; the walk ends on cyclic hierarchies too, and looks at most 31 steps up.\<close>
theorem nearest_policy_decides:
  assumes "ok_connection s" and "NormalizeOrgConstraint c \<noteq> []"
  shows "IsOrgPolicyConstraintEnforced resource c s =
    (Inr (\<exists>n p. n < 32 \<and> governs (tables s) (NormalizeOrgConstraint c) n (TrimSpace resource) p \<and>
      booleanSpecEnforced (OrgPolicy_SpecJSON p)), s)"
  using assms by (rule enforced_by_governing)


lemma validOrgPolicyParent_ends:
  assumes "validOrgPolicyParent parent"
  shows "\<exists>p rest. p \<in> {''projects/'', ''folders/'', ''organizations/''} \<and> parent = p @ rest \<and> rest \<noteq> [] \<and>
    CHR ''/'' \<notin> set rest"
proof -
  have "\<exists>rest. parent = p @ rest \<and> rest \<noteq> [] \<and> CHR ''/'' \<notin> set rest"
    if "HasPrefix parent p" "bare_child p parent" for p
    using that by (auto simp: bare_child_def Contains_def sublist_def in_set_conv_decomp elim!: HasPrefixE)
  with assms show ?thesis
    unfolding validOrgPolicyParent_def by (metis insertCI)
qed

lemma SetOrgPolicy_Inr:
  assumes "ok_connection s" and "SetOrgPolicy now parent c spec s = (Inr p, s')"
  shows "ok_connection s' \<and> OrgPolicy_Parent p = TrimSpace parent \<and> OrgPolicy_Constraint p = NormalizeOrgConstraint c \<and>
    OrgPolicy_Name p = orgPolicyName (TrimSpace parent) (NormalizeOrgConstraint c) \<and>
    validOrgPolicyParent (TrimSpace parent) \<and> IsKnownOrgConstraint (NormalizeOrgConstraint c) \<and>
    normalizeOrgPolicySpecJSON (if blank_document spec then default_spec else spec) = Inr (OrgPolicy_SpecJSON p) \<and>
    (\<exists>n t. upsert_org_policy p (org_policies (tables s)) = Inr (n, t) \<and>
      tables s' = org_policies_update (\<lambda>_. t) (tables s))"
  using assms
  by (auto simp: SetOrgPolicy_def Let_def on_table_checked_def
      split: if_splits sum.splits)

lemma explicit_policy_key:
  "explicit_policy db parent c = find (\<lambda>p. OrgPolicy_key p = (TrimSpace parent, NormalizeOrgConstraint c)) (org_policies db)"
  by (simp add: explicit_policy_def OrgPolicy_key_def)

lemma SetOrgPolicy_explicit:
  assumes "ok_connection s" and "SetOrgPolicy now parent c spec s = (Inr p, s')"
  shows "explicit_policy (tables s') parent' c' =
    (if TrimSpace parent' = TrimSpace parent \<and> NormalizeOrgConstraint c' = NormalizeOrgConstraint c then Some p
     else explicit_policy (tables s) parent' c')"
proof -
  have "OrgPolicy_Etag p = ''ACAB''"
    using assms by (auto simp: SetOrgPolicy_def Let_def on_table_checked_def split: if_splits sum.splits)
  then have upd: "old\<lparr>OrgPolicy_Name := OrgPolicy_Name p, OrgPolicy_SpecJSON := OrgPolicy_SpecJSON p,
      OrgPolicy_Etag := ''ACAB'', OrgPolicy_UpdatedAt := OrgPolicy_UpdatedAt p\<rparr> = p"
    if "OrgPolicy_key old = OrgPolicy_key p" for old
    using that by (cases old; cases p) (simp add: OrgPolicy_key_def)
  let ?upd = "\<lambda>old. old\<lparr>OrgPolicy_Name := OrgPolicy_Name p, OrgPolicy_SpecJSON := OrgPolicy_SpecJSON p,
      OrgPolicy_Etag := ''ACAB'', OrgPolicy_UpdatedAt := OrgPolicy_UpdatedAt p\<rparr>"
  from SetOrgPolicy_Inr [OF assms] have
    t: "org_policies (tables s') = snd (upsert (same OrgPolicy_key) ?upd p (org_policies (tables s)))"
    and key: "OrgPolicy_key p = (TrimSpace parent, NormalizeOrgConstraint c)"
    by (auto simp: upsert_org_policy_def Let_def OrgPolicy_key_def split: if_splits)
  have "OrgPolicy_key (?upd old) = OrgPolicy_key old" for old by (simp add: OrgPolicy_key_def)
  note find_upsert_same [where key = OrgPolicy_key and upd = ?upd, OF this]
  then show ?thesis
    unfolding explicit_policy_key t
    by (auto simp: key upd split: option.split dest!: find_SomeD)
qed

lemma known_constraint:
  assumes "k \<in> set KnownOrgPolicyConstraints"
  shows "NormalizeOrgConstraint k = k" "k \<noteq> []" "CHR ''/'' \<notin> set k" "last k = CHR ''n''"
proof -
  have "TrimSpace k = k" using assms
    by (intro TrimSpace_plain_ends) (auto simp: KnownOrgPolicyConstraints_def plain_char_def
      ConstraintDisableServiceAccountKeyCreation_def ConstraintStoragePublicAccessPrevention_def)
  then show "NormalizeOrgConstraint k = k" "k \<noteq> []" "CHR ''/'' \<notin> set k" "last k = CHR ''n''"
    using assms by (auto simp: NormalizeOrgConstraint_def KnownOrgPolicyConstraints_def go_simps TrimPrefix_def
      ConstraintDisableServiceAccountKeyCreation_def ConstraintStoragePublicAccessPrevention_def)
qed

lemma splitOrgPolicyName_roundtrip:
  assumes "validOrgPolicyParent parent" and "k \<in> set KnownOrgPolicyConstraints"
  shows "splitOrgPolicyName (orgPolicyName parent k) = Some (parent, k)"
proof -
  define m where "m = ''/policies''"
  have marker: "''/policies/'' = m @ ''/''" by (simp add: m_def)
  from validOrgPolicyParent_ends [OF assms(1)] obtain p rest where
    p: "p \<in> {''projects/'', ''folders/'', ''organizations/''}" "parent = p @ rest" "rest \<noteq> []"
      "CHR ''/'' \<notin> set rest" by blast
  note k = known_constraint [OF assms(2)]
  have "last parent \<noteq> CHR ''/''" using p by (metis last_appendR last_in_set)
  then have "\<not> HasSuffix parent ''/''" by (metis HasSuffixE last_snoc)
  then have name: "orgPolicyName parent k = parent @ (m @ ''/'') @ k"
    by (simp add: orgPolicyName_def TrimSuffix_def k marker)
  have pne: "parent \<noteq> []" and plain_n: "plain_char (CHR ''n'')" using p(3) by (auto simp: p(2) plain_char_def)
  have "plain_char (hd parent)" using p(1) by (auto simp: p(2) plain_char_def)
  then have trim: "TrimSpace (parent @ (m @ ''/'') @ k) = parent @ (m @ ''/'') @ k"
    using pne k by (intro TrimSpace_plain_ends) (simp add: plain_n)
  show ?thesis
    unfolding splitOrgPolicyName_def name trim marker Let_def LastIndex_skip [OF k(3)]
    using assms(1) k by simp
qed

text \<open>C36. What is set is enforced: after \<open>SetOrgPolicy\<close> of a known constraint on a resource, the constraint is
  enforced there exactly when the stored specification enforces it, whatever the ancestors say, and the
  policy is found again by the name it was given; other resources keep their explicit policies.\<close>
theorem set_org_policy_enforced:
  assumes "ok_connection s" and "SetOrgPolicy now parent c spec s = (Inr p, s')"
    and "NormalizeOrgConstraint c \<in> set KnownOrgPolicyConstraints"
  shows "IsOrgPolicyConstraintEnforced parent c s' = (Inr (booleanSpecEnforced (OrgPolicy_SpecJSON p)), s') \<and>
    GetOrgPolicyByName (OrgPolicy_Name p) s' = (Inr (Some p), s') \<and>
    (TrimSpace other \<noteq> TrimSpace parent \<longrightarrow>
      fst (GetOrgPolicy other c' s') = fst (GetOrgPolicy other c' s))"
proof -
  note set = SetOrgPolicy_Inr [OF assms(1,2)] and explicit = SetOrgPolicy_explicit [OF assms(1,2)]
  note k = known_constraint [OF assms(3)]
  have ok': "ok_connection s'" using set by blast
  have "validOrgPolicyParent (TrimSpace parent)" using set by blast
  then have ne: "TrimSpace parent \<noteq> []" by (auto simp: validOrgPolicyParent_def go_simps)
  have "explicit_policy (tables s') (TrimSpace parent) (NormalizeOrgConstraint c) = Some p"
    unfolding explicit k(1) by simp
  then have "governs (tables s') (NormalizeOrgConstraint c) n (TrimSpace parent) q \<longleftrightarrow> n = 0 \<and> q = p" for n q
    using ne by (rule governs_explicit)
  moreover have "enforced_walk 32 [] (TrimSpace parent) (NormalizeOrgConstraint c) s' =
      (Inr (\<exists>n q. n < 32 \<and> governs (tables s') (NormalizeOrgConstraint c) n (TrimSpace parent) q \<and>
        booleanSpecEnforced (OrgPolicy_SpecJSON q)), s')"
    by (rule enforced_walk_governs [OF ok']) simp
  ultimately have "IsOrgPolicyConstraintEnforced parent c s' = (Inr (booleanSpecEnforced (OrgPolicy_SpecJSON p)), s')"
    using ne k(2) ok' by (simp add: IsOrgPolicyConstraintEnforced_def)
  moreover have "GetOrgPolicyByName (OrgPolicy_Name p) s' = (Inr (Some p), s')"
    using set splitOrgPolicyName_roundtrip [of "TrimSpace parent" "NormalizeOrgConstraint c"] assms(3)
    by (simp add: GetOrgPolicyByName_def GetOrgPolicy_ok explicit k)
  ultimately show ?thesis
    using assms(1) ok' by (simp add: GetOrgPolicy_ok explicit)
qed

section \<open>Normalisation\<close>

text \<open>A normalised rule: canonical, no \<open>enforced\<close>, and a boolean \<open>enforce\<close> if there is one.\<close>

definition normal_rule :: "json \<Rightarrow> bool" where
  "normal_rule r \<longleftrightarrow> (\<exists>m. r = marshal_map m \<and> canonical_map m \<and> map_of m ''enforced'' = None \<and>
     (map_of m ''enforce'' = None \<or> (\<exists>b. map_of m ''enforce'' = Some (JBool b))))"

lemma coerceBool_Inr: "coerceBool v = Inr b \<longleftrightarrow> v = Some (JBool b)"
  by (cases v rule: coerceBool.cases) auto

lemma coerceBool_Inl: "isl (coerceBool v) \<longleftrightarrow> (\<forall>b. v \<noteq> Some (JBool b))"
  by (cases v rule: coerceBool.cases) auto

lemma normal_rule_fixed: "normal_rule r \<Longrightarrow> normalize_rule i r = Inr r"
  by (auto simp: normal_rule_def marshal_map_def map_of_sort canonical_map_def distinct_sort_key
      marshal_assign_same [unfolded marshal_map_def] rename_enforced_def check_enforce_def)

lemma rename_enforced_Inr:
  assumes "rename_enforced i m = Inr m1" and "canonical_map m"
  shows "canonical_map m1 \<and> map_of m1 ''enforced'' = None"
  using assms
  by (auto simp: rename_enforced_def canonical_map_remove canonical_map_assign simp del: coerceBool.simps
      split: option.splits sum.splits if_splits)

lemma check_enforce_Inr:
  assumes "check_enforce i m = Inr r" and "canonical_map m" and "map_of m ''enforced'' = None"
  shows "normal_rule r"
proof (cases "map_of m ''enforce''")
  case None
  with assms show ?thesis by (auto simp: check_enforce_def normal_rule_def)
next
  case (Some v)
  with assms(1) obtain b where b: "v = JBool b" "r = marshal_map (assign ''enforce'' (JBool b) m)"
    by (auto simp: check_enforce_def coerceBool_Inr simp del: coerceBool.simps split: sum.splits)
  show ?thesis
    unfolding normal_rule_def b(2)
    by (rule exI [of _ "assign ''enforce'' (JBool b) m"]) (simp add: assms canonical_map_assign)
qed

lemma normalize_rule_normal:
  assumes "canonical r = r" and "normalize_rule i r = Inr r'"
  shows "normal_rule r'"
proof (cases r)
  case (JObj m)
  with assms(1) have m: "canonical_map m" by (simp add: canonical_JObj)
  from assms(2) obtain m1 where "rename_enforced i m = Inr m1" "check_enforce i m1 = Inr r'"
    by (auto simp: JObj bindE_eq_Inr)
  with rename_enforced_Inr [OF _ m] show ?thesis by (blast intro: check_enforce_Inr)
qed (use assms in auto)

lemma normalize_rules_fixed: "list_all normal_rule rs \<Longrightarrow> normalize_rules i rs = Inr rs"
  by (induction rs arbitrary: i) (simp_all add: normal_rule_fixed)

lemma normalize_rules_normal:
  "(\<And>r. r \<in> set rs \<Longrightarrow> canonical r = r) \<Longrightarrow> normalize_rules i rs = Inr rs' \<Longrightarrow> list_all normal_rule rs'"
proof (induction rs arbitrary: i rs')
  case (Cons r rs)
  from Cons.prems(2) obtain x xs where x: "normalize_rule i r = Inr x" "normalize_rules (i + 1) rs = Inr xs" "rs' = x # xs"
    by (auto simp: bindE_eq_Inr)
  have "normal_rule x" by (rule normalize_rule_normal [OF Cons.prems(1) x(1)]) simp
  moreover have "list_all normal_rule xs" by (rule Cons.IH [OF Cons.prems(1) x(2)]) simp
  ultimately show ?case by (simp add: x(3))
qed simp

lemma normal_rule_canonical: "normal_rule r \<Longrightarrow> canonical r = r"
  by (auto simp: normal_rule_def canonical_marshal)

lemma enforce_rule_canonical [simp]: "canonical (enforce_rule b) = enforce_rule b"
  by (simp add: enforce_rule_def marshal_map_def)

lemma enforce_rule_normal: "normal_rule (enforce_rule b)"
  unfolding normal_rule_def
  by (rule exI [of _ "[(''enforce'', JBool b)]"]) (simp add: enforce_rule_def marshal_map_def canonical_map_def)

lemma canonical_map_value: "canonical_map m \<Longrightarrow> map_of m k = Some v \<Longrightarrow> canonical v = v"
  by (auto simp: canonical_map_def dest: map_of_SomeD)

lemma spec_map_canonical: "spec_map spec = Inr raw \<Longrightarrow> canonical_map raw"
proof (induction spec rule: spec_map.induct)
  case (1 ms)
  have "canonical_map (map_of_members (map (\<lambda>(k, v). (k, canonical v)) ms))"
    by (rule canonical_map_members) simp
  with 1 show ?case by simp
qed (auto simp: canonical_map_def)

lemma spec_map_marshal: "canonical_map m \<Longrightarrow> spec_map (Json (marshal_map m)) = Inr (sort_key fst m)"
proof -
  assume m: "canonical_map m"
  have "map (\<lambda>(k, v). (k, canonical v)) (sort_key fst m) = sort_key fst m"
    using m by (intro map_idI) (auto simp: canonical_map_def)
  with m show ?thesis by (simp add: marshal_map_def canonical_map_def distinct_sort_key)
qed

lemma expand_booleanPolicy_Inr:
  assumes "expand_booleanPolicy raw = Inr raw1" and "canonical_map raw"
  shows "canonical_map raw1 \<and> (\<forall>bp. map_of raw1 ''booleanPolicy'' \<noteq> Some (JObj bp))"
  using assms
  by (auto simp: expand_booleanPolicy_def canonical_map_remove canonical_map_assign simp del: coerceBool.simps
      split: option.splits json.splits sum.splits)

lemma normalize_rules_member_Inr:
  assumes "normalize_rules_member raw = Inr raw2" and "canonical_map raw"
  shows "\<exists>rs. raw2 = assign ''rules'' (JArr rs) raw \<and> list_all normal_rule rs"
proof (cases "map_of raw ''rules''")
  case None
  with assms(1) show ?thesis
    by (auto simp: normalize_rules_member_def enforce_rule_normal intro!: exI [of _ "[enforce_rule False]"])
next
  case (Some v)
  with assms(1) obtain rules rs where rs: "v = JArr rules" "normalize_rules 0 rules = Inr rs"
    "raw2 = assign ''rules'' (JArr rs) raw"
    by (auto simp: normalize_rules_member_def bindE_eq_Inr split: json.splits)
  have "map canonical rules = rules" using canonical_map_value [OF assms(2) Some] rs(1) by simp
  then have "canonical r = r" if "r \<in> set rules" for r using that by (metis map_idI map_eq_conv list.map_ident)
  with rs show ?thesis by (blast intro: normalize_rules_normal)
qed

text \<open>Normalisation is idempotent: a specification that was normalised is stored unchanged when it is
  read back and set again.\<close>
theorem normalize_spec_idem:
  assumes "normalizeOrgPolicySpecJSON spec = Inr d"
  shows "normalizeOrgPolicySpecJSON d = Inr d"
proof -
  from assms obtain raw raw1 raw2 where raw: "spec_map spec = Inr raw" "expand_booleanPolicy raw = Inr raw1"
    "normalize_rules_member raw1 = Inr raw2" and d: "d = Json (marshal_map raw2)"
    by (auto simp: normalizeOrgPolicySpecJSON_def bindE_eq_Inr)
  note c1 = expand_booleanPolicy_Inr [OF raw(2) spec_map_canonical [OF raw(1)]]
  obtain rs where rs: "raw2 = assign ''rules'' (JArr rs) raw1" "list_all normal_rule rs"
    using normalize_rules_member_Inr [OF raw(3)] c1 by blast
  have "canonical (JArr rs) = JArr rs"
    using rs(2) by (auto simp: list_all_iff normal_rule_canonical intro: map_idI)
  with c1 have c2: "canonical_map raw2" by (simp add: rs(1) canonical_map_assign)
  have m: "map_of (sort_key fst raw2) = map_of raw2" using c2 by (simp add: map_of_sort canonical_map_def)
  have r2: "map_of raw2 ''rules'' = Some (JArr rs)" by (simp add: rs(1))
  have "expand_booleanPolicy (sort_key fst raw2) = Inr (sort_key fst raw2)"
  proof -
    have "map_of raw2 ''booleanPolicy'' = map_of raw1 ''booleanPolicy''" by (simp add: rs(1))
    with c1 show ?thesis by (auto simp: expand_booleanPolicy_def m split: option.split json.split)
  qed
  moreover have "marshal_map (assign ''rules'' (JArr rs) (sort_key fst raw2)) = marshal_map raw2"
  proof -
    have "marshal_map (assign ''rules'' (JArr rs) (sort_key fst raw2)) = marshal_map (sort_key fst raw2)"
      using c2 r2 by (intro marshal_assign_same) (simp_all only: m canonical_map_def distinct_sort_key)
    then show ?thesis by (simp add: marshal_map_def)
  qed
  moreover have "normalize_rules_member (sort_key fst raw2) = Inr (assign ''rules'' (JArr rs) (sort_key fst raw2))"
    using rs(2) r2 by (simp add: normalize_rules_member_def m normalize_rules_fixed)
  ultimately show ?thesis
    by (simp add: normalizeOrgPolicySpecJSON_def d spec_map_marshal [OF c2])
qed

lemma boolean_policy_normalized:
  "normalizeOrgPolicySpecJSON (Json (JObj [(''booleanPolicy'', JObj [(''enforced'', JBool b)])])) =
     Inr (Json (JObj [(''rules'', JArr [enforce_rule b])]))"
  by (simp add: normalizeOrgPolicySpecJSON_def map_of_members_def assign_def marshal_map_def remove_key_def
      expand_booleanPolicy_def normalize_rules_member_def enforce_rule_def rename_enforced_def check_enforce_def)

theorem normalize_spec_idem_witness:
  "normalizeOrgPolicySpecJSON (Json (JObj [(''rules'', JArr [enforce_rule True])])) =
     Inr (Json (JObj [(''rules'', JArr [enforce_rule True])]))"
  by (rule normalize_spec_idem [OF boolean_policy_normalized])

lemma enforce_rule_decides: "booleanSpecEnforced (Json (JObj [(''rules'', JArr [enforce_rule b])])) = b"
  by (simp add: booleanSpecEnforced_def PolicySpec_fields_def SpecRule_fields_def field_of_def json_field_def
      enforce_rule_def)

text \<open>A specification that is accepted and enforces nothing: \<open>reset\<close> is not checked when it is set, and a
  value that is not a boolean makes the check fail open.\<close>

lemma bad_reset_unenforced:
  "\<exists>d. normalizeOrgPolicySpecJSON (Json (JObj [(''reset'', JStr ''no''), (''rules'', JArr [enforce_rule True])])) =
     Inr d \<and> \<not> booleanSpecEnforced d"
  by (simp add: normalizeOrgPolicySpecJSON_def map_of_members_def assign_def marshal_map_def remove_key_def
      expand_booleanPolicy_def normalize_rules_member_def enforce_rule_def rename_enforced_def check_enforce_def
      booleanSpecEnforced_def PolicySpec_fields_def SpecRule_fields_def field_of_def json_field_def)

section \<open>Examples\<close>

definition example_constraint :: string where
  "example_constraint = ConstraintDisableServiceAccountKeyCreation"

definition org_connection :: "OrgPolicy list \<Rightarrow> Db connection" where
  "org_connection ps = \<lparr>tables = empty_Db\<lparr>org_policies := ps\<rparr>, faults = []\<rparr>"

definition lab_org_policy :: OrgPolicy where
  "lab_org_policy = \<lparr>OrgPolicy_Name = orgPolicyName DefaultOrganizationName example_constraint,
     OrgPolicy_Parent = DefaultOrganizationName, OrgPolicy_Constraint = example_constraint,
     OrgPolicy_SpecJSON = Json (JObj [(''rules'', JArr [enforce_rule True])]), OrgPolicy_Etag = ''ACAB'',
     OrgPolicy_UpdatedAt = ''t''\<rparr>"

lemma example_constraint_known: "example_constraint \<in> set KnownOrgPolicyConstraints"
  by (simp add: example_constraint_def KnownOrgPolicyConstraints_def)

lemma example_trim_org [simp]:
  "TrimSpace ''projects/p'' = ''projects/p''" "TrimSpace DefaultOrganizationName = DefaultOrganizationName"
  by (intro TrimSpace_plain_ends; simp add: plain_char_def DefaultOrganizationName_def)+

lemma example_governs: "governs (tables (org_connection [lab_org_policy])) example_constraint 1 ''projects/p'' lab_org_policy"
proof -
  note c = known_constraint(1) [OF example_constraint_known]
  have "parent_at [] ''projects/p'' = Some DefaultOrganizationName"
    by (simp add: parent_at_def go_simps TrimPrefix_def)
  moreover have "explicit_policy (tables (org_connection [lab_org_policy])) ''projects/p'' example_constraint = None"
    by (simp add: explicit_policy_def org_connection_def lab_org_policy_def DefaultOrganizationName_def)
  moreover have "explicit_policy (tables (org_connection [lab_org_policy])) DefaultOrganizationName example_constraint
      = Some lab_org_policy"
    by (simp add: explicit_policy_def org_connection_def lab_org_policy_def c)
  ultimately have "governs (tables (org_connection [lab_org_policy])) example_constraint (Suc 0) ''projects/p'' lab_org_policy"
    by (intro governs.up [where parent = DefaultOrganizationName] governs.here)
       (simp_all add: org_connection_def empty_Db_def DefaultOrganizationName_def)
  then show ?thesis by simp
qed

theorem nearest_policy_decides_witness:
  "IsOrgPolicyConstraintEnforced ''projects/p'' example_constraint (org_connection [lab_org_policy]) =
    (Inr True, org_connection [lab_org_policy])"
proof -
  have ok: "ok_connection (org_connection [lab_org_policy])" by (simp add: org_connection_def ok_connection_def)
  note c = known_constraint [OF example_constraint_known]
  have "booleanSpecEnforced (OrgPolicy_SpecJSON lab_org_policy)"
    by (simp add: lab_org_policy_def enforce_rule_decides)
  with example_governs have "\<exists>n p. n < 32 \<and> governs (tables (org_connection [lab_org_policy])) example_constraint n
      ''projects/p'' p \<and> booleanSpecEnforced (OrgPolicy_SpecJSON p)"
    by (intro exI [of _ 1]) auto
  with nearest_policy_decides [OF ok, of example_constraint "''projects/p''"] c(1,2)
  show ?thesis by simp
qed

definition fresh_policy :: "string \<Rightarrow> string \<Rightarrow> OrgPolicy" where
  "fresh_policy name c = \<lparr>OrgPolicy_Name = name, OrgPolicy_Parent = ''projects/p'', OrgPolicy_Constraint = c,
     OrgPolicy_SpecJSON = Json (JObj [(''rules'', JArr [enforce_rule True])]), OrgPolicy_Etag = ''ACAB'',
     OrgPolicy_UpdatedAt = ''t''\<rparr>"

lemma SetOrgPolicy_fresh:
  assumes "NormalizeOrgConstraint c = c'" and "c' \<noteq> []" and "IsKnownOrgConstraint c'"
  shows "SetOrgPolicy ''t'' ''projects/p'' c (Json (JObj [(''booleanPolicy'', JObj [(''enforced'', JBool True)])]))
      (org_connection []) =
    (Inr (fresh_policy (orgPolicyName ''projects/p'' c') c'), org_connection [fresh_policy (orgPolicyName ''projects/p'' c') c'])"
proof -
  have "ok_connection (org_connection [])" by (simp add: org_connection_def ok_connection_def)
  moreover have "validOrgPolicyParent ''projects/p''"
    by (simp add: validOrgPolicyParent_def bare_child_def TrimPrefix_def go_simps)
  ultimately show ?thesis
    using assms
    by (simp add: SetOrgPolicy_def Let_def blank_document_def boolean_policy_normalized on_table_checked_def
        upsert_org_policy_def upsert_def keys_distinct_def fresh_policy_def)
       (simp add: org_connection_def empty_Db_def keys_distinct_def)
qed

theorem set_org_policy_enforced_witness:
  "\<exists>p s'. SetOrgPolicy ''t'' ''projects/p'' example_constraint
      (Json (JObj [(''booleanPolicy'', JObj [(''enforced'', JBool True)])])) (org_connection []) = (Inr p, s') \<and>
    IsOrgPolicyConstraintEnforced ''projects/p'' example_constraint s' = (Inr True, s')"
proof -
  note c = known_constraint [OF example_constraint_known]
  have known: "IsKnownOrgConstraint example_constraint"
    by (simp add: IsKnownOrgConstraint_def c example_constraint_known)
  have ok: "ok_connection (org_connection [])" by (simp add: org_connection_def ok_connection_def)
  note set = SetOrgPolicy_fresh [OF c(1,2) known]
  have "booleanSpecEnforced (OrgPolicy_SpecJSON (fresh_policy n k))" for n k
    by (simp add: fresh_policy_def enforce_rule_decides)
  with set_org_policy_enforced [OF ok set] set example_constraint_known c(1) show ?thesis by simp
qed

text \<open>A doubled prefix is accepted, because the known constraints are compared after another normalisation,
  and stored under a constraint that no check looks up.\<close>

lemma doubled_prefix_lost:
  "\<exists>p s'. SetOrgPolicy ''t'' ''projects/p'' (''constraints/constraints/'' @ example_constraint)
      (Json (JObj [(''booleanPolicy'', JObj [(''enforced'', JBool True)])])) (org_connection []) = (Inr p, s') \<and>
    GetOrgPolicy ''projects/p'' example_constraint s' = (Inr None, s')"
proof -
  define once where "once = ''constraints/'' @ example_constraint"
  have trims: "TrimSpace (''constraints/constraints/'' @ example_constraint) = ''constraints/constraints/'' @ example_constraint"
    "TrimSpace once = once"
    by (intro TrimSpace_plain_ends; simp add: plain_char_def once_def example_constraint_def
        ConstraintDisableServiceAccountKeyCreation_def)+
  have twice: "''constraints/constraints/'' @ example_constraint = ''constraints/'' @ once"
    by (simp add: once_def)
  have n: "NormalizeOrgConstraint (''constraints/constraints/'' @ example_constraint) = once"
    unfolding NormalizeOrgConstraint_def trims(1) unfolding twice TrimPrefix_append by (rule trims(2))
  note c = known_constraint [OF example_constraint_known]
  have "NormalizeOrgConstraint once = TrimSpace (TrimPrefix once ''constraints/'')"
    by (simp only: NormalizeOrgConstraint_def trims)
  also have "\<dots> = TrimSpace example_constraint" unfolding once_def TrimPrefix_append ..
  also have "\<dots> = example_constraint"
    by (rule TrimSpace_plain_ends) (simp add: plain_char_def example_constraint_def
      ConstraintDisableServiceAccountKeyCreation_def)
  finally have "IsKnownOrgConstraint once" by (simp add: IsKnownOrgConstraint_def example_constraint_known)
  note set = SetOrgPolicy_fresh [OF n _ this]
  have "once \<noteq> []" "once \<noteq> example_constraint" by (simp_all add: once_def)
  with set c(1) show ?thesis
    by (auto simp: GetOrgPolicy_ok org_connection_def ok_connection_def explicit_policy_def fresh_policy_def)
qed

section \<open>The schema is kept\<close>

lemma preserves_ensureOrgPolicySchema [preserves_intros]: "preserves I ensureOrgPolicySchema"
  unfolding ensureOrgPolicySchema_def by (intro preserves_intros) auto

lemma org_policy_schema [preserves_intros]:
  "preserves schema_ok (SetOrgPolicy now parent c spec)"
  "preserves schema_ok (DeleteOrgPolicy parent c)"
proof -
  have "keeps_checked OrgPolicy_Name (upsert_org_policy p)" "keeps_checked OrgPolicy_key (upsert_org_policy p)" for p
    by (auto simp: keeps_checked_def upsert_org_policy_def Let_def split: if_splits)
       (erule keys_distinct_upsert; simp add: OrgPolicy_key_def same_def)
  then show "preserves schema_ok (SetOrgPolicy now parent c spec)"
    unfolding SetOrgPolicy_def by (intro preserves_intros)
qed (unfold DeleteOrgPolicy_def, intro preserves_intros)

end
