(* ===== verification/Perimeters.thy ===== *)
theory Perimeters
  imports Identity_Store Go_Json
begin

text \<open>
  Access policies and service perimeters: \<^verbatim>\<open>internal/store/accesscontextmanager.go\<close>.
  \<open>VPCSCDenyCrossPerimeter\<close> compares the membership of the two projects of a call in each perimeter
  that restricts the service. A project is named by its id or its number, with or without the prefix
  \<open>projects/\<close>. The environment variable that turns the enforcement on is an argument. Every method
  but \<open>ProjectIDFromPrincipalEmail\<close> first runs the schema statement, which may fail.
\<close>

section \<open>Access policies\<close>

definition ensureACM :: "(Db, unit) action" where
  "ensureACM =
     catchM (exec (\<lambda>db. Inr (0, db))) (\<lambda>r. case r of
       Inl err \<Rightarrow> raiseM (Wrap ''apply access context manager schema'' err)
     | Inr _ \<Rightarrow> returnM ())"

definition VPCSCEnforceEnabled :: "string \<Rightarrow> bool" where
  "VPCSCEnforceEnabled env = (let v = TrimSpace env in v = ''1'' \<or> EqualFold v ''true'')"

definition AccessPolicyResourceName :: "string \<Rightarrow> string" where
  "AccessPolicyResourceName policyID = ''accessPolicies/'' @ policyID"

definition ServicePerimeterResourceName :: "string \<Rightarrow> string \<Rightarrow> string" where
  "ServicePerimeterResourceName policyID perimeterID =
     AccessPolicyResourceName policyID @ ''/servicePerimeters/'' @ perimeterID"

definition access_policy_clash :: "AccessPolicy \<Rightarrow> AccessPolicy \<Rightarrow> bool" where
  "access_policy_clash a b \<longleftrightarrow> same AccessPolicy_Name a b \<or> same AccessPolicy_PolicyID a b"

definition or_else :: "string \<Rightarrow> string \<Rightarrow> string" where
  "or_else d s = (if s = [] then d else s)"

definition CreateAccessPolicy :: "string \<Rightarrow> AccessPolicy \<Rightarrow> (Db, bool) action" where
  "CreateAccessPolicy now p =
     bindM ensureACM (\<lambda>_.
       let p = p\<lparr>AccessPolicy_Name := TrimSpace (AccessPolicy_Name p),
             AccessPolicy_PolicyID := TrimSpace (AccessPolicy_PolicyID p),
             AccessPolicy_Parent := TrimSpace (AccessPolicy_Parent p)\<rparr> in
       if AccessPolicy_Name p = [] \<or> AccessPolicy_PolicyID p = [] \<or> AccessPolicy_Parent p = [] then
         raiseM (Errorf ''access policy name, policy_id, and parent required'')
       else
         let p = p\<lparr>AccessPolicy_ScopesJSON := or_else ''[]'' (AccessPolicy_ScopesJSON p),
               AccessPolicy_BodyJSON := or_else ''{}'' (AccessPolicy_BodyJSON p),
               AccessPolicy_CreatedAt := or_else now (AccessPolicy_CreatedAt p),
               AccessPolicy_UpdatedAt := now,
               AccessPolicy_Etag := or_else (''etag-'' @ AccessPolicy_PolicyID p) (AccessPolicy_Etag p)\<rparr>
         in bindM (on_table acm_access_policies acm_access_policies_update
             (insert_or_ignore access_policy_clash p)) (\<lambda>n. returnM (0 < n)))"

definition GetAccessPolicy :: "string \<Rightarrow> (Db, AccessPolicy option) action" where
  "GetAccessPolicy nameOrID =
     bindM ensureACM (\<lambda>_.
       let nameOrID = TrimSpace nameOrID in
       if nameOrID = [] then returnM None
       else
         let name = (if HasPrefix nameOrID ''accessPolicies/'' then nameOrID
               else AccessPolicyResourceName nameOrID)
         in query (\<lambda>db. find (\<lambda>p. AccessPolicy_Name p = name \<or>
              AccessPolicy_PolicyID p = TrimPrefix name ''accessPolicies/'') (acm_access_policies db)))"

definition ListAccessPolicies :: "string \<Rightarrow> (Db, AccessPolicy list) action" where
  "ListAccessPolicies parent =
     bindM ensureACM (\<lambda>_.
       let parent = TrimSpace parent in
       query (\<lambda>db. sort_key AccessPolicy_Name
         (if parent = [] then acm_access_policies db
          else filter (\<lambda>p. AccessPolicy_Parent p = parent) (acm_access_policies db))))"

definition UpdateAccessPolicy ::
  "string \<Rightarrow> string \<Rightarrow> string \<Rightarrow> string \<Rightarrow> bool \<Rightarrow> bool \<Rightarrow> (Db, AccessPolicy option) action" where
  "UpdateAccessPolicy now name title scopesJSON updateTitle updateScopes =
     bindM ensureACM (\<lambda>_.
     bindM (GetAccessPolicy name) (\<lambda>found.
       case found of
         None \<Rightarrow> returnM None
       | Some cur \<Rightarrow>
           let cur = (if updateTitle then cur\<lparr>AccessPolicy_Title := title\<rparr> else cur);
               cur = (if updateScopes then cur\<lparr>AccessPolicy_ScopesJSON := or_else ''[]'' scopesJSON\<rparr> else cur);
               cur = cur\<lparr>AccessPolicy_UpdatedAt := now,
                 AccessPolicy_Etag := ''etag-'' @ AccessPolicy_PolicyID cur @ ''-'' @ now\<rparr>
           in bindM (on_table acm_access_policies acm_access_policies_update (update_rows
                (\<lambda>p. AccessPolicy_Name p = AccessPolicy_Name cur)
                (\<lambda>p. p\<lparr>AccessPolicy_Title := AccessPolicy_Title cur,
                   AccessPolicy_ScopesJSON := AccessPolicy_ScopesJSON cur,
                   AccessPolicy_Etag := AccessPolicy_Etag cur,
                   AccessPolicy_UpdatedAt := AccessPolicy_UpdatedAt cur\<rparr>)))
                (\<lambda>_. returnM (Some cur))))"

definition DeleteAccessPolicy :: "string \<Rightarrow> (Db, bool) action" where
  "DeleteAccessPolicy nameOrID =
     bindM ensureACM (\<lambda>_.
     bindM (GetAccessPolicy nameOrID) (\<lambda>found.
       case found of
         None \<Rightarrow> returnM False
       | Some p \<Rightarrow>
           bindM (on_table acm_service_perimeters acm_service_perimeters_update
             (delete_rows (\<lambda>sp. ServicePerimeter_PolicyName sp = AccessPolicy_Name p))) (\<lambda>_.
           bindM (on_table acm_access_policies acm_access_policies_update
             (delete_rows (\<lambda>q. AccessPolicy_Name q = AccessPolicy_Name p))) (\<lambda>n. returnM (0 < n)))))"

section \<open>Service perimeters\<close>

definition perimeter_clash :: "ServicePerimeter \<Rightarrow> ServicePerimeter \<Rightarrow> bool" where
  "perimeter_clash a b \<longleftrightarrow> same ServicePerimeter_Name a b \<or> same ServicePerimeter_key a b"

definition CreateServicePerimeter :: "string \<Rightarrow> ServicePerimeter \<Rightarrow> (Db, bool) action" where
  "CreateServicePerimeter now sp =
     bindM ensureACM (\<lambda>_.
       let sp = sp\<lparr>ServicePerimeter_Name := TrimSpace (ServicePerimeter_Name sp),
             ServicePerimeter_PolicyName := TrimSpace (ServicePerimeter_PolicyName sp),
             ServicePerimeter_PerimeterID := TrimSpace (ServicePerimeter_PerimeterID sp)\<rparr> in
       if ServicePerimeter_Name sp = [] \<or> ServicePerimeter_PolicyName sp = [] \<or>
          ServicePerimeter_PerimeterID sp = []
       then raiseM (Errorf ''service perimeter name, policy, and id required'')
       else
         let sp = sp\<lparr>ServicePerimeter_PerimeterType :=
                 or_else ''PERIMETER_TYPE_REGULAR'' (ServicePerimeter_PerimeterType sp),
               ServicePerimeter_BodyJSON := or_else ''{}'' (ServicePerimeter_BodyJSON sp),
               ServicePerimeter_CreatedAt := or_else now (ServicePerimeter_CreatedAt sp),
               ServicePerimeter_UpdatedAt := now,
               ServicePerimeter_Etag :=
                 or_else (''etag-'' @ ServicePerimeter_PerimeterID sp) (ServicePerimeter_Etag sp)\<rparr>
         in bindM (on_table acm_service_perimeters acm_service_perimeters_update
             (insert_or_ignore perimeter_clash sp)) (\<lambda>n. returnM (0 < n)))"

definition GetServicePerimeter :: "string \<Rightarrow> (Db, ServicePerimeter option) action" where
  "GetServicePerimeter name =
     bindM ensureACM (\<lambda>_.
       let name = TrimSpace name in
       if name = [] then returnM None
       else query (\<lambda>db. find (\<lambda>sp. ServicePerimeter_Name sp = name) (acm_service_perimeters db)))"

definition ListServicePerimeters :: "string \<Rightarrow> (Db, ServicePerimeter list) action" where
  "ListServicePerimeters policyName =
     bindM ensureACM (\<lambda>_.
       let policyName = TrimSpace policyName;
           policyName = (if HasPrefix policyName ''accessPolicies/'' then policyName
             else AccessPolicyResourceName policyName)
       in query (\<lambda>db. sort_key ServicePerimeter_Name
            (filter (\<lambda>sp. ServicePerimeter_PolicyName sp = policyName) (acm_service_perimeters db))))"

definition UpdateServicePerimeter ::
  "string \<Rightarrow> ServicePerimeter \<Rightarrow> (Db, ServicePerimeter option) action" where
  "UpdateServicePerimeter now sp =
     bindM ensureACM (\<lambda>_.
     bindM (GetServicePerimeter (ServicePerimeter_Name sp)) (\<lambda>found.
       case found of
         None \<Rightarrow> returnM None
       | Some cur \<Rightarrow>
           let cur = (if ServicePerimeter_Title sp \<noteq> [] \<or> ServicePerimeter_Title sp = ServicePerimeter_Title cur
                 then cur\<lparr>ServicePerimeter_Title := ServicePerimeter_Title sp\<rparr> else cur);
               cur = cur\<lparr>ServicePerimeter_Description := ServicePerimeter_Description sp\<rparr>;
               cur = (if ServicePerimeter_PerimeterType sp \<noteq> []
                 then cur\<lparr>ServicePerimeter_PerimeterType := ServicePerimeter_PerimeterType sp\<rparr> else cur);
               cur = cur\<lparr>ServicePerimeter_StatusJSON := ServicePerimeter_StatusJSON sp,
                 ServicePerimeter_SpecJSON := ServicePerimeter_SpecJSON sp,
                 ServicePerimeter_UseExplicitDryRunSpec := ServicePerimeter_UseExplicitDryRunSpec sp\<rparr>;
               cur = (if ServicePerimeter_BodyJSON sp \<noteq> []
                 then cur\<lparr>ServicePerimeter_BodyJSON := ServicePerimeter_BodyJSON sp\<rparr> else cur);
               cur = cur\<lparr>ServicePerimeter_UpdatedAt := now,
                 ServicePerimeter_Etag := ''etag-'' @ ServicePerimeter_PerimeterID cur @ ''-'' @ now\<rparr>
           in bindM (on_table acm_service_perimeters acm_service_perimeters_update (update_rows
                (\<lambda>p. ServicePerimeter_Name p = ServicePerimeter_Name cur)
                (\<lambda>p. p\<lparr>ServicePerimeter_Title := ServicePerimeter_Title cur,
                   ServicePerimeter_Description := ServicePerimeter_Description cur,
                   ServicePerimeter_PerimeterType := ServicePerimeter_PerimeterType cur,
                   ServicePerimeter_StatusJSON := ServicePerimeter_StatusJSON cur,
                   ServicePerimeter_SpecJSON := ServicePerimeter_SpecJSON cur,
                   ServicePerimeter_UseExplicitDryRunSpec := ServicePerimeter_UseExplicitDryRunSpec cur,
                   ServicePerimeter_Etag := ServicePerimeter_Etag cur,
                   ServicePerimeter_BodyJSON := ServicePerimeter_BodyJSON cur,
                   ServicePerimeter_UpdatedAt := ServicePerimeter_UpdatedAt cur\<rparr>)))
                (\<lambda>_. returnM (Some cur))))"

definition DeleteServicePerimeter :: "string \<Rightarrow> (Db, bool) action" where
  "DeleteServicePerimeter name =
     bindM ensureACM (\<lambda>_.
     bindM (on_table acm_service_perimeters acm_service_perimeters_update
       (delete_rows (\<lambda>sp. ServicePerimeter_Name sp = TrimSpace name))) (\<lambda>n. returnM (0 < n)))"

section \<open>The perimeter check\<close>

record perimeterConfig =
  Resources :: "string list"
  RestrictedServices :: "string list"

definition perimeterConfig_fields :: "perimeterConfig fields" where
  "perimeterConfig_fields =
     [(''resources'', json_field Resources (\<lambda>x r. r\<lparr>Resources := x\<rparr>) (decode_slice decode_string [])),
      (''restrictedServices'', json_field RestrictedServices (\<lambda>x r. r\<lparr>RestrictedServices := x\<rparr>)
        (decode_slice decode_string []))]"

definition decode_perimeter :: "document \<Rightarrow> error + perimeterConfig" where
  "decode_perimeter d =
     Unmarshal (decode_struct perimeterConfig_fields) d \<lparr>Resources = [], RestrictedServices = []\<rparr>"

definition restrictedServiceListed :: "string list \<Rightarrow> string \<Rightarrow> bool" where
  "restrictedServiceListed services service \<longleftrightarrow> list_ex (\<lambda>s. TrimSpace s = service) services"

definition isDecimalProjectNumber :: "string \<Rightarrow> bool" where
  "isDecimalProjectNumber s \<longleftrightarrow> s \<noteq> [] \<and> list_all is_digit s"

definition projectRefsMatch :: "string \<Rightarrow> string \<Rightarrow> bool" where
  "projectRefsMatch a b =
     (let a = TrimPrefix (TrimSpace a) ''projects/''; b = TrimPrefix (TrimSpace b) ''projects/'' in
      if a = [] \<or> b = [] then False
      else if a = b then True
      else
        let aNum = (if isDecimalProjectNumber a then a else LabProjectNumber a);
            bNum = (if isDecimalProjectNumber b then b else LabProjectNumber b)
        in aNum \<noteq> [] \<and> aNum = bNum)"

definition projectInPerimeterResources :: "string list \<Rightarrow> string \<Rightarrow> bool" where
  "projectInPerimeterResources resources projectRef =
     (let projectRef = TrimSpace projectRef in
      if projectRef = [] then False
      else
        let bare = TrimPrefix projectRef ''projects/'' in
        list_ex (\<lambda>r.
          let r = TrimSpace r in
          if r = [] then False
          else
            let rBare = TrimPrefix r ''projects/'' in
            r = projectRef \<or> r = bare \<or> rBare = bare \<or> r = ''projects/'' @ bare \<or>
            projectRefsMatch bare rBare) resources)"

text \<open>The configuration of a perimeter that counts: the status, or the spec of an explicit dry run.\<close>

definition active_config :: "ServicePerimeter \<Rightarrow> config_column" where
  "active_config sp =
     (case ServicePerimeter_StatusJSON sp of
        Config d \<Rightarrow> Config d
      | NoConfig \<Rightarrow>
          if \<not> ServicePerimeter_UseExplicitDryRunSpec sp then NoConfig else ServicePerimeter_SpecJSON sp)"

fun deny_loop :: "string \<Rightarrow> string \<Rightarrow> string \<Rightarrow> ServicePerimeter list \<Rightarrow> error option" where
  "deny_loop from_project to_project service [] = None"
| "deny_loop from_project to_project service (sp # sps) =
     (case active_config sp of
        NoConfig \<Rightarrow> deny_loop from_project to_project service sps
      | Config d \<Rightarrow>
          (case decode_perimeter d of
             Inl _ \<Rightarrow> Some ErrVPCSCPerimeter
           | Inr cfg \<Rightarrow>
               if \<not> restrictedServiceListed (RestrictedServices cfg) service then
                 deny_loop from_project to_project service sps
               else if projectInPerimeterResources (Resources cfg) from_project \<noteq>
                  projectInPerimeterResources (Resources cfg) to_project then Some ErrVPCSCPerimeter
               else deny_loop from_project to_project service sps))"

definition VPCSCDenyCrossPerimeter :: "string \<Rightarrow> string \<Rightarrow> string \<Rightarrow> string \<Rightarrow> (Db, unit) action" where
  "VPCSCDenyCrossPerimeter env from_project to_project service =
     (if \<not> VPCSCEnforceEnabled env then returnM ()
      else
        let from_project = TrimSpace from_project; to_project = TrimSpace to_project;
            service = TrimSpace service in
        if to_project = [] \<or> service = [] then returnM ()
        else bindM ensureACM (\<lambda>_. bindM (query acm_service_perimeters) (\<lambda>rows.
          case deny_loop from_project to_project service rows of
            Some err \<Rightarrow> raiseM err
          | None \<Rightarrow> returnM ())))"

section \<open>The project of a caller\<close>

definition ProjectIDFromServiceAccountEmail :: "string \<Rightarrow> string" where
  "ProjectIDFromServiceAccountEmail email =
     (let email = TrimSpace email; suf = ''.iam.gserviceaccount.com'' in
      if \<not> HasSuffix email suf then []
      else case LastIndex email ''@'' of
          None \<Rightarrow> []
        | Some i \<Rightarrow> TrimSuffix (drop (i + 1) email) suf)"

definition projectIDFromWIFPrincipal :: "string \<Rightarrow> (Db, string) action" where
  "projectIDFromWIFPrincipal email =
     (let email = TrimSpace email in
      if \<not> HasPrefix email ''wif:'' then returnM []
      else
        let rest = TrimPrefix email ''wif:'' in
        case IndexByte rest (CHR '':'') of
          None \<Rightarrow> returnM []
        | Some i \<Rightarrow>
            let providerID = take i rest in
            if TrimSpace providerID = [] then returnM []
            else bindM (query (\<lambda>db. remdups (concat (map (\<lambda>w.
                if WifProvider_provider_id w = providerID \<and> WifProvider_state w = ''ACTIVE'' then
                  map WifPool_project_id (filter (\<lambda>p. WifPool_name p = WifProvider_pool_name w \<and>
                    WifPool_state p = ''ACTIVE'') (wif_pools db))
                else []) (wif_providers db))))) (\<lambda>ids.
              case filter (\<lambda>x. x \<noteq> []) (map TrimSpace ids) of
                [x] \<Rightarrow> returnM x
              | _ \<Rightarrow> returnM []))"

definition ProjectIDFromPrincipalEmail :: "string \<Rightarrow> (Db, string) action" where
  "ProjectIDFromPrincipalEmail email =
     (let pid = ProjectIDFromServiceAccountEmail email in
      if pid \<noteq> [] then returnM pid else projectIDFromWIFPrincipal email)"

section \<open>Lemmas\<close>

lemma ensureACM_ok [simp]: "ok_connection s \<Longrightarrow> bindM ensureACM f s = f () s"
  by (simp add: ensureACM_def bindM_def)

lemma preserves_ensureACM [preserves_intros]: "preserves I ensureACM"
  unfolding ensureACM_def by (intro preserves_intros) auto

lemma preserves_GetAccessPolicy [preserves_intros]: "preserves I (GetAccessPolicy n)"
  unfolding GetAccessPolicy_def by (intro preserves_intros)

lemma preserves_GetServicePerimeter [preserves_intros]: "preserves I (GetServicePerimeter n)"
  unfolding GetServicePerimeter_def by (intro preserves_intros)

lemma acm_schema [preserves_intros]:
  "preserves schema_ok (CreateAccessPolicy now p)"
  "preserves schema_ok (UpdateAccessPolicy now name title scopes b1 b2)"
  "preserves schema_ok (DeleteAccessPolicy name)"
  "preserves schema_ok (CreateServicePerimeter now sp)"
  "preserves schema_ok (UpdateServicePerimeter now sp)"
  "preserves schema_ok (DeleteServicePerimeter name)"
  unfolding CreateAccessPolicy_def UpdateAccessPolicy_def DeleteAccessPolicy_def
    CreateServicePerimeter_def UpdateServicePerimeter_def DeleteServicePerimeter_def
  by (intro preserves_intros; simp add: same_def access_policy_clash_def perimeter_clash_def
      ServicePerimeter_key_def)+

subsection \<open>When a perimeter stands between two projects\<close>

definition blocks :: "string \<Rightarrow> string \<Rightarrow> string \<Rightarrow> ServicePerimeter \<Rightarrow> bool" where
  "blocks from_project to_project service sp =
     (case active_config sp of
        NoConfig \<Rightarrow> False
      | Config d \<Rightarrow>
          (case decode_perimeter d of
             Inl _ \<Rightarrow> True
           | Inr cfg \<Rightarrow> restrictedServiceListed (RestrictedServices cfg) service \<and>
               projectInPerimeterResources (Resources cfg) from_project \<noteq>
               projectInPerimeterResources (Resources cfg) to_project))"

lemma deny_loop_blocks:
  "deny_loop from_project to_project service sps =
     (if list_ex (blocks from_project to_project service) sps then Some ErrVPCSCPerimeter else None)"
  by (induction sps) (auto simp: blocks_def split: config_column.split sum.split)

lemma VPCSCDeny_ok:
  "ok_connection s \<Longrightarrow> VPCSCDenyCrossPerimeter env from_project to_project service s =
     (if VPCSCEnforceEnabled env \<and> TrimSpace to_project \<noteq> [] \<and> TrimSpace service \<noteq> [] \<and>
         list_ex (blocks (TrimSpace from_project) (TrimSpace to_project) (TrimSpace service))
           (acm_service_perimeters (tables s))
      then Inl ErrVPCSCPerimeter else Inr (), s)"
  by (simp add: VPCSCDenyCrossPerimeter_def Let_def deny_loop_blocks)

subsection \<open>Project references\<close>

definition project_key :: "string \<Rightarrow> string" where
  "project_key p = (if isDecimalProjectNumber p then p else LabProjectNumber p)"

definition stripped :: "string \<Rightarrow> string" where
  "stripped r = TrimPrefix (TrimSpace r) ''projects/''"

text \<open>A bare project reference: an id or a number.\<close>

definition bare_ref :: "string \<Rightarrow> bool" where
  "bare_ref p \<longleftrightarrow> p \<noteq> [] \<and> TrimSpace p = p \<and> \<not> HasPrefix p ''projects/''"

lemma TrimSpace_projects: "bare_ref p \<Longrightarrow> TrimSpace (''projects/'' @ p) = ''projects/'' @ p"
  by (rule TrimSpace_plain_prefix [of _ "CHR ''p''" "''rojects''" "CHR ''/''"])
     (simp_all add: plain_char_def bare_ref_def)

lemma project_key_nonempty: "bare_ref p \<Longrightarrow> project_key p \<noteq> []"
  by (auto simp: project_key_def LabProjectNumber_def bare_ref_def Let_def)

lemma projectRefsMatch_key:
  assumes "bare_ref p"
  shows "projectRefsMatch p r \<longleftrightarrow> stripped r \<noteq> [] \<and> project_key (stripped r) = project_key p"
  using assms project_key_nonempty [OF assms]
  by (auto simp: projectRefsMatch_def Let_def stripped_def project_key_def bare_ref_def TrimPrefix_def)

text \<open>Membership depends only on the key of the reference.\<close>

lemma member_key:
  assumes "bare_ref p" and "ref = p \<or> ref = ''projects/'' @ p"
  shows "projectInPerimeterResources resources ref \<longleftrightarrow>
    list_ex (\<lambda>r. stripped (stripped r) \<noteq> [] \<and> project_key (stripped (stripped r)) = project_key p) resources"
proof -
  define q where "q = ''projects/''"
  have p: "TrimSpace p = p" "p \<noteq> []" "TrimPrefix p q = p"
    using assms(1) by (auto simp: bare_ref_def TrimPrefix_def q_def)
  have "TrimSpace (q @ p) = q @ p" unfolding q_def by (rule TrimSpace_projects [OF assms(1)])
  with assms(2) p have ref: "TrimSpace ref = ref" "ref \<noteq> []" "TrimPrefix ref q = p"
    by (auto simp: q_def [symmetric])
  have same: "stripped (stripped r) = p" if "TrimSpace r = ref \<or> TrimSpace r = p \<or> stripped r = p \<or> TrimSpace r = q @ p" for r
    using that ref p by (auto simp: stripped_def q_def [symmetric])
  have one: "(TrimSpace r \<noteq> [] \<and> (TrimSpace r = ref \<or> TrimSpace r = p \<or> stripped r = p \<or> TrimSpace r = q @ p \<or>
      projectRefsMatch p (stripped r))) \<longleftrightarrow>
    stripped (stripped r) \<noteq> [] \<and> project_key (stripped (stripped r)) = project_key p" for r
  proof (cases "TrimSpace r = []")
    case True
    then show ?thesis by (simp add: stripped_def TrimPrefix_def)
  next
    case False
    then show ?thesis using same [of r] p(2) projectRefsMatch_key [OF assms(1), of "stripped r"] by auto
  qed
  have st: "TrimPrefix (TrimSpace r) q = stripped r" for r by (simp add: stripped_def q_def)
  show ?thesis
    unfolding projectInPerimeterResources_def Let_def ref(1) q_def [symmetric] ref(3) st one [symmetric]
    using ref(2) by (auto simp: list_ex_iff split: if_splits)
qed

lemma digits_bare:
  assumes "n \<noteq> []" and "list_all is_digit n"
  shows "bare_ref n"
proof -
  have plain: "is_digit c \<Longrightarrow> plain_char c" for c by (auto simp: is_digit_def plain_char_def)
  from assms have "plain_char (hd n)" "plain_char (last n)" by (auto simp: list_all_iff intro: plain)
  then have "TrimSpace n = n" by (intro TrimSpace_plain_ends) simp
  moreover have "\<not> HasPrefix n ''projects/''"
    using assms by (cases n) (auto simp: go_simps is_digit_def)
  ultimately show ?thesis using assms(1) by (simp add: bare_ref_def)
qed

lemma LabProjectNumber_decimal:
  assumes "bare_ref p"
  shows "isDecimalProjectNumber (LabProjectNumber p)"
  using assms itoa_digits
  by (auto simp: LabProjectNumber_def bare_ref_def Let_def isDecimalProjectNumber_def list_all_iff)

lemma project_key_number:
  assumes "bare_ref p" and "\<not> isDecimalProjectNumber p"
  shows "project_key (LabProjectNumber p) = project_key p"
  using LabProjectNumber_decimal [OF assms(1)] assms(2) by (simp add: project_key_def)

text \<open>The four ways to name a project.\<close>

definition spellings :: "string \<Rightarrow> string set" where
  "spellings p = {p, ''projects/'' @ p, LabProjectNumber p, ''projects/'' @ LabProjectNumber p}"

lemma member_spelling:
  assumes "bare_ref p" and "\<not> isDecimalProjectNumber p" and "ref \<in> spellings p"
  shows "projectInPerimeterResources resources ref = projectInPerimeterResources resources p \<and>
    TrimSpace ref = ref"
proof -
  have n: "bare_ref (LabProjectNumber p)"
    using LabProjectNumber_decimal [OF assms(1)] by (intro digits_bare) (auto simp: isDecimalProjectNumber_def)
  have trim: "TrimSpace ref = ref"
    using assms(3) TrimSpace_projects [OF assms(1)] TrimSpace_projects [OF n] assms(1) n
    unfolding spellings_def bare_ref_def by blast
  have num: "projectInPerimeterResources resources r = projectInPerimeterResources resources p"
    if "r = LabProjectNumber p \<or> r = ''projects/'' @ LabProjectNumber p" for r
    using member_key [OF n that] member_key [OF assms(1) disjI1 [OF refl]] project_key_number [OF assms(1,2)]
    by simp
  have "projectInPerimeterResources resources r = projectInPerimeterResources resources p"
    if "r = p \<or> r = ''projects/'' @ p" for r
    using member_key [OF assms(1) that] member_key [OF assms(1) disjI1 [OF refl]] by simp
  with num assms(3) trim show ?thesis unfolding spellings_def by blast
qed

section \<open>Properties\<close>

text \<open>
  A caller and a resource of the same project are on the same side of every perimeter, so that only a configuration
  that cannot be read denies such a call. The comment of the function and the documentation want it denied when the
  project is no member; the property on perimeters below leaves the case to this lemma.
\<close>

lemma same_project_passes:
  assumes "ok_connection s" and "TrimSpace from_project = TrimSpace to_project"
    and "\<And>sp d. sp \<in> set (acm_service_perimeters (tables s)) \<Longrightarrow> active_config sp = Config d \<Longrightarrow> \<not> isl (decode_perimeter d)"
  shows "VPCSCDenyCrossPerimeter env from_project to_project service s = (Inr (), s)"
proof -
  have "\<not> blocks p p x sp" if "sp \<in> set (acm_service_perimeters (tables s))" for p x sp
  proof (cases "active_config sp")
    case (Config d)
    with assms(3) [OF that] show ?thesis by (cases "decode_perimeter d") (simp_all add: blocks_def)
  qed (simp add: blocks_def)
  then have "\<not> list_ex (blocks p p x) (acm_service_perimeters (tables s))" for p x by (auto simp: list_ex_iff)
  then show ?thesis using assms(2) by (simp add: VPCSCDeny_ok [OF assms(1)])
qed

text \<open>C7. A perimeter is a wall, and the only one: on a store whose statements succeed, a call between two projects (two
  references that do not name the same one, the reference of a caller without a project being empty) is denied exactly
  when the enforcement is on, the resource has a project and a service, and some perimeter whose active configuration
  restricts the service has one of the two projects inside and the other outside (or has a configuration that cannot be
  read); the two directions are denied alike, and the check changes nothing.\<close>
theorem perimeter_decides:
  assumes "ok_connection s" and "\<not> projectRefsMatch from_project to_project"
  shows "VPCSCDenyCrossPerimeter env from_project to_project service s =
      (if VPCSCEnforceEnabled env \<and> TrimSpace to_project \<noteq> [] \<and> TrimSpace service \<noteq> [] \<and>
          (\<exists>sp\<in>set (acm_service_perimeters (tables s)). \<exists>d. active_config sp = Config d \<and>
            (case decode_perimeter d of
               Inl _ \<Rightarrow> True
             | Inr cfg \<Rightarrow> (\<exists>x\<in>set (RestrictedServices cfg). TrimSpace x = TrimSpace service) \<and>
                 projectInPerimeterResources (Resources cfg) from_project \<noteq>
                 projectInPerimeterResources (Resources cfg) to_project))
       then Inl ErrVPCSCPerimeter else Inr (), s) \<and>
    (TrimSpace from_project \<noteq> [] \<longrightarrow> TrimSpace to_project \<noteq> [] \<longrightarrow>
      VPCSCDenyCrossPerimeter env to_project from_project service s =
      VPCSCDenyCrossPerimeter env from_project to_project service s)"
proof -
  have trim: "projectInPerimeterResources resources (TrimSpace r) = projectInPerimeterResources resources r"
    for resources r by (simp add: projectInPerimeterResources_def)
  have sym: "blocks b a c = blocks a b c" for a b c
    by (rule ext) (auto simp: blocks_def split: config_column.split sum.split)
  have "list_ex (blocks (TrimSpace from_project) (TrimSpace to_project) (TrimSpace service)) sps \<longleftrightarrow>
      (\<exists>sp\<in>set sps. \<exists>d. active_config sp = Config d \<and>
            (case decode_perimeter d of
               Inl _ \<Rightarrow> True
             | Inr cfg \<Rightarrow> (\<exists>x\<in>set (RestrictedServices cfg). TrimSpace x = TrimSpace service) \<and>
                 projectInPerimeterResources (Resources cfg) from_project \<noteq>
                 projectInPerimeterResources (Resources cfg) to_project))" for sps
    unfolding list_ex_iff blocks_def trim restrictedServiceListed_def
    by (intro bex_cong refl) (auto split: config_column.split)
  then show ?thesis
    using sym [of "TrimSpace from_project" "TrimSpace to_project"] by (simp add: VPCSCDeny_ok [OF assms(1)])
qed

text \<open>The ways to name a project do not matter: a call between two projects gets the same answer whether
  each is named by its id or by the project number computed from the id, with or without the prefix
  \<open>projects/\<close>.\<close>
theorem perimeter_spellings:
  assumes "ok_connection s" and "bare_ref p" and "\<not> isDecimalProjectNumber p" and "bare_ref q"
    and "\<not> isDecimalProjectNumber q" and "p' \<in> spellings p" and "q' \<in> spellings q"
  shows "VPCSCDenyCrossPerimeter env p' q' service s = VPCSCDenyCrossPerimeter env p q service s"
proof -
  have self: "x \<in> spellings x" for x by (simp add: spellings_def)
  have "blocks p' q' x = blocks p q x" for x
    using member_spelling [OF assms(2,3,6)] member_spelling [OF assms(4,5,7)]
    by (intro ext) (simp add: blocks_def split: config_column.split sum.split)
  moreover have "TrimSpace p = p" "TrimSpace q = q" "q \<noteq> []" using assms(2,4) by (auto simp: bare_ref_def)
  moreover have "q' \<noteq> []"
    using assms(7) LabProjectNumber_decimal [OF assms(4)] \<open>q \<noteq> []\<close>
    by (auto simp: spellings_def isDecimalProjectNumber_def)
  ultimately show ?thesis
    using member_spelling [OF assms(2,3,6)] member_spelling [OF assms(4,5,7)]
    by (simp add: VPCSCDeny_ok [OF assms(1)])
qed

text \<open>A perimeter around project \<open>p1\<close> that restricts Cloud Storage.\<close>

definition example_perimeter :: ServicePerimeter where
  "example_perimeter =
     \<lparr>ServicePerimeter_Name = ''accessPolicies/1/servicePerimeters/w'',
      ServicePerimeter_PolicyName = ''accessPolicies/1'', ServicePerimeter_PerimeterID = ''w'',
      ServicePerimeter_Title = [], ServicePerimeter_Description = [],
      ServicePerimeter_PerimeterType = ''PERIMETER_TYPE_REGULAR'',
      ServicePerimeter_StatusJSON = Config (Json (JObj
        [(''resources'', JArr [JStr ''projects/p1'']),
         (''restrictedServices'', JArr [JStr ''storage.googleapis.com''])])),
      ServicePerimeter_SpecJSON = NoConfig, ServicePerimeter_UseExplicitDryRunSpec = False,
      ServicePerimeter_Etag = [], ServicePerimeter_BodyJSON = ''{}'', ServicePerimeter_CreatedAt = ''t'',
      ServicePerimeter_UpdatedAt = ''t''\<rparr>"

definition perimeter_connection :: "Db connection" where
  "perimeter_connection = \<lparr>tables = empty_Db\<lparr>acm_service_perimeters := [example_perimeter]\<rparr>, faults = []\<rparr>"

lemma perimeter_connection_ok: "ok_connection perimeter_connection"
  by (simp add: perimeter_connection_def ok_connection_def)

lemma example_bare: "bare_ref ''p1''" "bare_ref ''p2''"
proof -
  have "TrimSpace ''p1'' = ''p1''" "TrimSpace ''p2'' = ''p2''"
    by (intro TrimSpace_plain_ends; simp add: plain_char_def)+
  then show "bare_ref ''p1''" "bare_ref ''p2''" by (simp_all add: bare_ref_def go_simps)
qed

lemma example_not_decimal: "\<not> isDecimalProjectNumber ''p1''" "\<not> isDecimalProjectNumber ''p2''"
  by (simp_all add: isDecimalProjectNumber_def is_digit_def)

lemma example_numbers: "LabProjectNumber ''p1'' = itoa 14721" "LabProjectNumber ''p2'' = itoa 14722"
  using example_bare by (simp_all add: LabProjectNumber_def bare_ref_def Let_def)

lemma example_config: "decode_perimeter (Json (JObj
    [(''resources'', JArr [JStr ''projects/p1'']),
     (''restrictedServices'', JArr [JStr ''storage.googleapis.com''])])) =
  Inr \<lparr>Resources = [''projects/p1''], RestrictedServices = [''storage.googleapis.com'']\<rparr>"
  by (simp add: decode_perimeter_def perimeterConfig_fields_def field_of_def json_field_def)

lemma example_member_p: "projectInPerimeterResources [''projects/p1''] ''p1''"
  "\<not> projectInPerimeterResources [''projects/p1''] ''p2''"
proof -
  have p1: "TrimSpace ''projects/p1'' = ''projects/p1''"
    by (rule TrimSpace_plain_ends) (simp add: plain_char_def)
  have "stripped (stripped ''projects/p1'') = ''p1''"
    using example_bare by (simp add: stripped_def p1 TrimPrefix_def go_simps bare_ref_def)
  then show "projectInPerimeterResources [''projects/p1''] ''p1''"
    "\<not> projectInPerimeterResources [''projects/p1''] ''p2''"
    using example_not_decimal example_numbers
    by (simp_all add: member_key [OF example_bare(1) disjI1 [OF refl]] member_key [OF example_bare(2) disjI1 [OF refl]]
        project_key_def)
qed

lemma example_trims_acm: "TrimSpace ''storage.googleapis.com'' = ''storage.googleapis.com''" "TrimSpace ''1'' = ''1''"
  by (intro TrimSpace_plain_ends; simp add: plain_char_def)+

lemma example_apart: "\<not> projectRefsMatch ''p1'' ''p2''"
proof -
  have "stripped ''p2'' = ''p2''" using example_bare by (simp add: stripped_def bare_ref_def TrimPrefix_def)
  then show ?thesis
    using example_not_decimal example_numbers by (simp add: projectRefsMatch_key [OF example_bare(1)] project_key_def)
qed

theorem perimeter_decides_witness:
  "VPCSCDenyCrossPerimeter ''1'' ''p1'' ''p2'' ''storage.googleapis.com'' perimeter_connection =
    (Inl ErrVPCSCPerimeter, perimeter_connection)"
  using perimeter_decides [OF perimeter_connection_ok example_apart, of "''1''" "''storage.googleapis.com''"] example_bare
  by (simp add: perimeter_connection_def active_config_def example_perimeter_def example_config
      example_member_p example_trims_acm VPCSCEnforceEnabled_def bare_ref_def)

theorem perimeter_spellings_witness:
  "VPCSCDenyCrossPerimeter ''1'' (LabProjectNumber ''p1'') (''projects/'' @ ''p2'') ''storage.googleapis.com'' perimeter_connection =
    VPCSCDenyCrossPerimeter ''1'' ''p1'' ''p2'' ''storage.googleapis.com'' perimeter_connection"
  by (rule perimeter_spellings [OF perimeter_connection_ok example_bare(1) example_not_decimal(1)
      example_bare(2) example_not_decimal(2)]) (simp_all add: spellings_def)

text \<open>Deleting an access policy is two statements without a transaction: when the second one fails, the
  perimeters are gone and the policy stays.\<close>

lemma delete_access_policy_partial:
  assumes "faults s = [None, None, None, None, Some err]" and "TrimSpace n = n" and "HasPrefix n ''accessPolicies/''"
    and "find (\<lambda>p. AccessPolicy_Name p = n \<or> AccessPolicy_PolicyID p = TrimPrefix n ''accessPolicies/'')
      (acm_access_policies (tables s)) = Some p"
  shows "\<exists>s'. DeleteAccessPolicy n s = (Inl err, s') \<and>
    acm_access_policies (tables s') = acm_access_policies (tables s) \<and>
    acm_service_perimeters (tables s') =
      filter (\<lambda>sp. ServicePerimeter_PolicyName sp \<noteq> AccessPolicy_Name p) (acm_service_perimeters (tables s))"
proof -
  have "n \<noteq> []" using assms(3) by (auto simp: go_simps)
  with assms show ?thesis
    by (simp add: DeleteAccessPolicy_def GetAccessPolicy_def ensureACM_def action_eval Let_def)
qed

end
