(* ===== verification/Api_Gates.thy ===== *)
theory Api_Gates
  imports Iam_On_Store Perimeters Http_Gate
begin

text \<open>
  The gates in front of the service handlers: \<^verbatim>\<open>internal/kernel/restlab/restlab.go\<close>,
  \<^verbatim>\<open>internal/kernel/restlab/actas.go\<close>, the error responses of \<^verbatim>\<open>internal/gcperrors/errors.go\<close> and
  the token mint of \<^verbatim>\<open>internal/kernel/labtoken/mint.go\<close>.

  A \<open>Require...\<close> function that writes a response and returns false is an action with result
  \<open>Some response\<close>; \<open>None\<close> means that the handler goes on. The store they are called with is the one of
  \<open>Store_Tables\<close>; the evaluator is an argument.
\<close>

section \<open>Responses\<close>

record response =
  Code :: nat
  Status :: string
  Message :: string

definition WriteREST :: "nat \<Rightarrow> string \<Rightarrow> string \<Rightarrow> response" where
  "WriteREST code statusName message = \<lparr>Code = code, Status = statusName, Message = message\<rparr>"

definition Unauthenticated :: "string \<Rightarrow> response" where
  "Unauthenticated message = WriteREST 401 ''UNAUTHENTICATED''
     (if message = [] then ''Request is missing required authentication credential. Expected OAuth 2 access token, login cookie or other valid authentication credential.''
      else message)"

definition PermissionDenied :: "string \<Rightarrow> response" where
  "PermissionDenied message = WriteREST 403 ''PERMISSION_DENIED''
     (if message = [] then ''The caller does not have permission.'' else message)"

definition InternalError :: "error \<Rightarrow> response" where
  "InternalError err = WriteREST 500 ''INTERNAL'' (Error_text err)"

section \<open>Permission checks\<close>

definition restlab_Evaluate ::
  "runtime \<Rightarrow> Evaluator option \<Rightarrow> Principal \<Rightarrow> string \<Rightarrow> string \<Rightarrow> error option" where
  "restlab_Evaluate rt eval p permission resource =
     (case Evaluate rt eval (Email p) (IsRoot p) permission resource of
        Inl err \<Rightarrow> Some err
      | Inr ok \<Rightarrow> if \<not> ok then Some ErrDenied else None)"

definition Require :: "runtime \<Rightarrow> Evaluator option \<Rightarrow> Principal \<Rightarrow> string \<Rightarrow> string \<Rightarrow> error option" where
  "Require rt eval p permission projectID = restlab_Evaluate rt eval p permission (''projects/'' @ projectID)"

definition WriteAuthzErr :: "error \<Rightarrow> response" where
  "WriteAuthzErr err = (if errors_Is err ErrDenied then PermissionDenied [] else InternalError err)"

definition RequireServiceAccountActAs ::
  "runtime \<Rightarrow> Evaluator option \<Rightarrow> Principal \<Rightarrow> string \<Rightarrow> string \<Rightarrow> response option" where
  "RequireServiceAccountActAs rt eval p project email =
     (let email = TrimSpace email in
      if email = [] then None
      else
        let project = TrimSpace project in
        if project = [] \<or> eval = None then Some (PermissionDenied [])
        else
          let saRes = ''projects/'' @ project @ ''/serviceAccounts/'' @ email in
          case EvaluateAny rt eval (Email p) (IsRoot p) ''iam.serviceAccounts.actAs''
              [saRes, ''projects/'' @ project] of
            Inl err \<Rightarrow> Some (InternalError err)
          | Inr ok \<Rightarrow> if \<not> ok then Some (PermissionDenied []) else None)"

section \<open>Service usage and perimeters\<close>

definition ServiceDisabledMessage :: "string \<Rightarrow> string" where
  "ServiceDisabledMessage serviceName = ''Service '' @ serviceName @ '' is disabled for this project.''"

definition CheckServiceEnabled :: "string \<Rightarrow> string \<Rightarrow> (Db, unit) action" where
  "CheckServiceEnabled projectID serviceName =
     bindM (IsServiceEnabled projectID serviceName) (\<lambda>enabled.
       if \<not> enabled then raiseM (Wrap serviceName ErrServiceDisabled) else returnM ())"

definition RequireServiceEnabled :: "string \<Rightarrow> string \<Rightarrow> (Db, response option) action" where
  "RequireServiceEnabled projectID serviceName =
     catchM (CheckServiceEnabled projectID serviceName) (\<lambda>r. returnM (case r of
       Inr _ \<Rightarrow> None
     | Inl err \<Rightarrow> Some
         (if errors_Is err ErrServiceDisabled
          then WriteREST 400 ''FAILED_PRECONDITION'' (ServiceDisabledMessage serviceName)
          else InternalError err)))"

text \<open>The checkers are called with the store, so the nil interface of \<open>CheckVPCSC\<close> does not occur.\<close>

definition CheckVPCSC :: "string \<Rightarrow> string \<Rightarrow> string \<Rightarrow> string \<Rightarrow> (Db, unit) action" where
  "CheckVPCSC env from_project to_project service = VPCSCDenyCrossPerimeter env from_project to_project service"

definition perimeter_response :: "error \<Rightarrow> response" where
  "perimeter_response err =
     (if errors_Is err ErrVPCSCPerimeter then PermissionDenied (Error_text err) else InternalError err)"

definition RequireVPCSC :: "string \<Rightarrow> string \<Rightarrow> string \<Rightarrow> string \<Rightarrow> (Db, response option) action" where
  "RequireVPCSC env from_project to_project service =
     catchM (CheckVPCSC env from_project to_project service) (\<lambda>r. returnM (case r of
       Inr _ \<Rightarrow> None
     | Inl err \<Rightarrow> Some (perimeter_response err)))"

definition CheckVPCSCPrincipal :: "string \<Rightarrow> Principal \<Rightarrow> string \<Rightarrow> string \<Rightarrow> (Db, unit) action" where
  "CheckVPCSCPrincipal env p to_project service =
     (if IsRoot p \<or> \<not> VPCSCEnforceEnabled env then returnM ()
      else bindM (ProjectIDFromPrincipalEmail (Email p)) (\<lambda>from_project.
        CheckVPCSC env from_project to_project service))"

definition RequireVPCSCPrincipal :: "string \<Rightarrow> Principal \<Rightarrow> string \<Rightarrow> string \<Rightarrow> (Db, response option) action" where
  "RequireVPCSCPrincipal env p to_project service =
     catchM (CheckVPCSCPrincipal env p to_project service) (\<lambda>r. returnM (case r of
       Inr _ \<Rightarrow> None
     | Inl err \<Rightarrow> Some (perimeter_response err)))"

definition CheckProjectAPIGates :: "string \<Rightarrow> Principal \<Rightarrow> string \<Rightarrow> string \<Rightarrow> (Db, unit) action" where
  "CheckProjectAPIGates env p projectID serviceName =
     bindM (CheckServiceEnabled projectID serviceName) (\<lambda>_.
       CheckVPCSCPrincipal env p projectID serviceName)"

definition RequireProjectAPIGates :: "string \<Rightarrow> Principal \<Rightarrow> string \<Rightarrow> string \<Rightarrow> (Db, response option) action" where
  "RequireProjectAPIGates env p projectID serviceName =
     catchM (CheckProjectAPIGates env p projectID serviceName) (\<lambda>r. returnM (case r of
       Inr _ \<Rightarrow> None
     | Inl err \<Rightarrow> Some
         (if errors_Is err ErrServiceDisabled
          then WriteREST 400 ''FAILED_PRECONDITION'' (ServiceDisabledMessage serviceName)
          else if errors_Is err ErrVPCSCPerimeter then PermissionDenied (Error_text err)
          else InternalError err)))"

section \<open>Lab tokens\<close>

text \<open>Times are nanoseconds. The random part of the token is an argument.\<close>

definition DefaultLifetime :: int where
  "DefaultLifetime = 3600 * nanos_per_second"

definition newAccessToken :: "string \<Rightarrow> string" where
  "newAccessToken random_hex = ''ngsa_'' @ random_hex"

definition Mint ::
  "crypto \<Rightarrow> string \<Rightarrow> int \<Rightarrow> string \<Rightarrow> string \<Rightarrow> int \<Rightarrow> (Db, string \<times> int) action" where
  "Mint J created now random_hex principalEmail lifetime =
     (let email = TrimSpace principalEmail in
      if email = [] then raiseM (Errorf ''labtoken: service account email required'')
      else
        let lifetime = (if lifetime \<le> 0 then DefaultLifetime else lifetime);
            token = newAccessToken random_hex;
            expire = now + lifetime
        in catchM (PutAccessToken created (HashToken J token) email expire) (\<lambda>r.
             case r of
               Inl err \<Rightarrow> raiseM (Wrap ''labtoken: register access token'' err)
             | Inr _ \<Rightarrow> returnM (token, expire)))"

definition DefaultComputeSAEmail :: "string \<Rightarrow> string" where
  "DefaultComputeSAEmail projectID =
     (let projectID = TrimSpace projectID in
      if projectID = [] then [] else projectID @ ''-compute@developer.gserviceaccount.com'')"

text \<open>The authenticator of the server; the users of Identity Toolkit are a parameter.\<close>

definition serverAuthenticator ::
  "string \<Rightarrow> string \<Rightarrow> toolkit_status option \<Rightarrow> Db \<Rightarrow> Authenticator" where
  "serverAuthenticator rootSA rootToken users db =
     \<lparr>RootServiceAccount = rootSA, RootAccessToken = rootToken,
      Tokens = Some (\<lambda>h now. sql_read (LookupAccessToken h now) db),
      ToolkitUsers = users, AuthNow = None\<rparr>"

section \<open>Lemmas\<close>

lemma IsServiceEnabled_ok:
  "ok_connection s \<Longrightarrow> IsServiceEnabled projectID svc s =
     (Inr (usage_get (service_usage (tables s)) (projectID, svc) = Some ''ENABLED''), s)"
  by (auto simp: IsServiceEnabled_def GetServiceUsage_def usage_get_def split: option.split)

definition principal_project :: "Db \<Rightarrow> string \<Rightarrow> string" where
  "principal_project db email = projr (sql_read (ProjectIDFromPrincipalEmail email) db)"

lemma guarded_query_ok:
  assumes "ok_connection s" and "ok_connection s'" and "tables s' = tables s"
  shows "\<exists>x. (if c then returnM y else case i of None \<Rightarrow> returnM y
      | Some i \<Rightarrow> if d i then returnM y else bindM (query (q i)) (\<lambda>r. returnM (g r))) s = (Inr x, s) \<and>
    (if c then returnM y else case i of None \<Rightarrow> returnM y
      | Some i \<Rightarrow> if d i then returnM y else bindM (query (q i)) (\<lambda>r. returnM (g r))) s' = (Inr x, s')"
  using assms by (cases i) auto

lemma wif_project_ok:
  assumes "ok_connection s" and "ok_connection s'" and "tables s' = tables s"
  shows "\<exists>x. projectIDFromWIFPrincipal email s = (Inr x, s) \<and> projectIDFromWIFPrincipal email s' = (Inr x, s')"
proof -
  have one: "(case xs of [x] \<Rightarrow> returnM x | _ \<Rightarrow> returnM []) = returnM (case xs of [x] \<Rightarrow> x | _ \<Rightarrow> [])"
    for xs :: "string list" by (simp split: list.split)
  show ?thesis
    unfolding projectIDFromWIFPrincipal_def Let_def one by (rule guarded_query_ok [OF assms])
qed

lemma ProjectIDFromPrincipalEmail_ok:
  "ok_connection s \<Longrightarrow> ProjectIDFromPrincipalEmail email s = (Inr (principal_project (tables s) email), s)"
  using wif_project_ok [of s "\<lparr>tables = tables s, faults = []\<rparr>" email]
  by (auto simp: ProjectIDFromPrincipalEmail_def principal_project_def sql_read_def Let_def ok_connection_def)

lemma guarded_query_Inr:
  assumes "(if c then returnM y else case i of None \<Rightarrow> returnM y
      | Some i \<Rightarrow> if d i then returnM y else bindM (query (q i)) (\<lambda>r. returnM (g r))) s = (Inr x, s')" and "ok_connection t"
    and "tables t = tables s"
  shows "(if c then returnM y else case i of None \<Rightarrow> returnM y
      | Some i \<Rightarrow> if d i then returnM y else bindM (query (q i)) (\<lambda>r. returnM (g r))) t = (Inr x, t)"
  using assms by (cases i) (auto simp: returnM_def bindM_Inr split: if_splits dest!: query_Inr)

lemma wif_project_Inr:
  assumes "projectIDFromWIFPrincipal email s = (Inr x, s')" and "ok_connection t" and "tables t = tables s"
  shows "projectIDFromWIFPrincipal email t = (Inr x, t)"
proof -
  have one: "(case xs of [x] \<Rightarrow> returnM x | _ \<Rightarrow> returnM []) = returnM (case xs of [x] \<Rightarrow> x | _ \<Rightarrow> [])"
    for xs :: "string list" by (simp split: list.split)
  show ?thesis
    using assms(1) unfolding projectIDFromWIFPrincipal_def Let_def one by (rule guarded_query_Inr [OF _ assms(2,3)])
qed

lemma ProjectIDFromPrincipalEmail_Inr:
  "ProjectIDFromPrincipalEmail email s = (Inr x, s') \<Longrightarrow> x = principal_project (tables s) email"
  using wif_project_Inr [of email s x s' "\<lparr>tables = tables s, faults = []\<rparr>"]
  by (auto simp: ProjectIDFromPrincipalEmail_def principal_project_def sql_read_def Let_def returnM_def ok_connection_def split: if_splits)

text \<open>C4. The gates of a project API: on a store whose statements succeed, \<open>RequireProjectAPIGates\<close> lets a call
  pass exactly when the service is enabled in the project and, unless the caller is root, no perimeter
  stands between the caller's project and this one; a disabled service is reported first and stops root
  too, and the gates change nothing.\<close>
theorem api_gates_decide:
  assumes "ok_connection s"
  shows "RequireProjectAPIGates env p projectID svc s =
    (Inr (if usage_get (service_usage (tables s)) (projectID, svc) \<noteq> Some ''ENABLED'' then
            Some (WriteREST 400 ''FAILED_PRECONDITION'' (ServiceDisabledMessage svc))
          else if \<not> IsRoot p \<and>
              fst (VPCSCDenyCrossPerimeter env (principal_project (tables s) (Email p)) projectID svc s) \<noteq> Inr () then
            Some (PermissionDenied ''Request is denied because of VPC Service Controls'')
          else None), s)"
proof -
  define enabled where "enabled \<longleftrightarrow> usage_get (service_usage (tables s)) (projectID, svc) = Some ''ENABLED''"
  define from_project where "from_project = principal_project (tables s) (Email p)"
  have service: "CheckServiceEnabled projectID svc s =
      (if enabled then Inr () else Inl (Wrap svc ErrServiceDisabled), s)"
    using assms by (simp add: CheckServiceEnabled_def bindM_def IsServiceEnabled_ok enabled_def)
  have deny: "VPCSCDenyCrossPerimeter env from_project projectID svc s = (Inr (), s) \<or>
      VPCSCDenyCrossPerimeter env from_project projectID svc s = (Inl ErrVPCSCPerimeter, s)"
    using assms by (simp add: VPCSCDeny_ok)
  have principal: "CheckVPCSCPrincipal env p projectID svc s =
      (if IsRoot p then Inr () else fst (VPCSCDenyCrossPerimeter env from_project projectID svc s), s)"
    using assms deny
    by (auto simp: CheckVPCSCPrincipal_def CheckVPCSC_def bindM_def ProjectIDFromPrincipalEmail_ok
        from_project_def VPCSCDeny_ok)
  show ?thesis
    using deny unfolding RequireProjectAPIGates_def CheckProjectAPIGates_def catchM_def bindM_def service
    by (auto simp: principal enabled_def [symmetric] from_project_def [symmetric])
qed

theorem api_gates_decide_witness:
  "RequireProjectAPIGates ''1'' \<lparr>Email = ''root'', IsRoot = True\<rparr> ''p2'' ''storage.googleapis.com'' perimeter_connection =
     (Inr (Some (WriteREST 400 ''FAILED_PRECONDITION'' (ServiceDisabledMessage ''storage.googleapis.com''))),
      perimeter_connection)"
  using api_gates_decide [OF perimeter_connection_ok]
  by (simp add: perimeter_connection_def usage_get_def empty_Db_def)

lemma LookupAccessToken_read:
  "sql_read (LookupAccessToken h now) db =
     Inr (case find (\<lambda>r. AccessToken_token_hash r = h) (access_tokens db) of
        None \<Rightarrow> None
      | Some r \<Rightarrow> if now < AccessToken_expires_at r then Some (AccessToken_principal_email r) else None)"
  by (simp add: sql_read_def LookupAccessToken_def bindM_def query_def next_fault_def split: option.split)

lemma serverAuthenticator_select:
  "RootServiceAccount (serverAuthenticator rootSA rootToken users db) = rootSA"
  "RootAccessToken (serverAuthenticator rootSA rootToken users db) = rootToken"
  "Tokens (serverAuthenticator rootSA rootToken users db) = Some (\<lambda>h now. sql_read (LookupAccessToken h now) db)"
  "AuthNow (serverAuthenticator rootSA rootToken users db) = None"
  by (simp_all add: serverAuthenticator_def)

lemma server_authenticate:
  "AuthenticateToken J t (serverAuthenticator rootSA rootToken users db) token =
     (if rootToken \<noteq> [] \<and> token = rootToken
      then Inr \<lparr>Email = if rootSA = [] then ''root'' else rootSA, IsRoot = True\<rparr>
      else case sql_read (LookupAccessToken (HashToken J token) t) db of
          Inl err \<Rightarrow> Inl err
        | Inr found \<Rightarrow>
            (case found of
               None \<Rightarrow> fallbackPrincipal J t (serverAuthenticator rootSA rootToken users db) token
             | Some email \<Rightarrow>
                 if email = [] then fallbackPrincipal J t (serverAuthenticator rootSA rootToken users db) token
                 else Inr \<lparr>Email = email, IsRoot = False\<rparr>))"
  unfolding AuthenticateToken_def bindE_def Let_def serverAuthenticator_select option.case ..

text \<open>C6. A minted token authenticates its service account until it expires, and nothing more: after \<open>Mint\<close>, the
  server takes the token for the trimmed email it was minted for before the expiry, never for root; from
  the expiry on the registration counts for nothing; other tokens are taken as before.\<close>
theorem minted_token_authenticates:
  assumes "ok_connection s" and "Mint J created now random_hex email lifetime s = (Inr (token, expire), s')"
    and "token \<noteq> rootToken"
  shows "AuthenticateToken J t (serverAuthenticator rootSA rootToken users (tables s')) token =
      (if t < expire then Inr \<lparr>Email = TrimSpace email, IsRoot = False\<rparr>
       else fallbackPrincipal J t (serverAuthenticator rootSA rootToken users (tables s')) token) \<and>
    expire = now + (if lifetime \<le> 0 then DefaultLifetime else lifetime) \<and>
    (HashToken J other \<noteq> HashToken J token \<longrightarrow>
      AuthenticateToken J t (serverAuthenticator rootSA rootToken users (tables s')) other =
      AuthenticateToken J t (serverAuthenticator rootSA rootToken users (tables s)) other)"
proof -
  let ?email = "TrimSpace email"
  let ?row = "\<lparr>AccessToken_token_hash = HashToken J token, AccessToken_principal_email = ?email,
    AccessToken_expires_at = expire, AccessToken_created_at = created\<rparr>"
  from assms(1,2) have ne: "?email \<noteq> []"
    and expire: "expire = now + (if lifetime \<le> 0 then DefaultLifetime else lifetime)"
    and s': "tables s' = access_tokens_update (\<lambda>_. snd (insert_or_replace (same AccessToken_token_hash) ?row
      (access_tokens (tables s)))) (tables s)"
    by (auto simp: Mint_def Let_def catchM_def PutAccessToken_def split: if_splits)
  have lookup: "sql_read (LookupAccessToken h t) (tables s') =
      (if h = HashToken J token then Inr (if t < expire then Some ?email else None)
       else sql_read (LookupAccessToken h t) (tables s))" for h
    by (simp add: LookupAccessToken_read s' find_replaced)
  have same_fallback: "fallbackPrincipal J t (serverAuthenticator rootSA rootToken users db) other =
      fallbackPrincipal J t (serverAuthenticator rootSA rootToken users (tables s)) other" for db
    by (simp add: fallbackPrincipal_def serverAuthenticator_def split: option.split)
  have "AuthenticateToken J t (serverAuthenticator rootSA rootToken users (tables s')) token =
      (if t < expire then Inr \<lparr>Email = ?email, IsRoot = False\<rparr>
       else fallbackPrincipal J t (serverAuthenticator rootSA rootToken users (tables s')) token)"
    unfolding server_authenticate lookup using ne assms(3) by simp
  moreover have "AuthenticateToken J t (serverAuthenticator rootSA rootToken users (tables s')) other =
      AuthenticateToken J t (serverAuthenticator rootSA rootToken users (tables s)) other"
    if "HashToken J other \<noteq> HashToken J token"
    unfolding server_authenticate lookup same_fallback [of "tables s'"] using that by simp
  ultimately show ?thesis using expire by simp
qed

theorem minted_token_authenticates_witness:
  "\<exists>s'. Mint example_crypto ''t0'' 0 ''ab'' ''ci@p'' 10 \<lparr>tables = empty_Db, faults = []\<rparr> =
      (Inr (''ngsa_ab'', 10), s') \<and>
    AuthenticateToken example_crypto 9 (serverAuthenticator ''root@p'' ''rt'' None (tables s')) ''ngsa_ab'' =
      Inr \<lparr>Email = ''ci@p'', IsRoot = False\<rparr>"
proof -
  let ?s = "\<lparr>tables = empty_Db, faults = []\<rparr>"
  have ok: "ok_connection ?s" by (simp add: ok_connection_def)
  have trim: "TrimSpace ''ci@p'' = ''ci@p''" by (rule TrimSpace_plain_ends) (simp add: plain_char_def)
  obtain s' where m: "Mint example_crypto ''t0'' 0 ''ab'' ''ci@p'' 10 ?s = (Inr (''ngsa_ab'', 10), s')"
    by (simp add: Mint_def trim PutAccessToken_def newAccessToken_def catchM_def ok Let_def)
  with minted_token_authenticates [OF ok m, of "''rt''" 9 "''root@p''" None] show ?thesis
    by (simp add: trim)
qed

end
