(* ===== verification/Egress.thy ===== *)
theory Egress
  imports Go_Base
begin

text \<open>
  The gate of outgoing HTTP requests: \<^verbatim>\<open>internal/kernel/httpegress/egress.go\<close>.

  An IP address is the list of its bytes, 4 or 16 of them, as in \<^verbatim>\<open>net.IP\<close>; the predicates of package
  \<^verbatim>\<open>net\<close> that the code uses are defined here with their bit masks. What parses a URL, resolves a host and
  parses an address, and the two environment variables, are the fields of \<open>network\<close>. A function that
  returns an error returns \<open>Some err\<close>.
\<close>

unbundle bit_operations_syntax

section \<open>Package net\<close>

type_synonym IP = "8 word list"

definition v4_prefix :: IP where
  "v4_prefix = replicate 10 0 @ [0xFF, 0xFF]"

definition To4 :: "IP \<Rightarrow> IP option" where
  "To4 ip =
     (if length ip = 4 then Some ip
      else if length ip = 16 \<and> take 12 ip = v4_prefix then Some (drop 12 ip)
      else None)"

definition IsUnspecified :: "IP \<Rightarrow> bool" where
  "IsUnspecified ip \<longleftrightarrow> To4 ip = Some [0, 0, 0, 0] \<or> ip = replicate 16 0"

definition IsLoopback :: "IP \<Rightarrow> bool" where
  "IsLoopback ip =
     (case To4 ip of
        Some v \<Rightarrow> v ! 0 = 127
      | None \<Rightarrow> ip = replicate 15 0 @ [1])"

definition IsPrivate :: "IP \<Rightarrow> bool" where
  "IsPrivate ip =
     (case To4 ip of
        Some v \<Rightarrow> v ! 0 = 10 \<or> (v ! 0 = 172 \<and> v ! 1 AND 0xF0 = 16) \<or> (v ! 0 = 192 \<and> v ! 1 = 168)
      | None \<Rightarrow> length ip = 16 \<and> ip ! 0 AND 0xFE = 0xFC)"

definition IsMulticast :: "IP \<Rightarrow> bool" where
  "IsMulticast ip =
     (case To4 ip of
        Some v \<Rightarrow> v ! 0 AND 0xF0 = 0xE0
      | None \<Rightarrow> length ip = 16 \<and> ip ! 0 = 0xFF)"

definition IsLinkLocalMulticast :: "IP \<Rightarrow> bool" where
  "IsLinkLocalMulticast ip =
     (case To4 ip of
        Some v \<Rightarrow> v ! 0 = 224 \<and> v ! 1 = 0 \<and> v ! 2 = 0
      | None \<Rightarrow> length ip = 16 \<and> ip ! 0 = 0xFF \<and> ip ! 1 AND 0x0F = 0x02)"

definition IsLinkLocalUnicast :: "IP \<Rightarrow> bool" where
  "IsLinkLocalUnicast ip =
     (case To4 ip of
        Some v \<Rightarrow> v ! 0 = 169 \<and> v ! 1 = 254
      | None \<Rightarrow> length ip = 16 \<and> ip ! 0 = 0xFE \<and> ip ! 1 AND 0xC0 = 0x80)"

section \<open>Destinations\<close>

record url =
  Scheme :: string
  Host :: string
  Hostname :: string
  Port :: string
  UrlPath :: string

record network =
  url_Parse :: "string \<Rightarrow> url option"
  SplitHostPort :: "string \<Rightarrow> error + string \<times> string"
  LookupIP :: "string \<Rightarrow> error + IP list"
  ParseIP :: "string \<Rightarrow> IP option"
  EnvHTTPEgress :: string
  EnvHTTPAllowlist :: string

definition LabHTTPCatcherPath :: string where
  "LabHTTPCatcherPath = ''/_noctaxris-gcp/http-catcher''"

definition LabOIDCLabWellKnownPrefix :: string where
  "LabOIDCLabWellKnownPrefix = ''/_noctaxris-gcp/oidc-lab/.well-known/''"

definition LabListenPort :: string where
  "LabListenPort = ''4588''"

definition isLoopbackHost :: "string \<Rightarrow> bool" where
  "isLoopbackHost host \<longleftrightarrow> ToLower (TrimSpace host) \<in> set [''127.0.0.1'', ''localhost'', ''::1'']"

definition isHostDockerInternal :: "string \<Rightarrow> bool" where
  "isHostDockerInternal host = EqualFold (TrimSpace host) ''host.docker.internal''"

definition portOrDefault :: "url \<Rightarrow> string \<Rightarrow> string" where
  "portOrDefault u scheme =
     (if Port u \<noteq> [] then Port u else if scheme = ''https'' then ''443'' else ''80'')"

definition IsLabCatcher :: "url \<Rightarrow> string \<Rightarrow> bool" where
  "IsLabCatcher u scheme =
     (if \<not> isLoopbackHost (Hostname u) then False
      else if portOrDefault u scheme \<noteq> LabListenPort then False
      else UrlPath u = LabHTTPCatcherPath \<or> HasPrefix (UrlPath u) (LabHTTPCatcherPath @ ''/''))"

definition IsLabOIDC :: "url \<Rightarrow> string \<Rightarrow> bool" where
  "IsLabOIDC u scheme =
     (if \<not> isLoopbackHost (Hostname u) then False
      else HasPrefix (UrlPath u) LabOIDCLabWellKnownPrefix)"

definition IsLabLocal :: "url \<Rightarrow> string \<Rightarrow> bool" where
  "IsLabLocal u scheme =
     (if portOrDefault u scheme \<noteq> LabListenPort then False
      else if isLoopbackHost (Hostname u) then True
      else isHostDockerInternal (Hostname u))"

definition egressEnabled :: "network \<Rightarrow> bool" where
  "egressEnabled N = (let v = TrimSpace (EnvHTTPEgress N) in v = ''1'' \<or> EqualFold v ''true'')"

definition allowlisted :: "network \<Rightarrow> string \<Rightarrow> bool" where
  "allowlisted N endpoint =
     (let raw = TrimSpace (EnvHTTPAllowlist N) in
      if raw = [] then False
      else list_ex (\<lambda>entry. TrimSpace entry = TrimSpace endpoint) (Split raw '',''))"

definition rejectUnsafeIP :: "IP \<Rightarrow> error option" where
  "rejectUnsafeIP ip =
     (if ip = [] then Some ErrNotAllowed
      else if IsLoopback ip \<or> IsPrivate ip \<or> IsLinkLocalUnicast ip \<or> IsLinkLocalMulticast ip \<or>
         IsMulticast ip \<or> IsUnspecified ip then Some ErrNotAllowed
      else case To4 ip of
          Some v \<Rightarrow> if v ! 0 = 169 \<and> v ! 1 = 254 then Some ErrNotAllowed else None
        | None \<Rightarrow> None)"

text \<open>The loop over the resolved addresses: the first unsafe one decides.\<close>

fun reject_any :: "IP list \<Rightarrow> error option" where
  "reject_any [] = None"
| "reject_any (ip # ips) = (case rejectUnsafeIP ip of Some err \<Rightarrow> Some err | None \<Rightarrow> reject_any ips)"

definition rejectUnsafeHost :: "network \<Rightarrow> string \<Rightarrow> error option" where
  "rejectUnsafeHost N host =
     (let host = TrimSpace host; lower = ToLower host in
      if lower = ''localhost'' \<or> HasSuffix lower ''.localhost'' then Some ErrNotAllowed
      else if lower = ''metadata.google.internal'' \<or> Contains lower ''metadata'' then Some ErrNotAllowed
      else case LookupIP N host of
          Inl _ \<Rightarrow>
            (case ParseIP N host of
               Some ip \<Rightarrow> rejectUnsafeIP ip
             | None \<Rightarrow> Some (Wrap ''resolve HTTP endpoint host'' ErrNotAllowed))
        | Inr ips \<Rightarrow> if ips = [] then Some ErrNotAllowed else reject_any ips)"

definition Validate :: "network \<Rightarrow> string \<Rightarrow> error option" where
  "Validate N endpoint =
     (case url_Parse N endpoint of
        None \<Rightarrow> Some (Wrap ''invalid HTTP endpoint'' ErrNotAllowed)
      | Some u \<Rightarrow>
          if Scheme u = [] \<or> Host u = [] then Some (Wrap ''invalid HTTP endpoint'' ErrNotAllowed)
          else
            let scheme = ToLower (Scheme u) in
            if scheme \<noteq> ''http'' \<and> scheme \<noteq> ''https'' then
              Some (Wrap ''protocol must be http or https'' ErrNotAllowed)
            else if IsLabCatcher u scheme \<or> IsLabLocal u scheme \<or> IsLabOIDC u scheme then None
            else if \<not> egressEnabled N \<or> \<not> allowlisted N endpoint then Some ErrNotAllowed
            else rejectUnsafeHost N (Hostname u))"

text \<open>
  \<open>PinnedDialContext\<close>: the addresses that are dialed, in order, and the outcome, a connection or the last
  error. \<open>dial\<close> is the network: the error of dialing an address, or nothing. A loopback host is dialed by
  its name.
\<close>

datatype dialed = DialName string string | DialIP IP string

fun dial_loop ::
  "(dialed \<Rightarrow> error option) \<Rightarrow> string \<Rightarrow> error option \<Rightarrow> IP list \<Rightarrow> dialed list \<times> (error + dialed)" where
  "dial_loop dial port lastErr [] = ([], Inl (case lastErr of None \<Rightarrow> ErrNotAllowed | Some err \<Rightarrow> err))"
| "dial_loop dial port lastErr (ip # ips) =
     (case rejectUnsafeIP ip of
        Some err \<Rightarrow> dial_loop dial port (Some err) ips
      | None \<Rightarrow>
          (case dial (DialIP ip port) of
             None \<Rightarrow> ([DialIP ip port], Inr (DialIP ip port))
           | Some err \<Rightarrow>
               (case dial_loop dial port (Some err) ips of (tried, result) \<Rightarrow> (DialIP ip port # tried, result))))"

definition PinnedDialContext ::
  "network \<Rightarrow> (dialed \<Rightarrow> error option) \<Rightarrow> string \<Rightarrow> dialed list \<times> (error + dialed)" where
  "PinnedDialContext N dial addr =
     (case SplitHostPort N addr of
        Inl err \<Rightarrow> ([], Inl (Wrap ''http egress: dial addr'' err))
      | Inr (host, port) \<Rightarrow>
          if isLoopbackHost host then
            ([DialName host port],
             case dial (DialName host port) of Some err \<Rightarrow> Inl err | None \<Rightarrow> Inr (DialName host port))
          else case LookupIP N host of
              Inl _ \<Rightarrow> ([], Inl (Wrap ''resolve dial host'' ErrNotAllowed))
            | Inr ips \<Rightarrow> if ips = [] then ([], Inl ErrNotAllowed) else dial_loop dial port None ips)"

section \<open>The reserved ranges\<close>

text \<open>
  The specification: the addresses of the open internet, in numbers. For IPv4 they are outside 10/8, 127/8,
  169.254/16, 172.16/12, 192.168/16, 224/4 and 0.0.0.0, for IPv6 outside ::, ::1, fc00::/7, fe80::/10 and
  ff00::/8; an IPv4 address in IPv6 form is the IPv4 address.
\<close>

definition public_v4 :: "IP \<Rightarrow> bool" where
  "public_v4 v \<longleftrightarrow>
     v ! 0 \<notin> {10, 127} \<and>
     \<not> (v ! 0 = 169 \<and> v ! 1 = 254) \<and>
     \<not> (v ! 0 = 172 \<and> 16 \<le> v ! 1 \<and> v ! 1 \<le> 31) \<and>
     \<not> (v ! 0 = 192 \<and> v ! 1 = 168) \<and>
     \<not> (224 \<le> v ! 0 \<and> v ! 0 \<le> 239) \<and>
     v \<noteq> [0, 0, 0, 0]"

definition public_v6 :: "IP \<Rightarrow> bool" where
  "public_v6 ip \<longleftrightarrow>
     ip \<notin> {replicate 16 0, replicate 15 0 @ [1]} \<and>
     \<not> (0xFC \<le> ip ! 0 \<and> ip ! 0 \<le> 0xFD) \<and>
     \<not> (ip ! 0 = 0xFE \<and> 0x80 \<le> ip ! 1 \<and> ip ! 1 \<le> 0xBF) \<and>
     ip ! 0 \<noteq> 0xFF"

definition public_address :: "IP \<Rightarrow> bool" where
  "public_address ip = (case To4 ip of Some v \<Rightarrow> public_v4 v | None \<Rightarrow> public_v6 ip)"

text \<open>The masks of package \<^verbatim>\<open>net\<close> clear low bits, so they are ranges.\<close>

lemma clear_low_bits:
  fixes x :: "8 word"
  shows "x AND NOT (mask n) = push_bit n (drop_bit n x)"
  by (rule bit_word_eqI) (auto simp: bit_simps)

lemma unat_clear_low_bits:
  fixes x :: "8 word"
  shows "unat (x AND NOT (mask n)) = unat x div 2 ^ n * 2 ^ n"
proof -
  have "unat x div 2 ^ n * 2 ^ n \<le> unat x" by simp
  also have "unat x < 2 ^ 8" using unsigned_less [of x, where ?'a = nat] by simp
  finally show ?thesis
    using \<open>unat x < 2 ^ 8\<close>
    unfolding clear_low_bits unsigned_push_bit_eq unsigned_drop_bit_eq
    by (simp add: push_bit_eq_mult drop_bit_eq_div take_bit_eq_mod)
qed

lemma floor_multiple:
  fixes n k c :: nat
  assumes "0 < k"
  shows "n div k * k = c * k \<longleftrightarrow> c * k \<le> n \<and> n < c * k + k"
proof -
  have "n div k * k = c * k \<longleftrightarrow> c \<le> n div k \<and> n div k < Suc c" using assms by auto
  also have "\<dots> \<longleftrightarrow> c * k \<le> n \<and> n < Suc c * k"
    using assms by (simp add: less_eq_div_iff_mult_less_eq div_less_iff_less_mult)
  finally show ?thesis by (simp add: add.commute)
qed

lemma byte_masks:
  fixes x :: "8 word"
  shows "x AND 0xF0 = 0xE0 \<longleftrightarrow> 224 \<le> x \<and> x \<le> 239"
    and "x AND 0xF0 = 16 \<longleftrightarrow> 16 \<le> x \<and> x \<le> 31"
    and "x AND 0xFE = 0xFC \<longleftrightarrow> 0xFC \<le> x \<and> x \<le> 0xFD"
    and "x AND 0xC0 = 0x80 \<longleftrightarrow> 0x80 \<le> x \<and> x \<le> 0xBF"
proof -
  have masks: "0xF0 = NOT (mask 4 :: 8 word)" "0xFE = NOT (mask 1 :: 8 word)" "0xC0 = NOT (mask 6 :: 8 word)"
    by code_simp+
  note to_nat = masks unat_clear_low_bits word_unat_eq_iff word_le_nat_alt
  show "x AND 0xF0 = 0xE0 \<longleftrightarrow> 224 \<le> x \<and> x \<le> 239" using floor_multiple [of 16 "unat x" 14] unfolding to_nat by simp arith
  show "x AND 0xF0 = 16 \<longleftrightarrow> 16 \<le> x \<and> x \<le> 31" using floor_multiple [of 16 "unat x" 1] unfolding to_nat by simp arith
  show "x AND 0xFE = 0xFC \<longleftrightarrow> 0xFC \<le> x \<and> x \<le> 0xFD" using floor_multiple [of 2 "unat x" 126] unfolding to_nat by simp arith
  show "x AND 0xC0 = 0x80 \<longleftrightarrow> 0x80 \<le> x \<and> x \<le> 0xBF" using floor_multiple [of 64 "unat x" 2] unfolding to_nat by simp arith
qed

lemma To4_length: "To4 ip = Some v \<Longrightarrow> length v = 4"
  by (auto simp: To4_def split: if_splits)

lemma rejectUnsafeIP_v4:
  assumes "To4 ip = Some v"
  shows "rejectUnsafeIP ip = None \<longleftrightarrow> public_v4 v"
proof -
  have "To4 (replicate 16 0) = None" by code_simp
  then have "ip \<noteq> []" "ip \<noteq> replicate 16 0" using assms by (auto simp: To4_def)
  then show ?thesis
    using assms
    by (auto simp: rejectUnsafeIP_def IsLoopback_def IsPrivate_def IsLinkLocalUnicast_def
        IsLinkLocalMulticast_def IsMulticast_def IsUnspecified_def public_v4_def byte_masks)
qed

lemma rejectUnsafeIP_v6:
  assumes "To4 ip = None" and "length ip = 16"
  shows "rejectUnsafeIP ip = None \<longleftrightarrow> public_v6 ip"
proof -
  have "ip \<noteq> []" using assms by auto
  then show ?thesis
    using assms
    by (auto simp: rejectUnsafeIP_def IsLoopback_def IsPrivate_def IsLinkLocalUnicast_def
        IsLinkLocalMulticast_def IsMulticast_def IsUnspecified_def public_v6_def byte_masks)
qed

lemma rejectUnsafeIP_public:
  assumes "length ip \<in> {4, 16}"
  shows "rejectUnsafeIP ip = (if public_address ip then None else Some ErrNotAllowed)"
proof -
  have "rejectUnsafeIP ip = None \<longleftrightarrow> public_address ip"
  proof (cases "To4 ip")
    case None
    then have "length ip = 16" using assms by (auto simp: To4_def split: if_splits)
    then show ?thesis using None by (simp add: rejectUnsafeIP_v6 public_address_def)
  next
    case (Some v)
    then show ?thesis by (simp add: rejectUnsafeIP_v4 public_address_def)
  qed
  moreover have "rejectUnsafeIP ip \<in> {None, Some ErrNotAllowed}"
    by (simp add: rejectUnsafeIP_def split: option.split)
  ultimately show ?thesis by auto
qed

lemma reject_any_public:
  assumes "\<forall>ip \<in> set ips. length ip \<in> {4, 16}"
  shows "reject_any ips = None \<longleftrightarrow> (\<forall>ip \<in> set ips. public_address ip)"
  using assms by (induction ips) (auto simp: rejectUnsafeIP_public split: option.splits)

text \<open>What a resolver promises of its addresses: they have 4 or 16 bytes.\<close>

definition sound_resolver :: "network \<Rightarrow> bool" where
  "sound_resolver N \<longleftrightarrow>
     (\<forall>host ips. LookupIP N host = Inr ips \<longrightarrow> (\<forall>ip \<in> set ips. length ip \<in> {4, 16})) \<and>
     (\<forall>host ip. ParseIP N host = Some ip \<longrightarrow> length ip \<in> {4, 16})"

text \<open>The addresses a host stands for: what it resolves to, or the address that it writes out.\<close>

definition host_addresses :: "network \<Rightarrow> string \<Rightarrow> IP list" where
  "host_addresses N host =
     (case LookupIP N host of
        Inr ips \<Rightarrow> ips
      | Inl _ \<Rightarrow> (case ParseIP N host of Some ip \<Rightarrow> [ip] | None \<Rightarrow> []))"

lemma rejectUnsafeHost_public:
  assumes "sound_resolver N" and "rejectUnsafeHost N host = None"
  shows "host_addresses N (TrimSpace host) \<noteq> []"
    and "\<forall>ip \<in> set (host_addresses N (TrimSpace host)). public_address ip"
  using assms
  by (auto simp: rejectUnsafeHost_def host_addresses_def sound_resolver_def Let_def reject_any_public
      rejectUnsafeIP_public split: if_splits sum.splits option.splits)

text \<open>The lab destinations: a loopback name, or the container host at the port of the lab.\<close>

definition lab_destination :: "url \<Rightarrow> bool" where
  "lab_destination u \<longleftrightarrow>
     isLoopbackHost (Hostname u) \<and>
       (portOrDefault u (ToLower (Scheme u)) = LabListenPort \<or> HasPrefix (UrlPath u) LabOIDCLabWellKnownPrefix) \<or>
     isHostDockerInternal (Hostname u) \<and> portOrDefault u (ToLower (Scheme u)) = LabListenPort"

lemma lab_destination_iff:
  "IsLabCatcher u (ToLower (Scheme u)) \<or> IsLabLocal u (ToLower (Scheme u)) \<or> IsLabOIDC u (ToLower (Scheme u))
   \<longleftrightarrow> lab_destination u"
  by (auto simp: IsLabCatcher_def IsLabLocal_def IsLabOIDC_def lab_destination_def)

text \<open>C5. An endpoint that passes \<open>Validate\<close> is an http or https URL that either names a lab destination, a
  loopback name or the container host at the port of the lab (or the lab's OIDC documents on loopback), or
  is written in the allowlist while egress is enabled and resolves to addresses of the open internet only:
  none in the loopback, private, link-local, multicast or unspecified ranges, IPv4 written as IPv6 included.\<close>
theorem egress_confined:
  assumes "sound_resolver N" and "Validate N endpoint = None"
  shows "\<exists>u. url_Parse N endpoint = Some u \<and> ToLower (Scheme u) \<in> {''http'', ''https''} \<and>
           (lab_destination u \<or>
            egressEnabled N \<and> allowlisted N endpoint \<and> host_addresses N (TrimSpace (Hostname u)) \<noteq> [] \<and>
            (\<forall>ip \<in> set (host_addresses N (TrimSpace (Hostname u))). public_address ip))"
proof -
  from assms(2) obtain u where u: "url_Parse N endpoint = Some u"
    "ToLower (Scheme u) = ''http'' \<or> ToLower (Scheme u) = ''https''"
    "lab_destination u \<or> egressEnabled N \<and> allowlisted N endpoint \<and> rejectUnsafeHost N (Hostname u) = None"
    unfolding Validate_def Let_def lab_destination_iff by (auto split: option.splits if_splits)
  then show ?thesis using rejectUnsafeHost_public [OF assms(1)] by blast
qed

text \<open>A resolver with one public and one private name.\<close>

definition example_network :: network where
  "example_network =
     \<lparr>url_Parse = (\<lambda>s. Some \<lparr>Scheme = ''https'', Host = s, Hostname = s, Port = [], UrlPath = ''/''\<rparr>),
      SplitHostPort = (\<lambda>s. Inr (s, ''443'')),
      LookupIP = (\<lambda>s. if s = ''a.example'' then Inr [[93, 184, 216, 34]]
                      else if s = ''b.example'' then Inr [[10, 0, 0, 7], [93, 184, 216, 34]]
                      else Inl (Errorf ''no such host'')),
      ParseIP = (\<lambda>_. None), EnvHTTPEgress = ''1'', EnvHTTPAllowlist = ''a.example''\<rparr>"

lemma example_resolver: "sound_resolver example_network"
  by (auto simp: sound_resolver_def example_network_def split: if_splits)

lemma example_validates: "Validate example_network ''a.example'' = None"
  by code_simp

theorem egress_confined_witness:
  "\<exists>u. url_Parse example_network ''a.example'' = Some u \<and> ToLower (Scheme u) \<in> {''http'', ''https''} \<and>
     (lab_destination u \<or>
      egressEnabled example_network \<and> allowlisted example_network ''a.example'' \<and>
      host_addresses example_network (TrimSpace (Hostname u)) \<noteq> [] \<and>
      (\<forall>ip \<in> set (host_addresses example_network (TrimSpace (Hostname u))). public_address ip))"
  by (rule egress_confined [OF example_resolver example_validates])

definition resolved :: "network \<Rightarrow> string \<Rightarrow> IP list" where
  "resolved N host = (case LookupIP N host of Inr ips \<Rightarrow> ips | Inl _ \<Rightarrow> [])"

lemma dial_loop_tried:
  assumes "\<forall>ip \<in> set ips. length ip \<in> {4, 16}" and "x \<in> set (fst (dial_loop dial port lastErr ips))"
  shows "\<exists>ip. x = DialIP ip port \<and> ip \<in> set ips \<and> public_address ip"
  using assms
proof (induction ips arbitrary: lastErr)
  case Nil
  then show ?case by simp
next
  case (Cons ip ips)
  show ?case
  proof (cases "\<exists>e. x \<in> set (fst (dial_loop dial port e ips))")
    case True
    then show ?thesis using Cons by fastforce
  next
    case False
    then have "x = DialIP ip port \<and> public_address ip" using Cons.prems
      by (auto simp: rejectUnsafeIP_public case_prod_beta split: option.splits if_splits)
    then show ?thesis by simp
  qed
qed

lemma dial_loop_result:
  assumes "\<forall>ip \<in> set ips. length ip \<in> {4, 16}"
  shows "snd (dial_loop dial port lastErr ips) = Inr d \<longleftrightarrow>
         find (\<lambda>d. dial d = None) (map (\<lambda>ip. DialIP ip port) (filter public_address ips)) = Some d"
  using assms
proof (induction ips arbitrary: lastErr)
  case Nil
  show ?case by simp
next
  case (Cons ip ips)
  then have "snd (dial_loop dial port e ips) = Inr d \<longleftrightarrow>
      find (\<lambda>d. dial d = None) (map (\<lambda>ip. DialIP ip port) (filter public_address ips)) = Some d" for e
    by simp
  then show ?case using Cons.prems
    by (simp add: rejectUnsafeIP_public case_prod_beta split: option.split)
qed

text \<open>Dialing is pinned to what was checked: for a name that is not a loopback name, the only
  addresses dialed are those the name resolves to at this moment and that are of the open internet, and the
  connection is made to the first of them that accepts; when none does there is no connection.\<close>
theorem dial_confined:
  assumes "sound_resolver N" and "SplitHostPort N addr = Inr (host, port)" and "\<not> isLoopbackHost host"
  shows "set (fst (PinnedDialContext N dial addr)) \<subseteq>
             {DialIP ip port | ip. ip \<in> set (resolved N host) \<and> public_address ip} \<and>
         (snd (PinnedDialContext N dial addr) = Inr d \<longleftrightarrow>
            find (\<lambda>d. dial d = None) (map (\<lambda>ip. DialIP ip port) (filter public_address (resolved N host))) = Some d)"
proof -
  have len: "\<forall>ip \<in> set (resolved N host). length ip \<in> {4, 16}"
    using assms(1) by (cases "LookupIP N host") (auto simp: sound_resolver_def resolved_def)
  have "PinnedDialContext N dial addr = dial_loop dial port None (resolved N host) \<or>
        resolved N host = [] \<and> (\<exists>err. PinnedDialContext N dial addr = ([], Inl err))"
    using assms(2,3) by (auto simp: PinnedDialContext_def resolved_def split: sum.splits)
  then show ?thesis
  proof
    assume "PinnedDialContext N dial addr = dial_loop dial port None (resolved N host)"
    then show ?thesis using dial_loop_tried [OF len] dial_loop_result [OF len] by auto
  next
    assume "resolved N host = [] \<and> (\<exists>err. PinnedDialContext N dial addr = ([], Inl err))"
    then show ?thesis by auto
  qed
qed

theorem dial_confined_witness:
  "snd (PinnedDialContext example_network (\<lambda>_. None) ''b.example'') = Inr (DialIP [93, 184, 216, 34] ''443'')"
  by (subst conjunct2 [OF dial_confined [OF example_resolver, of "''b.example''" "''b.example''" "''443''"]]) code_simp+

end
