(* ===== verification/Go_Time.thy ===== *)
theory Go_Time
  imports Go_Base
begin

text \<open>
  Instants and their texts. An instant is the number of nanoseconds since the epoch. Its text in the layout
  \<^verbatim>\<open>time.RFC3339Nano\<close>, in UTC, is \<open>Stamp s f\<close>: the 19 characters of its date and time to the second, which have
  a fixed width (so they are ordered as the seconds \<open>s\<close> are), and the rest of the text \<open>f\<close>, a fraction without
  trailing zeros and the letter Z. The database compares these texts byte by byte, which is the order on
  \<open>stamp\<close> here: it is the order of time only up to the second.

  \<open>int64\<close> is the wrap-around of 64-bit signed integers.
\<close>

section \<open>Signed 64-bit integers\<close>

definition int64 :: "int \<Rightarrow> int" where
  "int64 x = (x + 2 ^ 63) mod 2 ^ 64 - 2 ^ 63"

lemma int64_fixed: "- (2 ^ 63) \<le> x \<Longrightarrow> x < 2 ^ 63 \<Longrightarrow> int64 x = x"
  by (simp add: int64_def)

lemma int64_bounds: "- (2 ^ 63) \<le> int64 x" "int64 x < 2 ^ 63"
  by (simp_all add: int64_def)

section \<open>Time stamps\<close>

datatype stamp = Stamp int string

fun stamp_key :: "stamp \<Rightarrow> int \<times> string" where
  "stamp_key (Stamp s f) = (s, f)"

lemma stamp_key_inject [simp]: "stamp_key a = stamp_key b \<longleftrightarrow> a = b"
  by (cases a; cases b) simp

instantiation stamp :: linorder
begin

definition less_eq_stamp :: "stamp \<Rightarrow> stamp \<Rightarrow> bool" where
  "less_eq_stamp a b \<longleftrightarrow>
     fst (stamp_key a) < fst (stamp_key b) \<or>
     fst (stamp_key a) = fst (stamp_key b) \<and> snd (stamp_key a) \<le> snd (stamp_key b)"

definition less_stamp :: "stamp \<Rightarrow> stamp \<Rightarrow> bool" where
  "less_stamp a b \<longleftrightarrow>
     fst (stamp_key a) < fst (stamp_key b) \<or>
     fst (stamp_key a) = fst (stamp_key b) \<and> snd (stamp_key a) < snd (stamp_key b)"

instance
proof
  fix a b c :: stamp
  show "a < b \<longleftrightarrow> a \<le> b \<and> \<not> b \<le> a"
    unfolding less_eq_stamp_def less_stamp_def by auto
  show "a \<le> a" unfolding less_eq_stamp_def by simp
  show "a \<le> b \<Longrightarrow> b \<le> c \<Longrightarrow> a \<le> c"
    unfolding less_eq_stamp_def by auto
  show "a \<le> b \<or> b \<le> a"
    unfolding less_eq_stamp_def by auto
  assume "a \<le> b" "b \<le> a"
  then have "fst (stamp_key a) = fst (stamp_key b)" "snd (stamp_key a) = snd (stamp_key b)"
    unfolding less_eq_stamp_def by auto
  then show "a = b" by (simp add: prod_eq_iff flip: stamp_key_inject)
qed

end

lemma less_stamp_simps [simp]:
  "Stamp s f < Stamp s' f' \<longleftrightarrow> s < s' \<or> s = s' \<and> f < f'"
  "Stamp s f \<le> Stamp s' f' \<longleftrightarrow> s < s' \<or> s = s' \<and> f \<le> f'"
  by (simp_all add: less_stamp_def less_eq_stamp_def)

text \<open>The fraction of a second: nine digits without the trailing zeros, after a point.\<close>

definition nine_digits :: "nat \<Rightarrow> string" where
  "nine_digits n = replicate (9 - length (itoa n)) (CHR ''0'') @ itoa n"

definition fraction_text :: "nat \<Rightarrow> string" where
  "fraction_text n =
     (if n = 0 then ''Z''
      else ''.'' @ rev (dropWhile (\<lambda>c. c = CHR ''0'') (rev (nine_digits n))) @ ''Z'')"

definition FormatRFC3339Nano :: "int \<Rightarrow> stamp" where
  "FormatRFC3339Nano t = Stamp (t div 10 ^ 9) (fraction_text (nat (t mod 10 ^ 9)))"

text \<open>The order of the texts is the order of time between different seconds, and only between them: the
  text of a whole second comes after the texts of its fractions.\<close>

lemma stamp_order_seconds:
  assumes "t div 10 ^ 9 < t' div 10 ^ 9"
  shows "FormatRFC3339Nano t < FormatRFC3339Nano t'"
  using assms by (simp add: FormatRFC3339Nano_def)

lemma stamp_order_to_the_second:
  assumes "FormatRFC3339Nano t < FormatRFC3339Nano t'"
  shows "t < t' + 10 ^ 9"
proof -
  have "t div 10 ^ 9 \<le> t' div 10 ^ 9" using assms by (auto simp: FormatRFC3339Nano_def)
  then show ?thesis by simp
qed

lemma stamp_not_less_to_the_second:
  assumes "\<not> FormatRFC3339Nano t < FormatRFC3339Nano t'"
  shows "t' < t + 10 ^ 9"
proof -
  have "\<not> t div 10 ^ 9 < t' div 10 ^ 9" using assms stamp_order_seconds by blast
  then show ?thesis by simp
qed

lemma stamp_order_misses:
  "FormatRFC3339Nano 500000000 < FormatRFC3339Nano 0"
  "FormatRFC3339Nano 510000000 < FormatRFC3339Nano 500000000"
proof -
  have "char_of (48::nat) = CHR ''0''" "char_of (49::nat) = CHR ''1''" "char_of (53::nat) = CHR ''5''"
    by code_simp+
  then show "FormatRFC3339Nano 500000000 < FormatRFC3339Nano 0"
    "FormatRFC3339Nano 510000000 < FormatRFC3339Nano 500000000"
    by (simp_all add: FormatRFC3339Nano_def fraction_text_def nine_digits_def itoa.simps digit_char_def)
qed

end
