(* ===== verification/Pubsub_Store.thy ===== *)
theory Pubsub_Store
  imports Sql_Monad Go_Json Go_Time
begin

text \<open>
  Pub/Sub: \<^verbatim>\<open>internal/store/pubsub.go\<close>, every operation of it.

  The four tables are the record \<open>PubSubDb\<close>. Columns that hold labels as JSON are the maps they denote, the
  attributes of a message are kept as the document that is stored; \<open>decodeStringMap\<close> inverts
  \<open>encodeStringMap\<close>. A time stamp is compared as the text it is (theory \<open>Go_Time\<close>). What a publication draws,
  its message id, the ack id of each copy and the time, is a \<open>draw\<close>. The delivery of Eventarc triggers that a
  publication starts in the background is not modelled. \<^verbatim>\<open>int\<close> is 64 bits wide where the code computes with it.
\<close>

section \<open>Tables\<close>

record PubSubTopic =
  Topic_Name :: string
  Topic_ProjectID :: string
  Topic_Labels :: string_map
  Topic_CreatedAt :: stamp

record PubSubSubscription =
  Subscription_Name :: string
  Subscription_Topic :: string
  Subscription_ProjectID :: string
  AckDeadlineSeconds :: int
  PushEndpoint :: string
  Subscription_Labels :: string_map
  Filter :: string
  DeadLetterTopic :: string
  MaxDeliveryAttempts :: int
  EnableExactlyOnceDelivery :: bool
  OidcServiceAccountEmail :: string
  OidcAudience :: string
  Subscription_CreatedAt :: stamp

record PubSubMessage =
  Message_ID :: string
  Message_Subscription :: string
  Message_Topic :: string
  Data :: string
  AttributesJSON :: document
  PublishTime :: stamp
  AckID :: string
  AckDeadline :: "stamp option"
  Delivered :: bool
  DeliveryAttempts :: int

record PubSubSnapshot =
  Snapshot_Name :: string
  Snapshot_ProjectID :: string
  Snapshot_Topic :: string
  Snapshot_Subscription :: string
  Snapshot_Labels :: string_map
  Snapshot_ExpireTime :: stamp
  Snapshot_CreatedAt :: stamp

record PubSubDb =
  topics :: "PubSubTopic list"
  subscriptions :: "PubSubSubscription list"
  messages :: "PubSubMessage list"
  snapshots :: "PubSubSnapshot list"

text \<open>What a publication draws: the message id, the ack id of the copy for a subscription, the time.\<close>

record draw =
  draw_id :: string
  draw_ack :: "string \<Rightarrow> string"
  draw_time :: int

section \<open>Filters\<close>

text \<open>A term is \<open>attributes.key = "value"\<close>; a filter is a conjunction of terms.\<close>

definition filter_term :: "string \<Rightarrow> error + string \<times> string" where
  "filter_term part =
     (let part = TrimSpace part; prefix = ''attributes.'' in
      if \<not> HasPrefix part prefix then Inl (Errorf ''only attributes.<key> = value equality is supported'')
      else
        let rest = TrimSpace (drop (length prefix) part) in
        case IndexByte rest (CHR ''='') of
          None \<Rightarrow> Inl (Errorf ''missing = in filter term'')
        | Some eq \<Rightarrow>
            let key = TrimSpace (take eq rest); valRaw = TrimSpace (drop (eq + 1) rest) in
            if key = [] then Inl (Errorf ''empty attribute key'')
            else if length valRaw < 2 \<or> hd valRaw \<noteq> CHR 0x22 \<or> last valRaw \<noteq> CHR 0x22 then
              Inl (Errorf ''filter value must be a quoted string'')
            else Inr (key, butlast (tl valRaw)))"

fun filter_terms :: "string list \<Rightarrow> string_map \<Rightarrow> error + string_map" where
  "filter_terms [] out = Inr out"
| "filter_terms (part # parts) out =
     bindE (filter_term part) (\<lambda>(key, v). filter_terms parts (assign key v out))"

definition parseAttributeEqualityFilter :: "string \<Rightarrow> error + string_map" where
  "parseAttributeEqualityFilter f =
     (let f = TrimSpace f in if f = [] then Inr [] else filter_terms (Split f '' AND '') [])"

definition messageMatchesFilter :: "string \<Rightarrow> string_map \<Rightarrow> bool" where
  "messageMatchesFilter f attributes =
     (case parseAttributeEqualityFilter f of
        Inl _ \<Rightarrow> False
      | Inr want \<Rightarrow> list_all (\<lambda>(k, v). map_index attributes k = v) want)"

section \<open>Topics\<close>

definition CreateTopicWithLabels ::
  "int \<Rightarrow> string \<Rightarrow> string \<Rightarrow> string_map \<Rightarrow> (PubSubDb, PubSubTopic option) action" where
  "CreateTopicWithLabels now name projectID labels =
     (let name = TrimSpace name; projectID = TrimSpace projectID in
      if name = [] \<or> projectID = [] then raiseM (Errorf ''topic name and project required'')
      else
        let t = \<lparr>Topic_Name = name, Topic_ProjectID = projectID, Topic_Labels = labels,
                 Topic_CreatedAt = FormatRFC3339Nano now\<rparr> in
        bindM (on_table topics topics_update (insert_or_ignore (same Topic_Name) t)) (\<lambda>n.
          returnM (if n = 0 then None else Some t)))"

definition CreateTopic :: "int \<Rightarrow> string \<Rightarrow> string \<Rightarrow> (PubSubDb, PubSubTopic option) action" where
  "CreateTopic now name projectID = CreateTopicWithLabels now name projectID []"

definition GetTopic :: "string \<Rightarrow> (PubSubDb, PubSubTopic option) action" where
  "GetTopic name = query (\<lambda>db. find (\<lambda>t. Topic_Name t = name) (topics db))"

definition UpdateTopicLabels :: "string \<Rightarrow> string_map \<Rightarrow> (PubSubDb, PubSubTopic) action" where
  "UpdateTopicLabels name labels =
     bindM (GetTopic name) (\<lambda>t.
       case t of
         None \<Rightarrow> raiseM (Errorf ''topic not found'')
       | Some t \<Rightarrow>
           bindM (on_table topics topics_update
             (update_rows (\<lambda>r. Topic_Name r = name) (\<lambda>r. r\<lparr>Topic_Labels := labels\<rparr>))) (\<lambda>_.
           returnM (t\<lparr>Topic_Labels := labels\<rparr>)))"

definition ListTopics :: "string \<Rightarrow> (PubSubDb, PubSubTopic list) action" where
  "ListTopics projectID =
     query (\<lambda>db. sort_key Topic_Name (filter (\<lambda>t. Topic_ProjectID t = projectID) (topics db)))"

definition DeleteTopic :: "string \<Rightarrow> (PubSubDb, bool) action" where
  "DeleteTopic name =
     bindM (on_table topics topics_update (delete_rows (\<lambda>t. Topic_Name t = name))) (\<lambda>n. returnM (n > 0))"

section \<open>Subscriptions\<close>

text \<open>The attempts of a dead letter policy: 5 when none are given, otherwise between 5 and 100.\<close>

definition dead_letter_attempts :: "int \<Rightarrow> error + int" where
  "dead_letter_attempts attempts =
     (let attempts = (if attempts = 0 then 5 else attempts) in
      if attempts < 5 \<or> attempts > 100 then Inl (Errorf ''maxDeliveryAttempts must be between 5 and 100'')
      else Inr attempts)"

text \<open>A filter is stored when it is empty or can be parsed.\<close>

definition check_filter :: "string \<Rightarrow> (PubSubDb, unit) action" where
  "check_filter f =
     (if f = [] then returnM ()
      else case parseAttributeEqualityFilter f of
          Inl err \<Rightarrow> raiseM (Wrap ''invalid filter'' err)
        | Inr _ \<Rightarrow> returnM ())"

text \<open>A dead letter topic must exist; the result is the number of attempts to store.\<close>

definition check_dead_letter :: "string \<Rightarrow> int \<Rightarrow> (PubSubDb, int) action" where
  "check_dead_letter topic attempts =
     (if topic = [] then returnM 0
      else bindM (GetTopic topic) (\<lambda>t.
        case t of
          None \<Rightarrow> raiseM (Errorf ''dead letter topic not found'')
        | Some _ \<Rightarrow> liftE (dead_letter_attempts attempts)))"

definition CreateSubscriptionFull ::
  "int \<Rightarrow> string \<Rightarrow> string \<Rightarrow> string \<Rightarrow> int \<Rightarrow> string \<Rightarrow> string_map \<Rightarrow> string \<Rightarrow> string \<Rightarrow> int \<Rightarrow> bool \<Rightarrow> string \<Rightarrow> string \<Rightarrow>
     (PubSubDb, PubSubSubscription option) action" where
  "CreateSubscriptionFull now name topic projectID ackDeadlineSeconds pushEndpoint labels f deadLetterTopic
     maxDeliveryAttempts enableExactlyOnce oidcServiceAccountEmail oidcAudience =
     (let name = TrimSpace name; topic = TrimSpace topic; projectID = TrimSpace projectID in
      if name = [] \<or> topic = [] \<or> projectID = [] then
        raiseM (Errorf ''subscription name, topic, and project required'')
      else
        let ackDeadlineSeconds = (if ackDeadlineSeconds \<le> 0 then 10 else ackDeadlineSeconds);
            f = TrimSpace f; deadLetterTopic = TrimSpace deadLetterTopic in
        bindM (check_filter f) (\<lambda>_.
        bindM (check_dead_letter deadLetterTopic maxDeliveryAttempts) (\<lambda>attempts.
        bindM (GetTopic topic) (\<lambda>t.
          case t of
            None \<Rightarrow> raiseM (Errorf ''topic not found'')
          | Some _ \<Rightarrow>
              let sub = \<lparr>Subscription_Name = name, Subscription_Topic = topic,
                    Subscription_ProjectID = projectID, AckDeadlineSeconds = ackDeadlineSeconds,
                    PushEndpoint = TrimSpace pushEndpoint, Subscription_Labels = labels, Filter = f,
                    DeadLetterTopic = deadLetterTopic, MaxDeliveryAttempts = attempts,
                    EnableExactlyOnceDelivery = enableExactlyOnce,
                    OidcServiceAccountEmail = TrimSpace oidcServiceAccountEmail,
                    OidcAudience = TrimSpace oidcAudience,
                    Subscription_CreatedAt = FormatRFC3339Nano now\<rparr> in
              bindM (on_table subscriptions subscriptions_update
                (insert_or_ignore (same Subscription_Name) sub)) (\<lambda>n.
              returnM (if n = 0 then None else Some sub))))))"

definition CreateSubscription ::
  "int \<Rightarrow> string \<Rightarrow> string \<Rightarrow> string \<Rightarrow> int \<Rightarrow> (PubSubDb, PubSubSubscription option) action" where
  "CreateSubscription now name topic projectID ackDeadlineSeconds =
     CreateSubscriptionFull now name topic projectID ackDeadlineSeconds [] [] [] [] 0 False [] []"

definition GetSubscription :: "string \<Rightarrow> (PubSubDb, PubSubSubscription option) action" where
  "GetSubscription name = query (\<lambda>db. find (\<lambda>s. Subscription_Name s = name) (subscriptions db))"

record PubSubDeadLetterPolicy =
  Policy_DeadLetterTopic :: string
  Policy_MaxDeliveryAttempts :: int

record PubSubOIDCToken =
  ServiceAccountEmail :: string
  Audience :: string

text \<open>\<open>UpdateSubscription\<close>: the new values of the fields that are given, checked in the order of the code,
  and one statement that writes every mutable column.\<close>

definition UpdateSubscription ::
  "string \<Rightarrow> int option \<Rightarrow> string option \<Rightarrow> string_map option \<Rightarrow> string option \<Rightarrow> PubSubDeadLetterPolicy option \<Rightarrow>
     bool option \<Rightarrow> PubSubOIDCToken option \<Rightarrow> (PubSubDb, PubSubSubscription) action" where
  "UpdateSubscription name ackDeadline pushEndpoint labels f deadLetter enableExactlyOnce oidc =
     bindM (GetSubscription name) (\<lambda>sub.
       case sub of
         None \<Rightarrow> raiseM (Errorf ''subscription not found'')
       | Some sub \<Rightarrow>
           let sub = sub\<lparr>
                 AckDeadlineSeconds := or_keep (\<lambda>v. if v \<le> 0 then 10 else v) ackDeadline (AckDeadlineSeconds sub),
                 PushEndpoint := or_keep TrimSpace pushEndpoint (PushEndpoint sub),
                 Subscription_Labels := or_keep (\<lambda>m. m) labels (Subscription_Labels sub)\<rparr> in
           bindM (case f of
               None \<Rightarrow> returnM sub
             | Some f \<Rightarrow> bindM (check_filter (TrimSpace f)) (\<lambda>_. returnM (sub\<lparr>Filter := TrimSpace f\<rparr>))) (\<lambda>sub.
           bindM (case deadLetter of
               None \<Rightarrow> returnM sub
             | Some p \<Rightarrow>
                 let topic = TrimSpace (Policy_DeadLetterTopic p) in
                 bindM (check_dead_letter topic (Policy_MaxDeliveryAttempts p)) (\<lambda>attempts.
                 returnM (sub\<lparr>DeadLetterTopic := topic, MaxDeliveryAttempts := attempts\<rparr>))) (\<lambda>sub.
           let sub = sub\<lparr>
                 EnableExactlyOnceDelivery := or_keep (\<lambda>b. b) enableExactlyOnce (EnableExactlyOnceDelivery sub),
                 OidcServiceAccountEmail := (case oidc of None \<Rightarrow> OidcServiceAccountEmail sub
                   | Some p \<Rightarrow> TrimSpace (ServiceAccountEmail p)),
                 OidcAudience := (case oidc of None \<Rightarrow> OidcAudience sub | Some p \<Rightarrow> TrimSpace (Audience p))\<rparr> in
           bindM (on_table subscriptions subscriptions_update
             (update_rows (\<lambda>r. Subscription_Name r = name)
               (\<lambda>r. r\<lparr>AckDeadlineSeconds := AckDeadlineSeconds sub, PushEndpoint := PushEndpoint sub,
                  Subscription_Labels := Subscription_Labels sub, Filter := Filter sub,
                  DeadLetterTopic := DeadLetterTopic sub, MaxDeliveryAttempts := MaxDeliveryAttempts sub,
                  EnableExactlyOnceDelivery := EnableExactlyOnceDelivery sub,
                  OidcServiceAccountEmail := OidcServiceAccountEmail sub,
                  OidcAudience := OidcAudience sub\<rparr>))) (\<lambda>_.
           returnM sub))))"

definition ListSubscriptions :: "string \<Rightarrow> (PubSubDb, PubSubSubscription list) action" where
  "ListSubscriptions projectID =
     query (\<lambda>db. sort_key Subscription_Name
       (filter (\<lambda>s. Subscription_ProjectID s = projectID) (subscriptions db)))"

definition ListSubscriptionsForTopic :: "string \<Rightarrow> (PubSubDb, PubSubSubscription list) action" where
  "ListSubscriptionsForTopic topic =
     query (\<lambda>db. sort_key Subscription_Name
       (filter (\<lambda>s. Subscription_Topic s = topic) (subscriptions db)))"

definition DeleteSubscription :: "string \<Rightarrow> (PubSubDb, bool) action" where
  "DeleteSubscription name =
     transaction
       (bindM (on_table messages messages_update (delete_rows (\<lambda>m. Message_Subscription m = name))) (\<lambda>_.
        bindM (on_table subscriptions subscriptions_update
          (delete_rows (\<lambda>s. Subscription_Name s = name))) (\<lambda>n.
        returnM (n > 0))))"

section \<open>Messages\<close>

text \<open>The copy of a message for one subscription.\<close>

definition message_copy :: "draw \<Rightarrow> string \<Rightarrow> string \<Rightarrow> string_map \<Rightarrow> PubSubSubscription \<Rightarrow> PubSubMessage" where
  "message_copy d topic data attributes sub =
     \<lparr>Message_ID = draw_id d, Message_Subscription = Subscription_Name sub, Message_Topic = topic,
      Data = data, AttributesJSON = encodeStringMap attributes,
      PublishTime = FormatRFC3339Nano (draw_time d), AckID = draw_ack d (Subscription_Name sub),
      AckDeadline = None, Delivered = False, DeliveryAttempts = 0\<rparr>"

definition PublishFanout ::
  "draw \<Rightarrow> string \<Rightarrow> string \<Rightarrow> string_map \<Rightarrow> (PubSubDb, string \<times> PubSubMessage list) action" where
  "PublishFanout d topic data attributes =
     bindM (GetTopic topic) (\<lambda>t.
       case t of
         None \<Rightarrow> raiseM (Errorf ''topic not found'')
       | Some _ \<Rightarrow>
           bindM (ListSubscriptionsForTopic topic) (\<lambda>subs.
           bindM (transaction (mapM (\<lambda>sub.
               let m = message_copy d topic data attributes sub in
               bindM (on_table_checked messages messages_update (insert_row (same AckID) m)) (\<lambda>_. returnM m))
             (filter (\<lambda>sub. messageMatchesFilter (Filter sub) attributes) subs))) (\<lambda>copies.
           returnM (draw_id d, copies))))"

definition Publish :: "draw \<Rightarrow> string \<Rightarrow> string \<Rightarrow> string_map \<Rightarrow> (PubSubDb, string) action" where
  "Publish d topic data attributes =
     bindM (PublishFanout d topic data attributes) (\<lambda>(messageID, _). returnM messageID)"

definition dead_lettered :: "PubSubSubscription \<Rightarrow> int \<Rightarrow> bool" where
  "dead_lettered sub attempts \<longleftrightarrow>
     DeadLetterTopic sub \<noteq> [] \<and> MaxDeliveryAttempts sub > 0 \<and> attempts \<ge> MaxDeliveryAttempts sub"

text \<open>Publish a message to the dead letter topic and remove it: two steps without a transaction.\<close>

definition dead_letter :: "draw \<Rightarrow> string \<Rightarrow> PubSubSubscription \<Rightarrow> PubSubMessage \<Rightarrow> (PubSubDb, unit) action" where
  "dead_letter d subscription sub m =
     (let attrs = assign ''CloudPubSubDeadLetterSourceSubscription'' subscription
            (decodeStringMap (AttributesJSON m)) in
      bindM (wrapM ''dead letter publish'' (Publish d (DeadLetterTopic sub) (Data m) attrs)) (\<lambda>_.
      bindM (on_table messages messages_update (delete_rows (\<lambda>r. AckID r = AckID m))) (\<lambda>_. returnM ())))"

text \<open>The messages that may be delivered now: never delivered, or with a lease that is over.\<close>

definition available :: "stamp \<Rightarrow> PubSubMessage \<Rightarrow> bool" where
  "available nowStr m \<longleftrightarrow>
     \<not> Delivered m \<or> (case AckDeadline m of None \<Rightarrow> True | Some d \<Rightarrow> d < nowStr)"

definition pull_candidates :: "string \<Rightarrow> stamp \<Rightarrow> int \<Rightarrow> PubSubDb \<Rightarrow> PubSubMessage list" where
  "pull_candidates subscription nowStr fetchN db =
     take (nat fetchN) (sort_key PublishTime
       (filter (\<lambda>m. Message_Subscription m = subscription \<and> available nowStr m) (messages db)))"

definition lease :: "stamp \<Rightarrow> int \<Rightarrow> PubSubMessage \<Rightarrow> PubSubMessage" where
  "lease deadline attempts m = m\<lparr>Delivered := True, AckDeadline := Some deadline, DeliveryAttempts := attempts\<rparr>"

text \<open>The loop over the candidates, which stops when \<open>room\<close> messages were collected; the publication for
  candidate number \<open>i\<close> draws \<open>d i\<close>.\<close>

fun pull_loop ::
  "(nat \<Rightarrow> draw) \<Rightarrow> string \<Rightarrow> PubSubSubscription \<Rightarrow> stamp \<Rightarrow> nat \<Rightarrow> nat \<Rightarrow> PubSubMessage list \<Rightarrow>
     (PubSubDb, PubSubMessage list) action" where
  "pull_loop d subscription sub deadline room i [] = returnM []"
| "pull_loop d subscription sub deadline room i (m # ms) =
     (if room = 0 then returnM []
      else
        let attempts = DeliveryAttempts m + 1 in
        if dead_lettered sub attempts then
          bindM (dead_letter (d i) subscription sub m) (\<lambda>_.
            pull_loop d subscription sub deadline room (i + 1) ms)
        else
          bindM (on_table messages messages_update
            (update_rows (\<lambda>r. AckID r = AckID m) (lease deadline attempts))) (\<lambda>_.
          bindM (pull_loop d subscription sub deadline (room - 1) (i + 1) ms) (\<lambda>msgs.
          returnM (lease deadline attempts m # msgs))))"

text \<open>The window is four times the number of messages asked for, so that dead letters do not starve it;
  the code guards the product against overflow.\<close>

definition fetch_window :: "int \<Rightarrow> int" where
  "fetch_window maxMessages =
     (let fetchN = int64 (maxMessages * 4) in if fetchN < maxMessages then maxMessages else fetchN)"

text \<open>The end of a lease, computed as a \<^verbatim>\<open>time.Duration\<close>.\<close>

definition lease_end :: "int \<Rightarrow> PubSubSubscription \<Rightarrow> stamp" where
  "lease_end now sub = FormatRFC3339Nano (now + int64 (AckDeadlineSeconds sub * 10 ^ 9))"

definition Pull ::
  "(nat \<Rightarrow> draw) \<Rightarrow> int \<Rightarrow> string \<Rightarrow> int \<Rightarrow> (PubSubDb, PubSubMessage list) action" where
  "Pull d now subscription maxMessages =
     (let maxMessages = (if maxMessages \<le> 0 then 1 else maxMessages) in
      bindM (GetSubscription subscription) (\<lambda>sub.
        case sub of
          None \<Rightarrow> raiseM (Errorf ''subscription not found'')
        | Some sub \<Rightarrow>
            bindM (query (pull_candidates subscription (FormatRFC3339Nano now) (fetch_window maxMessages)))
              (pull_loop d subscription sub (lease_end now sub) (nat maxMessages) 0)))"

definition RecordPushDeliveryFailure :: "draw \<Rightarrow> string \<Rightarrow> string \<Rightarrow> (PubSubDb, bool) action" where
  "RecordPushDeliveryFailure d subscription ackID =
     bindM (GetSubscription subscription) (\<lambda>sub.
       case sub of
         None \<Rightarrow> returnM False
       | Some sub \<Rightarrow>
           bindM (query (\<lambda>db. find (\<lambda>m. Message_Subscription m = subscription \<and> AckID m = ackID) (messages db)))
             (\<lambda>m. case m of
               None \<Rightarrow> returnM False
             | Some m \<Rightarrow>
                 let attempts = DeliveryAttempts m + 1 in
                 if dead_lettered sub attempts then
                   bindM (dead_letter d subscription sub m) (\<lambda>_. returnM True)
                 else
                   bindM (on_table messages messages_update
                     (update_rows (\<lambda>r. AckID r = ackID) (\<lambda>r. r\<lparr>DeliveryAttempts := attempts\<rparr>))) (\<lambda>_.
                   returnM False)))"

definition Acknowledge :: "string \<Rightarrow> string list \<Rightarrow> (PubSubDb, unit) action" where
  "Acknowledge subscription ackIDs =
     (if ackIDs = [] then returnM ()
      else transaction (mapM_unit (\<lambda>i.
        bindM (on_table messages messages_update
          (delete_rows (\<lambda>m. Message_Subscription m = subscription \<and> AckID m = i))) (\<lambda>_. returnM ())) ackIDs))"

definition ModifyAckDeadline :: "int \<Rightarrow> string \<Rightarrow> string list \<Rightarrow> int \<Rightarrow> (PubSubDb, unit) action" where
  "ModifyAckDeadline now subscription ackIDs ackDeadlineSeconds =
     (if ackIDs = [] then returnM ()
      else
        let secs = (if ackDeadlineSeconds < 0 then 0 else ackDeadlineSeconds);
            secs = (if secs > 600 then 600 else secs);
            deadline = (if secs = 0 then FormatRFC3339Nano (now - 10 ^ 9)
                        else FormatRFC3339Nano (now + secs * 10 ^ 9)) in
        transaction (mapM_unit (\<lambda>i.
          bindM (on_table messages messages_update
            (update_rows (\<lambda>m. Message_Subscription m = subscription \<and> AckID m = i)
              (\<lambda>m. m\<lparr>Delivered := True, AckDeadline := Some deadline\<rparr>))) (\<lambda>_. returnM ())) ackIDs))"

definition SeekToTime :: "string \<Rightarrow> int \<Rightarrow> (PubSubDb, unit) action" where
  "SeekToTime subscription t =
     bindM (GetSubscription subscription) (\<lambda>sub.
       case sub of
         None \<Rightarrow> raiseM (Errorf ''subscription not found'')
       | Some _ \<Rightarrow>
           let ts = FormatRFC3339Nano t in
           transaction
             (bindM (on_table messages messages_update
                (delete_rows (\<lambda>m. Message_Subscription m = subscription \<and> PublishTime m < ts))) (\<lambda>_.
              bindM (on_table messages messages_update
                (update_rows (\<lambda>m. Message_Subscription m = subscription \<and> ts \<le> PublishTime m)
                  (\<lambda>m. m\<lparr>Delivered := False, AckDeadline := None\<rparr>))) (\<lambda>_.
              returnM ()))))"

section \<open>Snapshots\<close>

definition CreateSnapshot ::
  "int \<Rightarrow> string \<Rightarrow> string \<Rightarrow> string_map \<Rightarrow> (PubSubDb, PubSubSnapshot option) action" where
  "CreateSnapshot now name subscription labels =
     (let name = TrimSpace name; subscription = TrimSpace subscription in
      if name = [] \<or> subscription = [] then raiseM (Errorf ''snapshot name and subscription required'')
      else bindM (GetSubscription subscription) (\<lambda>sub.
        case sub of
          None \<Rightarrow> raiseM (Errorf ''subscription not found'')
        | Some sub \<Rightarrow>
            let parts = Split name ''/'' in
            if length parts < 4 \<or> parts ! 0 \<noteq> ''projects'' \<or> parts ! 2 \<noteq> ''snapshots'' then
              raiseM (Errorf ''invalid snapshot name'')
            else
              let snap = \<lparr>Snapshot_Name = name, Snapshot_ProjectID = parts ! 1,
                    Snapshot_Topic = Subscription_Topic sub, Snapshot_Subscription = subscription,
                    Snapshot_Labels = labels,
                    Snapshot_ExpireTime = FormatRFC3339Nano (now + 7 * 24 * 3600 * 10 ^ 9),
                    Snapshot_CreatedAt = FormatRFC3339Nano now\<rparr> in
              bindM (on_table snapshots snapshots_update (insert_or_ignore (same Snapshot_Name) snap)) (\<lambda>n.
              returnM (if n = 0 then None else Some snap))))"

definition GetSnapshot :: "string \<Rightarrow> (PubSubDb, PubSubSnapshot option) action" where
  "GetSnapshot name = query (\<lambda>db. find (\<lambda>s. Snapshot_Name s = name) (snapshots db))"

definition ListSnapshots :: "string \<Rightarrow> (PubSubDb, PubSubSnapshot list) action" where
  "ListSnapshots projectID =
     query (\<lambda>db. sort_key Snapshot_Name (filter (\<lambda>s. Snapshot_ProjectID s = projectID) (snapshots db)))"

definition DeleteSnapshot :: "string \<Rightarrow> (PubSubDb, bool) action" where
  "DeleteSnapshot name =
     bindM (on_table snapshots snapshots_update (delete_rows (\<lambda>s. Snapshot_Name s = name))) (\<lambda>n.
       returnM (n > 0))"

end
