(* ===== verification/Pubsub_Invariant.thy ===== *)
theory Pubsub_Invariant
  imports Pubsub_Store
begin

text \<open>
  The invariant of the Pub/Sub tables: unique names and ack ids, well-formed subscriptions and messages. Every
  operation keeps it, whatever statement fails; a run of operations is an inductive relation, and what the
  operations keep a run keeps.
\<close>

section \<open>The invariant of the tables\<close>

definition subscription_ok :: "PubSubSubscription \<Rightarrow> bool" where
  "subscription_ok s \<longleftrightarrow>
     0 < AckDeadlineSeconds s \<and> \<not> isl (parseAttributeEqualityFilter (Filter s)) \<and>
     (if DeadLetterTopic s = [] then MaxDeliveryAttempts s = 0
      else 5 \<le> MaxDeliveryAttempts s \<and> MaxDeliveryAttempts s \<le> 100)"

definition message_ok :: "PubSubMessage \<Rightarrow> bool" where
  "message_ok m \<longleftrightarrow> 0 \<le> DeliveryAttempts m \<and> (Delivered m \<longrightarrow> AckDeadline m \<noteq> None)"

definition pubsub_ok :: "PubSubDb \<Rightarrow> bool" where
  "pubsub_ok db \<longleftrightarrow>
     keys_distinct Topic_Name (topics db) \<and> keys_distinct Subscription_Name (subscriptions db) \<and>
     keys_distinct AckID (messages db) \<and> keys_distinct Snapshot_Name (snapshots db) \<and>
     (\<forall>s \<in> set (subscriptions db). subscription_ok s) \<and> (\<forall>m \<in> set (messages db). message_ok m)"

lemma pubsub_on_topics [preserves_intros]:
  "keeps Topic_Name f \<Longrightarrow> preserves pubsub_ok (on_table topics topics_update f)"
  by (rule preserves_on_table) (auto simp: pubsub_ok_def keeps_def dest: snd_eqD)

lemma pubsub_on_snapshots [preserves_intros]:
  "keeps Snapshot_Name f \<Longrightarrow> preserves pubsub_ok (on_table snapshots snapshots_update f)"
  by (rule preserves_on_table) (auto simp: pubsub_ok_def keeps_def dest: snd_eqD)

lemma pubsub_on_subscriptions [preserves_intros]:
  "keeps Subscription_Name f \<Longrightarrow> keeps_all subscription_ok f \<Longrightarrow>
     preserves pubsub_ok (on_table subscriptions subscriptions_update f)"
  by (rule preserves_on_table) (auto simp: pubsub_ok_def keeps_def keeps_all_def dest: snd_eqD)

lemma pubsub_on_messages [preserves_intros]:
  "keeps AckID f \<Longrightarrow> keeps_all message_ok f \<Longrightarrow>
     preserves pubsub_ok (on_table messages messages_update f)"
  by (rule preserves_on_table) (auto simp: pubsub_ok_def keeps_def keeps_all_def dest: snd_eqD)

lemma pubsub_on_messages_checked [preserves_intros]:
  "keeps_checked AckID f \<Longrightarrow> keeps_all_checked message_ok f \<Longrightarrow>
     preserves pubsub_ok (on_table_checked messages messages_update f)"
  by (rule preserves_on_table_checked) (auto simp: pubsub_ok_def keeps_checked_def keeps_all_checked_def)

lemma message_copy_ok [simp]: "message_ok (message_copy d topic data attributes sub)"
  by (simp add: message_ok_def message_copy_def)

lemma message_lease_ok [simp]: "message_ok (lease deadline attempts m) \<longleftrightarrow> 0 \<le> attempts"
  by (simp add: message_ok_def lease_def)

lemma AckID_lease [simp]: "AckID (lease deadline attempts m) = AckID m"
  by (simp add: lease_def)

lemma GetSubscription_yields:
  "yields pubsub_ok (\<lambda>r. \<forall>s. r = Some s \<longrightarrow> subscription_ok s) (GetSubscription name)"
  unfolding GetSubscription_def by (rule yields_query) (auto simp: pubsub_ok_def dest: find_SomeD)

lemma check_filter_yields:
  "yields pubsub_ok (\<lambda>_. \<not> isl (parseAttributeEqualityFilter f)) (check_filter f)"
  by (auto simp: check_filter_def parseAttributeEqualityFilter_def Let_def split: sum.split
      intro: yields_return yields_raise)

lemma check_dead_letter_yields:
  "yields pubsub_ok (\<lambda>n. if topic = [] then n = 0 else 5 \<le> n \<and> n \<le> 100) (check_dead_letter topic attempts)"
proof -
  have "yields pubsub_ok (\<lambda>n. 5 \<le> n \<and> n \<le> 100) (liftE (dead_letter_attempts attempts))"
    by (auto simp: liftE_def dead_letter_attempts_def Let_def intro: yields_return yields_raise)
  then show ?thesis
    unfolding check_dead_letter_def GetTopic_def
    by (auto intro!: yields_bind [where R = "\<lambda>_. True"] yields_query yields_option yields_return yields_raise)
qed

section \<open>Every operation keeps the invariant\<close>

lemma topic_operations_ok:
  "preserves pubsub_ok (CreateTopicWithLabels now name projectID labels)"
  "preserves pubsub_ok (UpdateTopicLabels name labels)"
  "preserves pubsub_ok (DeleteTopic name)"
  unfolding CreateTopicWithLabels_def UpdateTopicLabels_def DeleteTopic_def GetTopic_def
  by (intro preserves_intros; simp add: same_def)+

lemma snapshot_operations_ok:
  "preserves pubsub_ok (CreateSnapshot now name subscription labels)"
  "preserves pubsub_ok (DeleteSnapshot name)"
  unfolding CreateSnapshot_def DeleteSnapshot_def GetSubscription_def
  by (intro preserves_intros; simp add: same_def)+

lemma delete_subscription_ok: "preserves pubsub_ok (DeleteSubscription name)"
  unfolding DeleteSubscription_def by (intro preserves_intros; simp add: same_def)

lemma create_subscription_ok:
  "preserves pubsub_ok (CreateSubscriptionFull now name topic projectID secs endpoint labels f dlt attempts eos sa aud)"
proof -
  have ins: "preserves pubsub_ok (on_table subscriptions subscriptions_update
      (insert_or_ignore (same Subscription_Name) sub))" if "subscription_ok sub" for sub
    using that by (intro preserves_intros) (simp_all add: same_def)
  show ?thesis
    unfolding CreateSubscriptionFull_def Let_def
    by (intro preserves_if preserves_raise preserves_bind_yields [OF check_filter_yields]
        preserves_bind_yields [OF check_dead_letter_yields] preserves_bind [of _ "GetTopic t" for t]
        preserves_option preserves_bind [OF ins] preserves_return)
       (auto simp: GetTopic_def subscription_ok_def intro: preserves_query)
qed


lemma update_subscription_ok:
  "preserves pubsub_ok (UpdateSubscription name ackDeadline endpoint labels f deadLetter eos oidc)"
proof -
  have upd: "preserves pubsub_ok (on_table subscriptions subscriptions_update
      (update_rows (\<lambda>r. Subscription_Name r = name)
        (\<lambda>r. r\<lparr>AckDeadlineSeconds := AckDeadlineSeconds sub, PushEndpoint := PushEndpoint sub,
           Subscription_Labels := Subscription_Labels sub, Filter := Filter sub,
           DeadLetterTopic := DeadLetterTopic sub, MaxDeliveryAttempts := MaxDeliveryAttempts sub,
           EnableExactlyOnceDelivery := EnableExactlyOnceDelivery sub,
           OidcServiceAccountEmail := OidcServiceAccountEmail sub, OidcAudience := OidcAudience sub\<rparr>)))"
    if "subscription_ok sub" for sub
    using that by (intro preserves_intros) (simp_all add: subscription_ok_def)
  have filt: "yields pubsub_ok subscription_ok (case f of None \<Rightarrow> returnM sub
      | Some f \<Rightarrow> bindM (check_filter (TrimSpace f)) (\<lambda>_. returnM (sub\<lparr>Filter := TrimSpace f\<rparr>)))"
    if "subscription_ok sub" for sub
    using that
    by (intro yields_option yields_return yields_bind [OF check_filter_yields])
       (simp_all add: subscription_ok_def)
  have dl: "yields pubsub_ok subscription_ok (case deadLetter of None \<Rightarrow> returnM sub
      | Some p \<Rightarrow> let topic = TrimSpace (Policy_DeadLetterTopic p) in
          bindM (check_dead_letter topic (Policy_MaxDeliveryAttempts p)) (\<lambda>attempts.
          returnM (sub\<lparr>DeadLetterTopic := topic, MaxDeliveryAttempts := attempts\<rparr>)))"
    if "subscription_ok sub" for sub
    using that unfolding Let_def
    by (intro yields_option yields_return yields_bind [OF check_dead_letter_yields])
       (simp_all add: subscription_ok_def)
  have first: "subscription_ok (sub\<lparr>
        AckDeadlineSeconds := or_keep (\<lambda>v. if v \<le> 0 then 10 else v) ackDeadline (AckDeadlineSeconds sub),
        PushEndpoint := e, Subscription_Labels := l\<rparr>)" if "subscription_ok sub" for sub e l
    using that by (cases ackDeadline) (auto simp: subscription_ok_def or_keep_def)
  show ?thesis
    unfolding UpdateSubscription_def Let_def
    apply (rule preserves_bind_yields [OF GetSubscription_yields])
    by (intro preserves_option_dep preserves_raise preserves_bind_yields [OF filt [OF first]]
        preserves_bind_yields [OF dl [unfolded Let_def]] preserves_bind [OF upd] preserves_return)
       (auto simp: subscription_ok_def)
qed

lemma publish_fanout_ok: "preserves pubsub_ok (PublishFanout d topic data attributes)"
  unfolding PublishFanout_def GetTopic_def ListSubscriptionsForTopic_def Let_def
  by (intro preserves_intros; simp add: same_def)

lemma publish_ok: "preserves pubsub_ok (Publish d topic data attributes)"
  unfolding Publish_def by (intro preserves_bind publish_fanout_ok) (auto intro: preserves_intros)

lemma dead_letter_ok: "preserves pubsub_ok (dead_letter d subscription sub m)"
  unfolding dead_letter_def Let_def wrapM_def by (intro preserves_intros publish_ok; simp)

lemma pull_loop_ok:
  "\<forall>m \<in> set ms. message_ok m \<Longrightarrow> preserves pubsub_ok (pull_loop d subscription sub deadline room i ms)"
proof (induction ms arbitrary: room i)
  case (Cons m ms)
  have ms: "\<forall>m \<in> set ms. message_ok m" using Cons.prems by simp
  have "0 \<le> DeliveryAttempts m + 1" using Cons.prems by (simp add: message_ok_def)
  then show ?case
    by (auto simp: Let_def intro!: preserves_intros dead_letter_ok Cons.IH [OF ms])
qed (simp add: preserves_return)

lemma pull_candidates_yields:
  "yields pubsub_ok (\<lambda>ms. \<forall>m \<in> set ms. message_ok m) (query (pull_candidates subscription now n))"
  by (rule yields_query) (auto simp: pull_candidates_def pubsub_ok_def dest!: in_set_takeD)

lemma pull_ok: "preserves pubsub_ok (Pull d now subscription n)"
  unfolding Pull_def Let_def GetSubscription_def
  by (intro preserves_bind preserves_query preserves_option preserves_raise
      preserves_bind_yields [OF pull_candidates_yields] pull_loop_ok)

lemma push_failure_ok: "preserves pubsub_ok (RecordPushDeliveryFailure d subscription ackID)"
proof -
  have get: "yields pubsub_ok (\<lambda>r. \<forall>m. r = Some m \<longrightarrow> message_ok m)
      (query (\<lambda>db. find (\<lambda>m. Message_Subscription m = subscription \<and> AckID m = ackID) (messages db)))"
    by (rule yields_query) (auto simp: pubsub_ok_def dest: find_SomeD)
  have upd: "preserves pubsub_ok (on_table messages messages_update
      (update_rows (\<lambda>r. AckID r = ackID) (\<lambda>r. r\<lparr>DeliveryAttempts := n\<rparr>)))" if "0 \<le> n" for n
    using that by (intro preserves_intros) (simp_all add: message_ok_def)
  show ?thesis
    unfolding RecordPushDeliveryFailure_def Let_def GetSubscription_def
    by (intro preserves_bind [OF preserves_query] preserves_option_dep preserves_bind_yields [OF get])
       (auto simp: message_ok_def intro!: preserves_intros dead_letter_ok upd)
qed

lemma ack_operations_ok:
  "preserves pubsub_ok (Acknowledge subscription ackIDs)"
  "preserves pubsub_ok (ModifyAckDeadline now subscription ackIDs secs)"
  "preserves pubsub_ok (SeekToTime subscription t)"
  unfolding Acknowledge_def ModifyAckDeadline_def SeekToTime_def GetSubscription_def Let_def
  by (intro preserves_intros; simp add: message_ok_def)+

section \<open>Runs\<close>

text \<open>The operations that change the tables, with what they draw, and the messages each hands out.\<close>

datatype operation =
    CreateTopicOp int string string string_map
  | UpdateTopicOp string string_map
  | DeleteTopicOp string
  | CreateSubscriptionOp int string string string int string string_map string string int bool string string
  | UpdateSubscriptionOp string "int option" "string option" "string_map option" "string option"
      "PubSubDeadLetterPolicy option" "bool option" "PubSubOIDCToken option"
  | DeleteSubscriptionOp string
  | PublishOp draw string string string_map
  | PullOp "nat \<Rightarrow> draw" int string int
  | PushFailureOp draw string string
  | AcknowledgeOp string "string list"
  | ModifyAckDeadlineOp int string "string list" int
  | SeekOp string int
  | CreateSnapshotOp int string string string_map
  | DeleteSnapshotOp string

fun perform :: "operation \<Rightarrow> (PubSubDb, PubSubMessage list) action" where
  "perform (CreateTopicOp now name p labels) = silent (CreateTopicWithLabels now name p labels)"
| "perform (UpdateTopicOp name labels) = silent (UpdateTopicLabels name labels)"
| "perform (DeleteTopicOp name) = silent (DeleteTopic name)"
| "perform (CreateSubscriptionOp now name topic p secs endpoint labels f dlt attempts eos sa aud) =
     silent (CreateSubscriptionFull now name topic p secs endpoint labels f dlt attempts eos sa aud)"
| "perform (UpdateSubscriptionOp name secs endpoint labels f dl eos oidc) =
     silent (UpdateSubscription name secs endpoint labels f dl eos oidc)"
| "perform (DeleteSubscriptionOp name) = silent (DeleteSubscription name)"
| "perform (PublishOp d topic data attributes) = silent (PublishFanout d topic data attributes)"
| "perform (PullOp d now subscription n) = Pull d now subscription n"
| "perform (PushFailureOp d subscription a) = silent (RecordPushDeliveryFailure d subscription a)"
| "perform (AcknowledgeOp subscription ids) = silent (Acknowledge subscription ids)"
| "perform (ModifyAckDeadlineOp now subscription ids secs) =
     silent (ModifyAckDeadline now subscription ids secs)"
| "perform (SeekOp subscription t) = silent (SeekToTime subscription t)"
| "perform (CreateSnapshotOp now name subscription labels) =
     silent (CreateSnapshot now name subscription labels)"
| "perform (DeleteSnapshotOp name) = silent (DeleteSnapshot name)"

abbreviation run ::
  "PubSubDb connection \<Rightarrow> (operation \<times> (error + PubSubMessage list)) list \<Rightarrow> PubSubDb connection \<Rightarrow> bool" where
  "run \<equiv> runs perform"

lemma perform_ok: "preserves pubsub_ok (perform op)"
  by (cases op)
     (simp_all add: preserves_silent topic_operations_ok snapshot_operations_ok delete_subscription_ok
       create_subscription_ok update_subscription_ok publish_fanout_ok pull_ok push_failure_ok ack_operations_ok)

definition empty_PubSubDb :: PubSubDb where
  "empty_PubSubDb = \<lparr>topics = [], subscriptions = [], messages = [], snapshots = []\<rparr>"

lemma empty_PubSubDb_ok: "pubsub_ok empty_PubSubDb"
  by (simp add: pubsub_ok_def empty_PubSubDb_def)

text \<open>C39. The tables of Pub/Sub stay consistent in every run, whatever statements fail: names and ack ids
  stay unique, every subscription keeps a positive ack deadline, a filter that can be parsed and, exactly
  when it has a dead letter topic, between 5 and 100 delivery attempts, and every message that was handed
  out has a lease.\<close>
theorem pubsub_invariant:
  assumes "run s tr s'" and "pubsub_ok (tables s)"
  shows "pubsub_ok (tables s')"
  by (rule run_preserves [OF assms(1)]) (auto simp: perform_ok assms(2))

end
