(* ===== verification/Pubsub_Delivery.thy ===== *)
theory Pubsub_Delivery
  imports Pubsub_Invariant
begin

text \<open>
  What Pub/Sub promises about delivery: publishing reaches every matching subscription or nobody, a pull returns
  the oldest available messages and leases them exclusively, acknowledged messages are gone, and a dead letter
  moves to its topic.
\<close>

section \<open>Publishing\<close>

lemma insert_copy_Inr:
  assumes "bindM (on_table_checked messages messages_update (insert_row (same AckID) m)) (\<lambda>_. returnM m) s = (Inr y, s1)"
  shows "y = m \<and> tables s1 = (tables s)\<lparr>messages := messages (tables s) @ [m]\<rparr>"
proof -
  from assms obtain n where n: "on_table_checked messages messages_update (insert_row (same AckID) m) s = (Inr n, s1)"
    and y: "y = m"
    by (blast dest: bindM_return_Inr)
  from on_table_checked_Inr [OF n] obtain t where
    t: "insert_row (same AckID) m (messages (tables s)) = Inr (n, t)"
      "tables s1 = messages_update (\<lambda>_. t) (tables s)" by blast
  from t(1) have "t = messages (tables s) @ [m]" by (simp add: insert_row_def split: if_splits)
  with t(2) y show ?thesis by (cases "tables s") simp
qed

lemma mapM_append_rows:
  assumes "mapM f subs s = (Inr ms, s')"
    and "\<And>sub s y s1. f sub s = (Inr y, s1) \<Longrightarrow>
      y = c sub \<and> tables s1 = (tables s)\<lparr>messages := messages (tables s) @ [c sub]\<rparr>"
  shows "ms = map c subs \<and> tables s' = (tables s)\<lparr>messages := messages (tables s) @ map c subs\<rparr>"
  using assms(1)
proof (induction subs arbitrary: s ms)
  case Nil
  then show ?case by (simp add: returnM_def)
next
  case (Cons sub subs)
  then obtain y s1 ys where step: "f sub s = (Inr y, s1)" and rest: "mapM f subs s1 = (Inr ys, s')"
    and ms: "ms = y # ys"
    by (auto simp: bindM_Inr returnM_def)
  from assms(2) [OF step] Cons.IH [OF rest] ms show ?case by simp
qed

lemma transaction_InrD:
  assumes "transaction m s = (Inr x, s')"
  shows "\<exists>s1 s2. tables s1 = tables s \<and> m s1 = (Inr x, s2) \<and> tables s' = tables s2"
proof -
  obtain e s1 where s1: "next_fault s = (e, s1)" by fastforce
  obtain r s2 where s2: "m s1 = (r, s2)" by fastforce
  obtain e' s3 where s3: "next_fault s2 = (e', s3)" by fastforce
  have "r = Inr x \<and> s' = s3"
    using assms s1 s2 s3 by (auto simp: transaction_def split: option.splits sum.splits)
  then show ?thesis using s1 s2 s3 by (metis next_fault_tables)
qed

lemma query_result: "query q s = (r, s') \<Longrightarrow> tables s' = tables s \<and> (\<forall>x. r = Inr x \<longrightarrow> x = q (tables s))"
  using query_unchanged query_Inr by metis

text \<open>The copies that a publication makes: one for each subscription of the topic whose filter matches.\<close>

definition copies_of :: "draw \<Rightarrow> string \<Rightarrow> string \<Rightarrow> string_map \<Rightarrow> PubSubDb \<Rightarrow> PubSubMessage list" where
  "copies_of d topic data attributes db =
     map (message_copy d topic data attributes) (sort_key Subscription_Name
       (filter (\<lambda>sub. Subscription_Topic sub = topic \<and> messageMatchesFilter (Filter sub) attributes)
         (subscriptions db)))"

lemma filter_by_key:
  assumes "keys_distinct key xs" and "x \<in> set xs"
  shows "filter (\<lambda>y. key y = key x \<and> P y) xs = (if P x then [x] else [])"
  using assms
proof (induction xs)
  case (Cons y ys)
  have "filter (\<lambda>z. key z = key y \<and> P z) ys = []"
    using Cons.prems(1) by (simp add: keys_distinct_def filter_empty_conv image_iff) metis
  then show ?case using Cons by (auto simp: keys_distinct_def)
qed simp

lemma copies_for:
  assumes "keys_distinct Subscription_Name (subscriptions db)" and "sub \<in> set (subscriptions db)"
  shows "filter (\<lambda>m. Message_Subscription m = Subscription_Name sub) (copies_of d topic data attributes db) =
     (if Subscription_Topic sub = topic \<and> messageMatchesFilter (Filter sub) attributes
      then [message_copy d topic data attributes sub] else [])"
proof -
  have "filter (\<lambda>m. Message_Subscription m = Subscription_Name sub) (copies_of d topic data attributes db) =
      map (message_copy d topic data attributes) (sort_key Subscription_Name
        (filter (\<lambda>s. Subscription_Name s = Subscription_Name sub \<and>
           (Subscription_Topic s = topic \<and> messageMatchesFilter (Filter s) attributes)) (subscriptions db)))"
    by (simp add: copies_of_def filter_map filter_sort o_def message_copy_def conj_commute conj_left_commute)
  then show ?thesis
    unfolding filter_by_key [OF assms] by simp
qed

lemma PublishFanout_result:
  assumes "PublishFanout d topic data attributes s = (r, s')"
  shows "case r of Inl _ \<Rightarrow> tables s' = tables s
    | Inr (i, ms) \<Rightarrow> i = draw_id d \<and> ms = copies_of d topic data attributes (tables s) \<and>
        tables s' = (tables s)\<lparr>messages := messages (tables s) @ ms\<rparr>"
proof -
  obtain t s1 where s1: "GetTopic topic s = (t, s1)" by fastforce
  then have t1: "tables s1 = tables s" using query_result unfolding GetTopic_def by blast
  obtain subs s2 where s2: "ListSubscriptionsForTopic topic s1 = (subs, s2)" by fastforce
  then have t2: "tables s2 = tables s"
    and subs: "\<And>x. subs = Inr x \<Longrightarrow> x = sort_key Subscription_Name
       (filter (\<lambda>s. Subscription_Topic s = topic) (subscriptions (tables s)))"
    using query_result [of _ s1 subs s2] t1 unfolding ListSubscriptionsForTopic_def by auto
  define body :: "PubSubSubscription list \<Rightarrow> (PubSubDb, PubSubMessage list) action" where "body xs = mapM (\<lambda>sub. bindM (on_table_checked messages messages_update
      (insert_row (same AckID) (message_copy d topic data attributes sub)))
      (\<lambda>_. returnM (message_copy d topic data attributes sub)))
      (filter (\<lambda>sub. messageMatchesFilter (Filter sub) attributes) xs)" for xs
  note def = PublishFanout_def Let_def body_def [symmetric]
  show ?thesis
  proof (cases t)
    case (Inl e)
    then show ?thesis using assms s1 t1 by (auto simp: def bindM_def)
  next
    case (Inr t')
    show ?thesis
    proof (cases "t' = None \<or> isl subs")
      case True
      then show ?thesis using assms s1 s2 Inr t1 t2
        by (auto simp: def bindM_def isl_def split: option.splits)
    next
      case False
      then obtain xs where xs: "subs = Inr xs" by (cases subs) auto
      have run: "bindM (transaction (body xs)) (\<lambda>copies. returnM (draw_id d, copies)) s2 = (r, s')"
        using assms s1 s2 Inr False xs by (auto simp: def bindM_def)
      show ?thesis
      proof (cases r)
        case (Inl e)
        then show ?thesis using run transaction_atomic t2 by (fastforce simp: bindM_def split: prod.splits sum.splits)
      next
        case (Inr y)
        then obtain ms where ms: "transaction (body xs) s2 = (Inr ms, s')" "y = (draw_id d, ms)"
          using run by (auto simp: bindM_Inr)
        from transaction_InrD [OF ms(1)] obtain s3 s4 where s3: "tables s3 = tables s2" "body xs s3 = (Inr ms, s4)"
          "tables s' = tables s4" by blast
        have "ms = map (message_copy d topic data attributes) (filter (\<lambda>sub. messageMatchesFilter (Filter sub) attributes) xs) \<and>
          tables s4 = (tables s3)\<lparr>messages := messages (tables s3) @ ms\<rparr>"
          using mapM_append_rows [OF s3(2) [unfolded body_def] insert_copy_Inr] by simp
        then show ?thesis
          using Inr ms(2) s3 t2 subs [OF xs]
          by (simp add: copies_of_def filter_sort conj_commute)
      qed
    qed
  qed
qed

text \<open>C38. Publishing is all or nothing: when \<open>PublishFanout\<close> fails, whatever statement failed, no message was
  stored; when it succeeds exactly one new message was stored for every subscription of the topic whose
  filter the attributes match, undelivered and with the data and attributes published, and none for any
  other subscription; the messages stored before are as they were.\<close>
theorem publish_all_or_nothing:
  assumes "PublishFanout d topic data attributes s = (r, s')"
    and "keys_distinct Subscription_Name (subscriptions (tables s))"
  shows "case r of
      Inl _ \<Rightarrow> tables s' = tables s
    | Inr (i, copies) \<Rightarrow>
        tables s' = (tables s)\<lparr>messages := messages (tables s) @ copies\<rparr> \<and>
        (\<forall>sub \<in> set (subscriptions (tables s)).
           filter (\<lambda>m. Message_Subscription m = Subscription_Name sub) copies =
             (if Subscription_Topic sub = topic \<and> messageMatchesFilter (Filter sub) attributes
              then [message_copy d topic data attributes sub] else [])) \<and>
        (\<forall>m \<in> set copies. Message_Subscription m \<in> Subscription_Name ` set (subscriptions (tables s)))"
proof (cases r)
  case (Inl e)
  then show ?thesis using PublishFanout_result [OF assms(1)] by simp
next
  case (Inr y)
  obtain i copies where y: "y = (i, copies)" by fastforce
  with Inr PublishFanout_result [OF assms(1)] have copies: "copies = copies_of d topic data attributes (tables s)"
    and tables: "tables s' = (tables s)\<lparr>messages := messages (tables s) @ copies\<rparr>" by auto
  have one: "filter (\<lambda>m. Message_Subscription m = Subscription_Name sub) copies =
      (if Subscription_Topic sub = topic \<and> messageMatchesFilter (Filter sub) attributes
       then [message_copy d topic data attributes sub] else [])" if "sub \<in> set (subscriptions (tables s))" for sub
    unfolding copies by (rule copies_for [OF assms(2) that])
  then show ?thesis using Inr y tables copies by (auto simp: copies_of_def message_copy_def)
qed

section \<open>Pulling\<close>

lemma pull_loop_result:
  assumes "pull_loop d subscription sub deadline room i ms s = (Inr out, s')"
  shows "out = map (\<lambda>m. lease deadline (DeliveryAttempts m + 1) m)
    (take room (filter (\<lambda>m. \<not> dead_lettered sub (DeliveryAttempts m + 1)) ms))"
  using assms
proof (induction ms arbitrary: room i s out)
  case Nil
  then show ?case by (simp add: returnM_def)
next
  case (Cons m ms)
  show ?case
  proof (cases "room = 0 \<or> dead_lettered sub (DeliveryAttempts m + 1)")
    case True
    then show ?thesis using Cons.prems Cons.IH
      by (auto simp: Let_def bindM_Inr returnM_def split: if_splits)
  next
    case False
    then obtain s1 rest where "pull_loop d subscription sub deadline (room - 1) (i + 1) ms s1 = (Inr rest, s')"
      "out = lease deadline (DeliveryAttempts m + 1) m # rest"
      using Cons.prems by (auto simp: Let_def bindM_Inr returnM_def)
    then show ?thesis using Cons.IH False by (cases room) auto
  qed
qed

lemma fetch_window_enough: "1 \<le> n \<Longrightarrow> n \<le> fetch_window n"
  by (simp add: fetch_window_def Let_def)

lemma Pull_result:
  assumes "Pull d now subscription n s = (Inr out, s')"
  shows "\<exists>sub. find (\<lambda>s. Subscription_Name s = subscription) (subscriptions (tables s)) = Some sub \<and>
    fetch_window (max 1 n) \<ge> max 1 n \<and>
    out = map (\<lambda>m. lease (lease_end now sub) (DeliveryAttempts m + 1) m)
      (take (nat (max 1 n)) (filter (\<lambda>m. \<not> dead_lettered sub (DeliveryAttempts m + 1))
        (take (nat (fetch_window (max 1 n))) (sort_key PublishTime
          (filter (\<lambda>m. Message_Subscription m = subscription \<and> available (FormatRFC3339Nano now) m)
            (messages (tables s)))))))"
proof -
  have n: "(if n \<le> 0 then 1 else n) = max 1 n" by auto
  from assms obtain r s1 where r: "GetSubscription subscription s = (Inr r, s1)"
    and rest: "(case r of None \<Rightarrow> raiseM (Errorf ''subscription not found'')
      | Some sub \<Rightarrow> bindM (query (pull_candidates subscription (FormatRFC3339Nano now) (fetch_window (max 1 n))))
          (pull_loop d subscription sub (lease_end now sub) (nat (max 1 n)) 0)) s1 = (Inr out, s')"
    unfolding Pull_def Let_def n bindM_Inr by blast
  from query_result [OF r [unfolded GetSubscription_def]] have t1: "tables s1 = tables s"
    and find: "r = find (\<lambda>s. Subscription_Name s = subscription) (subscriptions (tables s))" by simp_all
  from rest obtain sub where sub: "r = Some sub" by (cases r) (simp_all add: raiseM_def)
  with rest obtain ms s2 where
    q: "query (pull_candidates subscription (FormatRFC3339Nano now) (fetch_window (max 1 n))) s1 = (Inr ms, s2)"
    and loop: "pull_loop d subscription sub (lease_end now sub) (nat (max 1 n)) 0 ms s2 = (Inr out, s')"
    by (auto simp: bindM_Inr)
  from query_result [OF q] t1 have "ms = pull_candidates subscription (FormatRFC3339Nano now)
      (fetch_window (max 1 n)) (tables s)" by simp
  moreover have "max 1 n \<le> fetch_window (max 1 n)" by (rule fetch_window_enough) simp
  ultimately show ?thesis
    using pull_loop_result [OF loop] find sub unfolding pull_candidates_def by blast
qed

text \<open>What a pull returns: from the messages of the subscription that were never delivered or whose lease
  is over, the oldest first and within a window that is at least as large as the number asked for, those
  that did not use up their delivery attempts, at most as many as asked for (one, when the number is not
  positive), each with one attempt more and the lease that the subscription's ack deadline gives.\<close>
theorem pull_returns:
  assumes "Pull d now subscription n s = (Inr out, s')"
  shows "\<exists>sub. find (\<lambda>s. Subscription_Name s = subscription) (subscriptions (tables s)) = Some sub \<and>
    fetch_window (max 1 n) \<ge> max 1 n \<and>
    out = map (\<lambda>m. lease (lease_end now sub) (DeliveryAttempts m + 1) m)
      (take (nat (max 1 n)) (filter (\<lambda>m. \<not> dead_lettered sub (DeliveryAttempts m + 1))
        (take (nat (fetch_window (max 1 n))) (sort_key PublishTime
          (filter (\<lambda>m. Message_Subscription m = subscription \<and> available (FormatRFC3339Nano now) m)
            (messages (tables s)))))))"
  by (rule Pull_result [OF assms])

section \<open>Leases\<close>

text \<open>The message with ack id \<open>a\<close> belongs to a subscription and is leased until the instant \<open>T\<close>, or gone.\<close>

definition owned :: "string \<Rightarrow> string \<Rightarrow> PubSubMessage \<Rightarrow> bool" where
  "owned a name m \<longleftrightarrow> (AckID m = a \<longrightarrow> Message_Subscription m = name)"

definition held :: "string \<Rightarrow> int \<Rightarrow> string \<Rightarrow> PubSubMessage \<Rightarrow> bool" where
  "held a T name m \<longleftrightarrow>
     (AckID m = a \<longrightarrow> Message_Subscription m = name \<and> Delivered m \<and> AckDeadline m = Some (FormatRFC3339Nano T))"

definition all_messages :: "(PubSubMessage \<Rightarrow> bool) \<Rightarrow> PubSubDb \<Rightarrow> bool" where
  "all_messages P db \<longleftrightarrow> (\<forall>m \<in> set (messages db). P m)"

definition avoids :: "string \<Rightarrow> draw \<Rightarrow> bool" where
  "avoids a d \<longleftrightarrow> (\<forall>name. draw_ack d name \<noteq> a)"

lemma all_on_messages:
  "keeps_all P f \<Longrightarrow> preserves (all_messages P) (on_table messages messages_update f)"
  by (rule preserves_on_table) (auto simp: all_messages_def keeps_all_def dest: snd_eqD)

lemma all_on_messages_checked:
  "keeps_all_checked P f \<Longrightarrow> preserves (all_messages P) (on_table_checked messages messages_update f)"
  by (rule preserves_on_table_checked) (auto simp: all_messages_def keeps_all_checked_def)

lemma all_elsewhere:
  "preserves (all_messages P) (on_table topics topics_update f)"
  "preserves (all_messages P) (on_table subscriptions subscriptions_update g)"
  "preserves (all_messages P) (on_table snapshots snapshots_update h)"
  by (rule preserves_elsewhere; simp add: all_messages_def)+

lemmas all_messages_intros = preserves_intros all_on_messages all_on_messages_checked all_elsewhere

text \<open>A property of rows that says nothing of undelivered copies with other ack ids is kept by publishing.\<close>

lemma publish_keeps_all:
  assumes "\<And>m. AckID m \<noteq> a \<Longrightarrow> P m" and "avoids a d"
  shows "preserves (all_messages P) (PublishFanout d topic data attributes)"
proof -
  have "P (message_copy d topic data attributes sub)" for sub
    using assms by (simp add: avoids_def message_copy_def)
  then show ?thesis
    unfolding PublishFanout_def GetTopic_def ListSubscriptionsForTopic_def Let_def
    by (intro all_messages_intros)
qed

lemma dead_letter_keeps_all:
  assumes "\<And>m. AckID m \<noteq> a \<Longrightarrow> P m" and "avoids a d"
  shows "preserves (all_messages P) (dead_letter d subscription sub m)"
  unfolding dead_letter_def Let_def wrapM_def Publish_def
  by (intro all_messages_intros publish_keeps_all [where a = a, OF assms])

lemma pull_loop_keeps_all:
  assumes other: "\<And>m. AckID m \<noteq> a \<Longrightarrow> P m" and d: "\<And>i. avoids a (d i)"
    and keep: "\<And>m n. P m \<Longrightarrow> P (lease deadline n m) \<or> AckID m \<notin> AckID ` set ms"
  shows "preserves (all_messages P) (pull_loop d subscription sub deadline room i ms)"
  using keep
proof (induction ms arbitrary: room i)
  case Nil
  show ?case unfolding pull_loop.simps by (rule preserves_return)
next
  case (Cons m ms)
  have ms: "preserves (all_messages P) (pull_loop d subscription sub deadline room i ms)" for room i
    by (rule Cons.IH) (use Cons.prems in auto)
  have upd: "keeps_all P (update_rows (\<lambda>r. AckID r = AckID m) (lease deadline n))" for n
    by (rule keeps_all_update) (use Cons.prems in force)
  show ?case
    by (auto simp: Let_def intro!: preserves_bind preserves_return all_on_messages [OF upd]
        dead_letter_keeps_all [where a = a, OF other d] ms)
qed

text \<open>A pull that returns a message leaves it leased.\<close>

lemma pull_loop_holds:
  assumes "pull_loop d subscription sub (FormatRFC3339Nano T) room i ms s = (Inr out, s')"
    and "m \<in> set out" and "distinct (map AckID ms)" and "\<And>i. avoids (AckID m) (d i)"
    and "all_messages (owned (AckID m) name) (tables s)"
  shows "all_messages (held (AckID m) T name) (tables s')"
  using assms
proof (induction ms arbitrary: room i s out)
  case Nil
  then show ?case by (simp add: returnM_def)
next
  case (Cons c ms)
  let ?a = "AckID m"
  have owned: "AckID r \<noteq> ?a \<Longrightarrow> owned ?a name r" for r by (simp add: owned_def)
  show ?case
  proof (cases "dead_lettered sub (DeliveryAttempts c + 1)")
    case True
    with Cons.prems(1,2) obtain u s1 where step: "dead_letter (d i) subscription sub c s = (Inr u, s1)"
      and rest: "pull_loop d subscription sub (FormatRFC3339Nano T) room (i + 1) ms s1 = (Inr out, s')"
      by (auto simp: Let_def bindM_Inr returnM_def split: if_splits)
    have "all_messages (owned ?a name) (tables s1)"
      by (rule preservesD [OF dead_letter_keeps_all [where a = ?a, OF owned Cons.prems(4)] Cons.prems(5) step])
    then show ?thesis
      by (intro Cons.IH [OF rest Cons.prems(2) _ Cons.prems(4)]) (use Cons.prems(3) in simp)
  next
    case False
    define row where "row = lease (FormatRFC3339Nano T) (DeliveryAttempts c + 1)"
    have "room \<noteq> 0" using Cons.prems(1,2) by (auto simp: returnM_def split: if_splits)
    with Cons.prems(1) False have "bindM (on_table messages messages_update (update_rows (\<lambda>r. AckID r = AckID c) row))
        (\<lambda>_. bindM (pull_loop d subscription sub (FormatRFC3339Nano T) (room - 1) (i + 1) ms)
          (\<lambda>msgs. returnM (row c # msgs))) s = (Inr out, s')"
      unfolding row_def by (simp only: pull_loop.simps Let_def if_False)
    then obtain n s1 rest s2 where
      step: "on_table messages messages_update (update_rows (\<lambda>r. AckID r = AckID c) row) s = (Inr n, s1)"
      and loop: "pull_loop d subscription sub (FormatRFC3339Nano T) (room - 1) (i + 1) ms s1 = (Inr rest, s2)"
      and ret: "returnM (row c # rest) s2 = (Inr out, s')"
      unfolding bindM_Inr by blast
    from ret have out: "out = row c # rest" and s2: "s2 = s'" unfolding returnM_def by auto
    note loop = loop [unfolded s2]
    from on_table_Inr [OF step] have t1: "tables s1 = messages_update
        (\<lambda>_. map (\<lambda>r. if AckID r = AckID c then row r else r) (messages (tables s))) (tables s)" unfolding snd_update_rows ..
    have keeps: "owned ?a name (row r) = owned ?a name r" for r by (simp add: owned_def row_def lease_def)
    show ?thesis
    proof (cases "AckID c = ?a")
      case True
      have "all_messages (held ?a T name) (tables s1)"
        using Cons.prems(5) True unfolding t1
        by (auto simp: all_messages_def held_def owned_def row_def lease_def)
      moreover have "preserves (all_messages (held ?a T name))
          (pull_loop d subscription sub (FormatRFC3339Nano T) (room - 1) (i + 1) ms)"
        by (rule pull_loop_keeps_all [where a = ?a, OF _ Cons.prems(4)])
           (use Cons.prems(3) True in \<open>auto simp: held_def lease_def\<close>)
      ultimately show ?thesis using preservesD loop by blast
    next
      case False
      then have rest: "m \<in> set rest" using Cons.prems(2) out by (auto simp: row_def)
      have owned1: "all_messages (owned ?a name) (tables s1)"
        by (rule preservesD [OF all_on_messages [OF keeps_all_update] Cons.prems(5) step]) (simp add: keeps)
      show ?thesis
        by (rule Cons.IH [OF loop rest _ Cons.prems(4) owned1]) (use Cons.prems(3) in simp)
    qed
  qed
qed

lemma distinct_pull_candidates:
  assumes "keys_distinct AckID (messages db)"
  shows "distinct (map AckID (pull_candidates subscription now n db))"
proof -
  have "keys_distinct AckID (filter P (messages db))" for P using assms by (rule keys_distinct_filter)
  then have "distinct (map AckID (sort_key PublishTime (filter P (messages db))))" for P
    by (simp add: keys_distinct_def distinct_map)
  then show ?thesis unfolding pull_candidates_def by (simp add: distinct_take flip: take_map)
qed

lemma not_available_while_held:
  assumes "held a T name m" and "AckID m = a" and "now div 10 ^ 9 < T div 10 ^ 9"
  shows "\<not> available (FormatRFC3339Nano now) m"
  using assms stamp_order_seconds [OF assms(3)] by (auto simp: held_def available_def)

lemma Pull_skips_held:
  assumes "Pull d now subscription n s = (Inr out, s')" and "all_messages (held a T name) (tables s)"
    and "now div 10 ^ 9 < T div 10 ^ 9" and "m \<in> set out"
  shows "AckID m \<noteq> a"
proof -
  from Pull_result [OF assms(1)] assms(4) obtain m0 sub where m0: "m0 \<in> set (messages (tables s))"
    "available (FormatRFC3339Nano now) m0" "m = lease (lease_end now sub) (DeliveryAttempts m0 + 1) m0"
    by (auto dest!: in_set_takeD)
  with assms(2) have "held a T name m0" by (simp add: all_messages_def)
  with m0 assms(3) show ?thesis by (auto dest: not_available_while_held)
qed

lemma Pull_keeps_held:
  assumes "\<And>i. avoids a (d i)" and "now div 10 ^ 9 < T div 10 ^ 9"
  shows "preserves (all_messages (held a T name)) (Pull d now subscription n)"
proof -
  have cands: "yields (all_messages (held a T name)) (\<lambda>ms. \<forall>m \<in> set ms. AckID m \<noteq> a)
      (query (pull_candidates subscription (FormatRFC3339Nano now) k))" for k
  proof (rule yields_query, intro ballI notI)
    fix db m
    assume held: "all_messages (held a T name) db" and a: "AckID m = a"
      and "m \<in> set (pull_candidates subscription (FormatRFC3339Nano now) k db)"
    then have "m \<in> set (messages db)" "available (FormatRFC3339Nano now) m"
      by (auto simp: pull_candidates_def dest!: in_set_takeD)
    with held have "held a T name m" by (simp add: all_messages_def)
    with not_available_while_held [OF this a assms(2)] show False using \<open>available _ m\<close> by simp
  qed
  have loop: "preserves (all_messages (held a T name)) (pull_loop d subscription sub deadline room i ms)"
    if "\<forall>m \<in> set ms. AckID m \<noteq> a" for sub deadline room i ms
    by (rule pull_loop_keeps_all [where a = a, OF _ assms(1)]) (use that in \<open>auto simp: held_def lease_def\<close>)
  show ?thesis
    unfolding Pull_def Let_def GetSubscription_def
    by (intro preserves_bind preserves_query preserves_option preserves_raise preserves_bind_yields [OF cands] loop)
qed

text \<open>The operations that leave a lease alone: a pull before the second in which the lease ends, no change of
  the deadline of the message itself, no seek of its subscription; ack ids that are drawn are new.\<close>

fun leaves_lease :: "string \<Rightarrow> int \<Rightarrow> string \<Rightarrow> operation \<Rightarrow> bool" where
  "leaves_lease a T name (PublishOp d topic data attributes) = avoids a d"
| "leaves_lease a T name (PullOp d now subscription n) = ((\<forall>i. avoids a (d i)) \<and> now div 10 ^ 9 < T div 10 ^ 9)"
| "leaves_lease a T name (PushFailureOp d subscription i) = avoids a d"
| "leaves_lease a T name (ModifyAckDeadlineOp now subscription ids secs) = (a \<notin> set ids)"
| "leaves_lease a T name (SeekOp subscription t) = (subscription \<noteq> name)"
| "leaves_lease a T name _ = True"

lemma push_failure_keeps_held:
  assumes "avoids a d"
  shows "preserves (all_messages (held a T name)) (RecordPushDeliveryFailure d subscription i)"
  unfolding RecordPushDeliveryFailure_def Let_def GetSubscription_def
  by (intro all_messages_intros dead_letter_keeps_all [where a = a, OF _ assms]) (simp_all add: held_def)

lemma modify_keeps_held:
  assumes "a \<notin> set ids"
  shows "preserves (all_messages (held a T name)) (ModifyAckDeadline now subscription ids secs)"
proof -
  have loop: "preserves (all_messages (held a T name)) (mapM_unit (\<lambda>i.
      bindM (on_table messages messages_update
        (update_rows (\<lambda>m. Message_Subscription m = subscription \<and> AckID m = i)
          (\<lambda>m. m\<lparr>Delivered := True, AckDeadline := Some dl\<rparr>))) (\<lambda>_. returnM ())) ids)" for dl
    using assms
  proof (induction ids)
    case Nil
    show ?case unfolding mapM_unit.simps by (rule preserves_return)
  next
    case (Cons i ids)
    from Cons.prems have "a \<notin> set ids" by simp
    note IH = Cons.IH [OF this]
    show ?case unfolding mapM_unit.simps
      by (intro preserves_bind all_on_messages keeps_all_update preserves_return IH)
         (use Cons.prems in \<open>auto simp: held_def\<close>)
  qed
  show ?thesis
    unfolding ModifyAckDeadline_def Let_def
    by (intro preserves_if preserves_return preserves_transaction loop)
qed

lemma other_operations_keep_held:
  "preserves (all_messages P) (CreateTopicWithLabels now name p labels)"
  "preserves (all_messages P) (UpdateTopicLabels name labels)"
  "preserves (all_messages P) (DeleteTopic name)"
  "preserves (all_messages P) (DeleteSubscription name)"
  "preserves (all_messages P) (CreateSnapshot now name subscription labels)"
  "preserves (all_messages P) (DeleteSnapshot name)"
  "preserves (all_messages P) (Acknowledge subscription ids)"
  unfolding CreateTopicWithLabels_def UpdateTopicLabels_def DeleteTopic_def DeleteSubscription_def
    CreateSnapshot_def DeleteSnapshot_def Acknowledge_def GetTopic_def GetSubscription_def
  by (intro all_messages_intros)+

lemma subscription_operations_keep_held:
  "preserves (all_messages P)
     (CreateSubscriptionFull now name topic p secs endpoint labels f dlt attempts eos sa aud)"
  "preserves (all_messages P) (UpdateSubscription name ack e l g dl b oidc)"
  unfolding CreateSubscriptionFull_def UpdateSubscription_def check_filter_def check_dead_letter_def liftE_def
    GetTopic_def GetSubscription_def Let_def
  by (intro all_messages_intros)+

lemma seek_keeps_held:
  "subscription \<noteq> name \<Longrightarrow> preserves (all_messages (held a T name)) (SeekToTime subscription t)"
  unfolding SeekToTime_def GetSubscription_def Let_def
  by (intro all_messages_intros) (auto simp: held_def)

lemma perform_keeps_held:
  assumes "leaves_lease a T name op"
  shows "preserves (all_messages (held a T name)) (perform op)"
  using assms
  by (cases op)
     (simp_all add: preserves_silent other_operations_keep_held subscription_operations_keep_held seek_keeps_held
       modify_keeps_held push_failure_keeps_held Pull_keeps_held publish_keeps_all [where a = a] held_def)

lemma perform_skips_held:
  assumes "perform op s = (Inr out, s')" and "leaves_lease a T name op"
    and "all_messages (held a T name) (tables s)" and "m \<in> set out"
  shows "AckID m \<noteq> a"
  using assms by (cases op) (auto dest: silent_returns Pull_skips_held)

lemma run_skips_held:
  assumes "run s tr s'" and "\<forall>(op, r) \<in> set tr. leaves_lease a T name op"
    and "all_messages (held a T name) (tables s)" and "(op, Inr out) \<in> set tr" and "m \<in> set out"
  shows "AckID m \<noteq> a"
  using assms
proof (induction rule: runs.induct)
  case (run_op op' s r s1 tr s2)
  then have "all_messages (held a T name) (tables s1)"
    by (intro preservesD [OF perform_keeps_held _ run_op.hyps(1)]) auto
  then show ?case using run_op perform_skips_held by fastforce
qed simp

lemma Pull_holds:
  assumes "pubsub_ok (tables s)" and "Pull d now subscription n s = (Inr out, s')" and "m \<in> set out"
    and sub: "find (\<lambda>s. Subscription_Name s = subscription) (subscriptions (tables s)) = Some sub"
    and d: "\<And>i. avoids (AckID m) (d i)"
  shows "all_messages (held (AckID m) (now + int64 (AckDeadlineSeconds sub * 10 ^ 9)) subscription) (tables s')"
proof -
  let ?k = "if n \<le> 0 then 1 else n"
  from assms(2) obtain r s1 where r: "GetSubscription subscription s = (Inr r, s1)"
    and rest: "(case r of None \<Rightarrow> raiseM (Errorf ''subscription not found'')
      | Some sub \<Rightarrow> bindM (query (pull_candidates subscription (FormatRFC3339Nano now) (fetch_window ?k)))
          (pull_loop d subscription sub (lease_end now sub) (nat ?k) 0)) s1 = (Inr out, s')"
    unfolding Pull_def Let_def bindM_Inr by blast
  from query_result [OF r [unfolded GetSubscription_def]] have t1: "tables s1 = tables s" and some: "r = Some sub"
    using sub by simp_all
  from rest [unfolded some option.case] obtain ms s2 where
    q: "query (pull_candidates subscription (FormatRFC3339Nano now) (fetch_window ?k)) s1 = (Inr ms, s2)"
    and loop: "pull_loop d subscription sub (lease_end now sub) (nat ?k) 0 ms s2 = (Inr out, s')"
    unfolding bindM_Inr option.case by blast
  from query_result [OF q] t1 have t2: "tables s2 = tables s"
    and ms: "ms = pull_candidates subscription (FormatRFC3339Nano now) (fetch_window ?k) (tables s)" by simp_all
  have unique: "keys_distinct AckID (messages (tables s))" using assms(1) by (simp add: pubsub_ok_def)
  have "m \<in> lease (lease_end now sub) k ` set ms \<or> AckID m \<in> AckID ` set ms" for k
    using pull_loop_result [OF loop] assms(3) by (auto dest!: in_set_takeD)
  then have "AckID m \<in> AckID ` set ms" by force
  then obtain m0 where m0: "m0 \<in> set (messages (tables s))" "Message_Subscription m0 = subscription" "AckID m0 = AckID m"
    unfolding ms pull_candidates_def by (auto dest!: in_set_takeD)
  have "all_messages (owned (AckID m) subscription) (tables s2)"
    unfolding all_messages_def t2 owned_def
  proof (intro ballI impI)
    fix r assume "r \<in> set (messages (tables s))" "AckID r = AckID m"
    moreover have "inj_on AckID (set (messages (tables s)))" using unique by (simp add: keys_distinct_def distinct_map)
    ultimately have "r = m0" using m0 by (simp add: inj_on_def)
    then show "Message_Subscription r = subscription" using m0 by simp
  qed
  then show ?thesis
    by (intro pull_loop_holds [OF loop [unfolded lease_end_def] assms(3) _ d])
       (simp_all add: ms distinct_pull_candidates unique)
qed

text \<open>C9. A lease is exclusive. Once a pull returned a message, no later pull returns it before the second in
  which its ack deadline ends, whatever other operations run in between and whatever statements fail, as
  long as nobody changes the deadline of that message or seeks its subscription; ack ids are random, and the pull and
  the later operations are taken to draw none that is the message's own again.\<close>
theorem lease_exclusive:
  assumes "pubsub_ok (tables s)" and "Pull d now subscription n s = (Inr out, s1)" and "m \<in> set out"
    and "find (\<lambda>s. Subscription_Name s = subscription) (subscriptions (tables s)) = Some sub"
    and "\<And>i. avoids (AckID m) (d i)"
    and "run s1 tr s2"
    and "\<forall>(op, r) \<in> set tr.
           leaves_lease (AckID m) (now + int64 (AckDeadlineSeconds sub * 10 ^ 9)) subscription op"
  shows "\<forall>(op, r) \<in> set tr. \<forall>out'. r = Inr out' \<longrightarrow> AckID m \<notin> AckID ` set out'"
  using run_skips_held [OF assms(6,7) Pull_holds [OF assms(1-5)]] by fastforce

section \<open>Acknowledging and dead letters\<close>

lemma delete_each:
  assumes "mapM_unit (\<lambda>i. bindM (on_table messages messages_update (delete_rows (P i))) (\<lambda>_. returnM ())) ids s
    = (Inr u, s')"
  shows "tables s' = (tables s)\<lparr>messages := filter (\<lambda>m. \<forall>i \<in> set ids. \<not> P i m) (messages (tables s))\<rparr>"
  using assms
proof (induction ids arbitrary: s)
  case Nil
  then show ?case by (simp add: returnM_def)
next
  case (Cons i ids)
  from Cons.prems obtain s1 where
    step: "bindM (on_table messages messages_update (delete_rows (P i))) (\<lambda>_. returnM ()) s = (Inr (), s1)"
    and rest: "mapM_unit (\<lambda>i. bindM (on_table messages messages_update (delete_rows (P i))) (\<lambda>_. returnM ())) ids s1
      = (Inr u, s')"
    unfolding mapM_unit.simps bindM_Inr [of "bindM m f" for m f] by auto
  from step obtain n where "on_table messages messages_update (delete_rows (P i)) s = (Inr n, s1)"
    by (blast dest: bindM_return_Inr)
  from on_table_Inr [OF this] have "tables s1 = (tables s)\<lparr>messages := filter (\<lambda>m. \<not> P i m) (messages (tables s))\<rparr>"
    by (simp add: delete_rows_def)
  with Cons.IH [OF rest] show ?case by (simp add: conj_commute)
qed

text \<open>Acknowledging is exact and all or nothing: when it succeeds the messages of that subscription with
  the given ack ids are gone and every other message is as it was, in order; when it fails, whatever
  statement failed, nothing changed.\<close>
theorem acknowledge_exact:
  assumes "Acknowledge subscription ids s = (r, s')"
  shows "case r of
      Inl _ \<Rightarrow> tables s' = tables s
    | Inr _ \<Rightarrow> tables s' = (tables s)\<lparr>messages :=
        filter (\<lambda>m. \<not> (Message_Subscription m = subscription \<and> AckID m \<in> set ids)) (messages (tables s))\<rparr>"
proof (cases "ids = []")
  case True
  then show ?thesis using assms by (simp add: Acknowledge_def returnM_def split: sum.split)
next
  case False
  define body :: "(PubSubDb, unit) action" where "body = mapM_unit (\<lambda>i. bindM (on_table messages messages_update
    (delete_rows (\<lambda>m. Message_Subscription m = subscription \<and> AckID m = i))) (\<lambda>_. returnM ())) ids"
  have run: "transaction body s = (r, s')" using assms False by (simp add: Acknowledge_def body_def)
  show ?thesis
  proof (cases r)
    case (Inl e)
    then show ?thesis using transaction_atomic [OF run [unfolded Inl]] by simp
  next
    case (Inr u)
    from transaction_InrD [OF run [unfolded Inr]] obtain s1 s2 where s1: "tables s1 = tables s" "body s1 = (Inr u, s2)"
      "tables s' = tables s2" by blast
    have eq: "(\<lambda>m. \<forall>i \<in> set ids. \<not> (Message_Subscription m = subscription \<and> AckID m = i)) =
        (\<lambda>m. \<not> (Message_Subscription m = subscription \<and> AckID m \<in> set ids))" by blast
    from delete_each [OF s1(2) [unfolded body_def], unfolded eq] s1 Inr show ?thesis by simp
  qed
qed

text \<open>Attributes survive the JSON column: decoding what \<open>encodeStringMap\<close> stored gives the same map.\<close>
theorem string_map_roundtrip:
  assumes "distinct (map fst m)"
  shows "map_of (decodeStringMap (encodeStringMap m)) = map_of m"
proof -
  let ?js = "map (\<lambda>(k, v). (k, JStr v)) m"
  let ?strings = "map (\<lambda>(k, v). (k, string_value v)) :: (string \<times> json) list \<Rightarrow> string_map"
  have keys: "map fst (?strings xs) = map fst xs" for xs by auto
  have "map fst ?js = map fst m" by auto
  then have js: "distinct (map fst ?js)" using assms by (simp only:)
  then have "distinct (map fst (?strings (sort_key fst ?js)))" unfolding keys by (rule distinct_sort_key)
  then have "map_of (decodeStringMap (encodeStringMap m)) = map_of (?strings (sort_key fst ?js))"
    by (simp add: encodeStringMap_def)
  also have "\<dots> = map_option string_value \<circ> map_of (sort_key fst ?js)" by (rule map_of_map)
  also have "\<dots> = map_option string_value \<circ> (map_option JStr \<circ> map_of m)"
    unfolding map_of_sort [OF js] map_of_map ..
  also have "\<dots> = map_of m" by (simp add: fun_eq_iff option.map_comp o_def option.map_ident)
  finally show ?thesis .
qed

lemma dead_letter_result:
  assumes "dead_letter d subscription sub m s = (Inr u, s')"
  shows "tables s' = (tables s)\<lparr>messages := filter (\<lambda>r. AckID r \<noteq> AckID m) (messages (tables s) @
    copies_of d (DeadLetterTopic sub) (Data m)
      (assign ''CloudPubSubDeadLetterSourceSubscription'' subscription (decodeStringMap (AttributesJSON m)))
      (tables s))\<rparr>"
proof -
  define attrs where
    "attrs = assign ''CloudPubSubDeadLetterSourceSubscription'' subscription (decodeStringMap (AttributesJSON m))"
  have "bindM (wrapM ''dead letter publish'' (Publish d (DeadLetterTopic sub) (Data m) attrs)) (\<lambda>_.
      bindM (on_table messages messages_update (delete_rows (\<lambda>r. AckID r = AckID m))) (\<lambda>_. returnM ())) s = (Inr u, s')"
    using assms unfolding dead_letter_def Let_def attrs_def .
  then obtain x s1 where pub: "wrapM ''dead letter publish'' (Publish d (DeadLetterTopic sub) (Data m) attrs) s = (Inr x, s1)"
    and del: "bindM (on_table messages messages_update (delete_rows (\<lambda>r. AckID r = AckID m))) (\<lambda>_. returnM ()) s1 = (Inr u, s')"
    unfolding bindM_Inr [of "wrapM msg a" for msg a] by blast
  from pub have "Publish d (DeadLetterTopic sub) (Data m) attrs s = (Inr x, s1)"
    by (auto simp: wrapM_def catchM_def raiseM_def returnM_def split: prod.splits sum.splits)
  then obtain y where "PublishFanout d (DeadLetterTopic sub) (Data m) attrs s = (Inr y, s1)"
    unfolding Publish_def bindM_Inr by (auto simp: returnM_def split: prod.splits)
  from PublishFanout_result [OF this] have t1: "tables s1 = (tables s)\<lparr>messages := messages (tables s) @
      copies_of d (DeadLetterTopic sub) (Data m) attrs (tables s)\<rparr>" by (auto split: prod.splits)
  from del obtain n where "on_table messages messages_update (delete_rows (\<lambda>r. AckID r = AckID m)) s1 = (Inr n, s')"
    by (blast dest: bindM_return_Inr)
  from on_table_Inr [OF this] t1 show ?thesis by (simp add: delete_rows_def attrs_def)
qed

text \<open>Dead lettering loses nothing and delivers what failed: when recording a failed push reports a dead
  letter, the message had used up its delivery attempts, it is gone from its subscription, and exactly the
  subscriptions of the dead letter topic that match received a copy with its data and its attributes,
  to which the name of the source subscription was added.\<close>
theorem dead_letter_moves:
  assumes "RecordPushDeliveryFailure d subscription a s = (Inr True, s')"
  shows "\<exists>sub m.
    find (\<lambda>s. Subscription_Name s = subscription) (subscriptions (tables s)) = Some sub \<and>
    find (\<lambda>m. Message_Subscription m = subscription \<and> AckID m = a) (messages (tables s)) = Some m \<and>
    DeadLetterTopic sub \<noteq> [] \<and> MaxDeliveryAttempts sub \<le> DeliveryAttempts m + 1 \<and>
    tables s' = (tables s)\<lparr>messages := filter (\<lambda>r. AckID r \<noteq> a) (messages (tables s) @
      copies_of d (DeadLetterTopic sub) (Data m)
        (assign ''CloudPubSubDeadLetterSourceSubscription'' subscription (decodeStringMap (AttributesJSON m)))
        (tables s))\<rparr>"
proof -
  define q where "q db = find (\<lambda>m. Message_Subscription m = subscription \<and> AckID m = a) (messages db)" for db :: PubSubDb
  define step where "step sub r = (case r of None \<Rightarrow> returnM False
      | Some m \<Rightarrow>
          if dead_lettered sub (DeliveryAttempts m + 1) then bindM (dead_letter d subscription sub m) (\<lambda>_. returnM True)
          else bindM (on_table messages messages_update
            (update_rows (\<lambda>r. AckID r = a) (\<lambda>r. r\<lparr>DeliveryAttempts := DeliveryAttempts m + 1\<rparr>))) (\<lambda>_. returnM False))"
    for sub r
  have "bindM (GetSubscription subscription) (\<lambda>r. case r of None \<Rightarrow> returnM False
      | Some sub \<Rightarrow> bindM (query q) (step sub)) s = (Inr True, s')"
    using assms unfolding RecordPushDeliveryFailure_def Let_def q_def [symmetric] step_def [symmetric] .
  then obtain r s1 where r: "GetSubscription subscription s = (Inr r, s1)"
    and rest: "(case r of None \<Rightarrow> returnM False | Some sub \<Rightarrow> bindM (query q) (step sub)) s1 = (Inr True, s')"
    unfolding bindM_Inr [of "GetSubscription x" for x] by blast
  from query_result [OF r [unfolded GetSubscription_def]] have t1: "tables s1 = tables s"
    and find: "r = find (\<lambda>s. Subscription_Name s = subscription) (subscriptions (tables s))" by simp_all
  from rest obtain sub where sub: "r = Some sub" by (cases r) (simp_all add: returnM_def)
  from rest [unfolded sub option.case bindM_Inr] obtain k s2 where k: "query q s1 = (Inr k, s2)"
    and run: "step sub k s2 = (Inr True, s')" by blast
  from query_result [OF k] t1 have t2: "tables s2 = tables s" and kq: "k = q (tables s)" by simp_all
  from run obtain m where m: "k = Some m" by (cases k) (simp_all add: step_def returnM_def)
  have dl: "dead_lettered sub (DeliveryAttempts m + 1)"
  proof (rule ccontr)
    assume "\<not> dead_lettered sub (DeliveryAttempts m + 1)"
    with run m have "bindM (on_table messages messages_update (update_rows (\<lambda>r. AckID r = a)
      (\<lambda>r. r\<lparr>DeliveryAttempts := DeliveryAttempts m + 1\<rparr>))) (\<lambda>_. returnM False) s2 = (Inr True, s')"
      by (simp add: step_def)
    then show False by (blast dest: bindM_return_Inr)
  qed
  with run m have "bindM (dead_letter d subscription sub m) (\<lambda>_. returnM True) s2 = (Inr True, s')"
    by (simp add: step_def)
  then obtain u where "dead_letter d subscription sub m s2 = (Inr u, s')" by (blast dest: bindM_return_Inr)
  note result = dead_letter_result [OF this, unfolded t2]
  from m kq have found: "find (\<lambda>m. Message_Subscription m = subscription \<and> AckID m = a) (messages (tables s)) = Some m"
    by (simp add: q_def)
  then have "AckID m = a" by (auto dest: find_SomeD)
  with result found find sub dl show ?thesis
    by (intro exI [of _ sub] exI [of _ m]) (simp add: dead_lettered_def)
qed

text \<open>The fraction of a second matters: a lease that ends half a second later counts as over at the whole second,
  because the text of the whole second comes after the texts of its fractions.\<close>

lemma lease_ends_early: "available (FormatRFC3339Nano 0) (lease (FormatRFC3339Nano 500000000) n m)"
  using stamp_order_misses(1) by (simp add: available_def lease_def)

section \<open>Instances\<close>

definition example_subscription :: "string \<Rightarrow> string \<Rightarrow> string \<Rightarrow> int \<Rightarrow> PubSubSubscription" where
  "example_subscription name topic dlt attempts =
     \<lparr>Subscription_Name = name, Subscription_Topic = topic, Subscription_ProjectID = ''p'', AckDeadlineSeconds = 10,
      PushEndpoint = [], Subscription_Labels = [], Filter = [], DeadLetterTopic = dlt,
      MaxDeliveryAttempts = attempts, EnableExactlyOnceDelivery = False, OidcServiceAccountEmail = [],
      OidcAudience = [], Subscription_CreatedAt = FormatRFC3339Nano 0\<rparr>"

definition example_message :: PubSubMessage where
  "example_message =
     \<lparr>Message_ID = ''m'', Message_Subscription = ''s'', Message_Topic = ''t'', Data = ''x'',
      AttributesJSON = encodeStringMap [], PublishTime = FormatRFC3339Nano 0, AckID = ''a'',
      AckDeadline = None, Delivered = False, DeliveryAttempts = 4\<rparr>"

definition example_pubsub :: "int \<Rightarrow> PubSubDb connection" where
  "example_pubsub attempts =
     \<lparr>tables = \<lparr>topics =
          [\<lparr>Topic_Name = ''t'', Topic_ProjectID = ''p'', Topic_Labels = [], Topic_CreatedAt = FormatRFC3339Nano 0\<rparr>],
        subscriptions = [example_subscription ''s'' ''t'' (if attempts = 0 then [] else ''t'') attempts],
        messages = [example_message], snapshots = []\<rparr>, faults = []\<rparr>"

definition example_draw :: draw where
  "example_draw = \<lparr>draw_id = ''n'', draw_ack = (\<lambda>name. ''b''), draw_time = 1\<rparr>"

lemma example_filter: "parseAttributeEqualityFilter [] = Inr []" "messageMatchesFilter [] m"
  by (simp_all add: parseAttributeEqualityFilter_def messageMatchesFilter_def)

lemma example_pubsub_ok: "pubsub_ok (tables (example_pubsub 0))" "pubsub_ok (tables (example_pubsub 5))"
  by (simp_all add: pubsub_ok_def example_pubsub_def subscription_ok_def message_ok_def example_message_def
      example_subscription_def example_filter keys_distinct_def)

theorem pubsub_invariant_witness:
  "\<exists>s'. run (example_pubsub 5) [(DeleteTopicOp ''t'', Inr [])] s' \<and> pubsub_ok (tables s')"
proof -
  have "\<exists>s'. perform (DeleteTopicOp ''t'') (example_pubsub 5) = (Inr [], s')"
    by (simp add: DeleteTopic_def silent_def example_pubsub_def action_eval returnM_def)
  then obtain s' where "perform (DeleteTopicOp ''t'') (example_pubsub 5) = (Inr [], s')" ..
  then have "run (example_pubsub 5) [(DeleteTopicOp ''t'', Inr [])] s'" by (blast intro: runs.intros)
  with pubsub_invariant [OF this example_pubsub_ok(2)] show ?thesis by blast
qed

lemma example_unique: "keys_distinct Subscription_Name (subscriptions (tables (example_pubsub n)))"
  by (simp add: keys_distinct_def example_pubsub_def)

lemma example_publish:
  "\<exists>s'. PublishFanout example_draw ''t'' ''y'' [] (example_pubsub 0) =
     (Inr (''n'', [message_copy example_draw ''t'' ''y'' [] (example_subscription ''s'' ''t'' [] 0)]), s')"
  by (simp add: PublishFanout_def GetTopic_def ListSubscriptionsForTopic_def example_pubsub_def action_eval
      example_filter example_subscription_def message_copy_def example_draw_def same_def example_message_def
      returnM_def Let_def)

theorem publish_all_or_nothing_witness:
  "\<exists>s' copies. PublishFanout example_draw ''t'' ''y'' [] (example_pubsub 0) = (Inr (''n'', copies), s') \<and>
     filter (\<lambda>m. Message_Subscription m = ''s'') copies =
       [message_copy example_draw ''t'' ''y'' [] (example_subscription ''s'' ''t'' [] 0)]"
proof -
  from example_publish obtain s' copies where s': "PublishFanout example_draw ''t'' ''y'' [] (example_pubsub 0) =
     (Inr (''n'', copies), s')" by blast
  have "filter (\<lambda>m. Message_Subscription m = ''s'') copies =
       [message_copy example_draw ''t'' ''y'' [] (example_subscription ''s'' ''t'' [] 0)]"
    using publish_all_or_nothing [OF s' example_unique]
    by (simp add: example_pubsub_def example_subscription_def example_filter)
  with s' show ?thesis by blast
qed

lemma example_pull:
  "\<exists>s'. Pull (\<lambda>_. example_draw) 0 ''s'' 1 (example_pubsub 0) =
     (Inr [lease (FormatRFC3339Nano (10 * 10 ^ 9)) 5 example_message], s')"
  by (simp add: Pull_def GetSubscription_def example_pubsub_def action_eval example_subscription_def
      pull_candidates_def fetch_window_def int64_def example_message_def available_def dead_lettered_def
      lease_end_def Let_def returnM_def)

theorem pull_returns_witness:
  "\<exists>s'. Pull (\<lambda>_. example_draw) 0 ''s'' 1 (example_pubsub 0) =
     (Inr [lease (FormatRFC3339Nano (10 * 10 ^ 9)) 5 example_message], s') \<and>
   (\<exists>sub. find (\<lambda>s. Subscription_Name s = ''s'') (subscriptions (tables (example_pubsub 0))) = Some sub \<and>
      [lease (FormatRFC3339Nano (10 * 10 ^ 9)) 5 example_message] =
        map (\<lambda>m. lease (lease_end 0 sub) (DeliveryAttempts m + 1) m) [example_message])"
proof -
  from example_pull obtain s' where s': "Pull (\<lambda>_. example_draw) 0 ''s'' 1 (example_pubsub 0) =
     (Inr [lease (FormatRFC3339Nano (10 * 10 ^ 9)) 5 example_message], s')" ..
  with pull_returns [OF s'] show ?thesis
    by (auto simp: example_pubsub_def example_subscription_def lease_end_def int64_def example_message_def)
qed

theorem lease_exclusive_witness:
  "\<exists>s1 r s2. Pull (\<lambda>_. example_draw) 0 ''s'' 1 (example_pubsub 0) =
       (Inr [lease (FormatRFC3339Nano (10 * 10 ^ 9)) 5 example_message], s1) \<and>
     run s1 [(PullOp (\<lambda>_. example_draw) 5 ''s'' 1, r)] s2 \<and>
     (\<forall>out. r = Inr out \<longrightarrow> ''a'' \<notin> AckID ` set out)"
proof -
  let ?m = "lease (FormatRFC3339Nano (10 * 10 ^ 9)) 5 example_message"
  from example_pull obtain s1 where s1: "Pull (\<lambda>_. example_draw) 0 ''s'' 1 (example_pubsub 0) = (Inr [?m], s1)" ..
  obtain r s2 where r: "perform (PullOp (\<lambda>_. example_draw) 5 ''s'' 1) s1 = (r, s2)" by fastforce
  then have run: "run s1 [(PullOp (\<lambda>_. example_draw) 5 ''s'' 1, r)] s2" by (blast intro: runs.intros)
  have a: "AckID ?m = ''a''" by (simp add: example_message_def)
  have sub: "find (\<lambda>s. Subscription_Name s = ''s'') (subscriptions (tables (example_pubsub 0))) =
      Some (example_subscription ''s'' ''t'' [] 0)"
    by (simp add: example_pubsub_def example_subscription_def)
  have av: "avoids (AckID ?m) example_draw" by (simp add: avoids_def example_draw_def example_message_def)
  have "\<forall>(op, r) \<in> set [(PullOp (\<lambda>_. example_draw) 5 ''s'' 1, r)]. \<forall>out'. r = Inr out' \<longrightarrow> AckID ?m \<notin> AckID ` set out'"
    by (rule lease_exclusive [OF example_pubsub_ok(1) s1 _ sub av run])
       (use av in \<open>simp_all add: example_subscription_def int64_def\<close>)
  with s1 run a show ?thesis by auto
qed

theorem acknowledge_exact_witness:
  "\<exists>s'. Acknowledge ''s'' [''a''] (example_pubsub 0) = (Inr (), s') \<and> messages (tables s') = []"
proof -
  have "\<exists>s'. Acknowledge ''s'' [''a''] (example_pubsub 0) = (Inr (), s')"
    by (simp add: Acknowledge_def example_pubsub_def action_eval returnM_def)
  then obtain s' where s': "Acknowledge ''s'' [''a''] (example_pubsub 0) = (Inr (), s')" ..
  from acknowledge_exact [OF s'] show ?thesis using s' by (simp add: example_pubsub_def example_message_def)
qed

lemma example_dead_letter:
  "\<exists>s'. RecordPushDeliveryFailure example_draw ''s'' ''a'' (example_pubsub 5) = (Inr True, s')"
proof -
  define attrs where "attrs = assign ''CloudPubSubDeadLetterSourceSubscription'' ''s'' (decodeStringMap (encodeStringMap []))"
  let ?sub = "example_subscription ''s'' ''t'' ''t'' 5"
  have sub: "GetSubscription ''s'' (example_pubsub 5) = (Inr (Some ?sub), example_pubsub 5)"
    by (simp add: GetSubscription_def example_pubsub_def action_eval example_subscription_def)
  obtain y s1 where "PublishFanout example_draw ''t'' ''x'' attrs (example_pubsub 5) = (Inr y, s1)" "faults s1 = []"
    by (simp add: PublishFanout_def GetTopic_def ListSubscriptionsForTopic_def example_pubsub_def action_eval
      example_filter example_subscription_def message_copy_def example_draw_def same_def example_message_def
      returnM_def Let_def)
  then have "bindM (wrapM msg (Publish example_draw ''t'' ''x'' attrs)) f (example_pubsub 5) = f (fst y) s1"
    for f :: "string \<Rightarrow> (PubSubDb, unit) action" and msg
    by (simp add: bindM_def wrapM_def catchM_def Publish_def case_prod_beta)
  then have "\<exists>s2. dead_letter example_draw ''s'' ?sub example_message (example_pubsub 5) = (Inr (), s2)"
    using \<open>faults s1 = []\<close>
    by (simp add: dead_letter_def Let_def attrs_def [symmetric] example_subscription_def example_message_def ok_connection_def)
  then obtain s2 where s2: "dead_letter example_draw ''s'' ?sub example_message (example_pubsub 5) = (Inr (), s2)" ..
  have msg: "query (\<lambda>db. find (\<lambda>m. Message_Subscription m = ''s'' \<and> AckID m = ''a'') (messages db)) (example_pubsub 5) =
      (Inr (Some example_message), example_pubsub 5)"
    by (simp add: example_pubsub_def action_eval example_message_def)
  have dl: "dead_lettered ?sub (DeliveryAttempts example_message + 1)"
    by (simp add: dead_lettered_def example_subscription_def example_message_def)
  show ?thesis
    unfolding RecordPushDeliveryFailure_def
    by (simp add: bindM_def sub msg s2 dl)
qed

theorem dead_letter_moves_witness:
  "\<exists>s'. RecordPushDeliveryFailure example_draw ''s'' ''a'' (example_pubsub 5) = (Inr True, s') \<and>
     map AckID (messages (tables s')) = [''b'']"
proof -
  from example_dead_letter obtain s' where
    s': "RecordPushDeliveryFailure example_draw ''s'' ''a'' (example_pubsub 5) = (Inr True, s')" ..
  from dead_letter_moves [OF s'] show ?thesis
  proof (elim exE conjE)
    fix sub m
    assume sub: "find (\<lambda>s. Subscription_Name s = ''s'') (subscriptions (tables (example_pubsub 5))) = Some sub"
    and m: "tables s' = (tables (example_pubsub 5))\<lparr>messages := filter (\<lambda>r. AckID r \<noteq> ''a'')
      (messages (tables (example_pubsub 5)) @
       copies_of example_draw (DeadLetterTopic sub) (Data m)
         (assign ''CloudPubSubDeadLetterSourceSubscription'' ''s'' (decodeStringMap (AttributesJSON m)))
         (tables (example_pubsub 5)))\<rparr>"
    define attrs where
      "attrs = assign ''CloudPubSubDeadLetterSourceSubscription'' ''s'' (decodeStringMap (AttributesJSON m))"
    have sub': "sub = example_subscription ''s'' ''t'' ''t'' 5"
      using sub by (simp add: example_pubsub_def example_subscription_def)
    have copies: "copies_of example_draw (DeadLetterTopic sub) (Data m) attrs (tables (example_pubsub 5)) =
        [message_copy example_draw ''t'' (Data m) attrs sub]"
      unfolding sub' by (simp add: copies_of_def example_pubsub_def example_subscription_def example_filter)
    have "map AckID (messages (tables s')) = [''b'']"
      unfolding m [folded attrs_def] copies
      by (simp add: example_pubsub_def example_message_def message_copy_def example_draw_def)
    with s' show ?thesis by (intro exI [of _ s'] conjI)
  qed
qed

theorem string_map_roundtrip_witness:
  "map_of (decodeStringMap (encodeStringMap [(''k'', ''v''), (''a'', ''b'')])) ''k'' = Some ''v''"
  using string_map_roundtrip [of "[(''k'', ''v''), (''a'', ''b'')]"] by simp

end
