(* ===== verification/Secrets_Store.thy ===== *)
theory Secrets_Store
  imports Sql_Monad Go_Json Go_Time
begin

text \<open>
  Secret Manager's store: \<^verbatim>\<open>internal/store/secrets.go\<close>, every operation of it, and the sealing of payloads of
  \<^verbatim>\<open>internal/store/seal.go\<close>.

  The AEAD under the master key is a parameter: \<open>aead_Seal\<close> and \<open>aead_Open\<close> of a nonce, with the master key
  already chosen. A nonce is what the random source gives, or its error. Parsing and printing of the rotation
  times (\<^verbatim>\<open>time.Parse\<close>, \<^verbatim>\<open>time.Format\<close>, \<^verbatim>\<open>strconv.ParseFloat\<close>) and the \<^verbatim>\<open>float64\<close> they use are the fields of \<open>time_lib\<close>. Columns that hold
  maps as JSON are the maps they denote.
\<close>

section \<open>Sealing\<close>

record aead =
  aead_Seal :: "string \<Rightarrow> string \<Rightarrow> string"
  aead_Open :: "string \<Rightarrow> string \<Rightarrow> string option"

definition NonceSize :: nat where
  "NonceSize = 12"

definition Seal :: "aead \<Rightarrow> error + string \<Rightarrow> string \<Rightarrow> error + string" where
  "Seal A random plaintext = bindE random (\<lambda>nonce. Inr (nonce @ aead_Seal A nonce plaintext))"

definition Unseal :: "aead \<Rightarrow> string \<Rightarrow> error + string" where
  "Unseal A ciphertext =
     (if length ciphertext < NonceSize then Inl (Errorf ''ciphertext too short'')
      else case aead_Open A (take NonceSize ciphertext) (drop NonceSize ciphertext) of
          None \<Rightarrow> Inl (Errorf ''chacha20poly1305: message authentication failed'')
        | Some plain \<Rightarrow> Inr plain)"

section \<open>Tables\<close>

record Secret =
  Secret_Name :: string
  Secret_ProjectID :: string
  Labels :: string_map
  Annotations :: string_map
  Replication :: "(string \<times> json) list"
  CMEKKmsKeyName :: string
  RotationPeriod :: string
  NextRotationTime :: string
  TopicsJSON :: document
  Secret_CreatedAt :: stamp

record SecretVersion =
  Version_Name :: string
  SecretName :: string
  VersionID :: string
  PayloadCiphertext :: string
  State :: string
  Version_CreatedAt :: stamp

record SecretDb =
  secrets :: "Secret list"
  secret_versions :: "SecretVersion list"

definition SecretVersionEnabled :: string where "SecretVersionEnabled = ''ENABLED''"

definition SecretVersionDisabled :: string where "SecretVersionDisabled = ''DISABLED''"

definition SecretVersionDestroyed :: string where "SecretVersionDestroyed = ''DESTROYED''"

text \<open>\<open>CAST(version\_id AS INTEGER)\<close> of a column that holds digits.\<close>

definition cast_integer :: "string \<Rightarrow> nat" where
  "cast_integer s = decimal_value (takeWhile is_digit s)"

section \<open>Secrets\<close>

definition marshal_topics :: "string_map list \<Rightarrow> document" where
  "marshal_topics topics = Json (JArr (map (\<lambda>m. marshal_map (map (\<lambda>(k, v). (k, JStr v)) m)) topics))"

definition CreateSecretWithRotation ::
  "int \<Rightarrow> string \<Rightarrow> string \<Rightarrow> string_map \<Rightarrow> string_map \<Rightarrow> (string \<times> json) list option \<Rightarrow> string \<Rightarrow> string \<Rightarrow> string \<Rightarrow>
     string_map list \<Rightarrow> (SecretDb, Secret option) action" where
  "CreateSecretWithRotation now name projectID labels annotations replication cmekKmsKeyName rotationPeriod
     nextRotationTime topics =
     (let name = TrimSpace name; projectID = TrimSpace projectID in
      if name = [] \<or> projectID = [] then raiseM (Errorf ''secret name and project required'')
      else
        let sec = \<lparr>Secret_Name = name, Secret_ProjectID = projectID, Labels = labels,
              Annotations = annotations,
              Replication = (case replication of None \<Rightarrow> [(''automatic'', JObj [])] | Some r \<Rightarrow> r),
              CMEKKmsKeyName = TrimSpace cmekKmsKeyName, RotationPeriod = TrimSpace rotationPeriod,
              NextRotationTime = TrimSpace nextRotationTime, TopicsJSON = marshal_topics topics,
              Secret_CreatedAt = FormatRFC3339Nano now\<rparr> in
        bindM (on_table secrets secrets_update (insert_or_ignore (same Secret_Name) sec)) (\<lambda>n.
        returnM (if n = 0 then None else Some sec)))"

definition CreateSecretWithMeta ::
  "int \<Rightarrow> string \<Rightarrow> string \<Rightarrow> string_map \<Rightarrow> string_map \<Rightarrow> (string \<times> json) list option \<Rightarrow> string \<Rightarrow>
     (SecretDb, Secret option) action" where
  "CreateSecretWithMeta now name projectID labels annotations replication cmekKmsKeyName =
     CreateSecretWithRotation now name projectID labels annotations replication cmekKmsKeyName [] [] []"

definition CreateSecret :: "int \<Rightarrow> string \<Rightarrow> string \<Rightarrow> (SecretDb, Secret option) action" where
  "CreateSecret now name projectID = CreateSecretWithMeta now name projectID [] [] None []"

definition GetSecret :: "string \<Rightarrow> (SecretDb, Secret option) action" where
  "GetSecret name = query (\<lambda>db. find (\<lambda>s. Secret_Name s = name) (secrets db))"

definition PatchSecretMeta ::
  "string \<Rightarrow> string_map option \<Rightarrow> string_map option \<Rightarrow> string option \<Rightarrow> string option \<Rightarrow> string_map list option \<Rightarrow>
     (SecretDb, Secret) action" where
  "PatchSecretMeta name labels annotations rotationPeriod nextRotationTime topics =
     bindM (GetSecret name) (\<lambda>sec.
       case sec of
         None \<Rightarrow> raiseM (Errorf ''secret not found'')
       | Some sec \<Rightarrow>
           let sec = sec\<lparr>Labels := or_keep (\<lambda>m. m) labels (Labels sec),
                 Annotations := or_keep (\<lambda>m. m) annotations (Annotations sec),
                 RotationPeriod := or_keep TrimSpace rotationPeriod (RotationPeriod sec),
                 NextRotationTime := or_keep TrimSpace nextRotationTime (NextRotationTime sec),
                 TopicsJSON := (case topics of None \<Rightarrow> TopicsJSON sec | Some ts \<Rightarrow> marshal_topics ts)\<rparr> in
           bindM (on_table secrets secrets_update (update_rows (\<lambda>r. Secret_Name r = name)
             (\<lambda>r. r\<lparr>Labels := Labels sec, Annotations := Annotations sec, RotationPeriod := RotationPeriod sec,
                NextRotationTime := NextRotationTime sec, TopicsJSON := TopicsJSON sec\<rparr>))) (\<lambda>_.
           returnM sec))"

definition PatchSecret ::
  "string \<Rightarrow> string_map option \<Rightarrow> string_map option \<Rightarrow> (SecretDb, Secret) action" where
  "PatchSecret name labels annotations = PatchSecretMeta name labels annotations None None None"

definition ListSecrets :: "string \<Rightarrow> (SecretDb, Secret list) action" where
  "ListSecrets projectID =
     query (\<lambda>db. sort_key Secret_Name (filter (\<lambda>s. Secret_ProjectID s = projectID) (secrets db)))"

definition DeleteSecret :: "string \<Rightarrow> (SecretDb, bool) action" where
  "DeleteSecret name =
     transaction
       (bindM (on_table secret_versions secret_versions_update (delete_rows (\<lambda>v. SecretName v = name))) (\<lambda>_.
        bindM (on_table secrets secrets_update (delete_rows (\<lambda>s. Secret_Name s = name))) (\<lambda>n.
        returnM (n > 0))))"

section \<open>Versions\<close>

definition max_version :: "string \<Rightarrow> SecretDb \<Rightarrow> nat" where
  "max_version secretName db =
     fold max (map (\<lambda>v. cast_integer (VersionID v))
       (filter (\<lambda>v. SecretName v = secretName) (secret_versions db))) 0"

definition version_name :: "string \<Rightarrow> string \<Rightarrow> string" where
  "version_name secretName versionID = secretName @ ''/versions/'' @ versionID"

definition AddSecretVersion ::
  "aead \<Rightarrow> int \<Rightarrow> error + string \<Rightarrow> string \<Rightarrow> string \<Rightarrow> (SecretDb, SecretVersion) action" where
  "AddSecretVersion A now random secretName plaintext =
     bindM (GetSecret secretName) (\<lambda>sec.
       case sec of
         None \<Rightarrow> raiseM (Errorf ''secret not found'')
       | Some _ \<Rightarrow>
           bindM (query (max_version secretName)) (\<lambda>maxID.
             let versionID = itoa (maxID + 1) in
             bindM (wrapM ''seal secret payload'' (liftE (Seal A random plaintext))) (\<lambda>sealed.
             let v = \<lparr>Version_Name = version_name secretName versionID, SecretName = secretName,
                   VersionID = versionID, PayloadCiphertext = sealed, State = SecretVersionEnabled,
                   Version_CreatedAt = FormatRFC3339Nano now\<rparr> in
             bindM (on_table_checked secret_versions secret_versions_update
               (insert_row (same Version_Name) v)) (\<lambda>_. returnM v))))"

text \<open>\<open>ORDER BY CAST(version\_id AS INTEGER) DESC LIMIT 1\<close>.\<close>

definition latest_version :: "string \<Rightarrow> SecretDb \<Rightarrow> SecretVersion option" where
  "latest_version secretName db =
     (case sort_key (\<lambda>v. - int (cast_integer (VersionID v)))
        (filter (\<lambda>v. SecretName v = secretName) (secret_versions db)) of
        [] \<Rightarrow> None
      | v # _ \<Rightarrow> Some v)"

definition GetSecretVersion :: "string \<Rightarrow> string \<Rightarrow> (SecretDb, SecretVersion option) action" where
  "GetSecretVersion secretName versionID =
     (let versionID = TrimSpace versionID in
      if versionID = [] \<or> versionID = ''latest'' then query (latest_version secretName)
      else query (\<lambda>db. find (\<lambda>v. SecretName v = secretName \<and> VersionID v = versionID) (secret_versions db)))"

definition AccessSecretVersion ::
  "aead \<Rightarrow> string \<Rightarrow> string \<Rightarrow> (SecretDb, string \<times> SecretVersion) action" where
  "AccessSecretVersion A secretName versionID =
     bindM (GetSecretVersion secretName versionID) (\<lambda>v.
       case v of
         None \<Rightarrow> raiseM (Errorf ''version not found'')
       | Some v \<Rightarrow>
           if State v = SecretVersionDestroyed then raiseM (Errorf ''secret version destroyed'')
           else if State v = SecretVersionDisabled then raiseM (Errorf ''secret version disabled'')
           else if State v = SecretVersionEnabled then
             bindM (wrapM ''unseal secret payload'' (liftE (Unseal A (PayloadCiphertext v)))) (\<lambda>plain.
             returnM (plain, v))
           else raiseM (Errorf ''secret version state''))"

definition SetSecretVersionState ::
  "string \<Rightarrow> string \<Rightarrow> string \<Rightarrow> (SecretDb, SecretVersion) action" where
  "SetSecretVersionState secretName versionID state =
     bindM (GetSecretVersion secretName versionID) (\<lambda>v.
       case v of
         None \<Rightarrow> raiseM (Errorf ''version not found'')
       | Some v \<Rightarrow>
           if State v = SecretVersionDestroyed then raiseM (Errorf ''secret version destroyed'')
           else if state \<notin> set [SecretVersionEnabled, SecretVersionDisabled, SecretVersionDestroyed] then
             raiseM (Errorf ''invalid state'')
           else if state = SecretVersionDestroyed then
             bindM (on_table secret_versions secret_versions_update
               (update_rows (\<lambda>r. Version_Name r = Version_Name v) (\<lambda>r. r\<lparr>State := state, PayloadCiphertext := []\<rparr>)))
               (\<lambda>_. returnM (v\<lparr>State := state, PayloadCiphertext := []\<rparr>))
           else
             bindM (on_table secret_versions secret_versions_update
               (update_rows (\<lambda>r. Version_Name r = Version_Name v) (\<lambda>r. r\<lparr>State := state\<rparr>)))
               (\<lambda>_. returnM (v\<lparr>State := state\<rparr>)))"

definition ListSecretVersions :: "string \<Rightarrow> string \<Rightarrow> (SecretDb, SecretVersion list) action" where
  "ListSecretVersions secretName stateFilter =
     (let stateFilter = ToUpper (TrimSpace stateFilter) in
      query (\<lambda>db. sort_key (\<lambda>v. cast_integer (VersionID v))
        (filter (\<lambda>v. SecretName v = secretName \<and> (stateFilter = [] \<or> State v = stateFilter))
          (secret_versions db))))"

definition ParseSecretVersionName :: "string \<Rightarrow> (string \<times> string) option" where
  "ParseSecretVersionName name =
     (let name = TrimSpace name; marker = ''/versions/'' in
      case LastIndex name marker of
        None \<Rightarrow> None
      | Some i \<Rightarrow> Some (take i name, drop (i + length marker) name))"

section \<open>Rotation\<close>

text \<open>\<open>positive\<close> is \<^verbatim>\<open>secs > 0\<close> on a \<^verbatim>\<open>float64\<close>, \<open>seconds\<close> is \<^verbatim>\<open>time.Duration(secs * float64(time.Second))\<close>.\<close>

record 'f time_lib =
  time_Parse :: "string \<Rightarrow> string \<Rightarrow> int option"
  time_Format :: "int \<Rightarrow> string"
  ParseFloat :: "string \<Rightarrow> 'f option"
  positive :: "'f \<Rightarrow> bool"
  seconds :: "'f \<Rightarrow> int"

definition advanceRotationTime :: "'f time_lib \<Rightarrow> string \<Rightarrow> string \<Rightarrow> string option" where
  "advanceRotationTime L nextRFC3339 period =
     (case (case time_Parse L ''RFC3339Nano'' nextRFC3339 of
              None \<Rightarrow> time_Parse L ''RFC3339'' nextRFC3339
            | Some t \<Rightarrow> Some t) of
        None \<Rightarrow> None
      | Some t \<Rightarrow>
          let period = TrimSpace period in
          if \<not> HasSuffix period ''s'' then None
          else case ParseFloat L (TrimSuffix period ''s'') of
              None \<Rightarrow> None
            | Some secs \<Rightarrow> if \<not> positive L secs then None else Some (time_Format L (t + seconds L secs)))"

definition RotateSecretTheatre ::
  "aead \<Rightarrow> 'f time_lib \<Rightarrow> int \<Rightarrow> error + string \<Rightarrow> string \<Rightarrow> string \<Rightarrow> (SecretDb, SecretVersion \<times> Secret) action" where
  "RotateSecretTheatre A L now random secretName payload =
     bindM (GetSecret secretName) (\<lambda>sec.
       case sec of
         None \<Rightarrow> raiseM (Errorf ''secret not found'')
       | Some sec \<Rightarrow>
           bindM (if payload \<noteq> [] then returnM payload
                  else bindM (GetSecretVersion secretName ''latest'') (\<lambda>prev.
                    case prev of
                      None \<Rightarrow> returnM ''rotated''
                    | Some prev \<Rightarrow>
                        if State prev = SecretVersionEnabled then
                          wrapM ''unseal previous version'' (liftE (Unseal A (PayloadCiphertext prev)))
                        else returnM ''rotated'')) (\<lambda>plain.
           bindM (AddSecretVersion A now random secretName plain) (\<lambda>v.
             if RotationPeriod sec \<noteq> [] \<and> NextRotationTime sec \<noteq> [] then
               (case advanceRotationTime L (NextRotationTime sec) (RotationPeriod sec) of
                  None \<Rightarrow> returnM (v, sec)
                | Some next \<Rightarrow>
                    catchM (on_table secrets secrets_update (update_rows (\<lambda>r. Secret_Name r = secretName)
                        (\<lambda>r. r\<lparr>NextRotationTime := next\<rparr>)))
                      (\<lambda>_. returnM (v, sec\<lparr>NextRotationTime := next\<rparr>)))
             else returnM (v, sec))))"

end
