(* ===== verification/Secrets_Invariant.thy ===== *)
theory Secrets_Invariant
  imports Secrets_Store "HOL-Library.Multiset"
begin

text \<open>
  The invariant of the tables of Secret Manager: unique names, versions named after their secret and numbered
  in the order they were added. Every operation keeps it, whatever statement fails, and so does a run of
  operations. On tables that satisfy it a version is found by its secret and number, and the newest one is the
  last one added.
\<close>

declare upt_Suc [simp del]

section \<open>The invariant of the tables\<close>

definition versions_of :: "string \<Rightarrow> SecretDb \<Rightarrow> SecretVersion list" where
  "versions_of name db = filter (\<lambda>v. SecretName v = name) (secret_versions db)"

definition version_ok :: "SecretVersion \<Rightarrow> bool" where
  "version_ok v \<longleftrightarrow> Version_Name v = version_name (SecretName v) (VersionID v) \<and>
     State v \<in> {SecretVersionEnabled, SecretVersionDisabled, SecretVersionDestroyed} \<and>
     (State v = SecretVersionDestroyed \<longrightarrow> PayloadCiphertext v = [])"

definition secrets_ok :: "SecretDb \<Rightarrow> bool" where
  "secrets_ok db \<longleftrightarrow>
     keys_distinct Secret_Name (secrets db) \<and> keys_distinct Version_Name (secret_versions db) \<and>
     (\<forall>v \<in> set (secret_versions db). version_ok v \<and> SecretName v \<in> Secret_Name ` set (secrets db)) \<and>
     (\<forall>name. map VersionID (versions_of name db) = map itoa [1..<Suc (length (versions_of name db))])"

lemma states_distinct [simp]:
  "SecretVersionEnabled \<noteq> SecretVersionDisabled" "SecretVersionEnabled \<noteq> SecretVersionDestroyed"
  "SecretVersionDisabled \<noteq> SecretVersionDestroyed" "SecretVersionDisabled \<noteq> SecretVersionEnabled"
  "SecretVersionDestroyed \<noteq> SecretVersionEnabled" "SecretVersionDestroyed \<noteq> SecretVersionDisabled"
  by (simp_all add: SecretVersionEnabled_def SecretVersionDisabled_def SecretVersionDestroyed_def)

lemma cast_integer_itoa [simp]: "cast_integer (itoa n) = n"
proof -
  have "takeWhile is_digit (itoa n) = itoa n" using itoa_digits by (simp add: takeWhile_eq_all_conv)
  then show ?thesis unfolding cast_integer_def by (simp only: decimal_value_itoa)
qed

lemma fold_max_upt: "fold max [1..<Suc k] (0::nat) = k"
  by (induction k) (auto simp: upt_Suc)

lemma upt_snoc: "[Suc 0..<Suc (Suc k)] = [Suc 0..<Suc k] @ [Suc k]"
  by (simp add: upt_Suc)

lemma numbers_of_versions:
  assumes "secrets_ok db"
  shows "map (\<lambda>v. cast_integer (VersionID v)) (versions_of name db) = [1..<Suc (length (versions_of name db))]"
proof -
  have "map cast_integer (map VersionID (versions_of name db)) =
      map cast_integer (map itoa [1..<Suc (length (versions_of name db))])"
    using assms by (simp only: secrets_ok_def)
  then show ?thesis by (simp add: comp_def)
qed

lemma max_version_length:
  assumes "secrets_ok db"
  shows "max_version name db = length (versions_of name db)"
  unfolding max_version_def versions_of_def [symmetric] numbers_of_versions [OF assms] by (rule fold_max_upt)

lemma latest_version_last:
  assumes "secrets_ok db"
  shows "latest_version name db =
     (if versions_of name db = [] then None else Some (last (versions_of name db)))"
proof -
  define vs where "vs = versions_of name db"
  have ids: "map (\<lambda>v. cast_integer (VersionID v)) vs = [1..<Suc (length vs)]"
    unfolding vs_def by (rule numbers_of_versions [OF assms])
  have sorted: "sorted (map (\<lambda>v. - int (cast_integer (VersionID v))) (rev vs))"
  proof -
    have "map (\<lambda>v. - int (cast_integer (VersionID v))) (rev vs) =
        rev (map (\<lambda>n. - int n) (map (\<lambda>v. cast_integer (VersionID v)) vs))"
      by (simp add: rev_map comp_def)
    moreover have "sorted (rev (map (\<lambda>n. - int n) [a..<b]))" for a b
      by (induction b) (auto simp: less_imp_le upt_Suc)
    ultimately show ?thesis using ids by (simp only:)
  qed
  have "distinct (map (\<lambda>v. cast_integer (VersionID v)) vs)" by (simp only: ids distinct_upt)
  then have "inj_on (\<lambda>v. - int (cast_integer (VersionID v))) (set vs)"
    by (auto simp: distinct_map inj_on_def)
  from sort_key_inj_key_eq [OF mset_rev [symmetric] this sorted]
  have "sort_key (\<lambda>v. - int (cast_integer (VersionID v))) vs = rev vs" .
  then show ?thesis
    unfolding latest_version_def versions_of_def [symmetric] vs_def [symmetric]
    by (cases vs rule: rev_cases) simp_all
qed

section \<open>Every operation keeps the invariant\<close>

lemma secrets_on_secrets [preserves_intros]:
  assumes "keeps Secret_Name f" and "\<And>t. Secret_Name ` set t \<subseteq> Secret_Name ` set (snd (f t))"
  shows "preserves secrets_ok (on_table secrets secrets_update f)"
proof (rule preserves_on_table)
  fix db n t
  assume ok: "secrets_ok db" and "f (secrets db) = (n, t)"
  then have t: "t = snd (f (secrets db))" by simp
  have "keys_distinct Secret_Name t"
    using assms(1) ok t by (auto simp: keeps_def secrets_ok_def)
  moreover have "SecretName v \<in> Secret_Name ` set t" if "v \<in> set (secret_versions db)" for v
    using ok that assms(2) [of "secrets db"] t by (auto simp: secrets_ok_def)
  ultimately show "secrets_ok (secrets_update (\<lambda>_. t) db)"
    using ok by (auto simp: secrets_ok_def versions_of_def)
qed

lemma keys_of_update: "(\<And>r. key (f r) = key r) \<Longrightarrow> key ` set (map (\<lambda>r. if C r then f r else r) t) = key ` set t"
  by (induction t) auto

lemma create_secret_ok:
  "preserves secrets_ok (CreateSecretWithRotation now name p labels ann repl cmek period nxt topics)"
  unfolding CreateSecretWithRotation_def
  by (intro preserves_intros) (auto simp: same_def insert_or_ignore_def)

lemma patch_secret_ok: "preserves secrets_ok (PatchSecretMeta name labels ann period nxt topics)"
  unfolding PatchSecretMeta_def GetSecret_def
  by (intro preserves_intros) (simp_all only: snd_update_rows, simp_all add: keys_of_update del: set_map)

lemma version_update_ok:
  assumes "\<And>r. version_ok r \<Longrightarrow> C r \<Longrightarrow> version_ok (f r)"
    and "\<And>r. Version_Name (f r) = Version_Name r" "\<And>r. SecretName (f r) = SecretName r"
      "\<And>r. VersionID (f r) = VersionID r"
  shows "preserves secrets_ok (on_table secret_versions secret_versions_update (update_rows C f))"
proof (rule preserves_on_table)
  fix db n t
  assume ok: "secrets_ok db" and "update_rows C f (secret_versions db) = (n, t)"
  then have t: "t = map (\<lambda>r. if C r then f r else r) (secret_versions db)" by (simp add: update_rows_def)
  have of: "versions_of name (secret_versions_update (\<lambda>_. t) db) =
      map (\<lambda>r. if C r then f r else r) (versions_of name db)" for name
    by (auto simp: versions_of_def t filter_map comp_def assms(3) intro!: arg_cong [where f = "map _"] filter_cong)
  have name: "Version_Name (if C r then f r else r) = Version_Name r"
    "VersionID (if C r then f r else r) = VersionID r" for r
    by (simp_all add: assms)
  have "map Version_Name t = map Version_Name (secret_versions db)" by (simp add: t name)
  moreover have "version_ok v \<and> SecretName v \<in> Secret_Name ` set (secrets db)" if "v \<in> set t" for v
    using that ok assms(1,3) by (fastforce simp: t secrets_ok_def split: if_splits)
  moreover have "map VersionID (map (\<lambda>r. if C r then f r else r) vs) = map VersionID vs" for vs
    by (simp add: name)
  ultimately show "secrets_ok (secret_versions_update (\<lambda>_. t) db)"
    using ok unfolding secrets_ok_def keys_distinct_def of length_map
    by (simp del: map_map)
qed

lemma set_state_ok: "preserves secrets_ok (SetSecretVersionState name vid state)"
proof -
  have upd: "preserves secrets_ok (on_table secret_versions secret_versions_update
      (update_rows (\<lambda>r. Version_Name r = n) (\<lambda>r. r\<lparr>State := state, PayloadCiphertext := []\<rparr>)))"
    if "state = SecretVersionDestroyed" for n
    by (rule version_update_ok) (use that in \<open>auto simp: version_ok_def\<close>)
  have upd2: "preserves secrets_ok (on_table secret_versions secret_versions_update
      (update_rows (\<lambda>r. Version_Name r = n) (\<lambda>r. r\<lparr>State := state\<rparr>)))"
    if "state \<in> set [SecretVersionEnabled, SecretVersionDisabled, SecretVersionDestroyed]"
      "state \<noteq> SecretVersionDestroyed" for n
    by (rule version_update_ok) (use that in \<open>auto simp: version_ok_def\<close>)
  show ?thesis
    unfolding SetSecretVersionState_def GetSecretVersion_def
    by (intro preserves_bind preserves_let preserves_if_dep preserves_option preserves_query preserves_raise
        preserves_return upd upd2) simp_all
qed

lemma versions_of_delete:
  "versions_of n (secret_versions_update (\<lambda>_. filter (\<lambda>v. SecretName v \<noteq> name) (secret_versions db)) db) =
     (if n = name then [] else versions_of n db)"
  by (auto simp: versions_of_def intro!: filter_cong)

lemma secrets_ok_delete_versions:
  assumes "secrets_ok db"
  shows "secrets_ok (secret_versions_update (\<lambda>_. filter (\<lambda>v. SecretName v \<noteq> name) (secret_versions db)) db)"
  using assms unfolding secrets_ok_def versions_of_delete
  by (auto simp: keys_distinct_filter)

lemma delete_secret_ok: "preserves secrets_ok (DeleteSecret name)"
proof (rule preserves_establishes)
  fix db
  assume ok: "secrets_ok db"
  define db1 where "db1 = secret_versions_update (\<lambda>_. filter (\<lambda>v. SecretName v \<noteq> name) (secret_versions db)) db"
  have ok1: "secrets_ok db1" unfolding db1_def by (rule secrets_ok_delete_versions [OF ok])
  have none: "SecretName v \<noteq> name" if "v \<in> set (secret_versions db1)" for v
    using that by (simp add: db1_def)
  have ok2: "secrets_ok (secrets_update (\<lambda>_. filter (\<lambda>s. Secret_Name s \<noteq> name) (secrets db1)) db1)"
    using ok1 none by (fastforce simp: secrets_ok_def versions_of_def keys_distinct_filter)
  have del: "establishes db1 secrets_ok (bindM (on_table secrets secrets_update (delete_rows (\<lambda>s. Secret_Name s = name)))
      (\<lambda>n. returnM (n > 0)))"
    by (intro establishes_bind establishes_on_table preserves_return ok1) (use ok2 in \<open>simp add: delete_rows_def\<close>)
  show "establishes db secrets_ok (DeleteSecret name)"
    unfolding DeleteSecret_def
    by (rule establishes_transaction [where I = secrets_ok, OF ok],
        rule establishes_step [where I = secrets_ok, OF ok])
       (use del in \<open>simp add: delete_rows_def db1_def\<close>)
qed

lemma find_name_iff: "find (\<lambda>r. key r = k) t \<noteq> None \<longleftrightarrow> k \<in> key ` set t"
  by (auto simp: find_None_iff)

lemma versions_snoc:
  "versions_of name (secret_versions_update (\<lambda>_. t @ [v]) db) =
     versions_of name (secret_versions_update (\<lambda>_. t) db) @ (if SecretName v = name then [v] else [])"
  by (simp add: versions_of_def)

lemma version_insert_ok:
  assumes "secrets_ok db" and "name \<in> Secret_Name ` set (secrets db)"
    and "VersionID v = itoa (length (versions_of name db) + 1)" "SecretName v = name"
      "Version_Name v = version_name name (VersionID v)" "State v = SecretVersionEnabled"
    and "insert_row (same Version_Name) v (secret_versions db) = Inr (n, t)"
  shows "secrets_ok (secret_versions_update (\<lambda>_. t) db)"
proof -
  from assms(7) have t: "t = secret_versions db @ [v]" and new: "Version_Name v \<notin> Version_Name ` set (secret_versions db)"
    by (auto simp: insert_row_def same_def image_iff split: if_splits)
  have "secret_versions_update (\<lambda>_. secret_versions db) db = db" by simp
  note of = versions_snoc [of _ "secret_versions db" v db, unfolded this]
  show ?thesis
    unfolding secrets_ok_def t of
    using assms(1-6) new by (auto simp: secrets_ok_def keys_distinct_def version_ok_def upt_snoc)
qed

lemma add_version_ok: "preserves secrets_ok (AddSecretVersion A now random name plaintext)"
proof (rule preserves_establishes)
  fix db
  assume ok: "secrets_ok db"
  show "establishes db secrets_ok (AddSecretVersion A now random name plaintext)"
    unfolding AddSecretVersion_def GetSecret_def Let_def
    apply (intro establishes_query establishes_option establishes_lift establishes_bind establishes_on_table
        preserves_return establishes_preserves [OF _ preserves_raise] ok)
     apply (rule version_insert_ok [OF ok, where name = name])
    apply (auto simp: max_version_length [OF ok] dest: find_SomeD)
    done
qed

lemma preserves_lift [preserves_intros]:
  "preserves I (liftE r)" "preserves I (wrapM msg (liftE r))"
  by (cases r; simp add: liftE_def preserves_def wrapM_def catchM_def)+

lemma secret_update_ok:
  "(\<And>r. Secret_Name (f r) = Secret_Name r) \<Longrightarrow>
     preserves secrets_ok (on_table secrets secrets_update (update_rows C f))"
  by (intro secrets_on_secrets keeps_update; simp only: snd_update_rows) (simp add: keys_of_update del: set_map)

lemma rotate_ok: "preserves secrets_ok (RotateSecretTheatre A L now random name payload)"
  unfolding RotateSecretTheatre_def GetSecret_def GetSecretVersion_def
  by (intro preserves_bind preserves_let preserves_if preserves_option preserves_query preserves_raise
      preserves_return preserves_catch preserves_lift add_version_ok secret_update_ok) simp

section \<open>Runs\<close>

datatype secret_operation =
    CreateSecretOp int string string string_map string_map "(string \<times> json) list option" string string string
      "string_map list"
  | PatchSecretOp string "string_map option" "string_map option" "string option" "string option"
      "string_map list option"
  | DeleteSecretOp string
  | AddVersionOp int "error + string" string string
  | SetStateOp string string string
  | RotateOp int "error + string" string string
  | AccessOp string string

text \<open>An access hands out its payload.\<close>

fun perform_secret :: "aead \<Rightarrow> 'f time_lib \<Rightarrow> secret_operation \<Rightarrow> (SecretDb, string list) action" where
  "perform_secret A L (CreateSecretOp now name p labels ann repl cmek period nxt topics) =
     silent (CreateSecretWithRotation now name p labels ann repl cmek period nxt topics)"
| "perform_secret A L (PatchSecretOp name labels ann period nxt topics) =
     silent (PatchSecretMeta name labels ann period nxt topics)"
| "perform_secret A L (DeleteSecretOp name) = silent (DeleteSecret name)"
| "perform_secret A L (AddVersionOp now random name plain) = silent (AddSecretVersion A now random name plain)"
| "perform_secret A L (SetStateOp name i state) = silent (SetSecretVersionState name i state)"
| "perform_secret A L (RotateOp now random name payload) = silent (RotateSecretTheatre A L now random name payload)"
| "perform_secret A L (AccessOp name i) = bindM (AccessSecretVersion A name i) (\<lambda>(plain, _). returnM [plain])"

lemma access_preserves: "preserves I (AccessSecretVersion A name i)"
  unfolding AccessSecretVersion_def GetSecretVersion_def by (intro preserves_intros)

lemma perform_secret_ok: "preserves secrets_ok (perform_secret A L op)"
  by (cases op)
     (auto intro!: preserves_silent create_secret_ok patch_secret_ok delete_secret_ok add_version_ok set_state_ok
       rotate_ok preserves_bind access_preserves preserves_return)

section \<open>Lookup of a version\<close>

lemma digit_plain: "is_digit c \<Longrightarrow> plain_char c"
  by (auto simp: is_digit_def plain_char_def)

lemma TrimSpace_itoa [simp]: "TrimSpace (itoa n) = itoa n"
  using itoa_digits [of "hd (itoa n)" n] itoa_digits [of "last (itoa n)" n]
  by (intro TrimSpace_plain_ends) (simp add: digit_plain)

lemma itoa_not_latest [simp]: "itoa n \<noteq> ''latest''"
proof
  assume "itoa n = ''latest''"
  then have "is_digit (CHR ''l'')" using itoa_digits [of "CHR ''l''" n] by simp
  then show False by (simp add: is_digit_def)
qed

lemma version_id_number:
  assumes "secrets_ok db" and "v \<in> set (secret_versions db)"
  shows "\<exists>n. VersionID v = itoa n"
proof -
  have "VersionID v \<in> set (map VersionID (versions_of (SecretName v) db))"
    using assms(2) by (auto simp: versions_of_def)
  moreover have "map VersionID (versions_of (SecretName v) db) = map itoa [1..<Suc (length (versions_of (SecretName v) db))]"
    using assms(1) by (simp add: secrets_ok_def)
  ultimately show ?thesis by (auto simp del: set_map simp: set_map [of itoa])
qed

lemma version_unique:
  assumes "secrets_ok db" and "v \<in> set (secret_versions db)" and "w \<in> set (secret_versions db)"
    and "Version_Name v = Version_Name w \<or> SecretName v = SecretName w \<and> VersionID v = VersionID w"
  shows "v = w"
proof -
  have "Version_Name v = Version_Name w"
    using assms by (auto simp: secrets_ok_def version_ok_def)
  moreover have "inj_on Version_Name (set (secret_versions db))"
    using assms(1) by (simp add: secrets_ok_def keys_distinct_def distinct_map)
  ultimately show ?thesis using assms(2,3) by (auto dest: inj_onD)
qed

lemma find_version:
  assumes "secrets_ok db" and "v \<in> set (secret_versions db)"
  shows "find (\<lambda>r. SecretName r = SecretName v \<and> VersionID r = VersionID v) (secret_versions db) = Some v"
proof -
  let ?P = "\<lambda>r. SecretName r = SecretName v \<and> VersionID r = VersionID v"
  obtain r where r: "find ?P (secret_versions db) = Some r"
    using assms(2) by (cases "find ?P (secret_versions db)") (auto simp: find_None_iff)
  then have "r = v" using find_SomeD [OF r] by (auto intro!: version_unique [OF assms(1)] assms(2))
  with r show ?thesis by simp
qed

lemma get_version_yields:
  assumes "\<And>db v. I db \<Longrightarrow> v \<in> set (secret_versions db) \<Longrightarrow> SecretName v = name \<Longrightarrow> R v"
  shows "yields I (\<lambda>r. \<forall>v. r = Some v \<longrightarrow> R v) (GetSecretVersion name i)"
proof -
  have "R v" if "I db" "latest_version name db = Some v" for db v
  proof -
    have "v \<in> set (sort_key (\<lambda>v. - int (cast_integer (VersionID v)))
        (filter (\<lambda>v. SecretName v = name) (secret_versions db)))"
      using that(2) unfolding latest_version_def by (auto split: list.splits simp del: set_sort)
    then show ?thesis using assms that(1) by auto
  qed
  then show ?thesis
    unfolding GetSecretVersion_def Let_def
    by (auto intro!: yields_query dest!: find_SomeD intro: assms)
qed

lemma get_version_ok:
  assumes "secrets_ok (tables s)" and "v \<in> set (secret_versions (tables s))" and "ok_connection s"
  shows "GetSecretVersion (SecretName v) (VersionID v) s = (Inr (Some v), s)"
proof -
  obtain n where n: "VersionID v = itoa n" using version_id_number [OF assms(1,2)] by blast
  have "GetSecretVersion (SecretName v) (VersionID v) =
      query (\<lambda>db. find (\<lambda>r. SecretName r = SecretName v \<and> VersionID r = VersionID v) (secret_versions db))"
    unfolding GetSecretVersion_def n Let_def by simp
  with find_version [OF assms(1,2)] assms(3) show ?thesis by simp
qed

lemma get_latest_ok:
  assumes "secrets_ok (tables s)" and "ok_connection s" and "i = [] \<or> i = ''latest''"
  shows "GetSecretVersion name i s =
     (Inr (if versions_of name (tables s) = [] then None else Some (last (versions_of name (tables s)))), s)"
proof -
  have "TrimSpace i = i"
    using assms(3) by (auto intro!: TrimSpace_plain_ends simp: plain_char_def)
  then have "GetSecretVersion name i = query (latest_version name)"
    using assms(3) by (auto simp: GetSecretVersion_def)
  then show ?thesis using assms(1,2) by (simp add: latest_version_last)
qed

text \<open>C40. The tables of Secret Manager stay consistent in every run, whatever statements fail: names are unique,
  every version belongs to a stored secret and is named after it, the versions of a secret are numbered 1, 2,
  and so on in the order they were added, and a destroyed version holds no payload.\<close>
theorem secrets_invariant:
  assumes "runs (perform_secret A L) s tr s'" and "secrets_ok (tables s)"
  shows "secrets_ok (tables s')"
  by (rule run_preserves [where I = secrets_ok, OF assms(1)]) (auto simp: perform_secret_ok assms(2))

end
