(* ===== verification/Secrets_Lifecycle.thy ===== *)
theory Secrets_Lifecycle
  imports Secrets_Invariant
begin

text \<open>
  The life of a secret version: what was stored is what is accessed as long as nothing destroys it, a destroyed
  version stays destroyed, rotation carries the payload over, and the names of versions can be parsed. The
  theorems quantify over runs of operations, some of which may fail.
\<close>

section \<open>What happens to a version\<close>

text \<open>A version that satisfies \<open>P\<close> is stored.\<close>

definition stored :: "(SecretVersion \<Rightarrow> bool) \<Rightarrow> SecretDb \<Rightarrow> bool" where
  "stored P db \<longleftrightarrow> secrets_ok db \<and> (\<exists>v \<in> set (secret_versions db). P v)"

lemma stored_elsewhere:
  assumes "preserves secrets_ok (on_table secrets secrets_update f)"
  shows "preserves (stored P) (on_table secrets secrets_update f)"
  unfolding stored_def by (rule preserves_conj [OF assms]) (rule preserves_elsewhere, simp)

lemma stored_insert:
  assumes "preserves secrets_ok m"
    and "preserves (\<lambda>db. \<exists>v \<in> set (secret_versions db). P v) m"
  shows "preserves (stored P) m"
  unfolding stored_def by (rule preserves_conj [OF assms])

lemma versions_update_keeps:
  assumes "\<And>r. P r \<Longrightarrow> C r \<Longrightarrow> P (f r)"
  shows "preserves (\<lambda>db. \<exists>v \<in> set (secret_versions db). P v)
    (on_table secret_versions secret_versions_update (update_rows C f))"
proof (rule preserves_on_table)
  fix db n t
  assume ex: "\<exists>v \<in> set (secret_versions db). P v" and "update_rows C f (secret_versions db) = (n, t)"
  then have t: "t = map (\<lambda>r. if C r then f r else r) (secret_versions db)" by (simp add: update_rows_def)
  from ex obtain v where v: "v \<in> set (secret_versions db)" "P v" by blast
  then have "P (if C v then f v else v)" "(if C v then f v else v) \<in> set t" using assms by (simp_all add: t)
  then show "\<exists>v \<in> set (secret_versions (secret_versions_update (\<lambda>_. t) db)). P v" by auto
qed

lemma versions_elsewhere:
  "preserves (\<lambda>db. \<exists>v \<in> set (secret_versions db). P v) (on_table secrets secrets_update f)"
  by (rule preserves_elsewhere) simp

lemma add_version_stored: "preserves (stored P) (AddSecretVersion A now random name plain)"
proof (rule stored_insert [OF add_version_ok])
  have ins: "preserves (\<lambda>db. \<exists>v \<in> set (secret_versions db). P v)
      (on_table_checked secret_versions secret_versions_update (insert_row (same Version_Name) v))" for v
    by (rule preserves_on_table_checked) (auto simp: insert_row_def split: if_splits)
  show "preserves (\<lambda>db. \<exists>v \<in> set (secret_versions db). P v) (AddSecretVersion A now random name plain)"
    unfolding AddSecretVersion_def GetSecret_def
    by (intro preserves_bind preserves_let preserves_option preserves_query preserves_raise preserves_return
        preserves_lift ins)
qed

lemma rotate_stored: "preserves (stored P) (RotateSecretTheatre A L now random name payload)"
  unfolding RotateSecretTheatre_def GetSecret_def GetSecretVersion_def
  by (intro preserves_bind preserves_let preserves_if preserves_option preserves_query preserves_raise
      preserves_return preserves_catch preserves_lift add_version_stored stored_elsewhere secret_update_ok) simp

lemma create_secret_stored:
  "preserves (stored P) (CreateSecretWithRotation now name p labels ann repl cmek period nxt topics)"
  by (rule stored_insert [OF create_secret_ok], unfold CreateSecretWithRotation_def)
     (intro preserves_if preserves_let preserves_raise preserves_bind preserves_return versions_elsewhere)

lemma patch_secret_stored: "preserves (stored P) (PatchSecretMeta name labels ann period nxt topics)"
  by (rule stored_insert [OF patch_secret_ok], unfold PatchSecretMeta_def GetSecret_def)
     (intro preserves_option preserves_query preserves_let preserves_raise preserves_bind preserves_return
       versions_elsewhere)

lemma delete_secret_stored:
  assumes "\<And>r. P r \<Longrightarrow> SecretName r \<noteq> name"
  shows "preserves (stored P) (DeleteSecret name)"
proof (rule stored_insert [OF delete_secret_ok])
  have "preserves (\<lambda>db. \<exists>v \<in> set (secret_versions db). P v)
      (on_table secret_versions secret_versions_update (delete_rows (\<lambda>v. SecretName v = name)))"
    by (rule preserves_on_table) (use assms in \<open>auto simp: delete_rows_def\<close>)
  then show "preserves (\<lambda>db. \<exists>v \<in> set (secret_versions db). P v) (DeleteSecret name)"
    unfolding DeleteSecret_def
    by (intro preserves_transaction preserves_bind preserves_return versions_elsewhere)
qed

text \<open>Setting the state of a version writes a row that was not destroyed.\<close>

lemma set_state_stored:
  assumes found: "\<And>db w. stored P db \<Longrightarrow> w \<in> set (secret_versions db) \<Longrightarrow> SecretName w = name \<Longrightarrow>
      State w \<noteq> SecretVersionDestroyed \<Longrightarrow> R w"
    and destroy: "\<And>r w. state = SecretVersionDestroyed \<Longrightarrow> R w \<Longrightarrow> P r \<Longrightarrow> Version_Name r = Version_Name w \<Longrightarrow>
      P (r\<lparr>State := state, PayloadCiphertext := []\<rparr>)"
    and change: "\<And>r w. state \<noteq> SecretVersionDestroyed \<Longrightarrow> R w \<Longrightarrow> P r \<Longrightarrow> Version_Name r = Version_Name w \<Longrightarrow>
      P (r\<lparr>State := state\<rparr>)"
  shows "preserves (stored P) (SetSecretVersionState name i state)"
proof -
  have get: "yields (stored P) (\<lambda>r. \<forall>w. r = Some w \<longrightarrow> State w \<noteq> SecretVersionDestroyed \<longrightarrow> R w)
      (GetSecretVersion name i)"
    by (rule get_version_yields) (use found in blast)
  have upd: "preserves (stored P) (on_table secret_versions secret_versions_update
      (update_rows (\<lambda>r. Version_Name r = Version_Name w) (\<lambda>r. r\<lparr>State := state, PayloadCiphertext := []\<rparr>)))"
    if "R w" "state = SecretVersionDestroyed" for w
    by (rule stored_insert [OF version_update_ok versions_update_keeps])
       (use that destroy in \<open>auto simp: version_ok_def\<close>)
  have upd2: "preserves (stored P) (on_table secret_versions secret_versions_update
      (update_rows (\<lambda>r. Version_Name r = Version_Name w) (\<lambda>r. r\<lparr>State := state\<rparr>)))"
    if "R w" "state \<noteq> SecretVersionDestroyed"
      "state \<in> set [SecretVersionEnabled, SecretVersionDisabled, SecretVersionDestroyed]" for w
    by (rule stored_insert [OF version_update_ok versions_update_keeps])
       (use that change in \<open>auto simp: version_ok_def\<close>)
  show ?thesis
    unfolding SetSecretVersionState_def
    by (intro preserves_bind_yields [OF get] preserves_if_dep preserves_option_dep preserves_raise preserves_bind
        preserves_return upd upd2) auto
qed

section \<open>Access\<close>

definition aead_ok :: "aead \<Rightarrow> bool" where
  "aead_ok A \<longleftrightarrow> (\<forall>nonce plain. length nonce = NonceSize \<longrightarrow> aead_Open A nonce (aead_Seal A nonce plain) = Some plain)"

lemma unseal_seal:
  assumes "aead_ok A" and "length nonce = NonceSize" and "Seal A (Inr nonce) plain = Inr c"
  shows "Unseal A c = Inr plain"
  using assms by (auto simp: Seal_def Unseal_def aead_ok_def)

text \<open>The row of a version with a given name and payload.\<close>

definition holds :: "string \<Rightarrow> string \<Rightarrow> string \<Rightarrow> (string \<Rightarrow> bool) \<Rightarrow> SecretVersion \<Rightarrow> bool" where
  "holds name i c Q v \<longleftrightarrow> SecretName v = name \<and> VersionID v = i \<and> Version_Name v = version_name name i \<and>
     PayloadCiphertext v = c \<and> Q (State v)"

lemma set_state_holds:
  assumes "name' = name \<longrightarrow> state \<noteq> SecretVersionDestroyed \<and> Q state"
  shows "preserves (stored (holds name i c Q)) (SetSecretVersionState name' j state)"
proof (rule set_state_stored [where R = "\<lambda>w. name' \<noteq> name \<longrightarrow> Version_Name w \<noteq> version_name name i"])
  fix db w
  assume st: "stored (holds name i c Q) db" and w: "w \<in> set (secret_versions db)" "SecretName w = name'"
  show "name' \<noteq> name \<longrightarrow> Version_Name w \<noteq> version_name name i"
  proof (intro impI notI)
    assume "name' \<noteq> name" and eq: "Version_Name w = version_name name i"
    from st obtain v where v: "v \<in> set (secret_versions db)" "holds name i c Q v" "secrets_ok db"
      by (auto simp: stored_def)
    with eq have "v = w" by (intro version_unique [OF v(3,1) w(1)]) (simp add: holds_def)
    with v(2) w(2) \<open>name' \<noteq> name\<close> show False by (simp add: holds_def)
  qed
qed (use assms in \<open>auto simp: holds_def\<close>)

lemma perform_holds:
  assumes "op \<noteq> DeleteSecretOp name" and "\<And>j state. op = SetStateOp name j state \<Longrightarrow> state \<noteq> SecretVersionDestroyed \<and> Q state"
  shows "preserves (stored (holds name i c Q)) (perform_secret A L op)"
  using assms
  by (cases op)
     (auto intro!: preserves_silent create_secret_stored patch_secret_stored delete_secret_stored add_version_stored
       set_state_holds rotate_stored preserves_bind access_preserves preserves_return simp: holds_def)

lemma perform_destroyed:
  assumes "op \<noteq> DeleteSecretOp (SecretName v)" and "State v = SecretVersionDestroyed"
  shows "preserves (stored (\<lambda>r. r = v)) (perform_secret A L op)"
proof -
  have "preserves (stored (\<lambda>r. r = v)) (SetSecretVersionState name i state)" for name i state
    by (rule set_state_stored [where R = "\<lambda>w. Version_Name w \<noteq> Version_Name v"])
       (use assms(2) in \<open>auto simp: stored_def dest: version_unique\<close>)
  then show ?thesis
    using assms(1)
    by (cases op)
       (auto intro!: preserves_silent create_secret_stored patch_secret_stored delete_secret_stored
         add_version_stored rotate_stored preserves_bind access_preserves preserves_return)
qed

lemma add_version_adds:
  assumes "AddSecretVersion A now (Inr nonce) name plain s = (Inr v, s1)" and "secrets_ok (tables s)"
  shows "tables s1 = secret_versions_update (\<lambda>_. secret_versions (tables s) @ [v]) (tables s) \<and>
     SecretName v = name \<and> State v = SecretVersionEnabled \<and>
     VersionID v = itoa (length (versions_of name (tables s)) + 1) \<and>
     Version_Name v = version_name name (VersionID v) \<and> Seal A (Inr nonce) plain = Inr (PayloadCiphertext v)"
proof -
  have lift: "liftE (Inr x) = returnM x" for x by (simp add: liftE_def)
  have seal: "Seal A (Inr nonce) plain = Inr (nonce @ aead_Seal A nonce plain)" by (simp add: Seal_def)
  have wrap: "wrapM m (returnM x) = returnM x" for m and x :: string
    by (rule ext) (simp add: wrapM_def catchM_def returnM_def)
  define new where "new = (\<lambda>k. \<lparr>Version_Name = version_name name (itoa (k + 1)), SecretName = name,
      VersionID = itoa (k + 1), PayloadCiphertext = nonce @ aead_Seal A nonce plain,
      State = SecretVersionEnabled, Version_CreatedAt = FormatRFC3339Nano now\<rparr>)"
  define add :: "nat \<Rightarrow> (SecretDb, SecretVersion) action" where "add = (\<lambda>k. bindM (on_table_checked secret_versions secret_versions_update
      (insert_row (same Version_Name) (new k))) (\<lambda>_. returnM (new k)))"
  have run: "bindM (GetSecret name) (\<lambda>sec. case sec of None \<Rightarrow> raiseM (Errorf ''secret not found'')
      | Some _ \<Rightarrow> bindM (query (max_version name)) add) s = (Inr v, s1)"
    using assms(1) unfolding AddSecretVersion_def Let_def seal lift wrap bindM_return new_def add_def .
  then obtain sec s0 where s0: "GetSecret name s = (Inr sec, s0)"
    and rest: "(case sec of None \<Rightarrow> raiseM (Errorf ''secret not found'')
      | Some _ \<Rightarrow> bindM (query (max_version name)) add) s0 = (Inr v, s1)"
    unfolding bindM_Inr [of "GetSecret name"] by blast
  then have rest: "bindM (query (max_version name)) add s0 = (Inr v, s1)"
    by (cases sec) (simp_all add: raiseM_def)
  have t0: "tables s0 = tables s" using s0 unfolding GetSecret_def by (rule query_unchanged)
  from rest obtain k s2 where k: "query (max_version name) s0 = (Inr k, s2)" and rest: "add k s2 = (Inr v, s1)"
    unfolding bindM_Inr by blast
  have "tables s2 = tables s" using k t0 query_unchanged by metis
  moreover have "k = length (versions_of name (tables s))"
    using query_Inr [OF k] t0 max_version_length [OF assms(2)] by simp
  moreover note bindM_return_Inr [OF rest [unfolded add_def]]
  ultimately show ?thesis
    unfolding seal by (auto simp: new_def insert_row_def split: if_splits dest!: on_table_checked_Inr)
qed

text \<open>What an access answers for a stored version.\<close>

lemma access_stored:
  assumes "secrets_ok (tables s)" and "ok_connection s" and "v \<in> set (secret_versions (tables s))"
    and "State v = SecretVersionEnabled" and "Unseal A (PayloadCiphertext v) = Inr plain"
  shows "AccessSecretVersion A (SecretName v) (VersionID v) s = (Inr (plain, v), s)"
  using get_version_ok [OF assms(1,3,2)] assms(4,5)
  by (simp add: AccessSecretVersion_def bindM_step wrapM_def catchM_def liftE_def bindM_def)

lemma access_disabled:
  assumes "secrets_ok (tables s)" and "ok_connection s" and "v \<in> set (secret_versions (tables s))"
    and "State v = SecretVersionDisabled"
  shows "AccessSecretVersion A (SecretName v) (VersionID v) s = (Inl (Errorf ''secret version disabled''), s)"
  using get_version_ok [OF assms(1,3,2)] assms(4) by (simp add: AccessSecretVersion_def bindM_step)

lemma access_Inr:
  assumes "AccessSecretVersion A name i s = (Inr (plain, v), s1)"
  shows "\<exists>s0. GetSecretVersion name i s = (Inr (Some v), s0) \<and> State v = SecretVersionEnabled \<and>
     Unseal A (PayloadCiphertext v) = Inr plain"
proof -
  from assms obtain r s0 where r: "GetSecretVersion name i s = (Inr r, s0)"
    and rest: "(case r of
         None \<Rightarrow> raiseM (Errorf ''version not found'')
       | Some v \<Rightarrow>
           if State v = SecretVersionDestroyed then raiseM (Errorf ''secret version destroyed'')
           else if State v = SecretVersionDisabled then raiseM (Errorf ''secret version disabled'')
           else if State v = SecretVersionEnabled then
             bindM (wrapM ''unseal secret payload'' (liftE (Unseal A (PayloadCiphertext v)))) (\<lambda>plain.
             returnM (plain, v))
           else raiseM (Errorf ''secret version state'')) s0 = (Inr (plain, v), s1)"
    unfolding AccessSecretVersion_def bindM_Inr by blast
  then show ?thesis
    by (cases r; cases "Unseal A (PayloadCiphertext (the r))")
       (auto simp: raiseM_def wrapM_def catchM_def liftE_def returnM_def bindM_def split: if_splits)
qed

lemma get_version_found:
  assumes "GetSecretVersion name i s = (Inr (Some w), s')" and "secrets_ok (tables s)"
    and "v \<in> set (secret_versions (tables s))" "SecretName v = name" "VersionID v = i"
  shows "w = v"
proof -
  obtain n where n: "VersionID v = itoa n" using version_id_number [OF assms(2,3)] by blast
  have "GetSecretVersion name i = query (\<lambda>db. find (\<lambda>r. SecretName r = name \<and> VersionID r = i) (secret_versions db))"
    unfolding GetSecretVersion_def assms(5) [symmetric] n Let_def by simp
  with assms(1) find_version [OF assms(2,3)] assms(4,5) show ?thesis by (auto dest: query_Inr)
qed

lemma access_destroyed:
  assumes "perform_secret A L (AccessOp (SecretName v) (VersionID v)) s = (r, s')"
    and "stored (\<lambda>r. r = v) (tables s)" and "State v = SecretVersionDestroyed"
  shows "isl r"
proof (cases r)
  case (Inr out)
  with assms(1) obtain p w s1 where "AccessSecretVersion A (SecretName v) (VersionID v) s = (Inr (p, w), s1)"
    by (auto simp: bindM_Inr)
  from access_Inr [OF this] obtain s0 where "GetSecretVersion (SecretName v) (VersionID v) s = (Inr (Some w), s0)"
    "State w = SecretVersionEnabled" by blast
  with get_version_found [of "SecretName v" "VersionID v" s w s0 v] assms(2,3) show ?thesis
    by (auto simp: stored_def)
qed simp

text \<open>C28. A secret that was stored can be read back: after \<open>AddSecretVersion\<close> returned a version, and any run of
  operations, failing statements included, that neither deletes the secret nor destroys one of its versions,
  accessing the version returns the plaintext, or reports that the version is disabled; and if no operation
  of the run sets the state of a version of the secret, it returns the plaintext. The hypothesis on the AEAD
  is that opening undoes sealing.\<close>
theorem payload_survives:
  assumes "aead_ok A" and "length nonce = NonceSize" and "secrets_ok (tables s)"
    and "AddSecretVersion A now (Inr nonce) name plain s = (Inr v, s1)"
    and "runs (perform_secret A L) s1 tr s2"
    and "\<forall>(op, r) \<in> set tr. op \<noteq> DeleteSecretOp name \<and> (\<forall>i. op \<noteq> SetStateOp name i SecretVersionDestroyed)"
    and "ok_connection s2"
  shows "(\<exists>w. AccessSecretVersion A name (VersionID v) s2 = (Inr (plain, w), s2)) \<or>
     AccessSecretVersion A name (VersionID v) s2 = (Inl (Errorf ''secret version disabled''), s2) \<and>
     (\<exists>i state r. (SetStateOp name i state, r) \<in> set tr)"
proof -
  note added = add_version_adds [OF assms(4,3)]
  have ok1: "secrets_ok (tables s1)" by (rule preservesD [OF add_version_ok assms(3,4)])
  have "stored (holds name (VersionID v) (PayloadCiphertext v) (\<lambda>st. st = SecretVersionEnabled)) (tables s1)"
    using added ok1 by (simp add: stored_def holds_def)
  then have in1: "stored (holds name (VersionID v) (PayloadCiphertext v) Q') (tables s1)"
    if "Q' SecretVersionEnabled" for Q'
    using that by (auto simp: stored_def holds_def)
  have unseal: "Unseal A (PayloadCiphertext v) = Inr plain"
    using unseal_seal [OF assms(1,2)] added by blast
  show ?thesis
  proof (cases "\<exists>i state r. (SetStateOp name i state, r) \<in> set tr")
    case False
    have "stored (holds name (VersionID v) (PayloadCiphertext v) (\<lambda>st. st = SecretVersionEnabled)) (tables s2)"
      by (rule run_preserves [where I = "stored (holds name (VersionID v) (PayloadCiphertext v) (\<lambda>st. st = SecretVersionEnabled))",
          OF assms(5) _ in1]) (use assms(6) False in \<open>fastforce intro!: perform_holds\<close>)+
    then obtain w where "w \<in> set (secret_versions (tables s2))" "secrets_ok (tables s2)"
      "holds name (VersionID v) (PayloadCiphertext v) (\<lambda>st. st = SecretVersionEnabled) w"
      by (auto simp: stored_def)
    with access_stored [OF _ assms(7), of w A plain] unseal show ?thesis by (auto simp: holds_def)
  next
    case True
    have "stored (holds name (VersionID v) (PayloadCiphertext v) (\<lambda>st. st \<noteq> SecretVersionDestroyed)) (tables s2)"
      by (rule run_preserves [where I = "stored (holds name (VersionID v) (PayloadCiphertext v) (\<lambda>st. st \<noteq> SecretVersionDestroyed))",
          OF assms(5) _ in1]) (use assms(6) in \<open>fastforce intro!: perform_holds\<close>)+
    then obtain w where w: "w \<in> set (secret_versions (tables s2))" "secrets_ok (tables s2)"
      "holds name (VersionID v) (PayloadCiphertext v) (\<lambda>st. st \<noteq> SecretVersionDestroyed) w"
      by (auto simp: stored_def)
    then have "State w = SecretVersionEnabled \<or> State w = SecretVersionDisabled"
      by (auto simp: secrets_ok_def version_ok_def holds_def)
    with w unseal True access_stored [OF w(2) assms(7) w(1), of A plain] access_disabled [OF w(2) assms(7) w(1), of A]
    show ?thesis by (auto simp: holds_def)
  qed
qed

text \<open>C29. Destroying a version is final: once a version is destroyed, no run of operations short of deleting its
  secret changes it, and no access to it in the run hands out a payload, whatever statements fail.\<close>
theorem destroyed_is_final:
  assumes "secrets_ok (tables s)" and "v \<in> set (secret_versions (tables s))" and "State v = SecretVersionDestroyed"
    and "runs (perform_secret A L) s tr s'" and "\<forall>(op, r) \<in> set tr. op \<noteq> DeleteSecretOp (SecretName v)"
  shows "v \<in> set (secret_versions (tables s')) \<and> PayloadCiphertext v = [] \<and>
     (\<forall>(op, r) \<in> set tr. op = AccessOp (SecretName v) (VersionID v) \<longrightarrow> isl r)"
proof -
  have final: "v \<in> set (secret_versions (tables s')) \<and> (\<forall>(op, r) \<in> set tr. op = AccessOp (SecretName v) (VersionID v) \<longrightarrow> isl r)"
    if "runs (perform_secret A L) s tr s'" "\<forall>(op, r) \<in> set tr. op \<noteq> DeleteSecretOp (SecretName v)"
      "stored (\<lambda>r. r = v) (tables s)" for s tr s'
    using that
  proof (induction rule: runs.induct)
    case (run_done s)
    then show ?case by (simp add: stored_def)
  next
    case (run_op op s r s1 tr s2)
    have "stored (\<lambda>r. r = v) (tables s1)"
      by (rule preservesD [OF perform_destroyed [OF _ assms(3)] run_op.prems(2) run_op.hyps(1)])
         (use run_op.prems(1) in auto)
    moreover have "isl r" if "op = AccessOp (SecretName v) (VersionID v)"
      using access_destroyed run_op.hyps(1) run_op.prems(2) assms(3) unfolding that by blast
    ultimately show ?case using run_op by auto
  qed
  have "PayloadCiphertext v = []" using assms(1-3) by (auto simp: secrets_ok_def version_ok_def)
  with final [OF assms(4,5)] assms(1,2) show ?thesis by (auto simp: stored_def)
qed

section \<open>Names of versions\<close>

lemma last_marker:
  assumes "CHR ''/'' \<notin> set i"
  shows "LastIndex (version_name name i) ''/versions/'' = Some (length name)"
proof -
  have marker: "''/versions/'' = ''/versions'' @ [CHR ''/'']" by simp
  show ?thesis
    unfolding version_name_def marker using LastIndex_skip [OF assms, of name "''/versions''"] by simp
qed

lemma itoa_no_slash [simp]: "CHR ''/'' \<notin> set (itoa n)"
  using itoa_digits [of "CHR ''/''" n] by (auto simp: is_digit_def)

lemma version_name_inject:
  assumes "version_name s (itoa m) = version_name s' (itoa n)"
  shows "s = s' \<and> m = n"
proof -
  have "length s = length s'"
    using last_marker [OF itoa_no_slash, of s m] last_marker [OF itoa_no_slash, of s' n] assms by simp
  with assms show ?thesis by (auto simp: version_name_def)
qed

text \<open>The name of a version is parsed back into the secret and the version it was made of, and versions
  made by the store never share a name.\<close>
theorem version_name_roundtrip:
  assumes "TrimSpace name = name" and "CHR ''/'' \<notin> set i"
    and "i = [] \<or> plain_char (last i)" and "name = [] \<or> plain_char (hd name)"
  shows "ParseSecretVersionName (version_name name i) = Some (name, i)"
proof -
  have marker: "hd ''/versions/'' = CHR ''/''" "last ''/versions/'' = CHR ''/''" by simp_all
  have "version_name name i \<noteq> []" by (simp add: version_name_def)
  moreover have "plain_char (hd (version_name name i))"
    using assms(4) by (cases name) (auto simp: version_name_def plain_char_def)
  moreover have "plain_char (last (version_name name i))"
    using assms(3) by (cases "i = []") (auto simp: version_name_def plain_char_def)
  ultimately have "TrimSpace (version_name name i) = version_name name i"
    by (intro TrimSpace_plain_ends) simp
  moreover have "drop (length name + length ''/versions/'') (version_name name i) = i"
    by (simp add: version_name_def)
  moreover have "take (length name) (version_name name i) = name" by (simp add: version_name_def)
  ultimately show ?thesis
    unfolding ParseSecretVersionName_def Let_def using last_marker [OF assms(2), of name] by simp
qed

section \<open>The newest version\<close>

lemma add_version_eval:
  fixes A :: aead and nonce plain :: string and now :: int
  assumes "secrets_ok (tables s)" and "ok_connection s" and "name \<in> Secret_Name ` set (secrets (tables s))"
  defines "i \<equiv> itoa (length (versions_of name (tables s)) + 1)"
  defines "v \<equiv> \<lparr>Version_Name = version_name name i, SecretName = name, VersionID = i,
      PayloadCiphertext = nonce @ aead_Seal A nonce plain, State = SecretVersionEnabled,
      Version_CreatedAt = FormatRFC3339Nano now\<rparr>"
  shows "AddSecretVersion A now (Inr nonce) name plain s =
     (Inr v, s\<lparr>tables := secret_versions_update (\<lambda>_. secret_versions (tables s) @ [v]) (tables s)\<rparr>)"
proof -
  obtain sec where sec: "find (\<lambda>r. Secret_Name r = name) (secrets (tables s)) = Some sec"
    using assms(3) by (cases "find (\<lambda>r. Secret_Name r = name) (secrets (tables s))") (auto simp: find_None_iff)
  have new: "Version_Name r \<noteq> version_name name i" if r: "r \<in> set (secret_versions (tables s))" for r
  proof
    assume eq: "Version_Name r = version_name name i"
    obtain k where k: "VersionID r = itoa k" using version_id_number [OF assms(1) r] by blast
    have "Version_Name r = version_name (SecretName r) (itoa k)"
      using assms(1) r k by (auto simp: secrets_ok_def version_ok_def)
    with eq have same: "SecretName r = name" "k = length (versions_of name (tables s)) + 1"
      using version_name_inject unfolding i_def by metis+
    then have "itoa k \<in> set (map VersionID (versions_of name (tables s)))"
      using r k by (force simp: versions_of_def)
    moreover have "map VersionID (versions_of name (tables s)) =
        map itoa [1..<Suc (length (versions_of name (tables s)))]"
      using assms(1) by (simp add: secrets_ok_def)
    ultimately show False using same(2) by (auto simp del: set_map simp: set_map [of itoa])
  qed
  have wrap: "wrapM msg (liftE (Seal A (Inr nonce) plain)) = returnM (nonce @ aead_Seal A nonce plain)" for msg
    by (rule ext) (simp add: wrapM_def catchM_def liftE_def Seal_def)
  note max = max_version_length [OF assms(1), of name]
  have ins: "insert_row (same Version_Name) v (secret_versions (tables s)) = Inr (1, secret_versions (tables s) @ [v])"
    using new by (auto simp: insert_row_def same_def v_def)
  show ?thesis
    unfolding AddSecretVersion_def GetSecret_def Let_def wrap bindM_return
    using ins by (simp add: assms(2) sec max v_def i_def on_table_checked_def)
qed

lemma newest_accessed:
  assumes "secrets_ok (tables s)" and "ok_connection s" and "versions_of name (tables s) = vs @ [v]"
    and "State v = SecretVersionEnabled" and "Unseal A (PayloadCiphertext v) = Inr plain"
  shows "AccessSecretVersion A name ''latest'' s = (Inr (plain, v), s)"
  using get_latest_ok [OF assms(1,2), of "''latest''" name] assms(3,4,5)
  by (simp add: AccessSecretVersion_def bindM_step wrapM_def catchM_def liftE_def bindM_def)

lemma access_newest:
  assumes "AccessSecretVersion A name ''latest'' s = (Inr (plain, w), s')" and "secrets_ok (tables s)"
    and "ok_connection s"
  shows "w \<in> set (secret_versions (tables s)) \<and> SecretName w = name \<and> State w = SecretVersionEnabled \<and>
    Unseal A (PayloadCiphertext w) = Inr plain \<and> GetSecretVersion name ''latest'' s = (Inr (Some w), s)"
proof -
  from access_Inr [OF assms(1)] obtain s0 where get: "GetSecretVersion name ''latest'' s = (Inr (Some w), s0)"
    and w: "State w = SecretVersionEnabled" "Unseal A (PayloadCiphertext w) = Inr plain" by blast
  have "w \<in> set (versions_of name (tables s)) \<and> s0 = s"
    using get get_latest_ok [OF assms(2,3), of "''latest''" name] by (auto split: if_splits)
  with get w show ?thesis by (auto simp: versions_of_def)
qed

text \<open>Rotating a secret without a new payload, when its newest version is enabled, adds a new version, and
  accessing the newest version then returns the same plaintext from that version.\<close>
theorem rotation_keeps_payload:
  assumes "aead_ok A" and "length nonce = NonceSize" and "secrets_ok (tables s)" and "ok_connection s"
    and "AccessSecretVersion A name ''latest'' s = (Inr (plain, w), s)"
  shows "\<exists>v sec s1. RotateSecretTheatre A L now (Inr nonce) name [] s = (Inr (v, sec), s1) \<and>
     v \<notin> set (secret_versions (tables s)) \<and>
     AccessSecretVersion A name ''latest'' s1 = (Inr (plain, v), s1)"
proof -
  note w = access_newest [OF assms(5,3,4)]
  then have secret: "name \<in> Secret_Name ` set (secrets (tables s))"
    using assms(3) by (auto simp: secrets_ok_def)
  then obtain sec where sec: "GetSecret name s = (Inr (Some sec), s)"
    using assms(4) by (cases "find (\<lambda>r. Secret_Name r = name) (secrets (tables s))")
      (auto simp: find_None_iff GetSecret_def)
  define v where "v = (let i = itoa (length (versions_of name (tables s)) + 1) in
    \<lparr>Version_Name = version_name name i, SecretName = name, VersionID = i,
      PayloadCiphertext = nonce @ aead_Seal A nonce plain, State = SecretVersionEnabled,
      Version_CreatedAt = FormatRFC3339Nano now\<rparr>)"
  define s1 where "s1 = s\<lparr>tables := secret_versions_update (\<lambda>_. secret_versions (tables s) @ [v]) (tables s)\<rparr>"
  have add: "AddSecretVersion A now (Inr nonce) name plain s = (Inr v, s1)"
    using add_version_eval [OF assms(3,4) secret] by (simp add: v_def s1_def Let_def)
  define prevM :: "(SecretDb, string) action" where "prevM = (bindM (GetSecretVersion name ''latest'') (\<lambda>prev. case prev of None \<Rightarrow> returnM ''rotated''
       | Some prev \<Rightarrow> if State prev = SecretVersionEnabled
           then wrapM ''unseal previous version'' (liftE (Unseal A (PayloadCiphertext prev)))
           else returnM ''rotated''))"
  have plain: "prevM s = (Inr plain, s)"
    using w by (simp add: prevM_def bindM_step wrapM_def catchM_def liftE_def)
  have steps: "bindM (GetSecret name) f s = f (Some sec) s" "bindM prevM g s = g plain s"
    "bindM (AddSecretVersion A now (Inr nonce) name plain) h s = h v s1" for f g h
    using sec plain add by (simp_all add: bindM_step)
  note rot_def = RotateSecretTheatre_def [of A L now "Inr nonce" name "[]", simplified, folded prevM_def]
  have ok1: "secrets_ok (tables s1)" by (rule preservesD [OF add_version_ok assms(3) add])
  have versions: "versions_of name (tables s1) = versions_of name (tables s) @ [v]"
    by (simp add: s1_def versions_of_def v_def Let_def)
  have unseal: "Unseal A (PayloadCiphertext v) = Inr plain" "State v = SecretVersionEnabled"
    using unseal_seal [OF assms(1,2), of plain] by (simp_all add: v_def Let_def Seal_def)
  have fresh: "v \<notin> set (secret_versions (tables s))"
    using ok1 by (auto simp: secrets_ok_def keys_distinct_def s1_def)
  obtain sec' db where rot: "RotateSecretTheatre A L now (Inr nonce) name [] s = (Inr (v, sec'), s1\<lparr>tables := db\<rparr>)"
    and db: "secret_versions db = secret_versions (tables s1)"
  proof (cases "(RotationPeriod sec \<noteq> [] \<and> NextRotationTime sec \<noteq> []) \<and>
      advanceRotationTime L (NextRotationTime sec) (RotationPeriod sec) \<noteq> None")
    case True
    then obtain nxt where nxt: "advanceRotationTime L (NextRotationTime sec) (RotationPeriod sec) = Some nxt" by blast
    have "ok_connection s1" using assms(4) by (simp add: s1_def)
    then show ?thesis
      using True nxt
      by (intro that [of _ "secrets_update (\<lambda>_. snd (update_rows (\<lambda>r. Secret_Name r = name)
          (\<lambda>r. r\<lparr>NextRotationTime := nxt\<rparr>) (secrets (tables s1)))) (tables s1)"])
        (simp_all add: rot_def steps
          catchM_def)
  next
    case False
    then show ?thesis
      by (intro that [of _ "tables s1"])
        (auto simp: rot_def steps
          split: option.splits)
  qed
  have "secrets_ok db"
    using preservesD [OF rotate_ok assms(3) rot] by simp
  moreover have "versions_of name db = versions_of name (tables s1)" using db by (simp add: versions_of_def)
  ultimately have "AccessSecretVersion A name ''latest'' (s1\<lparr>tables := db\<rparr>) = (Inr (plain, v), s1\<lparr>tables := db\<rparr>)"
    by (intro newest_accessed) (use versions unseal assms(4) in \<open>simp_all add: s1_def\<close>)
  with rot fresh show ?thesis by blast
qed

section \<open>Instances\<close>

definition example_aead :: aead where
  "example_aead = \<lparr>aead_Seal = (\<lambda>nonce plain. plain), aead_Open = (\<lambda>nonce c. Some c)\<rparr>"

definition example_nonce :: string where
  "example_nonce = replicate 12 (CHR ''n'')"

definition example_time :: "int time_lib" where
  "example_time = \<lparr>time_Parse = (\<lambda>_ _. None), time_Format = (\<lambda>_. []), ParseFloat = (\<lambda>_. None),
     positive = (\<lambda>f. f > 0), seconds = (\<lambda>f. f)\<rparr>"

definition example_secret :: Secret where
  "example_secret = \<lparr>Secret_Name = ''s'', Secret_ProjectID = ''p'', Labels = [], Annotations = [], Replication = [],
     CMEKKmsKeyName = [], RotationPeriod = [], NextRotationTime = [], TopicsJSON = Json (JArr []),
     Secret_CreatedAt = FormatRFC3339Nano 0\<rparr>"

definition example_version :: "string \<Rightarrow> string \<Rightarrow> SecretVersion" where
  "example_version state payload = \<lparr>Version_Name = version_name ''s'' (itoa 1), SecretName = ''s'', VersionID = itoa 1,
     PayloadCiphertext = payload, State = state, Version_CreatedAt = FormatRFC3339Nano 0\<rparr>"

definition example_secrets :: "SecretVersion list \<Rightarrow> SecretDb connection" where
  "example_secrets vs = \<lparr>tables = \<lparr>secrets = [example_secret], secret_versions = vs\<rparr>, faults = []\<rparr>"

lemma example_aead_ok: "aead_ok example_aead"
  by (simp add: aead_ok_def example_aead_def)

lemma example_nonce_size: "length example_nonce = NonceSize"
  by (simp add: example_nonce_def NonceSize_def)

lemma example_connection: "ok_connection (example_secrets vs)"
  by (simp add: ok_connection_def example_secrets_def)

lemma example_empty_ok: "secrets_ok (tables (example_secrets []))"
  by (simp add: secrets_ok_def example_secrets_def keys_distinct_def versions_of_def)

lemma example_one_ok:
  assumes "state \<in> {SecretVersionEnabled, SecretVersionDisabled, SecretVersionDestroyed}"
    and "state = SecretVersionDestroyed \<longrightarrow> payload = []"
  shows "secrets_ok (tables (example_secrets [example_version state payload]))"
  using assms
  by (auto simp: secrets_ok_def example_secrets_def keys_distinct_def versions_of_def version_ok_def
      example_version_def example_secret_def upt_Suc)

text \<open>Deleting another secret changes nothing.\<close>

lemma example_run:
  assumes "ok_connection s"
  shows "\<exists>r s2. runs (perform_secret A L) s [(DeleteSecretOp ''t'', r)] s2 \<and> ok_connection s2"
proof -
  obtain r s2 where step: "perform_secret A L (DeleteSecretOp ''t'') s = (r, s2)" by fastforce
  have "transaction (bindM (on_table secret_versions secret_versions_update (delete_rows (\<lambda>v. SecretName v = ''t''))) (\<lambda>_.
        bindM (on_table secrets secrets_update (delete_rows (\<lambda>s. Secret_Name s = ''t''))) (\<lambda>n. returnM (n > 0)))) s = (r', s')
      \<Longrightarrow> ok_connection s'" for r' s'
    using assms by (auto simp: transaction_def ok_connection_def split: sum.splits prod.splits)
  then have "ok_connection s2"
    using step by (auto simp: silent_def DeleteSecret_def bindM_def split: sum.splits prod.splits)
  with step show ?thesis by (blast intro: runs.intros)
qed

theorem secrets_invariant_witness:
  "\<exists>r s2. runs (perform_secret example_aead example_time) (example_secrets []) [(DeleteSecretOp ''t'', r)] s2 \<and>
     secrets_ok (tables s2)"
  using example_run [OF example_connection, of example_aead example_time "[]"] secrets_invariant [OF _ example_empty_ok]
  by blast

theorem payload_survives_witness:
  "\<exists>v w s1 s2. AddSecretVersion example_aead 0 (Inr example_nonce) ''s'' ''pw'' (example_secrets []) = (Inr v, s1) \<and>
     AccessSecretVersion example_aead ''s'' (VersionID v) s2 = (Inr (''pw'', w), s2)"
proof -
  have "''s'' \<in> Secret_Name ` set (secrets (tables (example_secrets [])))"
    by (simp add: example_secrets_def example_secret_def)
  from add_version_eval [OF example_empty_ok example_connection this]
  obtain v s1 where add: "AddSecretVersion example_aead 0 (Inr example_nonce) ''s'' ''pw'' (example_secrets []) = (Inr v, s1)"
    and "ok_connection s1"
    using example_connection by (metis ok_connection_update)
  with example_run obtain r s2 where run: "runs (perform_secret example_aead example_time) s1 [(DeleteSecretOp ''t'', r)] s2"
    "ok_connection s2" by blast
  from payload_survives [OF example_aead_ok example_nonce_size example_empty_ok add run(1) _ run(2)] add
  show ?thesis by auto
qed

theorem destroyed_is_final_witness:
  "\<exists>r s2. runs (perform_secret example_aead example_time) (example_secrets [example_version SecretVersionDestroyed []])
       [(DeleteSecretOp ''t'', r)] s2 \<and>
     example_version SecretVersionDestroyed [] \<in> set (secret_versions (tables s2))"
proof -
  let ?v = "example_version SecretVersionDestroyed []"
  have ok: "secrets_ok (tables (example_secrets [?v]))" by (rule example_one_ok) simp_all
  obtain r s2 where run: "runs (perform_secret example_aead example_time) (example_secrets [?v]) [(DeleteSecretOp ''t'', r)] s2"
    using example_run [OF example_connection] by blast
  have "?v \<in> set (secret_versions (tables s2))"
    using destroyed_is_final [OF ok _ _ run] by (auto simp: example_secrets_def example_version_def)
  with run show ?thesis by blast
qed

theorem rotation_keeps_payload_witness:
  "\<exists>v sec s1. RotateSecretTheatre example_aead example_time 0 (Inr example_nonce) ''s'' []
       (example_secrets [example_version SecretVersionEnabled (example_nonce @ ''pw'')]) = (Inr (v, sec), s1) \<and>
     AccessSecretVersion example_aead ''s'' ''latest'' s1 = (Inr (''pw'', v), s1)"
proof -
  let ?v = "example_version SecretVersionEnabled (example_nonce @ ''pw'')"
  have ok: "secrets_ok (tables (example_secrets [?v]))" by (rule example_one_ok) simp_all
  have "versions_of ''s'' (tables (example_secrets [?v])) = [] @ [?v]"
    by (simp add: versions_of_def example_secrets_def example_version_def)
  moreover have "Unseal example_aead (PayloadCiphertext ?v) = Inr ''pw''"
    by (simp add: Unseal_def example_version_def example_aead_def example_nonce_size)
  ultimately have "AccessSecretVersion example_aead ''s'' ''latest'' (example_secrets [?v]) = (Inr (''pw'', ?v), example_secrets [?v])"
    by (intro newest_accessed [OF ok example_connection]) (simp_all add: example_version_def)
  from rotation_keeps_payload [OF example_aead_ok example_nonce_size ok example_connection this, of example_time 0]
  show ?thesis by blast
qed

theorem version_name_roundtrip_witness:
  "ParseSecretVersionName (version_name ''s'' ''7'') = Some (''s'', ''7'')"
  by (rule version_name_roundtrip) (simp_all add: TrimSpace_plain_ends plain_char_def)

end
