(* ===== verification/Kms_Store.thy ===== *)
theory Kms_Store
  imports Secrets_Store
begin

text \<open>
  Cloud KMS's store: \<^verbatim>\<open>internal/store/kms.go\<close>, every operation of it.

  The three tables are the record \<open>KmsDb\<close>. The material of a key version is the sealed string of
  \<open>Secrets_Store\<close>. The creation time of an argument is optional, as the code stamps an empty one; an empty
  labels column is the document of the empty text.
\<close>

record KMSKeyRing =
  KeyRing_Name :: string
  KeyRing_ProjectID :: string
  KeyRing_Location :: string
  KeyRing_CreatedAt :: "stamp option"

record KMSCryptoKey =
  CryptoKey_Name :: string
  KeyRing :: string
  Purpose :: string
  Algorithm :: string
  LabelsJSON :: document
  CryptoKey_CreatedAt :: "stamp option"

record KMSKeyVersion =
  KeyVersion_Name :: string
  CryptoKey :: string
  KeyVersion_VersionID :: string
  KeyVersion_State :: string
  KeyMaterialCiphertext :: string
  KeyVersion_CreatedAt :: "stamp option"

record KmsDb =
  kms_keyrings :: "KMSKeyRing list"
  kms_keys :: "KMSCryptoKey list"
  kms_key_versions :: "KMSKeyVersion list"

definition KMSStateEnabled :: string where "KMSStateEnabled = ''ENABLED''"

definition KMSStateDestroyed :: string where "KMSStateDestroyed = ''DESTROYED''"

definition KMSPurposeEncrypt :: string where "KMSPurposeEncrypt = ''ENCRYPT_DECRYPT''"

definition KMSPurposeSign :: string where "KMSPurposeSign = ''ASYMMETRIC_SIGN''"

definition KMSAlgoSymmetric :: string where "KMSAlgoSymmetric = ''GOOGLE_SYMMETRIC_ENCRYPTION''"

definition KMSAlgoRSAPSS2048 :: string where "KMSAlgoRSAPSS2048 = ''RSA_SIGN_PSS_2048_SHA256''"

definition empty_text :: document where "empty_text = Malformed []"

definition empty_object :: document where "empty_object = Json (JObj [])"

text \<open>The creation time of a row, given or the time of the call.\<close>

definition stamped_at :: "int \<Rightarrow> stamp option \<Rightarrow> stamp option" where
  "stamped_at now t = (case t of None \<Rightarrow> Some (FormatRFC3339Nano now) | Some s \<Rightarrow> Some s)"

section \<open>Key rings\<close>

definition CreateKMSKeyRing :: "int \<Rightarrow> KMSKeyRing \<Rightarrow> (KmsDb, bool) action" where
  "CreateKMSKeyRing now kr =
     (if KeyRing_Name kr = [] \<or> KeyRing_ProjectID kr = [] \<or> KeyRing_Location kr = [] then
        raiseM (Errorf ''kms key ring requires name, project, and location'')
      else
        let kr = kr\<lparr>KeyRing_CreatedAt := stamped_at now (KeyRing_CreatedAt kr)\<rparr> in
        bindM (wrapM ''create kms key ring'' (on_table kms_keyrings kms_keyrings_update
          (insert_or_ignore (same KeyRing_Name) kr))) (\<lambda>n. returnM (n > 0)))"

definition GetKMSKeyRing :: "string \<Rightarrow> (KmsDb, KMSKeyRing option) action" where
  "GetKMSKeyRing name = wrapM ''get kms key ring'' (query (\<lambda>db. find (\<lambda>k. KeyRing_Name k = name) (kms_keyrings db)))"

definition ListKMSKeyRings :: "string \<Rightarrow> string \<Rightarrow> (KmsDb, KMSKeyRing list) action" where
  "ListKMSKeyRings projectID location =
     wrapM ''list kms key rings'' (query (\<lambda>db. sort_key KeyRing_Name
       (filter (\<lambda>k. KeyRing_ProjectID k = projectID \<and> KeyRing_Location k = location) (kms_keyrings db))))"

section \<open>Keys\<close>

text \<open>The defaults of a key and of its first version.\<close>

definition key_defaults :: "int \<Rightarrow> KMSCryptoKey \<Rightarrow> KMSCryptoKey" where
  "key_defaults now key =
     (let purpose = (if Purpose key = [] then KMSPurposeEncrypt else Purpose key) in
      key\<lparr>Purpose := purpose,
          Algorithm := (if Algorithm key \<noteq> [] then Algorithm key
            else if purpose = KMSPurposeSign then KMSAlgoRSAPSS2048 else KMSAlgoSymmetric),
          LabelsJSON := (if LabelsJSON key = empty_text then empty_object else LabelsJSON key),
          CryptoKey_CreatedAt := stamped_at now (CryptoKey_CreatedAt key)\<rparr>)"

definition version_defaults :: "KMSCryptoKey \<Rightarrow> KMSKeyVersion \<Rightarrow> KMSKeyVersion" where
  "version_defaults key v =
     v\<lparr>KeyVersion_State := (if KeyVersion_State v = [] then KMSStateEnabled else KeyVersion_State v),
       KeyVersion_CreatedAt := (case KeyVersion_CreatedAt v of None \<Rightarrow> CryptoKey_CreatedAt key | Some t \<Rightarrow> Some t)\<rparr>"

text \<open>Key and version are inserted in one transaction, which is given up when the key exists already.\<close>

definition insert_key :: "KMSCryptoKey \<Rightarrow> KMSKeyVersion \<Rightarrow> (KmsDb, unit option) action" where
  "insert_key key v =
     bindM (wrapM ''create kms crypto key'' (on_table kms_keys kms_keys_update
       (insert_or_ignore (same CryptoKey_Name) key))) (\<lambda>n.
     if n = 0 then returnM None
     else bindM (wrapM ''create kms key version'' (on_table_checked kms_key_versions kms_key_versions_update
            (insert_row (same KeyVersion_Name) v))) (\<lambda>_. returnM (Some ())))"

definition CreateKMSCryptoKey :: "int \<Rightarrow> KMSCryptoKey \<Rightarrow> KMSKeyVersion \<Rightarrow> (KmsDb, bool) action" where
  "CreateKMSCryptoKey now key v =
     (if CryptoKey_Name key = [] \<or> KeyRing key = [] then raiseM (Errorf ''kms crypto key requires name and key ring'')
      else if KeyVersion_Name v = [] \<or> CryptoKey v = [] \<or> KeyVersion_VersionID v = [] then
        raiseM (Errorf ''kms key version requires name, crypto key, and version id'')
      else if KeyMaterialCiphertext v = [] then raiseM (Errorf ''kms key version requires sealed key material'')
      else
        let key = key_defaults now key in
        bindM (transaction_option (insert_key key (version_defaults key v))) (\<lambda>done.
        returnM (done \<noteq> None)))"

definition GetKMSCryptoKey :: "string \<Rightarrow> (KmsDb, KMSCryptoKey option) action" where
  "GetKMSCryptoKey name = wrapM ''get kms crypto key'' (query (\<lambda>db. find (\<lambda>k. CryptoKey_Name k = name) (kms_keys db)))"

definition ListKMSCryptoKeys :: "string \<Rightarrow> (KmsDb, KMSCryptoKey list) action" where
  "ListKMSCryptoKeys keyRing =
     wrapM ''list kms crypto keys'' (query (\<lambda>db. sort_key CryptoKey_Name
       (filter (\<lambda>k. KeyRing k = keyRing) (kms_keys db))))"

definition UpdateKMSCryptoKey :: "string \<Rightarrow> document \<Rightarrow> (KmsDb, KMSCryptoKey option) action" where
  "UpdateKMSCryptoKey name labelsJSON =
     (let labelsJSON = (if labelsJSON = empty_text then empty_object else labelsJSON) in
      bindM (wrapM ''update kms crypto key'' (on_table kms_keys kms_keys_update
        (update_rows (\<lambda>k. CryptoKey_Name k = name) (\<lambda>k. k\<lparr>LabelsJSON := labelsJSON\<rparr>)))) (\<lambda>_.
      GetKMSCryptoKey name))"

section \<open>Versions\<close>

definition GetKMSKeyVersion :: "string \<Rightarrow> (KmsDb, KMSKeyVersion option) action" where
  "GetKMSKeyVersion name =
     wrapM ''get kms key version'' (query (\<lambda>db. find (\<lambda>v. KeyVersion_Name v = name) (kms_key_versions db)))"

definition PrimaryKMSKeyVersion :: "string \<Rightarrow> (KmsDb, KMSKeyVersion option) action" where
  "PrimaryKMSKeyVersion cryptoKey = GetKMSKeyVersion (cryptoKey @ ''/cryptoKeyVersions/1'')"

definition set_version_state :: "string \<Rightarrow> string \<Rightarrow> string \<Rightarrow> (KmsDb, KMSKeyVersion option) action" where
  "set_version_state msg state name =
     bindM (GetKMSKeyVersion name) (\<lambda>v.
       case v of
         None \<Rightarrow> returnM None
       | Some v \<Rightarrow>
           if KeyVersion_State v = state then returnM (Some v)
           else bindM (wrapM msg (on_table kms_key_versions kms_key_versions_update
                  (update_rows (\<lambda>r. KeyVersion_Name r = name) (\<lambda>r. r\<lparr>KeyVersion_State := state\<rparr>)))) (\<lambda>_.
                returnM (Some (v\<lparr>KeyVersion_State := state\<rparr>))))"

definition DestroyKMSKeyVersion :: "string \<Rightarrow> (KmsDb, KMSKeyVersion option) action" where
  "DestroyKMSKeyVersion name = set_version_state ''destroy kms key version'' KMSStateDestroyed name"

definition RestoreKMSKeyVersion :: "string \<Rightarrow> (KmsDb, KMSKeyVersion option) action" where
  "RestoreKMSKeyVersion name = set_version_state ''restore kms key version'' KMSStateEnabled name"

text \<open>\<open>ORDER BY CAST(version\_id AS INTEGER), version\_id\<close>.\<close>

definition ListKMSKeyVersions :: "string \<Rightarrow> (KmsDb, KMSKeyVersion list) action" where
  "ListKMSKeyVersions cryptoKey =
     wrapM ''list kms key versions'' (query (\<lambda>db.
       sort_key (\<lambda>v. cast_integer (KeyVersion_VersionID v)) (sort_key KeyVersion_VersionID
         (filter (\<lambda>v. CryptoKey v = cryptoKey) (kms_key_versions db)))))"

end
