(* ===== verification/Lab_Store.thy ===== *)
theory Lab_Store
  imports Iam_On_Store Pubsub_Store Kms_Store
begin

text \<open>
  The whole database of the lab: the tables of the components side by side, as they are in the one SQLite file.
  \<open>inside\<close> runs an operation of a component on its part. \<open>reads\<close> says that an action changes no table; the
  rules of \<open>reads_intros\<close> follow the structure of an action.
\<close>

named_theorems reads_intros \<open>actions that change no table\<close>

record Lab =
  iam :: Db
  pubsub :: PubSubDb
  secretmanager :: SecretDb
  kms :: KmsDb

definition inside ::
  "('lab \<Rightarrow> 'db) \<Rightarrow> (('db \<Rightarrow> 'db) \<Rightarrow> 'lab \<Rightarrow> 'lab) \<Rightarrow> ('db, 'a) action \<Rightarrow> ('lab, 'a) action" where
  "inside get put m s =
     (case m \<lparr>tables = get (tables s), faults = faults s\<rparr> of
        (r, s') \<Rightarrow> (r, \<lparr>tables = put (\<lambda>_. tables s') (tables s), faults = faults s'\<rparr>))"

abbreviation in_iam :: "(Db, 'a) action \<Rightarrow> (Lab, 'a) action" where
  "in_iam \<equiv> inside iam iam_update"

abbreviation in_secrets :: "(SecretDb, 'a) action \<Rightarrow> (Lab, 'a) action" where
  "in_secrets \<equiv> inside secretmanager secretmanager_update"

abbreviation in_kms :: "(KmsDb, 'a) action \<Rightarrow> (Lab, 'a) action" where
  "in_kms \<equiv> inside kms kms_update"

abbreviation in_pubsub :: "(PubSubDb, 'a) action \<Rightarrow> (Lab, 'a) action" where
  "in_pubsub \<equiv> inside pubsub pubsub_update"

definition reads :: "('db, 'a) action \<Rightarrow> bool" where
  "reads m \<longleftrightarrow> (\<forall>s. tables (snd (m s)) = tables s)"

lemma readsD: "reads m \<Longrightarrow> m s = (r, s') \<Longrightarrow> tables s' = tables s"
  by (metis reads_def snd_conv)

lemma reads_return [reads_intros]: "reads (returnM x)"
  by (simp add: reads_def)

lemma reads_raise [reads_intros]: "reads (raiseM e)"
  by (simp add: reads_def)

lemma reads_query [reads_intros]: "reads (query q)"
  by (auto simp: reads_def dest: query_unchanged split: prod.split) (metis prod.collapse query_unchanged)

lemma reads_bind [reads_intros]:
  assumes "reads m" and "\<And>x. reads (f x)"
  shows "reads (bindM m f)"
  unfolding reads_def
proof
  fix s
  obtain r s1 where s1: "m s = (r, s1)" by fastforce
  show "tables (snd (bindM m f s)) = tables s"
    using s1 readsD [OF assms(1) s1] assms(2) by (cases r) (auto simp: bindM_def reads_def)
qed

lemma reads_catch [reads_intros]:
  assumes "reads m" and "\<And>x. reads (f x)"
  shows "reads (catchM m f)"
  unfolding reads_def
proof
  fix s
  obtain r s1 where s1: "m s = (r, s1)" by fastforce
  show "tables (snd (catchM m f s)) = tables s"
    using s1 readsD [OF assms(1) s1] assms(2) by (auto simp: catchM_def reads_def)
qed

lemma reads_sum [reads_intros]:
  "(\<And>e. reads (g e)) \<Longrightarrow> (\<And>x. reads (f x)) \<Longrightarrow> reads (case r of Inl e \<Rightarrow> g e | Inr x \<Rightarrow> f x)"
  by (cases r) auto

lemma reads_wrap [reads_intros]: "reads m \<Longrightarrow> reads (wrapM msg m)"
  unfolding wrapM_def by (intro reads_catch reads_sum reads_raise reads_return)

lemma reads_lift [reads_intros]: "reads (liftE r)"
  by (cases r) (simp_all add: liftE_def reads_def)

lemma reads_if [reads_intros]: "reads m1 \<Longrightarrow> reads m2 \<Longrightarrow> reads (if b then m1 else m2)"
  by simp

lemma reads_option [reads_intros]:
  "reads m \<Longrightarrow> (\<And>x. reads (f x)) \<Longrightarrow> reads (case r of None \<Rightarrow> m | Some x \<Rightarrow> f x)"
  by (cases r) auto

lemma reads_pair [reads_intros]: "(\<And>x y. reads (f x y)) \<Longrightarrow> reads (case r of (x, y) \<Rightarrow> f x y)"
  by (cases r) auto

lemma reads_let [reads_intros]: "(\<And>x. reads (f x)) \<Longrightarrow> reads (let x = v in f x)"
  by (simp add: Let_def)

text \<open>Parts of the database.\<close>

lemma reads_inside:
  fixes get :: "'lab \<Rightarrow> 'db"
  assumes "reads m" and "\<And>db. put (\<lambda>_. get db) db = db"
  shows "reads (inside get put m)"
  unfolding reads_def
proof
  fix s :: "'lab connection"
  obtain r s1 where s1: "m \<lparr>tables = get (tables s), faults = faults s\<rparr> = (r, s1)" by fastforce
  with assms(1) have "tables s1 = get (tables s)" by (auto dest: readsD)
  with s1 assms(2) show "tables (snd (inside get put m s)) = tables s" by (simp add: inside_def)
qed

lemma reads_in_parts [reads_intros]:
  "reads m1 \<Longrightarrow> reads (in_iam m1)" "reads m2 \<Longrightarrow> reads (in_secrets m2)" "reads m3 \<Longrightarrow> reads (in_kms m3)"
  "reads m4 \<Longrightarrow> reads (in_pubsub m4)"
  by (rule reads_inside; simp)+

lemma inside_run:
  assumes "m \<lparr>tables = get (tables s), faults = faults s\<rparr> = (r, s')"
  shows "inside get put m s = (r, \<lparr>tables = put (\<lambda>_. tables s') (tables s), faults = faults s'\<rparr>)"
  using assms by (simp add: inside_def)

lemma preserves_inside:
  fixes get :: "'lab \<Rightarrow> 'db"
  assumes "preserves I m" and "\<And>db x. get (put (\<lambda>_. x) db) = x"
  shows "preserves (\<lambda>db. I (get db)) (inside get put m)"
  unfolding preserves_def
proof (intro allI impI)
  fix s :: "'lab connection"
  assume I: "I (get (tables s))"
  obtain r s1 where s1: "m \<lparr>tables = get (tables s), faults = faults s\<rparr> = (r, s1)" by fastforce
  have "I (tables s1)" by (rule preservesD [OF assms(1) _ s1]) (simp add: I)
  with s1 assms(2) show "I (get (tables (snd (inside get put m s))))" by (simp add: inside_def)
qed

end
