(* ===== verification/Go_Decode.thy ===== *)
theory Go_Decode
  imports Go_Json
begin

text \<open>
  Decoding a JSON body whose error the code ignores: \<^verbatim>\<open>_ = json.NewDecoder(body).Decode(&v)\<close>. A value of the wrong
  type leaves its target as it is, a null resets a pointer or a map, and the rest of the body is decoded all the
  same; a map is decoded into the map that is there. Also the decoding of maps of strings when the error counts.
\<close>

type_synonym 'a filler = "json \<Rightarrow> 'a \<Rightarrow> 'a"

fun fill_string :: "string filler" where
  "fill_string (JStr s) old = s"
| "fill_string _ old = old"

text \<open>An element that is not a string becomes the empty string.\<close>

fun fill_string_map :: "string_map filler" where
  "fill_string_map (JObj ms) old = foldl (\<lambda>m (k, v). assign k (string_value v) m) old ms"
| "fill_string_map JNull old = []"
| "fill_string_map _ old = old"

text \<open>A map of arbitrary values; \<open>None\<close> is the nil map.\<close>

fun fill_any_map :: "(string \<times> json) list option filler" where
  "fill_any_map (JObj ms) old = Some (foldl (\<lambda>m (k, v). assign k v m) (case old of None \<Rightarrow> [] | Some m \<Rightarrow> m) ms)"
| "fill_any_map JNull old = None"
| "fill_any_map _ old = old"

fun fill_elements :: "'a filler \<Rightarrow> 'a \<Rightarrow> json list \<Rightarrow> 'a list \<Rightarrow> 'a list" where
  "fill_elements fill zero [] olds = []"
| "fill_elements fill zero (v # vs) olds =
     fill v (case olds of [] \<Rightarrow> zero | x # _ \<Rightarrow> x) # fill_elements fill zero vs (drop 1 olds)"

fun fill_slice :: "'a filler \<Rightarrow> 'a \<Rightarrow> 'a list filler" where
  "fill_slice fill zero (JArr vs) olds = fill_elements fill zero vs olds"
| "fill_slice fill zero JNull olds = []"
| "fill_slice fill zero _ olds = olds"

text \<open>A pointer that is not reset points to a value even when the decoding of that value fails.\<close>

fun fill_pointer :: "'a filler \<Rightarrow> 'a \<Rightarrow> 'a option filler" where
  "fill_pointer fill zero JNull old = None"
| "fill_pointer fill zero v old = Some (fill v (case old of None \<Rightarrow> zero | Some x \<Rightarrow> x))"

definition filler_of :: "(string \<times> 'r filler) list \<Rightarrow> string \<Rightarrow> 'r filler option" where
  "filler_of fs key =
     (case map_of fs key of
        Some fill \<Rightarrow> Some fill
      | None \<Rightarrow> map_option snd (find (\<lambda>(name, _). EqualFold name key) fs))"

fun fill_struct :: "(string \<times> 'r filler) list \<Rightarrow> 'r filler" where
  "fill_struct fs (JObj ms) r =
     foldl (\<lambda>r (key, v). case filler_of fs key of None \<Rightarrow> r | Some fill \<Rightarrow> fill v r) r ms"
| "fill_struct fs _ r = r"

definition fill_field :: "('r \<Rightarrow> 'a) \<Rightarrow> ('a \<Rightarrow> 'r \<Rightarrow> 'r) \<Rightarrow> 'a filler \<Rightarrow> 'r filler" where
  "fill_field get put fill v r = put (fill v (get r)) r"

text \<open>\<open>None\<close> is a body without a value.\<close>

fun Decode_ignoring :: "'a filler \<Rightarrow> document option \<Rightarrow> 'a \<Rightarrow> 'a" where
  "Decode_ignoring fill (Some (Json v)) zero = fill v zero"
| "Decode_ignoring fill _ zero = zero"

section \<open>Decoding whose error counts\<close>

fun is_string_or_null :: "json \<Rightarrow> bool" where
  "is_string_or_null (JStr s) = True"
| "is_string_or_null JNull = True"
| "is_string_or_null _ = False"

fun decode_string_map :: "string_map decoder" where
  "decode_string_map (JObj ms) old =
     (if list_all (\<lambda>(k, v). is_string_or_null v) ms then Inr (fill_string_map (JObj ms) old) else Inl json_type_error)"
| "decode_string_map JNull old = Inr []"
| "decode_string_map _ old = Inl json_type_error"

definition Decode :: "'a decoder \<Rightarrow> document option \<Rightarrow> 'a \<Rightarrow> error + 'a" where
  "Decode dec first zero = (case first of None \<Rightarrow> Inl (Errorf ''EOF'') | Some doc \<Rightarrow> Unmarshal dec doc zero)"

text \<open>\<^verbatim>\<open>json.Unmarshal\<close> of a body that may have no bytes.\<close>

definition Unmarshal_body :: "'a decoder \<Rightarrow> document option \<Rightarrow> 'a \<Rightarrow> error + 'a" where
  "Unmarshal_body dec body zero = (case body of None \<Rightarrow> Inl json_syntax_error | Some doc \<Rightarrow> Unmarshal dec doc zero)"

definition string_map_json :: "string_map \<Rightarrow> json" where
  "string_map_json m = marshal_map (map (\<lambda>(k, v). (k, JStr v)) m)"

end
