(* ===== verification/Go_Base64.thy ===== *)
theory Go_Base64
  imports Go_Base
begin

text \<open>
  The standard encoding of \<^verbatim>\<open>encoding/base64\<close>: \<open>EncodeToString\<close> and \<open>DecodeString\<close> of \<^verbatim>\<open>base64.StdEncoding\<close>. Decoding
  skips carriage returns and newlines, requires the padding, and does not look at the unused bits of the last
  character. Decoding undoes encoding.
\<close>

definition base64_alphabet :: string where
  "base64_alphabet = ''ABCDEFGHIJKLMNOPQRSTUVWXYZabcdefghijklmnopqrstuvwxyz0123456789+/''"

definition base64_char :: "nat \<Rightarrow> char" where
  "base64_char n = base64_alphabet ! n"

definition base64_value :: "char \<Rightarrow> nat option" where
  "base64_value c = IndexByte base64_alphabet c"

definition corrupt_input :: error where
  "corrupt_input = Errorf ''illegal base64 data''"

text \<open>The four characters of three bytes.\<close>

definition base64_quad :: "nat \<Rightarrow> string" where
  "base64_quad n = map base64_char [n div 2 ^ 18, n div 2 ^ 12 mod 64, n div 2 ^ 6 mod 64, n mod 64]"

fun EncodeToString :: "string \<Rightarrow> string" where
  "EncodeToString [] = []"
| "EncodeToString [a] = take 2 (base64_quad (of_char a * 2 ^ 16)) @ ''==''"
| "EncodeToString [a, b] = take 3 (base64_quad (of_char a * 2 ^ 16 + of_char b * 2 ^ 8)) @ ''=''"
| "EncodeToString (a # b # c # rest) =
     base64_quad (of_char a * 2 ^ 16 + of_char b * 2 ^ 8 + of_char c) @ EncodeToString rest"

text \<open>The three bytes of four characters.\<close>

definition base64_bytes :: "nat \<Rightarrow> nat \<Rightarrow> nat \<Rightarrow> nat \<Rightarrow> string" where
  "base64_bytes a b c d =
     (let n = a * 2 ^ 18 + b * 2 ^ 12 + c * 2 ^ 6 + d
      in map char_of [n div 2 ^ 16, n div 2 ^ 8 mod 256, n mod 256])"

fun decode_quads :: "string \<Rightarrow> error + string" where
  "decode_quads [] = Inr []"
| "decode_quads (a # b # c # d # rest) =
     (case (base64_value a, base64_value b, base64_value c, base64_value d) of
        (Some a, Some b, Some c, Some d) \<Rightarrow>
          bindE (decode_quads rest) (\<lambda>out. Inr (base64_bytes a b c d @ out))
      | (Some a, Some b, Some c, None) \<Rightarrow>
          if d = CHR ''='' \<and> rest = [] then Inr (take 2 (base64_bytes a b c 0)) else Inl corrupt_input
      | (Some a, Some b, None, _) \<Rightarrow>
          if c = CHR ''='' \<and> d = CHR ''='' \<and> rest = [] then Inr (take 1 (base64_bytes a b 0 0))
          else Inl corrupt_input
      | _ \<Rightarrow> Inl corrupt_input)"
| "decode_quads _ = Inl corrupt_input"

definition DecodeString :: "string \<Rightarrow> error + string" where
  "DecodeString s = decode_quads (filter (\<lambda>c. c \<noteq> CHR 0x0A \<and> c \<noteq> CHR 0x0D) s)"

section \<open>Decoding undoes encoding\<close>

lemma base64_chars:
  "list_all (\<lambda>n. base64_value (base64_char n) = Some n \<and> base64_char n \<noteq> CHR ''='' \<and>
     base64_char n \<noteq> CHR 0x0A \<and> base64_char n \<noteq> CHR 0x0D) [0..<64]"
  by code_simp

lemma base64_char_value:
  assumes "n < 64"
  shows "base64_value (base64_char n) = Some n"
    "base64_char n \<noteq> CHR 0x0A" "base64_char n \<noteq> CHR 0x0D"
  using base64_chars assms by (auto simp: list_all_iff)

lemma pad_value: "base64_value (CHR ''='') = None"
  by code_simp

lemma base_64_digits:
  fixes n :: nat
  assumes "n = 64 * m + r0" "m = 64 * k + r1" "k = 64 * q + r2"
  shows "q * 2 ^ 18 + r2 * 2 ^ 12 + r1 * 2 ^ 6 + r0 = n"
  using assms by simp

lemma quad_values:
  fixes n :: nat
  assumes "n < 2 ^ 24"
  shows "n div 2 ^ 18 < 64" "n div 2 ^ 12 mod 64 < 64" "n div 2 ^ 6 mod 64 < 64" "n mod 64 < 64"
    "n div 2 ^ 18 * 2 ^ 18 + n div 2 ^ 12 mod 64 * 2 ^ 12 + n div 2 ^ 6 mod 64 * 2 ^ 6 + n mod 64 = n"
proof -
  show "n div 2 ^ 18 < 64" using assms by (simp add: less_mult_imp_div_less)
  show "n div 2 ^ 12 mod 64 < 64" "n div 2 ^ 6 mod 64 < 64" "n mod 64 < 64" by simp_all
  obtain m k where m: "n div 64 = m" and k: "m div 64 = k" by blast
  have "n div 2 ^ 6 = m" "n div 2 ^ 12 = k" "n div 2 ^ 18 = k div 64"
    unfolding m [symmetric] k [symmetric] by (simp_all add: div_mult2_eq [symmetric])
  moreover have "n = 64 * m + n mod 64" "m = 64 * k + m mod 64" "k = 64 * (k div 64) + k mod 64"
    unfolding m [symmetric] k [symmetric] by simp_all
  ultimately show "n div 2 ^ 18 * 2 ^ 18 + n div 2 ^ 12 mod 64 * 2 ^ 12 + n div 2 ^ 6 mod 64 * 2 ^ 6 + n mod 64 = n"
    by (simp only:) (rule base_64_digits)
qed

lemma base64_bytes_quad:
  assumes "n < 2 ^ 24"
  shows "base64_bytes (n div 2 ^ 18) (n div 2 ^ 12 mod 64) (n div 2 ^ 6 mod 64) (n mod 64) =
    map char_of [n div 2 ^ 16, n div 2 ^ 8 mod 256, n mod 256]"
  unfolding base64_bytes_def quad_values(5) [OF assms] by (simp add: Let_def)

lemma three_bytes:
  fixes a b c :: nat
  assumes "a < 256" "b < 256" "c < 256"
  shows "a * 2 ^ 16 + b * 2 ^ 8 + c < 2 ^ 24" "(a * 2 ^ 16 + b * 2 ^ 8 + c) div 2 ^ 16 = a"
    "(a * 2 ^ 16 + b * 2 ^ 8 + c) div 2 ^ 8 mod 256 = b" "(a * 2 ^ 16 + b * 2 ^ 8 + c) mod 256 = c"
proof -
  show "a * 2 ^ 16 + b * 2 ^ 8 + c < 2 ^ 24" "(a * 2 ^ 16 + b * 2 ^ 8 + c) div 2 ^ 16 = a"
    using assms by auto
  have n: "a * 2 ^ 16 + b * 2 ^ 8 + c = c + 256 * (b + 256 * a)" by simp
  have "(c + 256 * (b + 256 * a)) div 256 = b + 256 * a" "(c + 256 * (b + 256 * a)) mod 256 = c"
    "(b + 256 * a) mod 256 = b"
    using assms by (simp_all only: mod_mult_self2 div_mult_self2 mod_less div_less add_0_left zero_neq_numeral not_False_eq_True)
  then show "(a * 2 ^ 16 + b * 2 ^ 8 + c) div 2 ^ 8 mod 256 = b" "(a * 2 ^ 16 + b * 2 ^ 8 + c) mod 256 = c"
    unfolding n by simp_all
qed

lemma quad_decodes:
  assumes "n < 2 ^ 24"
  shows "base64_quad n = [base64_char (n div 2 ^ 18), base64_char (n div 2 ^ 12 mod 64), base64_char (n div 2 ^ 6 mod 64),
      base64_char (n mod 64)]"
    "base64_value (base64_char (n div 2 ^ 18)) = Some (n div 2 ^ 18)"
    "base64_value (base64_char (n div 2 ^ 12 mod 64)) = Some (n div 2 ^ 12 mod 64)"
    "base64_value (base64_char (n div 2 ^ 6 mod 64)) = Some (n div 2 ^ 6 mod 64)"
    "base64_value (base64_char (n mod 64)) = Some (n mod 64)"
  by (simp_all add: base64_quad_def base64_char_value [OF quad_values(1) [OF assms]]
      base64_char_value [OF quad_values(2) [OF assms]] base64_char_value [OF quad_values(3) [OF assms]]
      base64_char_value [OF quad_values(4) [OF assms]] del: power_numeral)

lemma encoded_chars: "c \<in> set (EncodeToString s) \<Longrightarrow> c \<noteq> CHR 0x0A \<and> c \<noteq> CHR 0x0D"
proof -
  have quad: "c \<noteq> CHR 0x0A \<and> c \<noteq> CHR 0x0D" if "c \<in> set (base64_quad n)" "n < 2 ^ 24" for c n
    using that(1) quad_values [OF that(2)] base64_char_value by (auto simp: base64_quad_def)
  have bytes: "of_char a * 2 ^ 16 < (2 ^ 24 :: nat)" "of_char a * 2 ^ 16 + of_char b * 2 ^ 8 < (2 ^ 24 :: nat)"
    "of_char a * 2 ^ 16 + of_char b * 2 ^ 8 + of_char c < (2 ^ 24 :: nat)" for a b c :: char
    using three_bytes(1) [of "of_char a" "of_char b" "of_char c"] by simp_all
  show "c \<in> set (EncodeToString s) \<Longrightarrow> c \<noteq> CHR 0x0A \<and> c \<noteq> CHR 0x0D"
    by (induction s rule: EncodeToString.induct)
       (auto dest!: in_set_takeD quad [OF _ bytes(1)] quad [OF _ bytes(2)] quad [OF _ bytes(3)] simp del: power_numeral)
qed

lemma decode_quads_encode: "decode_quads (EncodeToString s) = Inr s"
proof (induction s rule: EncodeToString.induct)
  case 1
  show ?case by simp
next
  case (2 a)
  let ?n = "of_char a * 2 ^ 16 :: nat"
  have n: "?n < 2 ^ 24" "?n div 2 ^ 16 = of_char a"
    using three_bytes [of "of_char a" 0 0] by simp_all
  have zero: "?n div 2 ^ 6 mod 64 = 0" "?n mod 64 = 0"
    using mod_mult_self2_is_0 [of "of_char a * 1024" 64] mod_mult_self2_is_0 [of "of_char a * 16" 64] by simp_all
  have "base64_bytes (?n div 2 ^ 18) (?n div 2 ^ 12 mod 64) 0 0 = map char_of [?n div 2 ^ 16, ?n div 2 ^ 8 mod 256, ?n mod 256]"
    using base64_bytes_quad [OF n(1)] unfolding zero .
  then show ?case
    by (simp add: quad_decodes [OF n(1)] pad_value n(2) del: power_numeral)
next
  case (3 a b)
  let ?n = "of_char a * 2 ^ 16 + of_char b * 2 ^ 8 :: nat"
  have n: "?n < 2 ^ 24" "?n div 2 ^ 16 = of_char a" "?n div 2 ^ 8 mod 256 = of_char b"
    using three_bytes [of "of_char a" "of_char b" 0] by simp_all
  have zero: "?n mod 64 = 0"
    using mod_mult_self2_is_0 [of "of_char a * 1024 + of_char b * 4" 64] by (simp add: distrib_right)
  have "base64_bytes (?n div 2 ^ 18) (?n div 2 ^ 12 mod 64) (?n div 2 ^ 6 mod 64) 0 =
      map char_of [of_char a, of_char b, ?n mod 256]"
    using base64_bytes_quad [OF n(1)] unfolding zero n(2,3) .
  then show ?case
    by (simp add: quad_decodes [OF n(1)] pad_value del: power_numeral)
next
  case (4 a b c rest)
  let ?n = "of_char a * 2 ^ 16 + of_char b * 2 ^ 8 + of_char c :: nat"
  have n: "?n < 2 ^ 24" "?n div 2 ^ 16 = of_char a" "?n div 2 ^ 8 mod 256 = of_char b" "?n mod 256 = of_char c"
    using three_bytes [of "of_char a" "of_char b" "of_char c"] by simp_all
  show ?case
    by (simp add: quad_decodes [OF n(1)] base64_bytes_quad [OF n(1)] n(2-4) 4 del: power_numeral)
qed

lemma DecodeString_EncodeToString [simp]: "DecodeString (EncodeToString s) = Inr s"
proof -
  have "filter (\<lambda>c. c \<noteq> CHR 0x0A \<and> c \<noteq> CHR 0x0D) (EncodeToString s) = EncodeToString s"
    using encoded_chars by (simp add: filter_id_conv)
  then show ?thesis unfolding DecodeString_def by (simp only: decode_quads_encode)
qed

end
