(* ===== verification/Lab_Http.thy ===== *)
theory Lab_Http
  imports Lab_Store Go_Decode Api_Gates Go_Base64
begin

text \<open>
  What the service handlers share: requests, replies, the decision of the evaluator over the whole database, and
  early returns. \<open>attempt m on\_err k\<close> is \<^verbatim>\<open>x, err := m; if err != nil { on_err; return }; k\<close>. The reads of one
  decision are one statement, which may fail.

  \<open>guarded P Q m\<close> is complete mediation: when \<open>m\<close> changes a table or gives a reply with \<open>Q\<close>, the tables it
  started on satisfied \<open>P\<close>. The locale \<open>mediated\_service\<close> is the contract of a service whose every request is
  guarded by a permission: a caller without permissions gets nothing out of any run of requests.
\<close>

named_theorems guarded_intros \<open>complete mediation\<close>

section \<open>Requests and replies\<close>

text \<open>\<open>req\_body\<close> is what was read of the body, \<open>None\<close> when that is no byte, and \<open>req\_body\_error\<close> the error of
  reading it. A \<^verbatim>\<open>json.Decoder\<close> reads the first value only, so that one is given apart. \<open>req\_random\<close> is what the
  random source gives.\<close>

record lab_request =
  req_principal :: "Principal option"
  req_project :: string
  req_secret :: string
  req_version :: string
  req_query :: "string \<Rightarrow> string"
  req_body :: "document option"
  req_body_error :: "error option"
  req_first :: "document option"
  req_now :: int
  req_random :: "error + string"

text \<open>What the handlers run with: the libraries and the environment.\<close>

record 'f lab_env =
  env_runtime :: runtime
  env_eval_now :: "int option"
  env_vpcsc :: string
  env_aead :: aead
  env_time :: "'f time_lib"
  env_stamp :: "stamp \<Rightarrow> string"

datatype reply =
    Rejected response
  | Reply json
  | ReplyDocument document
  | NoReply

definition gcp_NotFound :: "string \<Rightarrow> response" where
  "gcp_NotFound message = WriteREST 404 ''NOT_FOUND'' message"

definition InvalidArgument :: "string \<Rightarrow> response" where
  "InvalidArgument message = WriteREST 400 ''INVALID_ARGUMENT'' message"

definition internal :: "error \<Rightarrow> reply" where
  "internal err = Rejected (InternalError err)"

definition attempt :: "('db, 'a) action \<Rightarrow> (error \<Rightarrow> 'r) \<Rightarrow> ('a \<Rightarrow> ('db, 'r) action) \<Rightarrow> ('db, 'r) action" where
  "attempt m on_err k = catchM m (\<lambda>r. case r of Inl err \<Rightarrow> returnM (on_err err) | Inr x \<Rightarrow> k x)"

text \<open>A gate has written its response when it does not let the request pass.\<close>

definition gate :: "('db, response option) action \<Rightarrow> ('db, reply) action \<Rightarrow> ('db, reply) action" where
  "gate m k = bindM m (\<lambda>r. case r of Some resp \<Rightarrow> returnM (Rejected resp) | None \<Rightarrow> k)"

definition mentions :: "error \<Rightarrow> string \<Rightarrow> bool" where
  "mentions err text = Contains (Error_text err) text"

section \<open>Decisions\<close>

definition lab_evaluator :: "'f lab_env \<Rightarrow> Lab \<Rightarrow> Evaluator option" where
  "lab_evaluator env db = Some (serverEvaluator (env_eval_now env) (iam db))"

definition evaluated :: "'f lab_env \<Rightarrow> (Evaluator option \<Rightarrow> error + 'a) \<Rightarrow> (Lab, 'a) action" where
  "evaluated env f = bindM (query (\<lambda>db. f (lab_evaluator env db))) liftE"

text \<open>The principal has the permission on one of the resources.\<close>

definition permitted :: "'f lab_env \<Rightarrow> Lab \<Rightarrow> Principal \<Rightarrow> string \<Rightarrow> string list \<Rightarrow> bool" where
  "permitted env db p permission resources \<longleftrightarrow>
     EvaluateAny (env_runtime env) (lab_evaluator env db) (Email p) (IsRoot p) permission resources = Inr True"

lemma Evaluate_nonempty:
  "Evaluate rt (Some e) email isRoot permission [] = Inr True \<Longrightarrow> isRoot"
  by (auto simp: Evaluate_def split: if_splits)

lemma permitted_one:
  "permitted env db p permission [resource] \<longleftrightarrow>
     Evaluate (env_runtime env) (lab_evaluator env db) (Email p) (IsRoot p) permission resource = Inr True"
proof -
  have one: "bindE x (\<lambda>ok. if ok then Inr True else anyE f []) = Inr True \<longleftrightarrow> x = Inr True"
    for x and f :: "string \<Rightarrow> error + bool"
    by (cases x) auto
  have "EvaluateAny rt (Some e) email isRoot perm [resource] = Inr True \<longleftrightarrow>
      Evaluate rt (Some e) email isRoot perm resource = Inr True" for rt e email isRoot perm
    using Evaluate_nonempty [of rt e email isRoot perm]
    by (cases isRoot; cases "resource = []") (auto simp: EvaluateAny_def one, simp_all add: Evaluate_def)
  then show ?thesis by (simp add: permitted_def lab_evaluator_def)
qed

section \<open>Complete mediation\<close>

definition guarded :: "('db \<Rightarrow> bool) \<Rightarrow> ('r \<Rightarrow> bool) \<Rightarrow> ('db, 'r) action \<Rightarrow> bool" where
  "guarded P Q m \<longleftrightarrow>
     (\<forall>s r s'. m s = (r, s') \<longrightarrow> tables s' \<noteq> tables s \<or> (\<exists>x. r = Inr x \<and> Q x) \<longrightarrow> P (tables s))"

lemma guarded_return [guarded_intros]: "\<not> Q x \<Longrightarrow> guarded P Q (returnM x)"
  by (auto simp: guarded_def returnM_def)

lemma guarded_raise [guarded_intros]: "guarded P Q (raiseM e)"
  by (auto simp: guarded_def raiseM_def)

lemma guarded_if [guarded_intros]:
  "(b \<Longrightarrow> guarded P Q m1) \<Longrightarrow> (\<not> b \<Longrightarrow> guarded P Q m2) \<Longrightarrow> guarded P Q (if b then m1 else m2)"
  by simp

lemma guarded_option [guarded_intros]:
  "guarded P Q m \<Longrightarrow> (\<And>x. r = Some x \<Longrightarrow> guarded P Q (f x)) \<Longrightarrow> guarded P Q (case r of None \<Rightarrow> m | Some x \<Rightarrow> f x)"
  by (cases r) auto

lemma guarded_sum [guarded_intros]:
  "(\<And>e. r = Inl e \<Longrightarrow> guarded P Q (g e)) \<Longrightarrow> (\<And>x. r = Inr x \<Longrightarrow> guarded P Q (f x)) \<Longrightarrow>
     guarded P Q (case r of Inl e \<Rightarrow> g e | Inr x \<Rightarrow> f x)"
  by (cases r) auto

lemma guarded_pair [guarded_intros]:
  "(\<And>x y. guarded P Q (f x y)) \<Longrightarrow> guarded P Q (case r of (x, y) \<Rightarrow> f x y)"
  by (cases r) auto

lemma guarded_let [guarded_intros]: "(\<And>x. guarded P Q (f x)) \<Longrightarrow> guarded P Q (let x = v in f x)"
  by (simp add: Let_def)

text \<open>An action that reads first is guarded when what follows is.\<close>

lemma guarded_attempt [guarded_intros]:
  assumes "reads m" and "\<And>err. \<not> Q (on_err err)" and "\<And>x. guarded P Q (k x)"
  shows "guarded P Q (attempt m on_err k)"
  unfolding guarded_def
proof (intro allI impI)
  fix s r s'
  assume run: "attempt m on_err k s = (r, s')"
    and eff: "tables s' \<noteq> tables s \<or> (\<exists>x. r = Inr x \<and> Q x)"
  obtain r1 s1 where s1: "m s = (r1, s1)" by fastforce
  then have t: "tables s1 = tables s" using assms(1) by (rule readsD [rotated])
  show "P (tables s)"
  proof (cases r1)
    case (Inl err)
    with run s1 have "r = Inr (on_err err)" "s' = s1" by (auto simp: attempt_def catchM_def)
    with eff t assms(2) show ?thesis by auto
  next
    case (Inr x)
    with run s1 have "k x s1 = (r, s')" by (auto simp: attempt_def catchM_def)
    with eff t assms(3) [of x] show ?thesis unfolding guarded_def by metis
  qed
qed

lemma guarded_bind [guarded_intros]:
  assumes "reads m" and "\<And>x. guarded P Q (f x)"
  shows "guarded P Q (bindM m f)"
  unfolding guarded_def
proof (intro allI impI)
  fix s r s'
  assume run: "bindM m f s = (r, s')" and eff: "tables s' \<noteq> tables s \<or> (\<exists>x. r = Inr x \<and> Q x)"
  obtain r1 s1 where s1: "m s = (r1, s1)" by fastforce
  then have t: "tables s1 = tables s" using assms(1) by (rule readsD [rotated])
  show "P (tables s)"
  proof (cases r1)
    case (Inl err)
    with run s1 eff t show ?thesis by (auto simp: bindM_def)
  next
    case (Inr x)
    with run s1 have "f x s1 = (r, s')" by (auto simp: bindM_def)
    with eff t assms(2) [of x] show ?thesis unfolding guarded_def by metis
  qed
qed

text \<open>What follows a decision needs no other guard.\<close>

lemma guarded_decision:
  assumes "\<And>db. f (lab_evaluator env db) = Inr True \<Longrightarrow> P db" and "\<And>err. \<not> Q (on_err err)" and "\<not> Q denied"
  shows "guarded P Q (attempt (evaluated env f) on_err (\<lambda>allowed. if \<not> allowed then returnM denied else k))"
  unfolding guarded_def
proof (intro allI impI)
  fix s r s'
  assume run: "attempt (evaluated env f) on_err (\<lambda>allowed. if \<not> allowed then returnM denied else k) s = (r, s')"
    and eff: "tables s' \<noteq> tables s \<or> (\<exists>x. r = Inr x \<and> Q x)"
  obtain e s0 where s0: "next_fault s = (e, s0)" by fastforce
  then have t: "tables s0 = tables s" by simp
  have stay: "P (tables s)" if "r = Inr y" "\<not> Q y" "s' = s0" for y
    using that eff t by auto
  show "P (tables s)"
  proof (cases e)
    case (Some err)
    with run s0 have "r = Inr (on_err err)" "s' = s0"
      by (auto simp: attempt_def evaluated_def catchM_def bindM_def query_def returnM_def)
    then show ?thesis by (rule stay [OF _ assms(2)])
  next
    case None
    then have q: "evaluated env f s = liftE (f (lab_evaluator env (tables s0))) s0"
      using s0 by (simp add: evaluated_def bindM_def query_def)
    show ?thesis
    proof (cases "f (lab_evaluator env (tables s0))")
      case (Inl err)
      with run q have "r = Inr (on_err err)" "s' = s0"
        by (auto simp: attempt_def catchM_def liftE_def returnM_def raiseM_def)
      then show ?thesis by (rule stay [OF _ assms(2)])
    next
      case (Inr b)
      show ?thesis
      proof (cases b)
        case True
        with Inr assms(1) [of "tables s0"] t show ?thesis by simp
      next
        case False
        with run q Inr have "r = Inr denied" "s' = s0"
          by (auto simp: attempt_def catchM_def liftE_def returnM_def)
        then show ?thesis by (rule stay [OF _ assms(3)])
      qed
    qed
  qed
qed

lemma guarded_mono: "guarded P Q m \<Longrightarrow> (\<And>db. P db \<Longrightarrow> P' db) \<Longrightarrow> guarded P' Q m"
  unfolding guarded_def by blast

lemma reads_attempt [reads_intros]:
  "reads m \<Longrightarrow> (\<And>x. reads (k x)) \<Longrightarrow> reads (attempt m on_err k)"
  unfolding attempt_def by (intro reads_catch reads_sum reads_return)

lemma reads_evaluated [reads_intros]: "reads (evaluated env f)"
  unfolding evaluated_def by (intro reads_intros)

section \<open>Services whose requests are all guarded\<close>

locale mediated_service =
  fixes serve :: "'req \<Rightarrow> ('db, 'r) action"
    and allowed :: "'db \<Rightarrow> 'req \<Rightarrow> bool"
    and discloses :: "'req \<Rightarrow> 'r \<Rightarrow> bool"
  assumes mediated: "guarded (\<lambda>db. allowed db req) (discloses req) (serve req)"
begin

lemma step:
  assumes "serve req s = (r, s')" and "\<not> allowed (tables s) req"
  shows "tables s' = tables s \<and> (\<forall>x. r = Inr x \<longrightarrow> \<not> discloses req x)"
  using mediated [of req] assms unfolding guarded_def by blast

text \<open>Requests that are not allowed at the start of a run change nothing and disclose nothing in it: the tables
  stay as they are, so that no request becomes allowed on the way.\<close>

lemma powerless:
  assumes "runs serve s tr s'" and "\<forall>(req, r) \<in> set tr. \<not> allowed (tables s) req"
  shows "tables s' = tables s \<and> (\<forall>(req, r) \<in> set tr. \<forall>x. r = Inr x \<longrightarrow> \<not> discloses req x)"
  using assms
proof (induction rule: runs.induct)
  case (run_op req s r s1 tr s2)
  from run_op.prems have "\<not> allowed (tables s) req" by simp
  from step [OF run_op.hyps(1) this] have s1: "tables s1 = tables s" "\<forall>x. r = Inr x \<longrightarrow> \<not> discloses req x" by auto
  with run_op.IH run_op.prems show ?case by auto
qed simp

end

end
