(* ===== verification/Handler_Steps.thy ===== *)
theory Handler_Steps
  imports Lab_Http
begin

text \<open>
  The steps of the handlers, with the rules that carry every property of a service over them: what is guarded,
  what is kept, what only reads, what a success says of the steps before it, and what a step does on
  a connection whose statements succeed.
\<close>

section \<open>Steps\<close>

text \<open>The caller of a request that \<open>wrap\<close> has let pass.\<close>

definition with_permission ::
  "'f lab_env \<Rightarrow> Principal \<Rightarrow> string \<Rightarrow> string list \<Rightarrow> (Lab, reply) action \<Rightarrow> (Lab, reply) action" where
  "with_permission env p permission resources k =
     attempt (evaluated env (\<lambda>e. EvaluateAny (env_runtime env) e (Email p) (IsRoot p) permission resources)) internal
       (\<lambda>allowed. if \<not> allowed then returnM (Rejected (PermissionDenied [])) else k)"

definition failed_precondition :: "string \<Rightarrow> reply" where
  "failed_precondition message = Rejected (WriteREST 400 ''FAILED_PRECONDITION'' message)"

text \<open>\<open>x, ok, err := m\<close> with its two early returns.\<close>

definition found :: "(Lab, 'a option) action \<Rightarrow> string \<Rightarrow> ('a \<Rightarrow> (Lab, reply) action) \<Rightarrow> (Lab, reply) action" where
  "found m message k =
     attempt m internal (\<lambda>x. case x of None \<Rightarrow> returnM (Rejected (gcp_NotFound message)) | Some x \<Rightarrow> k x)"

text \<open>A computation that may fail, without the store.\<close>

definition computed :: "error + 'a \<Rightarrow> (error \<Rightarrow> reply) \<Rightarrow> ('a \<Rightarrow> (Lab, reply) action) \<Rightarrow> (Lab, reply) action" where
  "computed r on_err k = (case r of Inl err \<Rightarrow> returnM (on_err err) | Inr x \<Rightarrow> k x)"

definition invalid :: "string \<Rightarrow> error \<Rightarrow> reply" where
  "invalid message err = Rejected (InvalidArgument message)"

fun is_success :: "reply \<Rightarrow> bool" where
  "is_success (Reply _) = True"
| "is_success (ReplyDocument _) = True"
| "is_success _ = False"

lemma internal_fails [simp]: "\<not> is_success (internal err)"
  by (simp add: internal_def)

lemma not_success_computed [simp]: "\<not> is_success (invalid m err)" "\<not> is_success (failed_precondition m)"
  by (simp_all add: invalid_def failed_precondition_def)

section \<open>Guards\<close>

lemma guarded_never: "(\<And>x. \<not> Q x) \<Longrightarrow> reads m \<Longrightarrow> guarded P Q m"
  unfolding guarded_def by (metis readsD)

lemma guarded_weaken: "guarded P Q m \<Longrightarrow> (\<And>x. Q' x \<Longrightarrow> Q x) \<Longrightarrow> guarded P Q' m"
  unfolding guarded_def by blast

lemma guarded_with_permission:
  "guarded (\<lambda>db. permitted env db p permission resources) is_success (with_permission env p permission resources k)"
  unfolding with_permission_def by (rule guarded_decision) (simp_all add: permitted_def)

lemma guarded_in_permission [guarded_intros]:
  "(\<And>x. guarded P is_success k) \<Longrightarrow> guarded P is_success (with_permission env p permission resources k)"
  unfolding with_permission_def by (intro guarded_intros reads_intros) simp_all

lemma guarded_computed [guarded_intros]:
  "(\<And>err. \<not> Q (on_err err)) \<Longrightarrow> (\<And>x. r = Inr x \<Longrightarrow> guarded P Q (k x)) \<Longrightarrow> guarded P Q (computed r on_err k)"
  unfolding computed_def by (intro guarded_sum guarded_return)

lemma guarded_found:
  "reads m \<Longrightarrow> (\<And>x. guarded P is_success (k x)) \<Longrightarrow> guarded P is_success (found m message k)"
  unfolding found_def by (intro guarded_intros) simp_all

lemma guarded_gate:
  "reads m \<Longrightarrow> guarded P is_success k \<Longrightarrow> guarded P is_success (gate m k)"
  unfolding gate_def by (intro guarded_intros) simp_all

lemma guarded_found_row:
  assumes "reads m" and "\<And>s x s'. m s = (Inr (Some x), s') \<Longrightarrow> R x (tables s)"
    and "\<And>x. guarded (\<lambda>db. R x db \<longrightarrow> P db) is_success (k x)"
  shows "guarded P is_success (found m message k)"
  unfolding guarded_def
proof (intro allI impI)
  fix s r s'
  assume run: "found m message k s = (r, s')"
    and eff: "tables s' \<noteq> tables s \<or> (\<exists>x. r = Inr x \<and> is_success x)"
  obtain r1 s1 where s1: "m s = (r1, s1)" by fastforce
  with assms(1) have t: "tables s1 = tables s" by (rule readsD)
  from run eff s1 t obtain x where x: "r1 = Inr (Some x)"
    by (cases r1) (auto simp: found_def attempt_def catchM_def split: option.splits)
  with run s1 have "k x s1 = (r, s')" by (simp add: found_def attempt_def catchM_def)
  with eff t assms(3) [of x] have "R x (tables s1) \<longrightarrow> P (tables s1)" unfolding guarded_def by metis
  with assms(2) s1 x t show "P (tables s)" by metis
qed

lemma guarded_trivial: "(\<And>db. P db) \<Longrightarrow> guarded P Q m"
  by (simp add: guarded_def)

section \<open>Reads\<close>

lemma reads_preserves:
  fixes m :: "('a, 'b) action"
  shows "(\<And>I. preserves I m) \<Longrightarrow> reads m"
  unfolding reads_def
proof
  fix s :: "'a connection"
  assume "\<And>I. preserves I m"
  then have "preserves (\<lambda>db. db = tables s) m" .
  then show "tables (snd (m s)) = tables s" by (simp add: preserves_def)
qed

lemma reads_list:
  "reads m \<Longrightarrow> (\<And>x ys. reads (f x ys)) \<Longrightarrow> reads (case xs of [] \<Rightarrow> m | x # ys \<Rightarrow> f x ys)"
  by (cases xs) auto

lemma reads_project_of [reads_intros]: "reads (ProjectIDFromPrincipalEmail email)"
  unfolding ProjectIDFromPrincipalEmail_def projectIDFromWIFPrincipal_def
  by (intro reads_intros reads_list)

lemma reads_vpcsc [reads_intros]: "reads (RequireVPCSC env from_project to_project service)"
  unfolding RequireVPCSC_def CheckVPCSC_def VPCSCDenyCrossPerimeter_def by (intro reads_intros reads_preserves preserves_ensureACM)

lemma reads_gate [reads_intros]: "reads m \<Longrightarrow> reads k \<Longrightarrow> reads (gate m k)"
  unfolding gate_def by (intro reads_intros)

section \<open>Invariants\<close>

lemma preserves_reads: "reads m \<Longrightarrow> preserves I m"
  by (simp add: reads_def preserves_def)

lemma preserves_attempt [preserves_intros]:
  "preserves I m \<Longrightarrow> (\<And>x. preserves I (k x)) \<Longrightarrow> preserves I (attempt m on_err k)"
  unfolding attempt_def by (intro preserves_intros)

lemma preserves_found [preserves_intros]:
  "preserves I m \<Longrightarrow> (\<And>x. preserves I (k x)) \<Longrightarrow> preserves I (found m message k)"
  unfolding found_def by (intro preserves_intros)

lemma preserves_computed [preserves_intros]: "(\<And>x. preserves I (k x)) \<Longrightarrow> preserves I (computed r on_err k)"
  unfolding computed_def by (intro preserves_intros)

lemma preserves_gate [preserves_intros]: "preserves I m \<Longrightarrow> preserves I k \<Longrightarrow> preserves I (gate m k)"
  unfolding gate_def by (intro preserves_intros)

lemma preserves_with_permission [preserves_intros]:
  "preserves I k \<Longrightarrow> preserves I (with_permission env p permission resources k)"
  unfolding with_permission_def by (intro preserves_intros preserves_reads [OF reads_evaluated])

lemma preserves_in_iam:
  assumes "\<And>db x. I (db\<lparr>iam := x\<rparr>) = I db"
  shows "preserves I (in_iam m)"
  using assms by (simp add: preserves_def inside_def split: prod.split)

section \<open>What a success says of the steps before it\<close>

lemma attempt_success:
  assumes "attempt m on_err k s = (Inr r, s')" and "is_success r" and "\<And>err. \<not> is_success (on_err err)"
  shows "\<exists>x s0. m s = (Inr x, s0) \<and> k x s0 = (Inr r, s')"
  using assms by (auto simp: attempt_def catchM_def returnM_def split: prod.splits sum.splits)

lemma found_success:
  assumes "found m message k s = (Inr r, s')" and "is_success r"
  shows "\<exists>x s0. m s = (Inr (Some x), s0) \<and> k x s0 = (Inr r, s')"
proof -
  obtain x s0 where "m s = (Inr x, s0)"
    and "(case x of None \<Rightarrow> returnM (Rejected (gcp_NotFound message)) | Some x \<Rightarrow> k x) s0 = (Inr r, s')"
    using attempt_success [OF assms(1) [unfolded found_def] assms(2)] by auto
  with assms(2) show ?thesis by (cases x) (auto simp: returnM_def)
qed

lemma computed_success:
  assumes "computed c on_err k s = (Inr r, s')" and "is_success r" and "\<And>err. \<not> is_success (on_err err)"
  shows "\<exists>x. c = Inr x \<and> k x s = (Inr r, s')"
  using assms by (cases c) (auto simp: computed_def returnM_def)

lemma with_permission_success:
  assumes "with_permission env p permission resources k s = (Inr r, s')" and "is_success r"
  shows "\<exists>s0. tables s0 = tables s \<and> k s0 = (Inr r, s')"
proof -
  obtain b s0 where b: "evaluated env (\<lambda>e. EvaluateAny (env_runtime env) e (Email p) (IsRoot p) permission resources) s = (Inr b, s0)"
    and rest: "(if \<not> b then returnM (Rejected (PermissionDenied [])) else k) s0 = (Inr r, s')"
    using attempt_success [OF assms(1) [unfolded with_permission_def] assms(2)] by auto
  from rest assms(2) have "k s0 = (Inr r, s')" by (cases b) (auto simp: returnM_def)
  with readsD [OF reads_evaluated b] show ?thesis by blast
qed

section \<open>Steps on a connection whose statements succeed\<close>

lemma evaluated_ok: "ok_connection s \<Longrightarrow> evaluated env f s = liftE (f (lab_evaluator env (tables s))) s"
  by (simp add: evaluated_def)

lemma attempt_ok: "m s = (Inr x, s') \<Longrightarrow> attempt m on_err k s = k x s'"
  by (simp add: attempt_def catchM_def)

lemma with_permission_ok:
  assumes "ok_connection s"
  shows "with_permission env p permission resources k s =
    (case EvaluateAny (env_runtime env) (lab_evaluator env (tables s)) (Email p) (IsRoot p) permission resources of
       Inl err \<Rightarrow> (Inr (internal err), s)
     | Inr allowed \<Rightarrow> if allowed then k s else (Inr (Rejected (PermissionDenied [])), s))"
  using assms by (auto simp: with_permission_def attempt_def catchM_def evaluated_ok liftE_def raiseM_def split: sum.split)

lemma with_permission_passes:
  "ok_connection s \<Longrightarrow> permitted env (tables s) p permission resources \<Longrightarrow> with_permission env p permission resources k s = k s"
  by (simp add: with_permission_ok permitted_def)

end
