(* ===== verification/Secret_Handlers.thy ===== *)
theory Secret_Handlers
  imports Handler_Steps Secrets_Lifecycle
begin

text \<open>
  The REST handlers of Secret Manager: \<^verbatim>\<open>internal/services/secretmanager/service.go\<close>.

  A handler is an action on the whole database whose result is the reply. The routes of \<open>RegisterREST\<close> are the
  constructors of \<open>secret_route\<close>. Each \<open>require\<close> takes what the handler does when it returns true.
\<close>

section \<open>Names\<close>

definition secretResourceName :: "string \<Rightarrow> string \<Rightarrow> string" where
  "secretResourceName project secretID = ''projects/'' @ project @ ''/secrets/'' @ secretID"

definition projectResource :: "string \<Rightarrow> string" where
  "projectResource project = ''projects/'' @ project"

definition splitColonAction :: "string \<Rightarrow> string \<times> string" where
  "splitColonAction v =
     (case IndexByte v (CHR '':'') of None \<Rightarrow> (v, []) | Some i \<Rightarrow> (take i v, drop (i + 1) v))"

text \<open>The secret a request names, with the custom method cut off.\<close>

definition request_secret :: "lab_request \<Rightarrow> string" where
  "request_secret req = secretResourceName (req_project req) (fst (splitColonAction (req_secret req)))"

definition request_version :: "lab_request \<Rightarrow> string" where
  "request_version req = fst (splitColonAction (req_version req))"

section \<open>Permissions\<close>

definition requireHTTP ::
  "'f lab_env \<Rightarrow> lab_request \<Rightarrow> string \<Rightarrow> string \<Rightarrow> (Lab, reply) action \<Rightarrow> (Lab, reply) action" where
  "requireHTTP env req permission resource k =
     (case req_principal req of
        None \<Rightarrow> returnM (Rejected (Unauthenticated []))
      | Some p \<Rightarrow>
          attempt (evaluated env (\<lambda>e. Evaluate (env_runtime env) e (Email p) (IsRoot p) permission resource)) internal
            (\<lambda>allowed. if \<not> allowed then returnM (Rejected (PermissionDenied [])) else k))"

definition requireSecretHTTP ::
  "'f lab_env \<Rightarrow> lab_request \<Rightarrow> string \<Rightarrow> string \<Rightarrow> string \<Rightarrow> (Lab, reply) action \<Rightarrow> (Lab, reply) action" where
  "requireSecretHTTP env req permission secretName project k =
     (case req_principal req of
        None \<Rightarrow> returnM (Rejected (Unauthenticated []))
      | Some p \<Rightarrow>
          attempt (evaluated env (\<lambda>e. EvaluateAny (env_runtime env) e (Email p) (IsRoot p) permission
              [secretName, projectResource project])) internal
            (\<lambda>allowed. if \<not> allowed then returnM (Rejected (PermissionDenied [])) else k))"

section \<open>Replies\<close>

definition secretJSON :: "'f lab_env \<Rightarrow> Secret \<Rightarrow> json" where
  "secretJSON env sec =
     (let replication = (if Replication sec = [] then [(''automatic'', JObj [])] else Replication sec);
          rotation = (if NextRotationTime sec = [] then [] else [(''nextRotationTime'', JStr (NextRotationTime sec))]) @
            (if RotationPeriod sec = [] then [] else [(''rotationPeriod'', JStr (RotationPeriod sec))]);
          topics_member = (if TopicsJSON sec \<in> {empty_text, Json (JArr [])} then []
            else case Unmarshal (decode_slice decode_string_map []) (TopicsJSON sec) [] of
                Inl _ \<Rightarrow> []
              | Inr ts \<Rightarrow> [(''topics'', JArr (map string_map_json ts))])
      in marshal_map (
        [(''name'', JStr (Secret_Name sec)), (''createTime'', JStr (env_stamp env (Secret_CreatedAt sec))),
         (''labels'', string_map_json (Labels sec)), (''annotations'', string_map_json (Annotations sec)),
         (''replication'', marshal_map replication)] @
        (if CMEKKmsKeyName sec = [] then []
         else [(''customerManagedEncryption'', JObj [(''kmsKeyName'', JStr (CMEKKmsKeyName sec))])]) @
        (if RotationPeriod sec \<noteq> [] \<or> NextRotationTime sec \<noteq> [] then [(''rotation'', marshal_map rotation)] else []) @
        topics_member))"

definition versionJSON :: "'f lab_env \<Rightarrow> SecretVersion \<Rightarrow> json" where
  "versionJSON env v = marshal_map
     [(''name'', JStr (Version_Name v)), (''createTime'', JStr (env_stamp env (Version_CreatedAt v))),
      (''state'', JStr (State v))]"

definition parseSecretVersionStateFilter :: "string \<Rightarrow> string" where
  "parseSecretVersionStateFilter f =
     (let f = TrimSpace f in
      if f = [] then []
      else
        let f = filter (\<lambda>c. c \<noteq> CHR 0x22) f; lower = ToLower f in
        if HasPrefix lower ''state:'' \<or> HasPrefix lower ''state='' then ToUpper (TrimSpace (drop 6 f)) else ToUpper f)"

section \<open>Bodies\<close>

record RotationBody =
  Body_NextRotationTime :: string
  Body_RotationPeriod :: string

record CreateBody =
  Body_Labels :: string_map
  Body_Annotations :: string_map
  Body_Replication :: "(string \<times> json) list option"
  Body_Topics :: "string_map list"
  Body_Rotation :: "RotationBody option"
  Body_KmsKeyName :: "string option"

definition zero_RotationBody :: RotationBody where
  "zero_RotationBody = \<lparr>Body_NextRotationTime = [], Body_RotationPeriod = []\<rparr>"

definition zero_CreateBody :: CreateBody where
  "zero_CreateBody = \<lparr>Body_Labels = [], Body_Annotations = [], Body_Replication = None, Body_Topics = [],
     Body_Rotation = None, Body_KmsKeyName = None\<rparr>"

definition fill_RotationBody :: "RotationBody filler" where
  "fill_RotationBody = fill_struct
     [(''nextRotationTime'', fill_field Body_NextRotationTime (\<lambda>x r. r\<lparr>Body_NextRotationTime := x\<rparr>) fill_string),
      (''rotationPeriod'', fill_field Body_RotationPeriod (\<lambda>x r. r\<lparr>Body_RotationPeriod := x\<rparr>) fill_string)]"

definition fill_CreateBody :: "CreateBody filler" where
  "fill_CreateBody = fill_struct
     [(''labels'', fill_field Body_Labels (\<lambda>x r. r\<lparr>Body_Labels := x\<rparr>) fill_string_map),
      (''annotations'', fill_field Body_Annotations (\<lambda>x r. r\<lparr>Body_Annotations := x\<rparr>) fill_string_map),
      (''replication'', fill_field Body_Replication (\<lambda>x r. r\<lparr>Body_Replication := x\<rparr>) fill_any_map),
      (''topics'', fill_field Body_Topics (\<lambda>x r. r\<lparr>Body_Topics := x\<rparr>) (fill_slice fill_string_map [])),
      (''rotation'', fill_field Body_Rotation (\<lambda>x r. r\<lparr>Body_Rotation := x\<rparr>) (fill_pointer fill_RotationBody zero_RotationBody)),
      (''customerManagedEncryption'', fill_field Body_KmsKeyName (\<lambda>x r. r\<lparr>Body_KmsKeyName := x\<rparr>)
         (fill_pointer (fill_struct [(''kmsKeyName'', fill_string)]) []))]"

definition RotationBody_fields :: "RotationBody fields" where
  "RotationBody_fields =
     [(''nextRotationTime'', json_field Body_NextRotationTime (\<lambda>x r. r\<lparr>Body_NextRotationTime := x\<rparr>) decode_string),
      (''rotationPeriod'', json_field Body_RotationPeriod (\<lambda>x r. r\<lparr>Body_RotationPeriod := x\<rparr>) decode_string)]"

record PatchBody =
  Patch_Labels :: "string_map option"
  Patch_Annotations :: "string_map option"
  Patch_Topics :: "string_map list option"
  Patch_Rotation :: "RotationBody option"

definition zero_PatchBody :: PatchBody where
  "zero_PatchBody = \<lparr>Patch_Labels = None, Patch_Annotations = None, Patch_Topics = None, Patch_Rotation = None\<rparr>"

definition PatchBody_fields :: "PatchBody fields" where
  "PatchBody_fields =
     [(''labels'', json_field Patch_Labels (\<lambda>x r. r\<lparr>Patch_Labels := x\<rparr>) (decode_pointer decode_string_map [])),
      (''annotations'', json_field Patch_Annotations (\<lambda>x r. r\<lparr>Patch_Annotations := x\<rparr>) (decode_pointer decode_string_map [])),
      (''topics'', json_field Patch_Topics (\<lambda>x r. r\<lparr>Patch_Topics := x\<rparr>)
         (decode_pointer (decode_slice decode_string_map []) [])),
      (''rotation'', json_field Patch_Rotation (\<lambda>x r. r\<lparr>Patch_Rotation := x\<rparr>)
         (decode_pointer (decode_struct RotationBody_fields) zero_RotationBody))]"

text \<open>\<open>payload.data\<close> of the body of a rotation, where the payload is a pointer, and of a new version, where it is
  a struct; the policy and the permissions of the IAM bodies.\<close>

definition decode_payload_pointer :: "string option decoder" where
  "decode_payload_pointer =
     decode_struct [(''payload'', decode_pointer (decode_struct [(''data'', decode_string)]) [])]"

definition decode_payload :: "string decoder" where
  "decode_payload = decode_struct [(''payload'', decode_struct [(''data'', decode_string)])]"

definition decode_policy_body :: "Policy decoder" where
  "decode_policy_body = decode_struct [(''policy'', decode_struct Policy_fields)]"

definition decode_permissions :: "string list decoder" where
  "decode_permissions = decode_struct [(''permissions'', decode_slice decode_string [])]"

section \<open>Secrets\<close>

definition httpCreateSecret :: "'f lab_env \<Rightarrow> lab_request \<Rightarrow> (Lab, reply) action" where
  "httpCreateSecret env req =
     (let project = req_project req in
      requireHTTP env req ''secretmanager.secrets.create'' (projectResource project)
        (case req_principal req of
           None \<Rightarrow> returnM NoReply
         | Some p \<Rightarrow>
             gate (in_iam (RequireProjectAPIGates (env_vpcsc env) p project ''secretmanager.googleapis.com''))
               (let secretID = req_query req ''secretId'' in
                if secretID = [] then returnM (Rejected (InvalidArgument ''secretId query parameter is required''))
                else
                  let body = Decode_ignoring fill_CreateBody (req_first req) zero_CreateBody;
                      cmek = (case Body_KmsKeyName body of None \<Rightarrow> [] | Some k \<Rightarrow> k);
                      rotation = (case Body_Rotation body of None \<Rightarrow> zero_RotationBody | Some r \<Rightarrow> r) in
                  attempt (in_secrets (CreateSecretWithRotation (req_now req) (secretResourceName project secretID) project
                      (Body_Labels body) (Body_Annotations body) (Body_Replication body) cmek
                      (Body_RotationPeriod rotation) (Body_NextRotationTime rotation) (Body_Topics body))) internal
                    (\<lambda>created. case created of
                       None \<Rightarrow> returnM (Rejected (WriteREST 409 ''ALREADY_EXISTS'' ''secret already exists''))
                     | Some sec \<Rightarrow> returnM (Reply (secretJSON env sec))))))"

definition httpListSecrets :: "'f lab_env \<Rightarrow> lab_request \<Rightarrow> (Lab, reply) action" where
  "httpListSecrets env req =
     requireHTTP env req ''secretmanager.secrets.list'' (projectResource (req_project req))
       (attempt (in_secrets (ListSecrets (req_project req))) internal (\<lambda>secs.
          returnM (Reply (JObj [(''secrets'', JArr (map (secretJSON env) secs))]))))"

definition httpGetSecret :: "'f lab_env \<Rightarrow> lab_request \<Rightarrow> (Lab, reply) action" where
  "httpGetSecret env req =
     (let name = request_secret req in
      requireSecretHTTP env req ''secretmanager.secrets.get'' name (req_project req)
        (attempt (in_secrets (GetSecret name)) internal (\<lambda>sec.
           case sec of
             None \<Rightarrow> returnM (Rejected (gcp_NotFound ''secret not found''))
           | Some sec \<Rightarrow> returnM (Reply (secretJSON env sec)))))"

text \<open>The reply to an error of a store operation that says what was not found.\<close>

definition not_found_or_internal :: "string \<Rightarrow> error \<Rightarrow> reply" where
  "not_found_or_internal message err =
     (if mentions err ''not found'' then Rejected (gcp_NotFound message) else internal err)"

definition httpPatchSecret :: "'f lab_env \<Rightarrow> lab_request \<Rightarrow> (Lab, reply) action" where
  "httpPatchSecret env req =
     (let name = request_secret req in
      requireSecretHTTP env req ''secretmanager.secrets.update'' name (req_project req)
        (case Decode (decode_struct PatchBody_fields) (req_first req) zero_PatchBody of
           Inl _ \<Rightarrow> returnM (Rejected (InvalidArgument ''invalid secret patch body''))
         | Inr body \<Rightarrow>
             attempt (in_secrets (PatchSecretMeta name (Patch_Labels body) (Patch_Annotations body)
                 (map_option Body_RotationPeriod (Patch_Rotation body))
                 (map_option Body_NextRotationTime (Patch_Rotation body)) (Patch_Topics body)))
               (not_found_or_internal ''secret not found'') (\<lambda>sec.
             returnM (Reply (secretJSON env sec)))))"

definition httpDeleteSecret :: "'f lab_env \<Rightarrow> lab_request \<Rightarrow> (Lab, reply) action" where
  "httpDeleteSecret env req =
     (let name = request_secret req in
      requireSecretHTTP env req ''secretmanager.secrets.delete'' name (req_project req)
        (attempt (in_secrets (DeleteSecret name)) internal (\<lambda>ok.
           if \<not> ok then returnM (Rejected (gcp_NotFound ''secret not found'')) else returnM (Reply (JObj [])))))"

definition httpRotateSecret :: "'f lab_env \<Rightarrow> lab_request \<Rightarrow> (Lab, reply) action" where
  "httpRotateSecret env req =
     (let name = request_secret req in
      requireSecretHTTP env req ''secretmanager.versions.add'' name (req_project req)
        (case (if req_body req = None then Inr None else Unmarshal_body decode_payload_pointer (req_body req) None) of
           Inl _ \<Rightarrow> returnM (Rejected (InvalidArgument ''invalid rotateSecret body''))
         | Inr data \<Rightarrow>
             (case (case data of None \<Rightarrow> Inr [] | Some d \<Rightarrow> if d = [] then Inr [] else DecodeString d) of
                Inl _ \<Rightarrow> returnM (Rejected (InvalidArgument ''payload.data must be base64''))
              | Inr payload \<Rightarrow>
                  attempt (in_secrets (RotateSecretTheatre (env_aead env) (env_time env) (req_now req) (req_random req)
                      name payload))
                    (not_found_or_internal ''secret not found'') (\<lambda>(v, _).
                  returnM (Reply (versionJSON env v))))))"

section \<open>Policies\<close>

definition httpGetIamPolicy :: "'f lab_env \<Rightarrow> lab_request \<Rightarrow> (Lab, reply) action" where
  "httpGetIamPolicy env req =
     (let name = request_secret req in
      requireSecretHTTP env req ''secretmanager.secrets.getIamPolicy'' name (req_project req)
        (attempt (in_secrets (GetSecret name)) internal (\<lambda>sec.
           if sec = None then returnM (Rejected (gcp_NotFound ''secret not found''))
           else attempt (in_iam (GetIAMPolicyJSON name)) internal (\<lambda>raw.
             case raw of
               None \<Rightarrow> returnM (ReplyDocument (marshal_policy \<lparr>Bindings = [], Etag = ''ACAB''\<rparr>))
             | Some raw \<Rightarrow> returnM (ReplyDocument raw)))))"

definition httpSetIamPolicy :: "'f lab_env \<Rightarrow> lab_request \<Rightarrow> (Lab, reply) action" where
  "httpSetIamPolicy env req =
     (let name = request_secret req in
      requireSecretHTTP env req ''secretmanager.secrets.setIamPolicy'' name (req_project req)
        (attempt (in_secrets (GetSecret name)) internal (\<lambda>sec.
           if sec = None then returnM (Rejected (gcp_NotFound ''secret not found''))
           else if req_body_error req \<noteq> None then returnM (Rejected (InvalidArgument ''unable to read body''))
           else case Unmarshal_body decode_policy_body (req_body req) zero_Policy of
               Inl _ \<Rightarrow> returnM (Rejected (InvalidArgument ''invalid setIamPolicy body''))
             | Inr policy \<Rightarrow>
                 attempt (in_iam (PutIAMPolicyJSON name policy)) internal (\<lambda>_.
                 returnM (ReplyDocument (marshal_policy policy))))))"

definition httpTestIamPermissions :: "'f lab_env \<Rightarrow> lab_request \<Rightarrow> (Lab, reply) action" where
  "httpTestIamPermissions env req =
     (case req_principal req of
        None \<Rightarrow> returnM (Rejected (Unauthenticated []))
      | Some p \<Rightarrow>
          if req_body_error req \<noteq> None then returnM (Rejected (InvalidArgument ''unable to read body''))
          else case (if req_body req = None then Inr [] else Unmarshal_body decode_permissions (req_body req) []) of
              Inl _ \<Rightarrow> returnM (Rejected (InvalidArgument ''invalid testIamPermissions body''))
            | Inr permissions \<Rightarrow>
                attempt (evaluated env (\<lambda>e. TestIamPermissionsAny (env_runtime env) e (Email p) (IsRoot p)
                    [request_secret req, projectResource (req_project req)] permissions)) internal (\<lambda>granted.
                returnM (Reply (JObj [(''permissions'', JArr (map JStr granted))]))))"

section \<open>Versions\<close>

definition httpAddVersion :: "'f lab_env \<Rightarrow> lab_request \<Rightarrow> (Lab, reply) action" where
  "httpAddVersion env req =
     (let name = request_secret req in
      requireSecretHTTP env req ''secretmanager.versions.add'' name (req_project req)
        (case req_body_error req of
           Some err \<Rightarrow> returnM (internal err)
         | None \<Rightarrow>
             (case Unmarshal_body decode_payload (req_body req) [] of
                Inl _ \<Rightarrow> returnM (Rejected (InvalidArgument ''invalid addVersion body''))
              | Inr data \<Rightarrow>
                  (case DecodeString data of
                     Inl _ \<Rightarrow> returnM (Rejected (InvalidArgument ''payload.data must be base64''))
                   | Inr data \<Rightarrow>
                       attempt (in_secrets (AddSecretVersion (env_aead env) (req_now req) (req_random req) name data))
                         (not_found_or_internal ''secret not found'') (\<lambda>v.
                       returnM (Reply (versionJSON env v)))))))"

definition access_error :: "error \<Rightarrow> reply" where
  "access_error err =
     (if mentions err ''not found'' then Rejected (gcp_NotFound ''secret version not found'')
      else if mentions err ''destroyed'' then Rejected (WriteREST 400 ''FAILED_PRECONDITION'' ''secret version destroyed'')
      else if mentions err ''disabled'' then Rejected (WriteREST 400 ''FAILED_PRECONDITION'' ''secret version disabled'')
      else internal err)"

definition httpAccessVersion :: "'f lab_env \<Rightarrow> lab_request \<Rightarrow> (Lab, reply) action" where
  "httpAccessVersion env req =
     (let name = request_secret req in
      requireSecretHTTP env req ''secretmanager.versions.access'' name (req_project req)
        (attempt (in_secrets (AccessSecretVersion (env_aead env) name (request_version req))) access_error (\<lambda>(plain, v).
           returnM (Reply (marshal_map [(''name'', JStr (Version_Name v)),
             (''payload'', JObj [(''data'', JStr (EncodeToString plain))])])))))"

definition state_error :: "error \<Rightarrow> reply" where
  "state_error err =
     (if mentions err ''not found'' then Rejected (gcp_NotFound ''secret version not found'')
      else if mentions err ''destroyed'' then Rejected (WriteREST 400 ''FAILED_PRECONDITION'' (Error_text err))
      else internal err)"

definition httpSetVersionState :: "'f lab_env \<Rightarrow> lab_request \<Rightarrow> string \<Rightarrow> string \<Rightarrow> (Lab, reply) action" where
  "httpSetVersionState env req state permission =
     (let name = request_secret req in
      requireSecretHTTP env req permission name (req_project req)
        (attempt (in_secrets (SetSecretVersionState name (request_version req) state)) state_error (\<lambda>v.
           returnM (Reply (versionJSON env v)))))"

definition httpEnableVersion :: "'f lab_env \<Rightarrow> lab_request \<Rightarrow> (Lab, reply) action" where
  "httpEnableVersion env req = httpSetVersionState env req SecretVersionEnabled ''secretmanager.versions.enable''"

definition httpDisableVersion :: "'f lab_env \<Rightarrow> lab_request \<Rightarrow> (Lab, reply) action" where
  "httpDisableVersion env req = httpSetVersionState env req SecretVersionDisabled ''secretmanager.versions.disable''"

definition httpDestroyVersion :: "'f lab_env \<Rightarrow> lab_request \<Rightarrow> (Lab, reply) action" where
  "httpDestroyVersion env req = httpSetVersionState env req SecretVersionDestroyed ''secretmanager.versions.destroy''"

definition httpListVersions :: "'f lab_env \<Rightarrow> lab_request \<Rightarrow> (Lab, reply) action" where
  "httpListVersions env req =
     (let name = request_secret req in
      requireSecretHTTP env req ''secretmanager.versions.list'' name (req_project req)
        (attempt (in_secrets (ListSecretVersions name (parseSecretVersionStateFilter (req_query req ''filter'')))) internal
          (\<lambda>vs. returnM (Reply (JObj [(''versions'', JArr (map (versionJSON env) vs))])))))"

definition httpGetVersion :: "'f lab_env \<Rightarrow> lab_request \<Rightarrow> (Lab, reply) action" where
  "httpGetVersion env req =
     (let name = request_secret req in
      requireSecretHTTP env req ''secretmanager.versions.get'' name (req_project req)
        (attempt (in_secrets (GetSecretVersion name (request_version req))) internal (\<lambda>v.
           case v of
             None \<Rightarrow> returnM (Rejected (gcp_NotFound ''secret version not found''))
           | Some v \<Rightarrow> returnM (Reply (versionJSON env v)))))"

section \<open>Custom methods and routes\<close>

definition httpSecretPost :: "'f lab_env \<Rightarrow> lab_request \<Rightarrow> (Lab, reply) action" where
  "httpSecretPost env req =
     (let verb = snd (splitColonAction (req_secret req)) in
      if verb = ''addVersion'' then httpAddVersion env req
      else if verb = ''rotateSecret'' then httpRotateSecret env req
      else if verb = ''getIamPolicy'' then httpGetIamPolicy env req
      else if verb = ''setIamPolicy'' then httpSetIamPolicy env req
      else if verb = ''testIamPermissions'' then httpTestIamPermissions env req
      else returnM (Rejected (InvalidArgument ''unsupported secrets custom method'')))"

definition httpVersionGet :: "'f lab_env \<Rightarrow> lab_request \<Rightarrow> (Lab, reply) action" where
  "httpVersionGet env req =
     (let verb = snd (splitColonAction (req_version req)) in
      if verb = ''access'' then httpAccessVersion env req
      else if verb = [] then httpGetVersion env req
      else returnM (Rejected (InvalidArgument ''unsupported secretVersions custom method'')))"

definition httpVersionPost :: "'f lab_env \<Rightarrow> lab_request \<Rightarrow> (Lab, reply) action" where
  "httpVersionPost env req =
     (let verb = snd (splitColonAction (req_version req)) in
      if verb = ''enable'' then httpEnableVersion env req
      else if verb = ''disable'' then httpDisableVersion env req
      else if verb = ''destroy'' then httpDestroyVersion env req
      else returnM (Rejected (InvalidArgument ''unsupported secretVersions custom method'')))"

datatype secret_route =
    PostSecrets | GetSecrets | GetSecretRoute | PatchSecretRoute | DeleteSecretRoute | PostSecret | GetVersions
  | GetVersion | PostVersion

fun serve_secret :: "'f lab_env \<Rightarrow> secret_route \<times> lab_request \<Rightarrow> (Lab, reply) action" where
  "serve_secret env (PostSecrets, req) = httpCreateSecret env req"
| "serve_secret env (GetSecrets, req) = httpListSecrets env req"
| "serve_secret env (GetSecretRoute, req) = httpGetSecret env req"
| "serve_secret env (PatchSecretRoute, req) = httpPatchSecret env req"
| "serve_secret env (DeleteSecretRoute, req) = httpDeleteSecret env req"
| "serve_secret env (PostSecret, req) = httpSecretPost env req"
| "serve_secret env (GetVersions, req) = httpListVersions env req"
| "serve_secret env (GetVersion, req) = httpVersionGet env req"
| "serve_secret env (PostVersion, req) = httpVersionPost env req"

end
