(* ===== verification/Secret_Mediation.thy ===== *)
theory Secret_Mediation
  imports Secret_Handlers
begin

section \<open>What a request needs\<close>

definition on_secret :: "lab_request \<Rightarrow> string \<Rightarrow> (string \<times> string list) option" where
  "on_secret req permission = Some (permission, [request_secret req, projectResource (req_project req)])"

text \<open>The permission of every route and custom method, and the resources it may be granted on.\<close>

definition post_permissions :: "(string \<times> string) list" where
  "post_permissions =
     [(''addVersion'', ''secretmanager.versions.add''), (''rotateSecret'', ''secretmanager.versions.add''),
      (''getIamPolicy'', ''secretmanager.secrets.getIamPolicy''), (''setIamPolicy'', ''secretmanager.secrets.setIamPolicy'')]"

definition version_permissions :: "(string \<times> string) list" where
  "version_permissions =
     [(''enable'', ''secretmanager.versions.enable''), (''disable'', ''secretmanager.versions.disable''),
      (''destroy'', ''secretmanager.versions.destroy'')]"

fun secret_permission :: "secret_route \<times> lab_request \<Rightarrow> (string \<times> string list) option" where
  "secret_permission (PostSecrets, req) = Some (''secretmanager.secrets.create'', [projectResource (req_project req)])"
| "secret_permission (GetSecrets, req) = Some (''secretmanager.secrets.list'', [projectResource (req_project req)])"
| "secret_permission (GetSecretRoute, req) = on_secret req ''secretmanager.secrets.get''"
| "secret_permission (PatchSecretRoute, req) = on_secret req ''secretmanager.secrets.update''"
| "secret_permission (DeleteSecretRoute, req) = on_secret req ''secretmanager.secrets.delete''"
| "secret_permission (PostSecret, req) =
     Option.bind (map_of post_permissions (snd (splitColonAction (req_secret req)))) (on_secret req)"
| "secret_permission (GetVersions, req) = on_secret req ''secretmanager.versions.list''"
| "secret_permission (GetVersion, req) =
     (let verb = snd (splitColonAction (req_version req)) in
      if verb = ''access'' then on_secret req ''secretmanager.versions.access''
      else if verb = [] then on_secret req ''secretmanager.versions.get'' else None)"
| "secret_permission (PostVersion, req) =
     Option.bind (map_of version_permissions (snd (splitColonAction (req_version req)))) (on_secret req)"

definition holds_permission :: "'f lab_env \<Rightarrow> Lab \<Rightarrow> lab_request \<Rightarrow> string \<times> string list \<Rightarrow> bool" where
  "holds_permission env db req need \<longleftrightarrow>
     (case req_principal req of None \<Rightarrow> False | Some p \<Rightarrow> permitted env db p (fst need) (snd need))"

definition secret_allowed :: "'f lab_env \<Rightarrow> Lab \<Rightarrow> secret_route \<times> lab_request \<Rightarrow> bool" where
  "secret_allowed env db rr \<longleftrightarrow>
     (case secret_permission rr of None \<Rightarrow> False | Some need \<Rightarrow> holds_permission env db (snd rr) need)"

text \<open>Asking which permissions one has needs none.\<close>

definition secret_discloses :: "secret_route \<times> lab_request \<Rightarrow> reply \<Rightarrow> bool" where
  "secret_discloses rr r \<longleftrightarrow> is_success r \<and>
     \<not> (fst rr = PostSecret \<and> snd (splitColonAction (req_secret (snd rr))) = ''testIamPermissions'')"

section \<open>Every route is guarded\<close>

lemma not_success [simp]: "\<not> is_success (not_found_or_internal m err)"
  "\<not> is_success (access_error err)" "\<not> is_success (state_error err)"
  by (simp_all add: internal_def not_found_or_internal_def access_error_def state_error_def)

lemma guarded_requireHTTP:
  "guarded (\<lambda>db. holds_permission env db req (permission, [resource])) is_success (requireHTTP env req permission resource k)"
  unfolding requireHTTP_def
proof (intro guarded_option guarded_return guarded_decision)
  fix p db
  assume "req_principal req = Some p"
    and "Evaluate (env_runtime env) (lab_evaluator env db) (Email p) (IsRoot p) permission resource = Inr True"
  then show "holds_permission env db req (permission, [resource])"
    by (simp add: holds_permission_def permitted_one)
qed simp_all

lemma guarded_requireSecretHTTP:
  "guarded (\<lambda>db. holds_permission env db req (permission, [secretName, projectResource project])) is_success
     (requireSecretHTTP env req permission secretName project k)"
  unfolding requireSecretHTTP_def
proof (intro guarded_option guarded_return guarded_decision)
  fix p db
  assume "req_principal req = Some p"
    and "EvaluateAny (env_runtime env) (lab_evaluator env db) (Email p) (IsRoot p) permission
      [secretName, projectResource project] = Inr True"
  then show "holds_permission env db req (permission, [secretName, projectResource project])"
    by (simp add: holds_permission_def permitted_def)
qed simp_all

lemma test_permissions_reads: "reads (httpTestIamPermissions env req)"
  unfolding httpTestIamPermissions_def by (intro reads_intros)

lemmas secret_handler_defs =
  httpCreateSecret_def httpListSecrets_def httpGetSecret_def httpPatchSecret_def httpDeleteSecret_def
  httpRotateSecret_def httpGetIamPolicy_def httpSetIamPolicy_def httpAddVersion_def httpAccessVersion_def
  httpSetVersionState_def httpEnableVersion_def httpDisableVersion_def httpDestroyVersion_def httpListVersions_def
  httpGetVersion_def Let_def

lemma secret_guarded: "guarded (\<lambda>db. secret_allowed env db rr) (secret_discloses rr) (serve_secret env rr)"
proof -
  obtain route req where rr: "rr = (route, req)" by fastforce
  note guards = guarded_requireHTTP guarded_requireSecretHTTP
  have weak: "guarded (\<lambda>db. secret_allowed env db rr) (secret_discloses rr) m"
    if "guarded (\<lambda>db. secret_allowed env db rr) is_success m" for m
    using that by (rule guarded_weaken) (simp add: secret_discloses_def)
  show ?thesis
  proof (cases route)
    case PostSecrets
    show ?thesis
      by (rule weak) (simp add: rr PostSecrets secret_allowed_def secret_handler_defs guards)
  next
    case GetSecrets
    show ?thesis by (rule weak) (simp add: rr GetSecrets secret_allowed_def secret_handler_defs guards)
  next
    case GetSecretRoute
    show ?thesis
      by (rule weak) (simp add: rr GetSecretRoute secret_allowed_def on_secret_def secret_handler_defs guards)
  next
    case PatchSecretRoute
    show ?thesis
      by (rule weak) (simp add: rr PatchSecretRoute secret_allowed_def on_secret_def secret_handler_defs guards)
  next
    case DeleteSecretRoute
    show ?thesis
      by (rule weak) (simp add: rr DeleteSecretRoute secret_allowed_def on_secret_def secret_handler_defs guards)
  next
    case GetVersions
    show ?thesis
      by (rule weak) (simp add: rr GetVersions secret_allowed_def on_secret_def secret_handler_defs guards)
  next
    case GetVersion
    show ?thesis
      by (rule weak) (auto simp add: rr GetVersion secret_allowed_def on_secret_def httpVersionGet_def secret_handler_defs
          guards intro: guarded_return)
  next
    case PostVersion
    show ?thesis
      by (rule weak) (auto simp add: rr PostVersion secret_allowed_def on_secret_def httpVersionPost_def version_permissions_def
          secret_handler_defs guards intro: guarded_return)
  next
    case PostSecret
    define verb where "verb = snd (splitColonAction (req_secret req))"
    show ?thesis
    proof (cases "verb = ''testIamPermissions''")
      case True
      have "serve_secret env rr = httpTestIamPermissions env req"
        using True by (simp add: rr PostSecret httpSecretPost_def verb_def)
      moreover have "\<not> secret_discloses rr x" for x
        using True by (simp add: secret_discloses_def rr PostSecret verb_def)
      ultimately show ?thesis using guarded_never test_permissions_reads by metis
    next
      case False
      then show ?thesis
        by (intro weak) (auto simp add: rr PostSecret secret_allowed_def on_secret_def httpSecretPost_def
            post_permissions_def verb_def [symmetric] secret_handler_defs guards intro: guarded_return)
    qed
  qed
qed

interpretation secret_http: mediated_service "serve_secret env" "secret_allowed env" secret_discloses
  by unfold_locales (rule secret_guarded)

end
