(* ===== verification/Secret_Grpc.thy ===== *)
theory Secret_Grpc
  imports Secret_Mediation
begin

text \<open>
  The gRPC handlers of Secret Manager: \<^verbatim>\<open>internal/services/secretmanager/service.go\<close>.

  A handler is an action whose result is a value or a status. A message of the generated package \<^verbatim>\<open>secretmanagerpb\<close>
  or \<^verbatim>\<open>iampb\<close> is a record of the fields the handlers read; the field of a nil message is its zero value. How a
  replication message is written as JSON and read back is a parameter of the environment, as its Go type is
  generated.
\<close>

datatype 'a grpc = Status string string | Value 'a

section \<open>Messages\<close>

datatype ReplicationPB = Automatic | UserManaged "string list"

record SecretPB =
  PB_Name :: string
  PB_Labels :: string_map
  PB_Annotations :: string_map
  PB_CreateTime :: "stamp option"
  PB_KmsKeyName :: "string option"
  PB_Replication :: "ReplicationPB option"

record SecretVersionPB =
  PB_Version_Name :: string
  PB_State :: string
  PB_Version_CreateTime :: stamp

record BindingPB =
  PB_Role :: string
  PB_Members :: "string list"
  PB_Condition :: "Expr option"

record PolicyPB =
  PB_Bindings :: "BindingPB list"
  PB_Etag :: string

text \<open>\<open>grpc\_principal\<close>: no resolver is configured, or what it gives for the call.\<close>

record grpc_call =
  grpc_principal :: "(error + Principal) option"
  grpc_now :: int
  grpc_random :: "error + string"

type_synonym replication_codec = "ReplicationPB \<Rightarrow> (string \<times> json) list"

section \<open>Permissions\<close>

definition grpc_guard ::
  "grpc_call \<Rightarrow> (Principal \<Rightarrow> (Lab, 'a grpc) action) \<Rightarrow> (Lab, 'a grpc) action" where
  "grpc_guard c k =
     (case grpc_principal c of
        None \<Rightarrow> returnM (Status ''Unauthenticated'' ''gRPC auth resolver not configured'')
      | Some (Inl _) \<Rightarrow> returnM (Status ''Unauthenticated'' ''unauthenticated'')
      | Some (Inr p) \<Rightarrow> k p)"

definition grpc_internal :: "error \<Rightarrow> 'a grpc" where
  "grpc_internal err = Status ''Internal'' (Error_text err)"

definition requireGRPC ::
  "'f lab_env \<Rightarrow> grpc_call \<Rightarrow> string \<Rightarrow> string \<Rightarrow> (Lab, 'a grpc) action \<Rightarrow> (Lab, 'a grpc) action" where
  "requireGRPC env c permission resource k =
     grpc_guard c (\<lambda>p.
       attempt (evaluated env (\<lambda>e. Evaluate (env_runtime env) e (Email p) (IsRoot p) permission resource)) grpc_internal
         (\<lambda>allowed. if \<not> allowed then returnM (Status ''PermissionDenied'' ''permission denied'') else k))"

definition requireSecretGRPC ::
  "'f lab_env \<Rightarrow> grpc_call \<Rightarrow> string \<Rightarrow> string \<Rightarrow> string \<Rightarrow> (Lab, 'a grpc) action \<Rightarrow> (Lab, 'a grpc) action" where
  "requireSecretGRPC env c permission secretName project k =
     grpc_guard c (\<lambda>p.
       attempt (evaluated env (\<lambda>e. EvaluateAny (env_runtime env) e (Email p) (IsRoot p) permission
           [secretName, projectResource project])) grpc_internal
         (\<lambda>allowed. if \<not> allowed then returnM (Status ''PermissionDenied'' ''permission denied'') else k))"

definition projectFromSecretName :: "string \<Rightarrow> string" where
  "projectFromSecretName name =
     (let parts = Split name ''/'' in
      if length parts \<ge> 2 \<and> parts ! 0 = ''projects'' then parts ! 1 else [])"

section \<open>Rendering\<close>

text \<open>The locations of the replicas that have one.\<close>

fun replica_location :: "json \<Rightarrow> string" where
  "replica_location (JObj ms) = (case map_of ms ''location'' of Some (JStr loc) \<Rightarrow> loc | _ \<Rightarrow> [])"
| "replica_location _ = []"

definition user_managed :: "json option \<Rightarrow> string list option" where
  "user_managed um =
     (case um of
        Some (JObj ms) \<Rightarrow>
          Some (case map_of ms ''replicas'' of
            Some (JArr rs) \<Rightarrow> filter (\<lambda>loc. loc \<noteq> []) (map replica_location rs)
          | _ \<Rightarrow> [])
      | _ \<Rightarrow> None)"

definition secretPB :: "Secret \<Rightarrow> SecretPB" where
  "secretPB sec =
     \<lparr>PB_Name = Secret_Name sec, PB_Labels = Labels sec, PB_Annotations = Annotations sec,
      PB_CreateTime = Some (Secret_CreatedAt sec),
      PB_KmsKeyName = (if CMEKKmsKeyName sec = [] then None else Some (CMEKKmsKeyName sec)),
      PB_Replication = Some
        (if map_of (Replication sec) ''automatic'' \<noteq> None then Automatic
         else case user_managed (map_of (Replication sec) ''userManaged'') of
             Some locs \<Rightarrow> UserManaged locs
           | None \<Rightarrow> Automatic)\<rparr>"

definition versionPB :: "SecretVersion \<Rightarrow> SecretVersionPB" where
  "versionPB v =
     \<lparr>PB_Version_Name = Version_Name v,
      PB_State = (if State v \<in> set [SecretVersionEnabled, SecretVersionDisabled, SecretVersionDestroyed] then State v
        else ''STATE_UNSPECIFIED''),
      PB_Version_CreateTime = Version_CreatedAt v\<rparr>"

text \<open>The conditions of the bindings are dropped in both directions.\<close>

definition authzToIAMPolicy :: "document \<Rightarrow> error + PolicyPB" where
  "authzToIAMPolicy raw =
     bindE (unmarshal_policy raw) (\<lambda>pol.
     Inr \<lparr>PB_Bindings = map (\<lambda>b. \<lparr>PB_Role = Role b, PB_Members = Members b, PB_Condition = None\<rparr>) (Bindings pol),
          PB_Etag = Etag pol\<rparr>)"

definition iamPolicyToAuthz :: "PolicyPB \<Rightarrow> Policy" where
  "iamPolicyToAuthz p =
     \<lparr>Bindings = map (\<lambda>b. \<lparr>Role = PB_Role b, Members = PB_Members b, Condition = None\<rparr>) (PB_Bindings p),
      Etag = PB_Etag p\<rparr>"

section \<open>Secrets\<close>

definition grpc_parent :: "string \<Rightarrow> string option" where
  "grpc_parent parent =
     (let project = TrimPrefix parent ''projects/'' in
      if project = [] \<or> Contains project ''/'' then None else Some project)"

definition GrpcCreateSecret ::
  "'f lab_env \<Rightarrow> replication_codec \<Rightarrow> grpc_call \<Rightarrow> string \<Rightarrow> string \<Rightarrow> SecretPB option \<Rightarrow> (Lab, SecretPB grpc) action" where
  "GrpcCreateSecret env codec c parent secretId secret =
     (case grpc_parent parent of
        None \<Rightarrow> returnM (Status ''InvalidArgument'' ''invalid parent'')
      | Some project \<Rightarrow>
          requireGRPC env c ''secretmanager.secrets.create'' (projectResource project)
            (let labels = (case secret of None \<Rightarrow> [] | Some s \<Rightarrow> PB_Labels s);
                 annotations = (case secret of None \<Rightarrow> [] | Some s \<Rightarrow> PB_Annotations s);
                 replication = Option.bind secret (\<lambda>s. map_option codec (PB_Replication s));
                 cmek = (case Option.bind secret PB_KmsKeyName of None \<Rightarrow> [] | Some k \<Rightarrow> k) in
             attempt (in_secrets (CreateSecretWithMeta (grpc_now c) (secretResourceName project secretId) project labels
                 annotations replication cmek)) grpc_internal
               (\<lambda>created. case created of
                  None \<Rightarrow> returnM (Status ''AlreadyExists'' ''secret already exists'')
                | Some sec \<Rightarrow> returnM (Value (secretPB sec)))))"

definition GrpcGetSecret :: "'f lab_env \<Rightarrow> grpc_call \<Rightarrow> string \<Rightarrow> (Lab, SecretPB grpc) action" where
  "GrpcGetSecret env c name =
     requireSecretGRPC env c ''secretmanager.secrets.get'' name (projectFromSecretName name)
       (attempt (in_secrets (GetSecret name)) grpc_internal (\<lambda>sec.
          case sec of
            None \<Rightarrow> returnM (Status ''NotFound'' ''secret not found'')
          | Some sec \<Rightarrow> returnM (Value (secretPB sec))))"

definition grpc_not_found :: "string \<Rightarrow> error \<Rightarrow> 'a grpc" where
  "grpc_not_found message err =
     (if mentions err ''not found'' then Status ''NotFound'' message else grpc_internal err)"

definition GrpcUpdateSecret ::
  "'f lab_env \<Rightarrow> grpc_call \<Rightarrow> SecretPB \<Rightarrow> string list \<Rightarrow> (Lab, SecretPB grpc) action" where
  "GrpcUpdateSecret env c secret paths =
     requireSecretGRPC env c ''secretmanager.secrets.update'' (PB_Name secret) (projectFromSecretName (PB_Name secret))
       (if paths = [] then returnM (Status ''InvalidArgument'' ''update_mask required'')
        else
          attempt (in_secrets (PatchSecret (PB_Name secret)
              (if ''labels'' \<in> set paths then Some (PB_Labels secret) else None)
              (if ''annotations'' \<in> set paths then Some (PB_Annotations secret) else None)))
            (grpc_not_found ''secret not found'') (\<lambda>sec. returnM (Value (secretPB sec))))"

definition GrpcListSecrets :: "'f lab_env \<Rightarrow> grpc_call \<Rightarrow> string \<Rightarrow> (Lab, SecretPB list grpc) action" where
  "GrpcListSecrets env c parent =
     (case grpc_parent parent of
        None \<Rightarrow> returnM (Status ''InvalidArgument'' ''invalid parent'')
      | Some project \<Rightarrow>
          requireGRPC env c ''secretmanager.secrets.list'' (projectResource project)
            (attempt (in_secrets (ListSecrets project)) grpc_internal (\<lambda>secs. returnM (Value (map secretPB secs)))))"

definition GrpcDeleteSecret :: "'f lab_env \<Rightarrow> grpc_call \<Rightarrow> string \<Rightarrow> (Lab, unit grpc) action" where
  "GrpcDeleteSecret env c name =
     requireSecretGRPC env c ''secretmanager.secrets.delete'' name (projectFromSecretName name)
       (attempt (in_secrets (DeleteSecret name)) grpc_internal (\<lambda>ok.
          if \<not> ok then returnM (Status ''NotFound'' ''secret not found'') else returnM (Value ())))"

section \<open>Versions\<close>

definition GrpcAddSecretVersion :: "'f lab_env \<Rightarrow> grpc_call \<Rightarrow> string \<Rightarrow> string \<Rightarrow> (Lab, SecretVersionPB grpc) action" where
  "GrpcAddSecretVersion env c parent payload =
     requireSecretGRPC env c ''secretmanager.versions.add'' parent (projectFromSecretName parent)
       (attempt (in_secrets (AddSecretVersion (env_aead env) (grpc_now c) (grpc_random c) parent payload))
         (grpc_not_found ''secret not found'') (\<lambda>v. returnM (Value (versionPB v))))"

definition grpc_access_error :: "error \<Rightarrow> 'a grpc" where
  "grpc_access_error err =
     (if mentions err ''not found'' then Status ''NotFound'' ''secret version not found''
      else if mentions err ''destroyed'' \<or> mentions err ''disabled'' then Status ''FailedPrecondition'' (Error_text err)
      else grpc_internal err)"

definition GrpcAccessSecretVersion :: "'f lab_env \<Rightarrow> grpc_call \<Rightarrow> string \<Rightarrow> (Lab, (string \<times> string) grpc) action" where
  "GrpcAccessSecretVersion env c name =
     (case ParseSecretVersionName name of
        None \<Rightarrow> returnM (Status ''InvalidArgument'' ''invalid version name'')
      | Some (secretName, versionID) \<Rightarrow>
          requireSecretGRPC env c ''secretmanager.versions.access'' secretName (projectFromSecretName secretName)
            (attempt (in_secrets (AccessSecretVersion (env_aead env) secretName versionID)) grpc_access_error
              (\<lambda>(plain, v). returnM (Value (Version_Name v, plain)))))"

definition grpc_state_error :: "error \<Rightarrow> 'a grpc" where
  "grpc_state_error err =
     (if mentions err ''not found'' then Status ''NotFound'' ''secret version not found''
      else Status ''FailedPrecondition'' (Error_text err))"

definition grpcSetState ::
  "'f lab_env \<Rightarrow> grpc_call \<Rightarrow> string \<Rightarrow> string \<Rightarrow> string \<Rightarrow> (Lab, SecretVersionPB grpc) action" where
  "grpcSetState env c name state permission =
     (case ParseSecretVersionName name of
        None \<Rightarrow> returnM (Status ''InvalidArgument'' ''invalid version name'')
      | Some (secretName, versionID) \<Rightarrow>
          requireSecretGRPC env c permission secretName (projectFromSecretName secretName)
            (attempt (in_secrets (SetSecretVersionState secretName versionID state)) grpc_state_error
              (\<lambda>v. returnM (Value (versionPB v)))))"

definition EnableSecretVersion :: "'f lab_env \<Rightarrow> grpc_call \<Rightarrow> string \<Rightarrow> (Lab, SecretVersionPB grpc) action" where
  "EnableSecretVersion env c name = grpcSetState env c name SecretVersionEnabled ''secretmanager.versions.enable''"

definition DisableSecretVersion :: "'f lab_env \<Rightarrow> grpc_call \<Rightarrow> string \<Rightarrow> (Lab, SecretVersionPB grpc) action" where
  "DisableSecretVersion env c name = grpcSetState env c name SecretVersionDisabled ''secretmanager.versions.disable''"

definition DestroySecretVersion :: "'f lab_env \<Rightarrow> grpc_call \<Rightarrow> string \<Rightarrow> (Lab, SecretVersionPB grpc) action" where
  "DestroySecretVersion env c name = grpcSetState env c name SecretVersionDestroyed ''secretmanager.versions.destroy''"

definition GrpcListSecretVersions ::
  "'f lab_env \<Rightarrow> grpc_call \<Rightarrow> string \<Rightarrow> string \<Rightarrow> (Lab, SecretVersionPB list grpc) action" where
  "GrpcListSecretVersions env c parent stateFilter =
     requireSecretGRPC env c ''secretmanager.versions.list'' parent (projectFromSecretName parent)
       (attempt (in_secrets (ListSecretVersions parent (parseSecretVersionStateFilter stateFilter))) grpc_internal
         (\<lambda>vs. returnM (Value (map versionPB vs))))"

section \<open>Policies\<close>

definition GrpcGetIamPolicy :: "'f lab_env \<Rightarrow> grpc_call \<Rightarrow> string \<Rightarrow> (Lab, PolicyPB grpc) action" where
  "GrpcGetIamPolicy env c resource =
     requireSecretGRPC env c ''secretmanager.secrets.getIamPolicy'' resource (projectFromSecretName resource)
       (attempt (in_iam (GetIAMPolicyJSON resource)) grpc_internal (\<lambda>raw.
          case raw of
            None \<Rightarrow> returnM (Value \<lparr>PB_Bindings = [], PB_Etag = ''ACAB''\<rparr>)
          | Some raw \<Rightarrow> returnM (case authzToIAMPolicy raw of
                Inl err \<Rightarrow> grpc_internal (Wrap ''parse policy'' err)
              | Inr pol \<Rightarrow> Value pol)))"

definition GrpcSetIamPolicy :: "'f lab_env \<Rightarrow> grpc_call \<Rightarrow> string \<Rightarrow> PolicyPB \<Rightarrow> (Lab, PolicyPB grpc) action" where
  "GrpcSetIamPolicy env c resource policy =
     requireSecretGRPC env c ''secretmanager.secrets.setIamPolicy'' resource (projectFromSecretName resource)
       (attempt (in_iam (PutIAMPolicyJSON resource (iamPolicyToAuthz policy))) grpc_internal (\<lambda>_.
          returnM (Value policy)))"

definition GrpcTestIamPermissions ::
  "'f lab_env \<Rightarrow> grpc_call \<Rightarrow> string \<Rightarrow> string list \<Rightarrow> (Lab, string list grpc) action" where
  "GrpcTestIamPermissions env c resource permissions =
     grpc_guard c (\<lambda>p.
       attempt (evaluated env (\<lambda>e. TestIamPermissionsAny (env_runtime env) e (Email p) (IsRoot p)
           [resource, projectResource (projectFromSecretName resource)] permissions)) grpc_internal (\<lambda>granted.
       returnM (Value granted)))"

end
