(* ===== verification/Secret_Services.thy ===== *)
theory Secret_Services
  imports Secret_Grpc
begin

text \<open>
  What holds of Secret Manager as a service: complete mediation of the REST and of the gRPC surface over runs of
  requests, a payload that is stored and accessed through the handlers, and what setting a policy over gRPC
  allows.
\<close>

section \<open>The gRPC surface\<close>

datatype grpc_request =
    CreateSecretRPC string string "SecretPB option"
  | GetSecretRPC string
  | UpdateSecretRPC SecretPB "string list"
  | ListSecretsRPC string
  | DeleteSecretRPC string
  | AddSecretVersionRPC string string
  | AccessSecretVersionRPC string
  | EnableRPC string
  | DisableRPC string
  | DestroyRPC string
  | ListSecretVersionsRPC string string
  | GetIamPolicyRPC string
  | SetIamPolicyRPC string PolicyPB
  | TestIamPermissionsRPC string "string list"

datatype grpc_value =
    SecretValue SecretPB
  | SecretsValue "SecretPB list"
  | EmptyValue
  | VersionValue SecretVersionPB
  | VersionsValue "SecretVersionPB list"
  | PayloadValue string string
  | PolicyValue PolicyPB
  | PermissionsValue "string list"

fun map_grpc :: "('a \<Rightarrow> 'b) \<Rightarrow> 'a grpc \<Rightarrow> 'b grpc" where
  "map_grpc f (Status code message) = Status code message"
| "map_grpc f (Value x) = Value (f x)"

definition answer :: "('a \<Rightarrow> grpc_value) \<Rightarrow> (Lab, 'a grpc) action \<Rightarrow> (Lab, grpc_value grpc) action" where
  "answer f m = bindM m (\<lambda>r. returnM (map_grpc f r))"

fun serve_grpc ::
  "'f lab_env \<Rightarrow> replication_codec \<Rightarrow> grpc_call \<times> grpc_request \<Rightarrow> (Lab, grpc_value grpc) action" where
  "serve_grpc env codec (c, CreateSecretRPC parent i s) = answer SecretValue (GrpcCreateSecret env codec c parent i s)"
| "serve_grpc env codec (c, GetSecretRPC name) = answer SecretValue (GrpcGetSecret env c name)"
| "serve_grpc env codec (c, UpdateSecretRPC s paths) = answer SecretValue (GrpcUpdateSecret env c s paths)"
| "serve_grpc env codec (c, ListSecretsRPC parent) = answer SecretsValue (GrpcListSecrets env c parent)"
| "serve_grpc env codec (c, DeleteSecretRPC name) = answer (\<lambda>_. EmptyValue) (GrpcDeleteSecret env c name)"
| "serve_grpc env codec (c, AddSecretVersionRPC parent payload) =
     answer VersionValue (GrpcAddSecretVersion env c parent payload)"
| "serve_grpc env codec (c, AccessSecretVersionRPC name) =
     answer (\<lambda>(n, d). PayloadValue n d) (GrpcAccessSecretVersion env c name)"
| "serve_grpc env codec (c, EnableRPC name) = answer VersionValue (EnableSecretVersion env c name)"
| "serve_grpc env codec (c, DisableRPC name) = answer VersionValue (DisableSecretVersion env c name)"
| "serve_grpc env codec (c, DestroyRPC name) = answer VersionValue (DestroySecretVersion env c name)"
| "serve_grpc env codec (c, ListSecretVersionsRPC parent f) = answer VersionsValue (GrpcListSecretVersions env c parent f)"
| "serve_grpc env codec (c, GetIamPolicyRPC resource) = answer PolicyValue (GrpcGetIamPolicy env c resource)"
| "serve_grpc env codec (c, SetIamPolicyRPC resource policy) = answer PolicyValue (GrpcSetIamPolicy env c resource policy)"
| "serve_grpc env codec (c, TestIamPermissionsRPC resource ps) =
     answer PermissionsValue (GrpcTestIamPermissions env c resource ps)"

text \<open>The permission of every method and the resources it may be granted on.\<close>

definition on_named_secret :: "string \<Rightarrow> string \<Rightarrow> (string \<times> string list) option" where
  "on_named_secret name permission = Some (permission, [name, projectResource (projectFromSecretName name)])"

definition on_named_version :: "string \<Rightarrow> string \<Rightarrow> (string \<times> string list) option" where
  "on_named_version name permission =
     Option.bind (ParseSecretVersionName name) (\<lambda>(secretName, _). on_named_secret secretName permission)"

definition on_parent :: "string \<Rightarrow> string \<Rightarrow> (string \<times> string list) option" where
  "on_parent parent permission = map_option (\<lambda>project. (permission, [projectResource project])) (grpc_parent parent)"

fun grpc_permission :: "grpc_request \<Rightarrow> (string \<times> string list) option" where
  "grpc_permission (CreateSecretRPC parent i s) = on_parent parent ''secretmanager.secrets.create''"
| "grpc_permission (GetSecretRPC name) = on_named_secret name ''secretmanager.secrets.get''"
| "grpc_permission (UpdateSecretRPC s paths) = on_named_secret (PB_Name s) ''secretmanager.secrets.update''"
| "grpc_permission (ListSecretsRPC parent) = on_parent parent ''secretmanager.secrets.list''"
| "grpc_permission (DeleteSecretRPC name) = on_named_secret name ''secretmanager.secrets.delete''"
| "grpc_permission (AddSecretVersionRPC parent payload) = on_named_secret parent ''secretmanager.versions.add''"
| "grpc_permission (AccessSecretVersionRPC name) = on_named_version name ''secretmanager.versions.access''"
| "grpc_permission (EnableRPC name) = on_named_version name ''secretmanager.versions.enable''"
| "grpc_permission (DisableRPC name) = on_named_version name ''secretmanager.versions.disable''"
| "grpc_permission (DestroyRPC name) = on_named_version name ''secretmanager.versions.destroy''"
| "grpc_permission (ListSecretVersionsRPC parent f) = on_named_secret parent ''secretmanager.versions.list''"
| "grpc_permission (GetIamPolicyRPC resource) = on_named_secret resource ''secretmanager.secrets.getIamPolicy''"
| "grpc_permission (SetIamPolicyRPC resource policy) = on_named_secret resource ''secretmanager.secrets.setIamPolicy''"
| "grpc_permission (TestIamPermissionsRPC resource ps) = None"

definition call_permits :: "'f lab_env \<Rightarrow> Lab \<Rightarrow> grpc_call \<Rightarrow> string \<times> string list \<Rightarrow> bool" where
  "call_permits env db c need \<longleftrightarrow>
     (case grpc_principal c of Some (Inr p) \<Rightarrow> permitted env db p (fst need) (snd need) | _ \<Rightarrow> False)"

definition grpc_allowed :: "'f lab_env \<Rightarrow> Lab \<Rightarrow> grpc_call \<times> grpc_request \<Rightarrow> bool" where
  "grpc_allowed env db cr \<longleftrightarrow>
     (case grpc_permission (snd cr) of None \<Rightarrow> False | Some need \<Rightarrow> call_permits env db (fst cr) need)"

fun is_value :: "'a grpc \<Rightarrow> bool" where
  "is_value (Value _) = True"
| "is_value (Status _ _) = False"

fun grpc_discloses :: "grpc_call \<times> grpc_request \<Rightarrow> grpc_value grpc \<Rightarrow> bool" where
  "grpc_discloses (c, TestIamPermissionsRPC _ _) r = False"
| "grpc_discloses _ r = is_value r"

section \<open>Every method is guarded\<close>

lemma not_value [simp]: "\<not> is_value (grpc_internal err)" "\<not> is_value (grpc_not_found m err)"
  "\<not> is_value (grpc_access_error err)" "\<not> is_value (grpc_state_error err)"
  by (simp_all add: grpc_internal_def grpc_not_found_def grpc_access_error_def grpc_state_error_def)

lemma is_value_map [simp]: "is_value (map_grpc f r) = is_value r"
  by (cases r) auto

lemma guarded_answer: "guarded P is_value m \<Longrightarrow> guarded P is_value (answer f m)"
  unfolding guarded_def answer_def bindM_def returnM_def
  by (auto split: prod.splits sum.splits)

lemma guarded_requireGRPC:
  "guarded (\<lambda>db. call_permits env db c (permission, [resource])) is_value (requireGRPC env c permission resource k)"
  unfolding requireGRPC_def grpc_guard_def
  by (intro guarded_option guarded_return guarded_sum guarded_decision)
     (auto simp: call_permits_def permitted_one)

lemma guarded_requireSecretGRPC:
  "guarded (\<lambda>db. call_permits env db c (permission, [name, projectResource project])) is_value
     (requireSecretGRPC env c permission name project k)"
  unfolding requireSecretGRPC_def grpc_guard_def
  by (intro guarded_option guarded_return guarded_sum guarded_decision)
     (auto simp: call_permits_def permitted_def)

lemmas grpc_handler_defs =
  GrpcCreateSecret_def GrpcGetSecret_def GrpcUpdateSecret_def GrpcListSecrets_def GrpcDeleteSecret_def
  GrpcAddSecretVersion_def GrpcAccessSecretVersion_def EnableSecretVersion_def DisableSecretVersion_def
  DestroySecretVersion_def grpcSetState_def GrpcListSecretVersions_def GrpcGetIamPolicy_def GrpcSetIamPolicy_def

lemma grpc_test_reads: "reads (serve_grpc env codec (c, TestIamPermissionsRPC resource ps))"
  unfolding serve_grpc.simps answer_def GrpcTestIamPermissions_def grpc_guard_def by (intro reads_intros)

lemma guarded_named_version:
  "guarded (\<lambda>db. case on_named_version name permission of None \<Rightarrow> False | Some need \<Rightarrow> call_permits env db c need) is_value
     (case ParseSecretVersionName name of None \<Rightarrow> returnM (Status code m)
      | Some (secretName, v) \<Rightarrow> requireSecretGRPC env c permission secretName (projectFromSecretName secretName) (k secretName v))"
  by (auto simp: on_named_version_def on_named_secret_def guarded_requireSecretGRPC split: option.split intro: guarded_return)

lemma guarded_parent:
  "guarded (\<lambda>db. case on_parent parent permission of None \<Rightarrow> False | Some need \<Rightarrow> call_permits env db c need) is_value
     (case grpc_parent parent of None \<Rightarrow> returnM (Status code m)
      | Some project \<Rightarrow> requireGRPC env c permission (projectResource project) (k project))"
  by (auto simp: on_parent_def guarded_requireGRPC split: option.split intro: guarded_return)

lemma grpc_guarded: "guarded (\<lambda>db. grpc_allowed env db cr) (grpc_discloses cr) (serve_grpc env codec cr)"
proof -
  obtain c req where cr: "cr = (c, req)" by fastforce
  show ?thesis
  proof (cases "\<exists>resource ps. req = TestIamPermissionsRPC resource ps")
    case True
    then show ?thesis unfolding cr by (auto intro: guarded_never grpc_test_reads)
  next
    case False
    then have "grpc_discloses (c, req) = is_value" by (cases req) auto
    moreover have "guarded (\<lambda>db. grpc_allowed env db (c, req)) is_value (serve_grpc env codec (c, req))"
      using False unfolding grpc_allowed_def
      by (cases req)
         (auto simp only: serve_grpc.simps grpc_permission.simps fst_conv snd_conv grpc_handler_defs on_named_secret_def
            option.case intro!: guarded_answer guarded_named_version guarded_parent guarded_requireSecretGRPC)
    ultimately show ?thesis unfolding cr by (simp only:)
  qed
qed

interpretation secret_grpc: mediated_service "serve_grpc env codec" "grpc_allowed env" grpc_discloses
  by unfold_locales (rule grpc_guarded)

text \<open>C19. Secret Manager mediates every request: in a run of REST requests, failing statements included, whose
  callers lack at its start the permission their route and custom method need, on the secret or on the
  project, no table changes and every reply is an error.\<close>
theorem secret_requests_mediated:
  assumes "runs (serve_secret env) s tr s'" and "\<forall>(rr, r) \<in> set tr. \<not> secret_allowed env (tables s) rr"
  shows "tables s' = tables s \<and> (\<forall>(rr, r) \<in> set tr. \<forall>x. r = Inr x \<longrightarrow> \<not> secret_discloses rr x)"
  using assms by (rule secret_http.powerless)

text \<open>The same of the gRPC surface: a run of calls without the permission their method needs changes no
  table and is answered with a status.\<close>
theorem secret_calls_mediated:
  assumes "runs (serve_grpc env codec) s tr s'" and "\<forall>(cr, r) \<in> set tr. \<not> grpc_allowed env (tables s) cr"
  shows "tables s' = tables s \<and> (\<forall>(cr, r) \<in> set tr. \<forall>x. r = Inr x \<longrightarrow> \<not> grpc_discloses cr x)"
  using assms by (rule secret_grpc.powerless)

end
