(* ===== verification/Secret_Requests.thy ===== *)
theory Secret_Requests
  imports Secret_Services
begin

text \<open>
  Requests from end to end: a payload sent to the REST surface comes back from it, and what setting a policy over
  gRPC lets a caller do. The connection has no failing statement; the permissions are the decisions of the
  evaluator on the tables of the moment.
\<close>

section \<open>Requests that pass\<close>

lemma requireSecretHTTP_passes:
  assumes "ok_connection s" and "req_principal req = Some p"
    and "permitted env (tables s) p permission [name, projectResource project]"
  shows "requireSecretHTTP env req permission name project k s = k s"
  using assms by (simp add: requireSecretHTTP_def attempt_def catchM_def evaluated_ok permitted_def liftE_def)

lemma EvaluateAny_first:
  assumes "Evaluate rt (Some e) email isRoot permission r = Inr True" and "r \<noteq> [] \<or> isRoot"
  shows "EvaluateAny rt (Some e) email isRoot permission (r # rs) = Inr True"
  using assms by (auto simp: EvaluateAny_def Evaluate_def)

lemma requireSecretGRPC_passes:
  assumes "ok_connection s" and "grpc_principal c = Some (Inr p)"
    and "permitted env (tables s) p permission [name, projectResource project]"
  shows "requireSecretGRPC env c permission name project k s = k s"
  using assms
  by (simp add: requireSecretGRPC_def grpc_guard_def attempt_def catchM_def evaluated_ok permitted_def liftE_def)

section \<open>A payload through the REST surface\<close>

text \<open>The body of a new version, and the payload of a reply.\<close>

definition payload_body :: "string \<Rightarrow> document" where
  "payload_body plain = Json (JObj [(''payload'', JObj [(''data'', JStr (EncodeToString plain))])])"

lemma payload_body_decoded: "Unmarshal_body decode_payload (Some (payload_body plain)) [] = Inr (EncodeToString plain)"
  by (simp add: Unmarshal_body_def decode_payload_def payload_body_def field_of_def)

fun reply_payload :: "reply \<Rightarrow> string option" where
  "reply_payload (Reply (JObj ms)) =
     (case map_of ms ''payload'' of
        Some (JObj inner) \<Rightarrow> (case map_of inner ''data'' of Some (JStr d) \<Rightarrow> Some d | _ \<Rightarrow> None)
      | _ \<Rightarrow> None)"
| "reply_payload _ = None"

lemma permitted_iam: "iam db = iam db' \<Longrightarrow> permitted env db = permitted env db'"
  by (intro ext) (simp add: permitted_def lab_evaluator_def)


lemma colon_verb: "CHR '':'' \<notin> set i \<Longrightarrow> splitColonAction (i @ CHR '':'' # verb) = (i, verb)"
  by (simp add: splitColonAction_def IndexByte_append)

text \<open>C20. A payload comes back through the REST surface as it was sent: after an \<open>addVersion\<close> with the base64 text of
  a byte string, an access to the latest version of the secret replies with that text, whatever the secret
  held before.\<close>
theorem secret_api_roundtrip:
  assumes "ok_connection s" and "secrets_ok (secretmanager (tables s))" and "aead_ok (env_aead env)"
    and "req_random w = Inr nonce" and "length nonce = NonceSize"
    and "req_secret w = secretID @ '':addVersion''" and "CHR '':'' \<notin> set secretID"
    and "request_secret w \<in> Secret_Name ` set (secrets (secretmanager (tables s)))"
    and "req_body w = Some (payload_body plain)" and "req_body_error w = None"
    and "secret_allowed env (tables s) (PostSecret, w)"
    and "req_version r = ''latest:access''" and "request_secret r = request_secret w"
    and "secret_allowed env (tables s) (GetVersion, r)"
  shows "\<exists>v s1 reply. serve_secret env (PostSecret, w) s = (Inr (Reply (versionJSON env v)), s1) \<and>
    serve_secret env (GetVersion, r) s1 = (Inr reply, s1) \<and> reply_payload reply = Some (EncodeToString plain)"
proof -
  define name where "name = request_secret w"
  have verb: "splitColonAction (req_secret w) = (secretID, ''addVersion'')"
    using colon_verb [OF assms(7), of "''addVersion''"] assms(6) by simp
  have version: "splitColonAction (req_version r) = (''latest'', ''access'')"
    using colon_verb [of "''latest''" "''access''"] assms(12) by simp
  from assms(11) verb obtain p where p: "req_principal w = Some p"
    "permitted env (tables s) p ''secretmanager.versions.add'' [name, projectResource (req_project w)]"
    by (auto simp: secret_allowed_def post_permissions_def on_secret_def holds_permission_def name_def
        split: option.splits)
  from assms(14) version obtain q where q: "req_principal r = Some q"
    "permitted env (tables s) q ''secretmanager.versions.access'' [name, projectResource (req_project r)]"
    by (auto simp: secret_allowed_def on_secret_def holds_permission_def name_def assms(13)
        split: option.splits)
  let ?secrets = "\<lparr>tables = secretmanager (tables s), faults = faults s\<rparr>"
  have ok: "secrets_ok (tables ?secrets)" "ok_connection ?secrets"
    using assms(1,2) by (simp_all add: ok_connection_def)
  obtain v where add: "AddSecretVersion (env_aead env) (req_now w) (Inr nonce) name plain ?secrets =
      (Inr v, \<lparr>tables = secret_versions_update (\<lambda>_. secret_versions (tables ?secrets) @ [v]) (tables ?secrets),
        faults = faults s\<rparr>)"
    using add_version_eval [OF ok, of name] assms(8) by (simp add: name_def)
  define db where "db = secret_versions_update (\<lambda>_. secret_versions (tables ?secrets) @ [v]) (tables ?secrets)"
  define s1 where "s1 = s\<lparr>tables := (tables s)\<lparr>secretmanager := db\<rparr>\<rparr>"
  have "in_secrets (AddSecretVersion (env_aead env) (req_now w) (Inr nonce) name plain) s = (Inr v, s1)"
    using add by (simp add: inside_def s1_def db_def)
  then have served: "serve_secret env (PostSecret, w) s = (Inr (Reply (versionJSON env v)), s1)"
    using requireSecretHTTP_passes [OF assms(1) p]
    by (simp add: httpSecretPost_def verb httpAddVersion_def Let_def assms(4,9,10) payload_body_decoded attempt_ok
        name_def [symmetric])
  have access: "AccessSecretVersion (env_aead env) name ''latest'' \<lparr>tables = db, faults = faults s\<rparr> =
      (Inr (plain, v), \<lparr>tables = db, faults = faults s\<rparr>)"
  proof (rule newest_accessed)
    show "secrets_ok (tables \<lparr>tables = db, faults = faults s\<rparr>)"
      using preservesD [OF add_version_ok ok(1) add] by (simp add: db_def)
    show "ok_connection \<lparr>tables = db, faults = faults s\<rparr>"
      using assms(1) by (simp add: ok_connection_def)
    note v = add_version_adds [OF add ok(1)]
    from v show "versions_of name (tables \<lparr>tables = db, faults = faults s\<rparr>) =
        versions_of name (tables ?secrets) @ [v]"
      by (simp add: db_def versions_of_def)
    from v show "State v = SecretVersionEnabled" by simp
    from v show "Unseal (env_aead env) (PayloadCiphertext v) = Inr plain"
      using unseal_seal [OF assms(3,5)] by blast
  qed
  have "permitted env (tables s1) q ''secretmanager.versions.access'' [name, projectResource (req_project r)]"
    using q(2) permitted_iam [of "tables s1" "tables s" env] by (simp add: s1_def)
  then have pass: "requireSecretHTTP env r ''secretmanager.versions.access'' name (req_project r) k s1 = k s1" for k
    using requireSecretHTTP_passes [OF _ q(1), of s1 env] assms(1) by (simp add: s1_def)
  have "in_secrets (AccessSecretVersion (env_aead env) name ''latest'') s1 = (Inr (plain, v), s1)"
    using access by (simp add: inside_def s1_def)
  then have "serve_secret env (GetVersion, r) s1 = (Inr (Reply (marshal_map [(''name'', JStr (Version_Name v)),
      (''payload'', JObj [(''data'', JStr (EncodeToString plain))])])), s1)"
    by (simp add: httpVersionGet_def version httpAccessVersion_def Let_def request_version_def assms(13)
        name_def [symmetric] attempt_ok pass)
  with served show ?thesis
    by (fastforce simp: marshal_map_def)
qed


section \<open>A policy over gRPC\<close>

text \<open>A binding of the owner role on the project allows everything on it.\<close>

definition owner_policy :: "string \<Rightarrow> PolicyPB" where
  "owner_policy member = \<lparr>PB_Bindings = [\<lparr>PB_Role = ''roles/owner'', PB_Members = [member], PB_Condition = None\<rparr>],
     PB_Etag = []\<rparr>"

text \<open>C21. \<open>SetIamPolicy\<close> over gRPC does not look whether its resource is a secret: a caller who may set the policies
  of the secrets of a project sets the policy of the project itself, and may then do everything on it.\<close>
theorem grpc_set_policy_escalates:
  assumes "ok_connection s" and "iam_ok (iam (tables s))" and "grpc_principal c = Some (Inr p)"
    and "permitted env (tables s) p ''secretmanager.secrets.setIamPolicy'' [''projects/'' @ projectID]"
    and "TrimSpace email = email" and "\<not> Contains email '':''" and "email \<noteq> []" and "permission \<noteq> []"
    and "projectID \<noteq> []" and "CHR ''/'' \<notin> set projectID"
  shows "\<exists>reply s'. serve_grpc env codec
      (c, SetIamPolicyRPC (''projects/'' @ projectID) (owner_policy (''serviceAccount:'' @ email))) s = (Inr (Value reply), s') \<and>
    permitted env (tables s') \<lparr>Email = email, IsRoot = False\<rparr> permission [''projects/'' @ projectID]"
proof -
  define resource where "resource = ''projects/'' @ projectID"
  have r: "resource \<noteq> []" by (simp add: resource_def)
  let ?pol = "\<lparr>Bindings = [\<lparr>Role = ''roles/owner'', Members = [''serviceAccount:'' @ email], Condition = None\<rparr>], Etag = []\<rparr>"
  let ?iam = "\<lparr>tables = iam (tables s), faults = faults s\<rparr>"
  define db where "db = policy_put resource (stamped ?pol) (iam (tables s))"
  define s' where "s' = s\<lparr>tables := (tables s)\<lparr>iam := db\<rparr>\<rparr>"
  have "permitted env (tables s) p ''secretmanager.secrets.setIamPolicy'' [resource, projectResource (projectFromSecretName resource)]"
    using assms(4) EvaluateAny_first [OF _ disjI1 [OF r]] permitted_one [of env "tables s" p _ resource]
    unfolding permitted_def resource_def [symmetric] lab_evaluator_def by blast
  note pass = requireSecretGRPC_passes [OF assms(1,3) this]
  have put: "PutIAMPolicyJSON resource ?pol ?iam = (Inr (), \<lparr>tables = db, faults = faults s\<rparr>)"
    using assms(1) r by (simp add: PutIAMPolicyJSON_ok ok_connection_def db_def)
  have "iamPolicyToAuthz (owner_policy (''serviceAccount:'' @ email)) = ?pol"
    by (simp add: iamPolicyToAuthz_def owner_policy_def)
  with put have served: "serve_grpc env codec (c, SetIamPolicyRPC resource (owner_policy (''serviceAccount:'' @ email))) s =
      (Inr (Value (PolicyValue (owner_policy (''serviceAccount:'' @ email)))), s')"
    by (simp add: answer_def GrpcSetIamPolicy_def bindM_step pass attempt_ok inside_def s'_def)
  obtain chain where chain: "policyChain (serverEvaluator (env_eval_now env) (iam (tables s))) resource = Inr chain"
    using chain_total by blast
  have member: "resource \<in> set chain"
    using policyChain_Inr [OF chain] chain_project [OF assms(10)] by (auto simp: resource_def)
  have "justifies (env_runtime env) (serverEvaluator (env_eval_now env) (iam (tables s)))
      (\<lambda>ms. memberIn ms (memberIdentity email)) permission
      \<lparr>Role = ''roles/owner'', Members = [''serviceAccount:'' @ email], Condition = None\<rparr>"
    using assms(5,6) by (simp add: justifies_def conditionAllows_def memberIn_def memberIdentity_def)
  moreover have roles: "roles_decode (iam (tables s))" using assms(2) by (simp add: iam_ok_def)
  ultimately have "Evaluate (env_runtime env) (Some (serverEvaluator (env_eval_now env) db)) email False permission resource = Inr True"
    using server.evaluate_put [OF chain server_answers [OF assms(2)] policy_answers [OF roles] assms(7,8) r] member
    by (simp add: db_def stamped_def)
  then have "permitted env (tables s') \<lparr>Email = email, IsRoot = False\<rparr> permission [resource]"
    by (simp add: permitted_one lab_evaluator_def s'_def)
  with served show ?thesis unfolding resource_def by blast
qed


section \<open>Instances\<close>

definition example_env :: "int lab_env" where
  "example_env = \<lparr>env_runtime = example_runtime, env_eval_now = None, env_vpcsc = [], env_aead = example_aead,
     env_time = example_time, env_stamp = (\<lambda>_. [])\<rparr>"

definition example_lab :: "Lab connection" where
  "example_lab = \<lparr>tables = \<lparr>iam = empty_Db,
     pubsub = \<lparr>topics = [], subscriptions = [], messages = [], snapshots = []\<rparr>,
     secretmanager = \<lparr>secrets = [example_secret\<lparr>Secret_Name := ''projects/p/secrets/s''\<rparr>], secret_versions = []\<rparr>,
     kms = \<lparr>kms_keyrings = [], kms_keys = [], kms_key_versions = []\<rparr>\<rparr>, faults = []\<rparr>"

definition example_secret_request :: "Principal option \<Rightarrow> string \<Rightarrow> string \<Rightarrow> lab_request" where
  "example_secret_request p secret version = \<lparr>req_principal = p, req_project = ''p'', req_secret = secret, req_version = version,
     req_query = (\<lambda>_. []), req_body = None, req_body_error = None, req_first = None, req_now = 0,
     req_random = Inr example_nonce\<rparr>"

definition example_call :: "Principal option \<Rightarrow> grpc_call" where
  "example_call p = \<lparr>grpc_principal = map_option Inr p, grpc_now = 0, grpc_random = Inr example_nonce\<rparr>"

definition example_root :: Principal where
  "example_root = \<lparr>Email = ''root@p'', IsRoot = True\<rparr>"

lemma example_lab_connection: "ok_connection example_lab"
  by (simp add: ok_connection_def example_lab_def)

lemma root_permitted: "IsRoot p \<Longrightarrow> permitted env db p permission resources"
  by (simp add: permitted_def EvaluateAny_def)

theorem secret_requests_mediated_witness:
  "\<exists>r s'. runs (serve_secret example_env) example_lab [((DeleteSecretRoute, example_secret_request None ''s'' []), r)] s' \<and>
     tables s' = tables example_lab"
proof -
  let ?rr = "(DeleteSecretRoute, example_secret_request None ''s'' [])"
  obtain r s' where "serve_secret example_env ?rr example_lab = (r, s')" by fastforce
  then have run: "runs (serve_secret example_env) example_lab [(?rr, r)] s'" by (blast intro: runs.intros)
  have "\<not> secret_allowed example_env db ?rr" for db
    by (simp add: secret_allowed_def on_secret_def holds_permission_def example_secret_request_def)
  with secret_requests_mediated [OF run] run show ?thesis by auto
qed

theorem secret_calls_mediated_witness:
  "\<exists>r s'. runs (serve_grpc example_env (\<lambda>_. [])) example_lab [((example_call None, DestroyRPC ''n''), r)] s' \<and>
     tables s' = tables example_lab"
proof -
  let ?cr = "(example_call None, DestroyRPC ''n'')"
  obtain r s' where "serve_grpc example_env (\<lambda>_. []) ?cr example_lab = (r, s')" by fastforce
  then have run: "runs (serve_grpc example_env (\<lambda>_. [])) example_lab [(?cr, r)] s'" by (blast intro: runs.intros)
  have "\<not> grpc_allowed example_env db ?cr" for db
    by (simp add: grpc_allowed_def call_permits_def example_call_def split: option.split)
  with secret_calls_mediated [OF run] run show ?thesis by auto
qed

definition example_add :: lab_request where
  "example_add = (example_secret_request (Some example_root) ''s:addVersion'' [])\<lparr>req_body := Some (payload_body ''pw'')\<rparr>"

definition example_access :: lab_request where
  "example_access = example_secret_request (Some example_root) ''s'' ''latest:access''"

theorem secret_api_roundtrip_witness:
  "\<exists>s1 reply. serve_secret example_env (GetVersion, example_access) s1 = (Inr reply, s1) \<and>
     reply_payload reply = Some (EncodeToString ''pw'')"
proof -
  have verbs: "splitColonAction ''s:addVersion'' = (''s'', ''addVersion'')"
      "splitColonAction ''latest:access'' = (''latest'', ''access'')" "splitColonAction ''s'' = (''s'', [])"
    using colon_verb [of "''s''" "''addVersion''"] colon_verb [of "''latest''" "''access''"]
    by (simp_all add: splitColonAction_def)
  have "request_secret example_add = ''projects/p/secrets/s''" "request_secret example_access = ''projects/p/secrets/s''"
    by (simp_all add: request_secret_def example_add_def example_access_def example_secret_request_def verbs secretResourceName_def)
  moreover have "secrets_ok (secretmanager (tables example_lab))"
    by (simp add: secrets_ok_def example_lab_def keys_distinct_def versions_of_def)
  moreover have "secret_allowed example_env db (PostSecret, example_add)" for db
    by (simp add: secret_allowed_def example_add_def example_secret_request_def verbs post_permissions_def on_secret_def
        holds_permission_def root_permitted example_root_def)
  moreover have "secret_allowed example_env db (GetVersion, example_access)" for db
    by (simp add: secret_allowed_def example_access_def example_secret_request_def verbs on_secret_def Let_def
        holds_permission_def root_permitted example_root_def)
  ultimately show ?thesis
    using secret_api_roundtrip [OF example_lab_connection, of example_env example_add example_nonce "''s''" "''pw''" example_access]
    by (auto simp: example_aead_ok example_env_def example_nonce_size example_add_def example_access_def example_secret_request_def
        example_lab_def)
qed

theorem grpc_set_policy_escalates_witness:
  "\<exists>reply s'. serve_grpc example_env (\<lambda>_. []) (example_call (Some example_root),
       SetIamPolicyRPC ''projects/p'' (owner_policy ''serviceAccount:ci@p'')) example_lab = (Inr (Value reply), s') \<and>
     permitted example_env (tables s') \<lparr>Email = ''ci@p'', IsRoot = False\<rparr> ''secretmanager.versions.access'' [''projects/p'']"
proof -
  have "TrimSpace ''ci@p'' = ''ci@p''" by (rule TrimSpace_plain_ends) (simp add: plain_char_def)
  moreover have "\<not> Contains ''ci@p'' '':''" by (simp add: go_simps)
  moreover have "iam_ok (iam (tables example_lab))" by (simp add: example_lab_def empty_iam_ok)
  ultimately show ?thesis
    using grpc_set_policy_escalates [OF example_lab_connection, of "example_call (Some example_root)" example_root
        example_env "''p''" "''ci@p''" "''secretmanager.versions.access''" "\<lambda>_. []"]
    by (simp add: example_call_def root_permitted example_root_def)
qed

end
