(* ===== verification/Secret_Equivalence.thy ===== *)
theory Secret_Equivalence
  imports Secret_Requests
begin

text \<open>
  The two surfaces of Secret Manager agree: a REST request and the gRPC call that says the same run the same
  statements, end on the same connection, failing statements included, and either both succeed with the same
  contents or both fail.
\<close>

section \<open>Actions with related results\<close>

definition related :: "('r \<Rightarrow> 'v \<Rightarrow> bool) \<Rightarrow> ('db, 'r) action \<Rightarrow> ('db, 'v) action \<Rightarrow> bool" where
  "related R m n \<longleftrightarrow> (\<forall>s. \<exists>r v s'. m s = (Inr r, s') \<and> n s = (Inr v, s') \<and> R r v)"

named_theorems related_intros \<open>steps that two actions share\<close>

lemma related_return [related_intros]: "R r v \<Longrightarrow> related R (returnM r) (returnM v)"
  by (simp add: related_def returnM_def)

lemma related_if [related_intros]:
  "(b \<Longrightarrow> related R m n) \<Longrightarrow> (\<not> b \<Longrightarrow> related R m' n') \<Longrightarrow> related R (if b then m else m') (if b then n else n')"
  by simp

lemma related_option [related_intros]:
  "related R m n \<Longrightarrow> (\<And>x. x' = Some x \<Longrightarrow> related R (f x) (g x)) \<Longrightarrow>
     related R (case x' of None \<Rightarrow> m | Some x \<Rightarrow> f x) (case x' of None \<Rightarrow> n | Some x \<Rightarrow> g x)"
  by (cases x') auto

lemma related_pair [related_intros]:
  "(\<And>x y. related R (f x y) (g x y)) \<Longrightarrow> related R (case p of (x, y) \<Rightarrow> f x y) (case p of (x, y) \<Rightarrow> g x y)"
  by (cases p) auto

lemma related_attempt [related_intros]:
  fixes m :: "('db, 'a) action" and k :: "'a \<Rightarrow> ('db, 'r) action" and k' :: "'a \<Rightarrow> ('db, 'v) action"
  assumes "\<And>err. R (on_err err) (on_err' err)" and "\<And>x. related R (k x) (k' x)"
  shows "related R (attempt m on_err k) (attempt m on_err' k')"
  unfolding related_def
proof
  fix s :: "'db connection"
  obtain r1 s1 where s1: "m s = (r1, s1)" by fastforce
  show "\<exists>r v s'. attempt m on_err k s = (Inr r, s') \<and> attempt m on_err' k' s = (Inr v, s') \<and> R r v"
  proof (cases r1)
    case (Inl err)
    with s1 assms(1) show ?thesis by (simp add: attempt_def catchM_def returnM_def)
  next
    case (Inr x)
    with s1 assms(2) [of x] show ?thesis unfolding related_def attempt_def catchM_def by simp
  qed
qed

lemma related_answer [related_intros]:
  fixes m :: "(Lab, 'r) action" and n :: "(Lab, 'a grpc) action"
  assumes "related (\<lambda>r v. R r (map_grpc f v)) m n"
  shows "related R m (answer f n)"
  unfolding related_def
proof
  fix s :: "Lab connection"
  from assms obtain r v s' where "m s = (Inr r, s')" "n s = (Inr v, s')" "R r (map_grpc f v)"
    unfolding related_def by blast
  then show "\<exists>r v s'. m s = (Inr r, s') \<and> answer f n s = (Inr v, s') \<and> R r v"
    by (simp add: answer_def bindM_def returnM_def)
qed

section \<open>Requests that say the same\<close>

definition version_rpc :: "lab_request \<Rightarrow> string" where
  "version_rpc req = version_name (request_secret req) (request_version req)"

text \<open>The payload of an \<open>addVersion\<close> body.\<close>

definition body_payload :: "lab_request \<Rightarrow> string option" where
  "body_payload req =
     (if req_body_error req \<noteq> None then None
      else case Unmarshal_body decode_payload (req_body req) [] of
          Inl _ \<Rightarrow> None
        | Inr data \<Rightarrow> (case DecodeString data of Inl _ \<Rightarrow> None | Inr plain \<Rightarrow> Some plain))"

definition body_permissions :: "lab_request \<Rightarrow> string list option" where
  "body_permissions req =
     (if req_body_error req \<noteq> None then None
      else case (if req_body req = None then Inr [] else Unmarshal_body decode_permissions (req_body req) []) of
          Inl _ \<Rightarrow> None
        | Inr permissions \<Rightarrow> Some permissions)"

fun rpc_of :: "secret_route \<times> lab_request \<Rightarrow> grpc_request option" where
  "rpc_of (GetSecrets, req) = Some (ListSecretsRPC (projectResource (req_project req)))"
| "rpc_of (GetSecretRoute, req) = Some (GetSecretRPC (request_secret req))"
| "rpc_of (DeleteSecretRoute, req) = Some (DeleteSecretRPC (request_secret req))"
| "rpc_of (PostSecret, req) =
     (let verb = snd (splitColonAction (req_secret req)) in
      if verb = ''addVersion'' then map_option (AddSecretVersionRPC (request_secret req)) (body_payload req)
      else if verb = ''testIamPermissions'' then
        map_option (TestIamPermissionsRPC (request_secret req)) (body_permissions req)
      else None)"
| "rpc_of (GetVersions, req) = Some (ListSecretVersionsRPC (request_secret req) (req_query req ''filter''))"
| "rpc_of (GetVersion, req) =
     (if snd (splitColonAction (req_version req)) = ''access'' then Some (AccessSecretVersionRPC (version_rpc req)) else None)"
| "rpc_of (PostVersion, req) =
     (let verb = snd (splitColonAction (req_version req)) in
      if verb = ''enable'' then Some (EnableRPC (version_rpc req))
      else if verb = ''disable'' then Some (DisableRPC (version_rpc req))
      else if verb = ''destroy'' then Some (DestroyRPC (version_rpc req))
      else None)"
| "rpc_of _ = None"

text \<open>The same caller, time and randomness.\<close>

definition same_caller :: "lab_request \<Rightarrow> grpc_call \<Rightarrow> bool" where
  "same_caller req c \<longleftrightarrow> grpc_principal c = map_option Inr (req_principal req) \<and> grpc_now c = req_now req \<and>
     grpc_random c = req_random req"

text \<open>Names that are read back as they were written.\<close>

definition well_named :: "lab_request \<Rightarrow> bool" where
  "well_named req \<longleftrightarrow> req_project req \<noteq> [] \<and> CHR ''/'' \<notin> set (req_project req) \<and>
     TrimSpace (request_secret req) = request_secret req \<and> CHR ''/'' \<notin> set (request_version req) \<and>
     (request_version req = [] \<or> plain_char (last (request_version req)))"

section \<open>Replies that say the same\<close>

fun member_at :: "string \<Rightarrow> json \<Rightarrow> json option" where
  "member_at name (JObj ms) = map_of ms name"
| "member_at name _ = None"

definition says_secret :: "json \<Rightarrow> SecretPB \<Rightarrow> bool" where
  "says_secret j pb \<longleftrightarrow> member_at ''name'' j = Some (JStr (PB_Name pb)) \<and>
     member_at ''labels'' j = Some (string_map_json (PB_Labels pb)) \<and>
     member_at ''annotations'' j = Some (string_map_json (PB_Annotations pb))"

definition says_version :: "json \<Rightarrow> SecretVersionPB \<Rightarrow> bool" where
  "says_version j pb \<longleftrightarrow> member_at ''name'' j = Some (JStr (PB_Version_Name pb)) \<and>
     (member_at ''state'' j = Some (JStr (PB_State pb)) \<or> PB_State pb = ''STATE_UNSPECIFIED'')"

fun says :: "json \<Rightarrow> grpc_value \<Rightarrow> bool" where
  "says j (SecretValue pb) \<longleftrightarrow> says_secret j pb"
| "says j (SecretsValue pbs) \<longleftrightarrow> (\<exists>js. j = JObj [(''secrets'', JArr js)] \<and> list_all2 says_secret js pbs)"
| "says j EmptyValue \<longleftrightarrow> j = JObj []"
| "says j (VersionValue pb) \<longleftrightarrow> says_version j pb"
| "says j (VersionsValue pbs) \<longleftrightarrow> (\<exists>js. j = JObj [(''versions'', JArr js)] \<and> list_all2 says_version js pbs)"
| "says j (PayloadValue name plain) \<longleftrightarrow>
     member_at ''name'' j = Some (JStr name) \<and> member_at ''payload'' j = Some (JObj [(''data'', JStr (EncodeToString plain))])"
| "says j (PermissionsValue ps) \<longleftrightarrow> j = JObj [(''permissions'', JArr (map JStr ps))]"
| "says j (PolicyValue pol) \<longleftrightarrow> False"

fun same_outcome :: "reply \<Rightarrow> grpc_value grpc \<Rightarrow> bool" where
  "same_outcome (Rejected resp) (Status code message) = True"
| "same_outcome (Reply j) (Value x) = says j x"
| "same_outcome _ _ = False"

lemma marshalled_member:
  assumes "map_of m name = Some v" and "distinct (map fst m)"
  shows "member_at name (marshal_map m) = Some v"
proof -
  have "distinct (map fst (sort_key fst m))"
    using assms(2) by (metis mset_eq_imp_distinct_iff mset_map mset_sort)
  moreover have "(name, v) \<in> set (sort_key fst m)" using assms(1) map_of_SomeD by force
  ultimately show ?thesis by (simp add: marshal_map_def)
qed

lemma secret_says: "says_secret (secretJSON env sec) (secretPB sec)"
  unfolding secretJSON_def Let_def says_secret_def
  by (auto intro!: marshalled_member simp: secretPB_def split: sum.split)

lemma version_says: "says_version (versionJSON env v) (versionPB v)"
  unfolding versionJSON_def says_version_def
  by (auto intro!: marshalled_member simp: versionPB_def)

lemma error_outcomes:
  "same_outcome (internal err) (map_grpc f (grpc_internal err))"
  "same_outcome (not_found_or_internal m err) (map_grpc f (grpc_not_found m' err))"
  "same_outcome (access_error err) (map_grpc f (grpc_access_error err))"
  "same_outcome (state_error err) (map_grpc f (grpc_state_error err))"
  by (simp_all add: internal_def grpc_internal_def not_found_or_internal_def grpc_not_found_def access_error_def
      grpc_access_error_def state_error_def grpc_state_error_def)

section \<open>Permission checks\<close>

lemma related_requireHTTP:
  assumes "same_caller req c" and "related R k k'" and "\<And>resp code message. R (Rejected resp) (Status code message)"
  shows "related R (requireHTTP env req permission resource k) (requireGRPC env c permission resource k')"
  using assms
  by (cases "req_principal req")
     (auto simp: requireHTTP_def requireGRPC_def grpc_guard_def same_caller_def internal_def grpc_internal_def
        intro!: related_return related_attempt)

lemma related_requireSecretHTTP:
  assumes "same_caller req c" and "related R k k'" and "\<And>resp code message. R (Rejected resp) (Status code message)"
  shows "related R (requireSecretHTTP env req permission name project k) (requireSecretGRPC env c permission name project k')"
  using assms
  by (cases "req_principal req")
     (auto simp: requireSecretHTTP_def requireSecretGRPC_def grpc_guard_def same_caller_def internal_def grpc_internal_def
        intro!: related_return related_attempt)

lemma Split_first:
  assumes "CHR ''/'' \<notin> set p"
  shows "Split (p @ CHR ''/'' # r) ''/'' = p # Split r ''/''"
  using Index_skip [OF assms, of "[]" r] by (subst Split.simps) simp

lemma project_of_request: "CHR ''/'' \<notin> set (req_project req) \<Longrightarrow> projectFromSecretName (request_secret req) = req_project req"
proof -
  assume p: "CHR ''/'' \<notin> set (req_project req)"
  have "request_secret req = ''projects'' @ CHR ''/'' # (req_project req @ CHR ''/'' # ''secrets/'' @ fst (splitColonAction (req_secret req)))"
    by (simp add: request_secret_def secretResourceName_def)
  then have "Split (request_secret req) ''/'' = ''projects'' # req_project req # Split (''secrets/'' @ fst (splitColonAction (req_secret req))) ''/''"
    using Split_first [of "''projects''"] Split_first [OF p] by simp
  then show ?thesis by (simp add: projectFromSecretName_def)
qed

lemma parent_of_request:
  "req_project req \<noteq> [] \<Longrightarrow> CHR ''/'' \<notin> set (req_project req) \<Longrightarrow> grpc_parent (projectResource (req_project req)) = Some (req_project req)"
proof -
  assume "req_project req \<noteq> []" "CHR ''/'' \<notin> set (req_project req)"
  moreover have "TrimPrefix (projectResource (req_project req)) ''projects/'' = req_project req"
    unfolding projectResource_def by (rule TrimPrefix_append)
  ultimately show ?thesis by (simp add: grpc_parent_def Contains_def sublist_def Let_def in_set_conv_decomp)
qed

lemma version_of_request:
  assumes "well_named req"
  shows "ParseSecretVersionName (version_rpc req) = Some (request_secret req, request_version req)"
proof -
  have "plain_char (hd (request_secret req))"
    by (simp add: request_secret_def secretResourceName_def plain_char_def)
  with assms show ?thesis unfolding version_rpc_def
    by (intro version_name_roundtrip) (auto simp: well_named_def)
qed

text \<open>C26. The REST and the gRPC surface of Secret Manager agree: for a request that reads, deletes, adds, accesses or
  changes the state of a version, lists, or tests permissions, the gRPC call that says the same, by the same caller,
  leaves the same connection, failing statements included; one succeeds exactly when the other does, with the
  same names, labels, states, payload and permissions.\<close>
theorem secret_surfaces_agree:
  assumes "rpc_of (route, req) = Some rpc" and "same_caller req c" and "well_named req"
  shows "\<exists>r v s'. serve_secret env (route, req) s = (Inr r, s') \<and> serve_grpc env codec (c, rpc) s = (Inr v, s') \<and>
    same_outcome r v"
proof -
  note named = assms(3) [unfolded well_named_def]
  have project: "projectFromSecretName (request_secret req) = req_project req"
    using named by (intro project_of_request) simp
  have parent: "grpc_parent (projectResource (req_project req)) = Some (req_project req)"
    using named by (intro parent_of_request) simp_all
  note steps = related_answer related_requireHTTP [OF assms(2)] related_requireSecretHTTP [OF assms(2)] related_attempt
    related_return related_option related_if related_pair error_outcomes
  note names = project parent version_of_request [OF assms(3)]
  have "related same_outcome (serve_secret env (route, req)) (serve_grpc env codec (c, rpc))"
  proof (cases route)
    case PostSecrets
    with assms(1) show ?thesis by simp
  next
    case GetSecrets
    with assms(1) show ?thesis
      by (auto simp: httpListSecrets_def GrpcListSecrets_def parent list_all2_conv_all_nth secret_says intro!: steps)
  next
    case GetSecretRoute
    with assms(1) show ?thesis
      by (auto simp: httpGetSecret_def GrpcGetSecret_def Let_def project secret_says intro!: steps)
  next
    case PatchSecretRoute
    with assms(1) show ?thesis by simp
  next
    case DeleteSecretRoute
    with assms(1) show ?thesis
      by (auto simp: httpDeleteSecret_def GrpcDeleteSecret_def Let_def project intro!: steps)
  next
    case PostSecret
    with assms(1) consider plain where "snd (splitColonAction (req_secret req)) = ''addVersion''"
        "body_payload req = Some plain" "rpc = AddSecretVersionRPC (request_secret req) plain"
      | ps where "snd (splitColonAction (req_secret req)) = ''testIamPermissions''"
        "body_permissions req = Some ps" "rpc = TestIamPermissionsRPC (request_secret req) ps"
      by (auto simp: Let_def split: if_splits)
    then show ?thesis
    proof cases
      case 1
      with PostSecret assms(2) show ?thesis
        by (auto simp: httpSecretPost_def httpAddVersion_def GrpcAddSecretVersion_def Let_def project version_says
            body_payload_def same_caller_def split: if_splits sum.splits intro!: steps)
    next
      case 2
      with PostSecret assms(2) show ?thesis
        by (auto simp: httpSecretPost_def httpTestIamPermissions_def GrpcTestIamPermissions_def grpc_guard_def Let_def project
            body_permissions_def same_caller_def split: if_splits sum.splits option.splits intro!: steps)
    qed
  next
    case GetVersions
    with assms(1) show ?thesis
      by (auto simp: httpListVersions_def GrpcListSecretVersions_def Let_def project list_all2_conv_all_nth version_says
          intro!: steps)
  next
    case GetVersion
    with assms(1) show ?thesis
      by (auto simp: httpVersionGet_def httpAccessVersion_def GrpcAccessSecretVersion_def names Let_def marshal_map_def
          split: if_splits intro!: steps)
  next
    case PostVersion
    with assms(1) show ?thesis
      by (auto simp: httpVersionPost_def httpEnableVersion_def httpDisableVersion_def httpDestroyVersion_def
          httpSetVersionState_def EnableSecretVersion_def DisableSecretVersion_def DestroySecretVersion_def grpcSetState_def
          names Let_def version_says split: if_splits intro!: steps)
  qed
  then show ?thesis unfolding related_def by blast
qed

theorem secret_surfaces_agree_witness:
  "\<exists>r v s'. serve_secret example_env (DeleteSecretRoute, example_secret_request (Some example_root) ''s'' []) example_lab = (Inr r, s') \<and>
     serve_grpc example_env (\<lambda>_. []) (example_call (Some example_root), DeleteSecretRPC ''projects/p/secrets/s'') example_lab = (Inr v, s') \<and>
     same_outcome r v"
proof -
  let ?req = "example_secret_request (Some example_root) ''s'' []"
  have name: "request_secret ?req = ''projects/p/secrets/s''"
    by (simp add: request_secret_def example_secret_request_def secretResourceName_def splitColonAction_def)
  have "TrimSpace ''projects/p/secrets/s'' = ''projects/p/secrets/s''"
    by (rule TrimSpace_plain_ends) (simp add: plain_char_def)
  then have "well_named ?req"
    unfolding well_named_def name
    by (simp add: example_secret_request_def request_version_def splitColonAction_def)
  then show ?thesis
    using secret_surfaces_agree [of DeleteSecretRoute ?req "DeleteSecretRPC ''projects/p/secrets/s''" "example_call (Some example_root)"
        example_env example_lab "\<lambda>_. []"]
    by (simp add: name same_caller_def example_call_def) (simp add: example_secret_request_def)
qed

end
