(* ===== verification/Kms_Handlers.thy ===== *)
theory Kms_Handlers
  imports Secret_Requests
begin

text \<open>
  The REST handlers of Cloud KMS: \<^verbatim>\<open>internal/services/kms/service.go\<close>.

  One pattern of the mux takes every path under a location; \<open>kms_route\<close> is the switch of \<open>dispatch\<close> and
  \<open>dispatch\<close> runs the handler it gives. AES-GCM, SHA-256, RSA-PSS and the key formats are the parameters of
  \<open>kms_lib\<close>; the key sizes of AES, the nonce in front of a ciphertext and the length checks are the code's and its
  library's. \<open>req_random\<close> is the nonce that is read, \<open>kms_material\<close> the 32 bytes of a new symmetric key and
  \<open>kms_rsa_key\<close> a new RSA key in PKCS 8 form.
\<close>

record kms_request = lab_request +
  kms_location :: string
  kms_method :: string
  kms_rest :: string
  kms_material :: "error + string"
  kms_rsa_key :: "error + string"

record 'k kms_lib =
  gcm_Seal :: "string \<Rightarrow> string \<Rightarrow> string \<Rightarrow> string \<Rightarrow> string"
  gcm_Open :: "string \<Rightarrow> string \<Rightarrow> string \<Rightarrow> string \<Rightarrow> string option"
  SHA256 :: "string \<Rightarrow> string"
  ParsePKCS8 :: "string \<Rightarrow> error + 'k option"
  PublicPEM :: "'k \<Rightarrow> error + string"
  SignPSS :: "'k \<Rightarrow> error + string \<Rightarrow> string \<Rightarrow> error + string"

section \<open>Symmetric encryption\<close>

text \<open>The nonce of GCM has 12 bytes, as the one of the database key.\<close>

definition aes_NewCipher :: "string \<Rightarrow> error + unit" where
  "aes_NewCipher key =
     (if length key \<in> {16, 24, 32} then Inr ()
      else Inl (Errorf (''crypto/aes: invalid key size '' @ itoa (length key))))"

definition aesGCMEncrypt :: "'k kms_lib \<Rightarrow> error + string \<Rightarrow> string \<Rightarrow> string \<Rightarrow> string \<Rightarrow> error + string" where
  "aesGCMEncrypt K random key plaintext aad =
     bindE (aes_NewCipher key) (\<lambda>_. bindE random (\<lambda>nonce. Inr (nonce @ gcm_Seal K key nonce plaintext aad)))"

definition aesGCMDecrypt :: "'k kms_lib \<Rightarrow> string \<Rightarrow> string \<Rightarrow> string \<Rightarrow> error + string" where
  "aesGCMDecrypt K key ciphertext aad =
     bindE (aes_NewCipher key) (\<lambda>_.
     if length ciphertext < NonceSize then Inl (Errorf ''ciphertext too short'')
     else case gcm_Open K key (take NonceSize ciphertext) (drop NonceSize ciphertext) aad of
         None \<Rightarrow> Inl (Errorf ''cipher: message authentication failed'')
       | Some plain \<Rightarrow> Inr plain)"

definition decodeOptionalAAD :: "string \<Rightarrow> error + string" where
  "decodeOptionalAAD raw = (let raw = TrimSpace raw in if raw = [] then Inr [] else DecodeString raw)"

section \<open>Names and permissions\<close>

definition keyRingName :: "kms_request \<Rightarrow> string \<Rightarrow> string" where
  "keyRingName req keyRing = ''projects/'' @ req_project req @ ''/locations/'' @ kms_location req @ ''/keyRings/'' @ keyRing"

definition cryptoKeyName :: "kms_request \<Rightarrow> string \<Rightarrow> string \<Rightarrow> string" where
  "cryptoKeyName req keyRing cryptoKey = keyRingName req keyRing @ ''/cryptoKeys/'' @ cryptoKey"

definition key_version_name :: "string \<Rightarrow> string \<Rightarrow> string" where
  "key_version_name keyName version = keyName @ ''/cryptoKeyVersions/'' @ version"

section \<open>Replies\<close>

definition stamp_json :: "'f lab_env \<Rightarrow> stamp option \<Rightarrow> json" where
  "stamp_json env t = JStr (case t of None \<Rightarrow> [] | Some s \<Rightarrow> env_stamp env s)"

definition keyRing_json :: "'f lab_env \<Rightarrow> string \<Rightarrow> stamp option \<Rightarrow> json" where
  "keyRing_json env name createTime = marshal_map [(''name'', JStr name), (''createTime'', stamp_json env createTime)]"

definition version_json :: "'f lab_env \<Rightarrow> KMSKeyVersion \<Rightarrow> json" where
  "version_json env v = marshal_map
     [(''name'', JStr (KeyVersion_Name v)), (''state'', JStr (KeyVersion_State v)),
      (''createTime'', stamp_json env (KeyVersion_CreatedAt v))]"

text \<open>A map of labels that may be nil.\<close>

fun fill_labels :: "string_map option filler" where
  "fill_labels (JObj ms) old = Some (fill_string_map (JObj ms) (case old of None \<Rightarrow> [] | Some m \<Rightarrow> m))"
| "fill_labels JNull old = None"
| "fill_labels _ old = old"

definition cryptoKeyResource ::
  "'f lab_env \<Rightarrow> string \<Rightarrow> string \<Rightarrow> string \<Rightarrow> document \<Rightarrow> stamp option \<Rightarrow> KMSKeyVersion option \<Rightarrow> json" where
  "cryptoKeyResource env name purpose algorithm labelsJSON createTime primary =
     (let labels = (case Decode_ignoring fill_labels (Some labelsJSON) None of None \<Rightarrow> [] | Some m \<Rightarrow> m) in
      marshal_map (
        [(''name'', JStr name), (''purpose'', JStr purpose), (''createTime'', stamp_json env createTime),
         (''labels'', string_map_json labels),
         (''versionTemplate'', marshal_map [(''algorithm'', JStr algorithm), (''protectionLevel'', JStr ''SOFTWARE'')])] @
        (case primary of
           None \<Rightarrow> []
         | Some v \<Rightarrow>
             if KeyVersion_Name v = [] then []
             else [(''primary'', marshal_map
               [(''name'', JStr (KeyVersion_Name v)), (''state'', JStr (KeyVersion_State v)),
                (''createTime'', stamp_json env (KeyVersion_CreatedAt v)), (''algorithm'', JStr algorithm),
                (''protectionLevel'', JStr ''SOFTWARE'')])])))"

definition stored_key_json :: "'f lab_env \<Rightarrow> KMSCryptoKey \<Rightarrow> KMSKeyVersion option \<Rightarrow> json" where
  "stored_key_json env k primary =
     cryptoKeyResource env (CryptoKey_Name k) (Purpose k) (Algorithm k) (LabelsJSON k) (CryptoKey_CreatedAt k) primary"

section \<open>Bodies\<close>

record KeyBody =
  Key_Purpose :: string
  Key_Labels :: "string_map option"
  Key_Algorithm :: "string option"

definition zero_KeyBody :: KeyBody where
  "zero_KeyBody = \<lparr>Key_Purpose = [], Key_Labels = None, Key_Algorithm = None\<rparr>"

definition fill_KeyBody :: "KeyBody filler" where
  "fill_KeyBody = fill_struct
     [(''purpose'', fill_field Key_Purpose (\<lambda>x r. r\<lparr>Key_Purpose := x\<rparr>) fill_string),
      (''labels'', fill_field Key_Labels (\<lambda>x r. r\<lparr>Key_Labels := x\<rparr>) fill_labels),
      (''versionTemplate'', fill_field Key_Algorithm (\<lambda>x r. r\<lparr>Key_Algorithm := x\<rparr>)
         (fill_pointer (fill_struct [(''algorithm'', fill_string)]) []))]"

text \<open>A body with a text and additional data.\<close>

definition decode_texts :: "string \<Rightarrow> (string \<times> string) decoder" where
  "decode_texts name = decode_struct
     [(name, json_field fst (\<lambda>x r. (x, snd r)) decode_string),
      (''additionalAuthenticatedData'', json_field snd (\<lambda>x r. (fst r, x)) decode_string)]"

definition decode_SignBody :: "(string option \<times> string) decoder" where
  "decode_SignBody = decode_struct
     [(''digest'', json_field fst (\<lambda>x r. (x, snd r)) (decode_pointer (decode_struct [(''sha256'', decode_string)]) [])),
      (''data'', json_field snd (\<lambda>x r. (fst r, x)) decode_string)]"

section \<open>Key rings\<close>

definition createKeyRing :: "'f lab_env \<Rightarrow> kms_request \<Rightarrow> Principal \<Rightarrow> (Lab, reply) action" where
  "createKeyRing env req p =
     with_permission env p ''cloudkms.keyRings.create'' [projectResource (req_project req)]
       (gate (in_iam (RequireProjectAPIGates (env_vpcsc env) p (req_project req) ''cloudkms.googleapis.com''))
         (let keyRingID = req_query req ''keyRingId'' in
          if keyRingID = [] then returnM (Rejected (InvalidArgument ''keyRingId is required''))
          else
            let name = keyRingName req keyRingID; now = Some (FormatRFC3339Nano (req_now req)) in
            attempt (in_kms (CreateKMSKeyRing (req_now req) \<lparr>KeyRing_Name = name, KeyRing_ProjectID = req_project req,
                KeyRing_Location = kms_location req, KeyRing_CreatedAt = now\<rparr>)) internal (\<lambda>created.
            if \<not> created then returnM (Rejected (WriteREST 409 ''ALREADY_EXISTS'' ''key ring already exists''))
            else returnM (Reply (keyRing_json env name now)))))"

definition getKeyRing :: "'f lab_env \<Rightarrow> kms_request \<Rightarrow> Principal \<Rightarrow> string \<Rightarrow> (Lab, reply) action" where
  "getKeyRing env req p keyRing =
     with_permission env p ''cloudkms.keyRings.get'' [projectResource (req_project req)]
       (found (in_kms (GetKMSKeyRing (keyRingName req keyRing))) ''KeyRing not found'' (\<lambda>kr.
          returnM (Reply (keyRing_json env (KeyRing_Name kr) (KeyRing_CreatedAt kr)))))"

definition listKeyRings :: "'f lab_env \<Rightarrow> kms_request \<Rightarrow> Principal \<Rightarrow> (Lab, reply) action" where
  "listKeyRings env req p =
     with_permission env p ''cloudkms.keyRings.list'' [projectResource (req_project req)]
       (attempt (in_kms (ListKMSKeyRings (req_project req) (kms_location req))) internal (\<lambda>krs.
          returnM (Reply (JObj [(''keyRings'',
            JArr (map (\<lambda>kr. keyRing_json env (KeyRing_Name kr) (KeyRing_CreatedAt kr)) krs))]))))"

section \<open>Keys\<close>

text \<open>The algorithm of a new key; \<open>Inl\<close> is the message of an argument error.\<close>

definition key_algorithm :: "string \<Rightarrow> string \<Rightarrow> string + string" where
  "key_algorithm purpose algorithm =
     (if purpose = KMSPurposeEncrypt then
        Inr (if algorithm \<noteq> KMSAlgoSymmetric \<and> algorithm \<noteq> [] then KMSAlgoSymmetric else algorithm)
      else if purpose = KMSPurposeSign then
        let algorithm = (if algorithm = [] \<or> algorithm = KMSAlgoSymmetric then KMSAlgoRSAPSS2048 else algorithm) in
        if algorithm \<noteq> KMSAlgoRSAPSS2048 then
          Inl ''only RSA_SIGN_PSS_2048_SHA256 is supported for ASYMMETRIC_SIGN''
        else Inr algorithm
      else Inl ''supported purposes: ENCRYPT_DECRYPT, ASYMMETRIC_SIGN'')"

definition createCryptoKey :: "'f lab_env \<Rightarrow> kms_request \<Rightarrow> Principal \<Rightarrow> string \<Rightarrow> (Lab, reply) action" where
  "createCryptoKey env req p keyRing =
     with_permission env p ''cloudkms.cryptoKeys.create'' [projectResource (req_project req)]
       (let cryptoKeyID = req_query req ''cryptoKeyId'' in
        if cryptoKeyID = [] then returnM (Rejected (InvalidArgument ''cryptoKeyId is required''))
        else
          let body = Decode_ignoring fill_KeyBody (req_first req) zero_KeyBody;
              purpose = (if Key_Purpose body = [] then KMSPurposeEncrypt else Key_Purpose body);
              algorithm = (case Key_Algorithm body of None \<Rightarrow> KMSAlgoSymmetric
                | Some a \<Rightarrow> if a \<noteq> [] then a else KMSAlgoSymmetric) in
          (case key_algorithm purpose algorithm of
             Inl message \<Rightarrow> returnM (Rejected (InvalidArgument message))
           | Inr algorithm \<Rightarrow>
               let krName = keyRingName req keyRing in
               found (in_kms (GetKMSKeyRing krName)) ''KeyRing not found'' (\<lambda>_.
               let keyName = krName @ ''/cryptoKeys/'' @ cryptoKeyID; verName = keyName @ ''/cryptoKeyVersions/1'' in
               computed (if purpose = KMSPurposeSign then kms_rsa_key req else kms_material req) internal (\<lambda>material.
               computed (Seal (env_aead env) (req_random req) material) internal (\<lambda>sealed.
               let labelsJSON = (case Key_Labels body of None \<Rightarrow> empty_object | Some m \<Rightarrow> Json (string_map_json m));
                   now = Some (FormatRFC3339Nano (req_now req));
                   v = \<lparr>KeyVersion_Name = verName, CryptoKey = keyName, KeyVersion_VersionID = ''1'',
                     KeyVersion_State = KMSStateEnabled, KeyMaterialCiphertext = sealed, KeyVersion_CreatedAt = now\<rparr> in
               attempt (in_kms (CreateKMSCryptoKey (req_now req)
                   \<lparr>CryptoKey_Name = keyName, KeyRing = krName, Purpose = purpose, Algorithm = algorithm,
                    LabelsJSON = labelsJSON, CryptoKey_CreatedAt = now\<rparr> v)) internal (\<lambda>created.
               if \<not> created then returnM (Rejected (WriteREST 409 ''ALREADY_EXISTS'' ''crypto key already exists''))
               else returnM (Reply (cryptoKeyResource env keyName purpose algorithm labelsJSON now (Some v)))))))))"

definition getCryptoKey :: "'f lab_env \<Rightarrow> kms_request \<Rightarrow> Principal \<Rightarrow> string \<Rightarrow> string \<Rightarrow> (Lab, reply) action" where
  "getCryptoKey env req p keyRing cryptoKey =
     (let name = cryptoKeyName req keyRing cryptoKey in
      with_permission env p ''cloudkms.cryptoKeys.get'' [name, projectResource (req_project req)]
        (found (in_kms (GetKMSCryptoKey name)) ''CryptoKey not found'' (\<lambda>k.
         attempt (in_kms (PrimaryKMSKeyVersion name)) internal (\<lambda>primary.
         returnM (Reply (stored_key_json env k primary))))))"

definition updateCryptoKey :: "'f lab_env \<Rightarrow> kms_request \<Rightarrow> Principal \<Rightarrow> string \<Rightarrow> string \<Rightarrow> (Lab, reply) action" where
  "updateCryptoKey env req p keyRing cryptoKey =
     with_permission env p ''cloudkms.cryptoKeys.update'' [projectResource (req_project req)]
       (let name = cryptoKeyName req keyRing cryptoKey in
        found (in_kms (GetKMSCryptoKey name)) ''CryptoKey not found'' (\<lambda>k.
        let updateMask = req_query req ''updateMask'';
            labelsJSON = (case Decode_ignoring (fill_struct [(''labels'', fill_labels)]) (req_first req) None of
                Some m \<Rightarrow> if updateMask = [] \<or> Contains updateMask ''labels'' then Json (string_map_json m) else LabelsJSON k
              | None \<Rightarrow> LabelsJSON k) in
        found (in_kms (UpdateKMSCryptoKey name labelsJSON)) ''CryptoKey not found'' (\<lambda>updated.
        attempt (in_kms (PrimaryKMSKeyVersion name)) internal (\<lambda>primary.
        returnM (Reply (stored_key_json env updated primary))))))"

definition listCryptoKeys :: "'f lab_env \<Rightarrow> kms_request \<Rightarrow> Principal \<Rightarrow> string \<Rightarrow> (Lab, reply) action" where
  "listCryptoKeys env req p keyRing =
     with_permission env p ''cloudkms.cryptoKeys.list'' [projectResource (req_project req)]
       (attempt (in_kms (ListKMSCryptoKeys (keyRingName req keyRing))) internal (\<lambda>ks.
          returnM (Reply (JObj [(''cryptoKeys'', JArr (map (\<lambda>k. stored_key_json env k None) ks))]))))"

definition kms_getIamPolicy :: "'f lab_env \<Rightarrow> kms_request \<Rightarrow> Principal \<Rightarrow> string \<Rightarrow> string \<Rightarrow> (Lab, reply) action" where
  "kms_getIamPolicy env req p keyRing cryptoKey =
     with_permission env p ''cloudkms.cryptoKeys.getIamPolicy'' [projectResource (req_project req)]
       (let name = cryptoKeyName req keyRing cryptoKey in
        found (in_kms (GetKMSCryptoKey name)) ''CryptoKey not found'' (\<lambda>_.
        attempt (in_iam (GetIAMPolicyJSON name)) internal (\<lambda>raw.
        case raw of
          None \<Rightarrow> returnM (ReplyDocument (marshal_policy \<lparr>Bindings = [], Etag = ''ACAB''\<rparr>))
        | Some raw \<Rightarrow> returnM (ReplyDocument raw))))"

definition kms_setIamPolicy :: "'f lab_env \<Rightarrow> kms_request \<Rightarrow> Principal \<Rightarrow> string \<Rightarrow> string \<Rightarrow> (Lab, reply) action" where
  "kms_setIamPolicy env req p keyRing cryptoKey =
     with_permission env p ''cloudkms.cryptoKeys.setIamPolicy'' [projectResource (req_project req)]
       (let name = cryptoKeyName req keyRing cryptoKey in
        found (in_kms (GetKMSCryptoKey name)) ''CryptoKey not found'' (\<lambda>_.
        computed (Decode decode_policy_body (req_first req) zero_Policy) (invalid ''invalid setIamPolicy body'') (\<lambda>policy.
        attempt (in_iam (PutIAMPolicyJSON name policy)) internal (\<lambda>_.
        returnM (ReplyDocument (marshal_policy policy))))))"

section \<open>Using a key\<close>

text \<open>The steps the four operations share: the key with the purpose they need, and the material of a version that is
  not destroyed.\<close>

definition key_for_purpose ::
  "string \<Rightarrow> string \<Rightarrow> string \<Rightarrow> (KMSCryptoKey \<Rightarrow> (Lab, reply) action) \<Rightarrow> (Lab, reply) action" where
  "key_for_purpose keyName purpose message k =
     found (in_kms (GetKMSCryptoKey keyName)) ''CryptoKey not found'' (\<lambda>key.
       if Purpose key \<noteq> purpose then returnM (failed_precondition message) else k key)"

definition version_material ::
  "'f lab_env \<Rightarrow> string \<Rightarrow> (string \<Rightarrow> (Lab, reply) action) \<Rightarrow> (Lab, reply) action" where
  "version_material env verName k =
     found (in_kms (GetKMSKeyVersion verName)) ''CryptoKeyVersion not found'' (\<lambda>v.
       if KeyVersion_State v = KMSStateDestroyed then returnM (failed_precondition ''crypto key version is DESTROYED'')
       else computed (Unseal (env_aead env) (KeyMaterialCiphertext v)) internal k)"

text \<open>The first version, unless the path names one.\<close>

definition chosen_version :: "string \<Rightarrow> string \<Rightarrow> string" where
  "chosen_version keyName version =
     (if version \<noteq> [] then key_version_name keyName version else keyName @ ''/cryptoKeyVersions/1'')"

definition encrypt ::
  "'k kms_lib \<Rightarrow> 'f lab_env \<Rightarrow> kms_request \<Rightarrow> Principal \<Rightarrow> string \<Rightarrow> string \<Rightarrow> string \<Rightarrow> (Lab, reply) action" where
  "encrypt K env req p keyRing cryptoKey version =
     (let keyName = cryptoKeyName req keyRing cryptoKey in
      with_permission env p ''cloudkms.cryptoKeyVersions.useToEncrypt'' [keyName, projectResource (req_project req)]
        (key_for_purpose keyName KMSPurposeEncrypt ''encrypt requires ENCRYPT_DECRYPT purpose'' (\<lambda>_.
         let verName = chosen_version keyName version in
         computed (Decode (decode_texts ''plaintext'') (req_first req) ([], [])) (invalid ''invalid JSON body'') (\<lambda>body.
         computed (DecodeString (fst body)) (invalid ''plaintext must be base64'') (\<lambda>plain.
         computed (decodeOptionalAAD (snd body)) (invalid ''additionalAuthenticatedData must be base64'') (\<lambda>aad.
         version_material env verName (\<lambda>material.
         computed (aesGCMEncrypt K (req_random req) material plain aad) internal (\<lambda>ct.
         returnM (Reply (marshal_map [(''name'', JStr verName), (''ciphertext'', JStr (EncodeToString ct))]))))))))))"

text \<open>The perimeters count for the root principal as well.\<close>

definition decrypt ::
  "'k kms_lib \<Rightarrow> 'f lab_env \<Rightarrow> kms_request \<Rightarrow> Principal \<Rightarrow> string \<Rightarrow> string \<Rightarrow> string \<Rightarrow> (Lab, reply) action" where
  "decrypt K env req p keyRing cryptoKey version =
     (let keyName = cryptoKeyName req keyRing cryptoKey in
      with_permission env p ''cloudkms.cryptoKeyVersions.useToDecrypt'' [keyName, projectResource (req_project req)]
        (attempt (in_iam (ProjectIDFromPrincipalEmail (Email p))) internal (\<lambda>from_project.
         gate (in_iam (RequireVPCSC (env_vpcsc env) from_project (req_project req) ''cloudkms.googleapis.com''))
         (key_for_purpose keyName KMSPurposeEncrypt ''decrypt requires ENCRYPT_DECRYPT purpose'' (\<lambda>_.
         let verName = chosen_version keyName version in
         computed (Decode (decode_texts ''ciphertext'') (req_first req) ([], [])) (invalid ''invalid JSON body'') (\<lambda>body.
         computed (DecodeString (fst body)) (invalid ''ciphertext must be base64'') (\<lambda>ct.
         computed (decodeOptionalAAD (snd body)) (invalid ''additionalAuthenticatedData must be base64'') (\<lambda>aad.
         version_material env verName (\<lambda>material.
         computed (aesGCMDecrypt K material ct aad) (invalid ''decryption failed'') (\<lambda>plain.
         returnM (Reply (JObj [(''plaintext'', JStr (EncodeToString plain))]))))))))))))"

text \<open>An RSA private key out of the material.\<close>

definition rsa_key :: "'k kms_lib \<Rightarrow> string \<Rightarrow> ('k \<Rightarrow> (Lab, reply) action) \<Rightarrow> (Lab, reply) action" where
  "rsa_key K material k =
     computed (ParsePKCS8 K material) internal (\<lambda>priv.
       case priv of
         None \<Rightarrow> returnM (internal (Errorf ''expected RSA private key''))
       | Some priv \<Rightarrow> k priv)"

definition getPublicKey ::
  "'k kms_lib \<Rightarrow> 'f lab_env \<Rightarrow> kms_request \<Rightarrow> Principal \<Rightarrow> string \<Rightarrow> string \<Rightarrow> string \<Rightarrow> (Lab, reply) action" where
  "getPublicKey K env req p keyRing cryptoKey version =
     (let keyName = cryptoKeyName req keyRing cryptoKey in
      with_permission env p ''cloudkms.cryptoKeyVersions.viewPublicKey'' [keyName, projectResource (req_project req)]
        (key_for_purpose keyName KMSPurposeSign
           ''GetPublicKey is only supported for ASYMMETRIC_SIGN keys; ENCRYPT_DECRYPT is symmetric'' (\<lambda>key.
         let verName = key_version_name keyName version in
         version_material env verName (\<lambda>material.
         rsa_key K material (\<lambda>priv.
         computed (PublicPEM K priv) internal (\<lambda>pem.
         returnM (Reply (marshal_map
           [(''pem'', JStr pem), (''algorithm'', JStr (Algorithm key)), (''name'', JStr verName),
            (''protectionLevel'', JStr ''SOFTWARE'')]))))))))"

text \<open>The digest to sign, or the message of an argument error.\<close>

definition sign_digest :: "'k kms_lib \<Rightarrow> string option \<times> string \<Rightarrow> string + string" where
  "sign_digest K body =
     (case body of
        (sha, data) \<Rightarrow>
          if sha \<noteq> None \<and> sha \<noteq> Some [] then
            (case DecodeString (the sha) of
               Inl _ \<Rightarrow> Inl ''digest.sha256 must be base64''
             | Inr digest \<Rightarrow> if length digest \<noteq> 32 then Inl ''digest.sha256 must be 32 bytes'' else Inr digest)
          else if data \<noteq> [] then
            (case DecodeString data of
               Inl _ \<Rightarrow> Inl ''data must be base64''
             | Inr raw \<Rightarrow> Inr (SHA256 K raw))
          else Inl ''digest.sha256 or data is required'')"

definition asymmetricSign ::
  "'k kms_lib \<Rightarrow> 'f lab_env \<Rightarrow> kms_request \<Rightarrow> Principal \<Rightarrow> string \<Rightarrow> string \<Rightarrow> string \<Rightarrow> (Lab, reply) action" where
  "asymmetricSign K env req p keyRing cryptoKey version =
     (let keyName = cryptoKeyName req keyRing cryptoKey in
      with_permission env p ''cloudkms.cryptoKeyVersions.useToSign'' [keyName, projectResource (req_project req)]
        (key_for_purpose keyName KMSPurposeSign ''asymmetricSign requires ASYMMETRIC_SIGN purpose'' (\<lambda>_.
         let verName = key_version_name keyName version in
         computed (Decode decode_SignBody (req_first req) (None, [])) (invalid ''invalid JSON body'') (\<lambda>body.
         case sign_digest K body of
           Inl message \<Rightarrow> returnM (Rejected (InvalidArgument message))
         | Inr digest \<Rightarrow>
             version_material env verName (\<lambda>material.
             rsa_key K material (\<lambda>priv.
             computed (SignPSS K priv (req_random req) digest) internal (\<lambda>signature.
             returnM (Reply (marshal_map
               [(''signature'', JStr (EncodeToString signature)), (''name'', JStr verName)])))))))))"

section \<open>Versions\<close>

definition destroyVersion ::
  "'f lab_env \<Rightarrow> kms_request \<Rightarrow> Principal \<Rightarrow> string \<Rightarrow> string \<Rightarrow> string \<Rightarrow> (Lab, reply) action" where
  "destroyVersion env req p keyRing cryptoKey version =
     with_permission env p ''cloudkms.cryptoKeyVersions.destroy'' [projectResource (req_project req)]
       (found (in_kms (DestroyKMSKeyVersion (key_version_name (cryptoKeyName req keyRing cryptoKey) version)))
         ''CryptoKeyVersion not found'' (\<lambda>v. returnM (Reply (version_json env v))))"

definition restoreVersion ::
  "'f lab_env \<Rightarrow> kms_request \<Rightarrow> Principal \<Rightarrow> string \<Rightarrow> string \<Rightarrow> string \<Rightarrow> (Lab, reply) action" where
  "restoreVersion env req p keyRing cryptoKey version =
     with_permission env p ''cloudkms.cryptoKeyVersions.restore'' [projectResource (req_project req)]
       (found (in_kms (RestoreKMSKeyVersion (key_version_name (cryptoKeyName req keyRing cryptoKey) version)))
         ''CryptoKeyVersion not found'' (\<lambda>v. returnM (Reply (version_json env v))))"

definition listKeyVersions :: "'f lab_env \<Rightarrow> kms_request \<Rightarrow> Principal \<Rightarrow> string \<Rightarrow> string \<Rightarrow> (Lab, reply) action" where
  "listKeyVersions env req p keyRing cryptoKey =
     with_permission env p ''cloudkms.cryptoKeyVersions.list'' [projectResource (req_project req)]
       (let keyName = cryptoKeyName req keyRing cryptoKey in
        found (in_kms (GetKMSCryptoKey keyName)) ''CryptoKey not found'' (\<lambda>_.
        attempt (in_kms (ListKMSKeyVersions keyName)) internal (\<lambda>vs.
        returnM (Reply (JObj [(''cryptoKeyVersions'', JArr (map (version_json env) vs))])))))"

definition getKeyVersion ::
  "'f lab_env \<Rightarrow> kms_request \<Rightarrow> Principal \<Rightarrow> string \<Rightarrow> string \<Rightarrow> string \<Rightarrow> (Lab, reply) action" where
  "getKeyVersion env req p keyRing cryptoKey version =
     with_permission env p ''cloudkms.cryptoKeyVersions.get'' [projectResource (req_project req)]
       (found (in_kms (GetKMSKeyVersion (key_version_name (cryptoKeyName req keyRing cryptoKey) version)))
         ''CryptoKeyVersion not found'' (\<lambda>v. returnM (Reply (version_json env v))))"

section \<open>Dispatch\<close>

datatype kms_op =
    CreateKeyRing
  | ListKeyRings
  | GetKeyRing string
  | CreateCryptoKey string
  | ListCryptoKeys string
  | GetCryptoKey string string
  | UpdateCryptoKey string string
  | ListKeyVersions string string
  | GetKeyVersion string string string
  | GetPublicKey string string string
  | Encrypt string string string
  | Decrypt string string string
  | GetKeyPolicy string string
  | SetKeyPolicy string string
  | DestroyVersion string string string
  | RestoreVersion string string string
  | AsymmetricSign string string string
  | UnknownMethod
  | UnknownPath

definition splitPath :: "string \<Rightarrow> string list" where
  "splitPath rest = (if rest = [] then [] else Split rest ''/'')"

definition trim_slashes :: "string \<Rightarrow> string" where
  "trim_slashes s = rev (dropWhile (\<lambda>c. c = CHR ''/'') (rev (dropWhile (\<lambda>c. c = CHR ''/'') s)))"

definition key_action :: "string \<Rightarrow> string \<Rightarrow> kms_op" where
  "key_action kr seg =
     (case splitColonAction seg of
        (key, verb) \<Rightarrow>
          if verb = ''encrypt'' then Encrypt kr key []
          else if verb = ''decrypt'' then Decrypt kr key []
          else if verb = ''getIamPolicy'' then GetKeyPolicy kr key
          else if verb = ''setIamPolicy'' then SetKeyPolicy kr key
          else UnknownMethod)"

definition version_action :: "string \<Rightarrow> string \<Rightarrow> string \<Rightarrow> kms_op" where
  "version_action kr key seg =
     (case splitColonAction seg of
        (ver, verb) \<Rightarrow>
          if verb = ''encrypt'' then Encrypt kr key ver
          else if verb = ''decrypt'' then Decrypt kr key ver
          else if verb = ''destroy'' then DestroyVersion kr key ver
          else if verb = ''restore'' then RestoreVersion kr key ver
          else if verb = ''asymmetricSign'' then AsymmetricSign kr key ver
          else UnknownMethod)"

definition kms_route :: "string \<Rightarrow> string list \<Rightarrow> kms_op" where
  "kms_route verb parts =
     (let post = (verb = ''POST''); get = (verb = ''GET''); patch = (verb = ''PATCH''); n = length parts;
          keyRings = (n > 0 \<and> parts ! 0 = ''keyRings''); cryptoKeys = (n > 2 \<and> parts ! 2 = ''cryptoKeys'');
          versions = (n > 4 \<and> parts ! 4 = ''cryptoKeyVersions'') in
      if post \<and> n = 1 \<and> keyRings then CreateKeyRing
      else if get \<and> n = 1 \<and> keyRings then ListKeyRings
      else if get \<and> n = 2 \<and> keyRings then GetKeyRing (parts ! 1)
      else if post \<and> n = 3 \<and> keyRings \<and> cryptoKeys then CreateCryptoKey (parts ! 1)
      else if get \<and> n = 3 \<and> keyRings \<and> cryptoKeys then ListCryptoKeys (parts ! 1)
      else if get \<and> n = 4 \<and> keyRings \<and> cryptoKeys then GetCryptoKey (parts ! 1) (parts ! 3)
      else if patch \<and> n = 4 \<and> keyRings \<and> cryptoKeys then UpdateCryptoKey (parts ! 1) (parts ! 3)
      else if get \<and> n = 5 \<and> keyRings \<and> cryptoKeys \<and> versions then ListKeyVersions (parts ! 1) (parts ! 3)
      else if get \<and> n = 6 \<and> keyRings \<and> cryptoKeys \<and> versions then GetKeyVersion (parts ! 1) (parts ! 3) (parts ! 5)
      else if get \<and> n = 7 \<and> keyRings \<and> cryptoKeys \<and> versions \<and> parts ! 6 = ''publicKey''
        then GetPublicKey (parts ! 1) (parts ! 3) (parts ! 5)
      else if post \<and> n = 4 \<and> keyRings \<and> cryptoKeys then key_action (parts ! 1) (parts ! 3)
      else if post \<and> n = 6 \<and> keyRings \<and> cryptoKeys \<and> versions then version_action (parts ! 1) (parts ! 3) (parts ! 5)
      else UnknownPath)"

fun kms_perform :: "'k kms_lib \<Rightarrow> 'f lab_env \<Rightarrow> kms_request \<Rightarrow> Principal \<Rightarrow> kms_op \<Rightarrow> (Lab, reply) action" where
  "kms_perform K env req p CreateKeyRing = createKeyRing env req p"
| "kms_perform K env req p ListKeyRings = listKeyRings env req p"
| "kms_perform K env req p (GetKeyRing kr) = getKeyRing env req p kr"
| "kms_perform K env req p (CreateCryptoKey kr) = createCryptoKey env req p kr"
| "kms_perform K env req p (ListCryptoKeys kr) = listCryptoKeys env req p kr"
| "kms_perform K env req p (GetCryptoKey kr key) = getCryptoKey env req p kr key"
| "kms_perform K env req p (UpdateCryptoKey kr key) = updateCryptoKey env req p kr key"
| "kms_perform K env req p (ListKeyVersions kr key) = listKeyVersions env req p kr key"
| "kms_perform K env req p (GetKeyVersion kr key ver) = getKeyVersion env req p kr key ver"
| "kms_perform K env req p (GetPublicKey kr key ver) = getPublicKey K env req p kr key ver"
| "kms_perform K env req p (Encrypt kr key ver) = encrypt K env req p kr key ver"
| "kms_perform K env req p (Decrypt kr key ver) = decrypt K env req p kr key ver"
| "kms_perform K env req p (GetKeyPolicy kr key) = kms_getIamPolicy env req p kr key"
| "kms_perform K env req p (SetKeyPolicy kr key) = kms_setIamPolicy env req p kr key"
| "kms_perform K env req p (DestroyVersion kr key ver) = destroyVersion env req p kr key ver"
| "kms_perform K env req p (RestoreVersion kr key ver) = restoreVersion env req p kr key ver"
| "kms_perform K env req p (AsymmetricSign kr key ver) = asymmetricSign K env req p kr key ver"
| "kms_perform K env req p UnknownMethod = returnM (Rejected (gcp_NotFound ''unknown KMS method''))"
| "kms_perform K env req p UnknownPath = returnM (Rejected (gcp_NotFound ''unknown KMS path''))"

definition kms_op_of :: "kms_request \<Rightarrow> kms_op" where
  "kms_op_of req = kms_route (kms_method req) (splitPath (trim_slashes (kms_rest req)))"

definition kms_dispatch :: "'k kms_lib \<Rightarrow> 'f lab_env \<Rightarrow> kms_request \<Rightarrow> (Lab, reply) action" where
  "kms_dispatch K env req =
     (case req_principal req of
        None \<Rightarrow> returnM (Rejected (Unauthenticated []))
      | Some p \<Rightarrow> kms_perform K env req p (kms_op_of req))"

end
