(* ===== verification/Kms_Mediation.thy ===== *)
theory Kms_Mediation
  imports Kms_Handlers
begin

text \<open>
  Cloud KMS asks for a permission before anything else: the permission of every operation, and complete mediation
  over runs of requests. The same rules show that a key is used for its purpose only and that a destroyed version
  refuses every use.
\<close>

section \<open>What an operation needs\<close>

text \<open>Whether the permission may be held on the key as well as on the project.\<close>

definition on_key :: "kms_request \<Rightarrow> string \<Rightarrow> string \<Rightarrow> string \<Rightarrow> (string \<times> string list) option" where
  "on_key req kr key permission = Some (permission, [cryptoKeyName req kr key, projectResource (req_project req)])"

definition on_project :: "kms_request \<Rightarrow> string \<Rightarrow> (string \<times> string list) option" where
  "on_project req permission = Some (permission, [projectResource (req_project req)])"

fun kms_permission :: "kms_request \<Rightarrow> kms_op \<Rightarrow> (string \<times> string list) option" where
  "kms_permission req CreateKeyRing = on_project req ''cloudkms.keyRings.create''"
| "kms_permission req ListKeyRings = on_project req ''cloudkms.keyRings.list''"
| "kms_permission req (GetKeyRing kr) = on_project req ''cloudkms.keyRings.get''"
| "kms_permission req (CreateCryptoKey kr) = on_project req ''cloudkms.cryptoKeys.create''"
| "kms_permission req (ListCryptoKeys kr) = on_project req ''cloudkms.cryptoKeys.list''"
| "kms_permission req (GetCryptoKey kr key) = on_key req kr key ''cloudkms.cryptoKeys.get''"
| "kms_permission req (UpdateCryptoKey kr key) = on_project req ''cloudkms.cryptoKeys.update''"
| "kms_permission req (ListKeyVersions kr key) = on_project req ''cloudkms.cryptoKeyVersions.list''"
| "kms_permission req (GetKeyVersion kr key ver) = on_project req ''cloudkms.cryptoKeyVersions.get''"
| "kms_permission req (GetPublicKey kr key ver) = on_key req kr key ''cloudkms.cryptoKeyVersions.viewPublicKey''"
| "kms_permission req (Encrypt kr key ver) = on_key req kr key ''cloudkms.cryptoKeyVersions.useToEncrypt''"
| "kms_permission req (Decrypt kr key ver) = on_key req kr key ''cloudkms.cryptoKeyVersions.useToDecrypt''"
| "kms_permission req (GetKeyPolicy kr key) = on_project req ''cloudkms.cryptoKeys.getIamPolicy''"
| "kms_permission req (SetKeyPolicy kr key) = on_project req ''cloudkms.cryptoKeys.setIamPolicy''"
| "kms_permission req (DestroyVersion kr key ver) = on_project req ''cloudkms.cryptoKeyVersions.destroy''"
| "kms_permission req (RestoreVersion kr key ver) = on_project req ''cloudkms.cryptoKeyVersions.restore''"
| "kms_permission req (AsymmetricSign kr key ver) = on_key req kr key ''cloudkms.cryptoKeyVersions.useToSign''"
| "kms_permission req UnknownMethod = None"
| "kms_permission req UnknownPath = None"

definition kms_allowed :: "'f lab_env \<Rightarrow> Lab \<Rightarrow> kms_request \<Rightarrow> bool" where
  "kms_allowed env db req \<longleftrightarrow>
     (case (req_principal req, kms_permission req (kms_op_of req)) of
        (Some p, Some (permission, resources)) \<Rightarrow> permitted env db p permission resources
      | _ \<Rightarrow> False)"

section \<open>Guards\<close>

lemma kms_reads [reads_intros]:
  "reads (GetKMSKeyRing n)" "reads (ListKMSKeyRings a b)" "reads (GetKMSCryptoKey n)" "reads (ListKMSCryptoKeys n)"
  "reads (GetKMSKeyVersion n)" "reads (PrimaryKMSKeyVersion n)" "reads (ListKMSKeyVersions n)"
  unfolding GetKMSKeyRing_def ListKMSKeyRings_def GetKMSCryptoKey_def ListKMSCryptoKeys_def GetKMSKeyVersion_def
    PrimaryKMSKeyVersion_def ListKMSKeyVersions_def
  by (intro reads_intros)+

lemmas kms_handler_defs =
  createKeyRing_def getKeyRing_def listKeyRings_def createCryptoKey_def getCryptoKey_def updateCryptoKey_def
  listCryptoKeys_def kms_getIamPolicy_def kms_setIamPolicy_def encrypt_def decrypt_def getPublicKey_def
  asymmetricSign_def destroyVersion_def restoreVersion_def listKeyVersions_def getKeyVersion_def

lemma kms_guarded: "guarded (\<lambda>db. kms_allowed env db req) is_success (kms_dispatch K env req)"
proof (cases "req_principal req")
  case None
  then show ?thesis by (simp add: kms_dispatch_def guarded_return)
next
  case (Some p)
  then show ?thesis
    unfolding kms_dispatch_def kms_allowed_def
    by (cases "kms_op_of req")
       (simp_all add: kms_handler_defs Let_def on_key_def on_project_def guarded_with_permission guarded_return)
qed

interpretation kms_http: mediated_service "kms_dispatch K env" "kms_allowed env" "\<lambda>_. is_success"
  by unfold_locales (rule kms_guarded)

text \<open>C18. Cloud KMS mediates every request: in a run of requests, failing statements included, whose callers lack at
  its start the permission their operation needs, on the key or on the project, no table changes and every reply
  is an error.\<close>
theorem kms_requests_mediated:
  assumes "runs (kms_dispatch K env) s tr s'" and "\<forall>(req, r) \<in> set tr. \<not> kms_allowed env (tables s) req"
  shows "tables s' = tables s \<and> (\<forall>(req, r) \<in> set tr. \<forall>x. r = Inr x \<longrightarrow> \<not> is_success x)"
  using assms by (rule kms_http.powerless)

section \<open>What a use of a key says about the tables\<close>

definition key_is :: "string \<Rightarrow> (KMSCryptoKey \<Rightarrow> bool) \<Rightarrow> KmsDb \<Rightarrow> bool" where
  "key_is name P db \<longleftrightarrow> (\<exists>k. find (\<lambda>k. CryptoKey_Name k = name) (kms_keys db) = Some k \<and> P k)"

definition version_is :: "string \<Rightarrow> (KMSKeyVersion \<Rightarrow> bool) \<Rightarrow> KmsDb \<Rightarrow> bool" where
  "version_is name Q db \<longleftrightarrow> (\<exists>v. find (\<lambda>v. KeyVersion_Name v = name) (kms_key_versions db) = Some v \<and> Q v)"

lemma in_kms_query_Inr:
  assumes "in_kms (wrapM msg (query q)) s = (Inr r, s')"
  shows "tables s' = tables s \<and> r = q (kms (tables s))"
proof -
  have "reads (in_kms (wrapM msg (query q)))" by (intro reads_intros)
  from readsD [OF this assms] show ?thesis
    using assms by (auto simp: inside_def query_def wrapM_def catchM_def returnM_def raiseM_def
        split: prod.splits sum.splits option.splits dest: next_fault_tables)
qed

lemma get_key_Inr:
  "in_kms (GetKMSCryptoKey name) s = (Inr r, s') \<Longrightarrow>
     tables s' = tables s \<and> find (\<lambda>k. CryptoKey_Name k = name) (kms_keys (kms (tables s))) = r"
  using in_kms_query_Inr unfolding GetKMSCryptoKey_def by metis

lemma get_version_Inr:
  "in_kms (GetKMSKeyVersion name) s = (Inr r, s') \<Longrightarrow>
     tables s' = tables s \<and> find (\<lambda>v. KeyVersion_Name v = name) (kms_key_versions (kms (tables s))) = r"
  using in_kms_query_Inr unfolding GetKMSKeyVersion_def by metis

lemma guarded_key_for_purpose:
  "guarded (\<lambda>db. key_is keyName (\<lambda>k. Purpose k = purpose) (kms db)) is_success (key_for_purpose keyName purpose message k)"
  unfolding key_for_purpose_def
proof (rule guarded_found_row [where R = "\<lambda>k db. find (\<lambda>k. CryptoKey_Name k = keyName) (kms_keys (kms db)) = Some k"])
  show "reads (in_kms (GetKMSCryptoKey keyName))" by (intro reads_intros)
next
  fix k' :: KMSCryptoKey
  show "guarded (\<lambda>db. find (\<lambda>k. CryptoKey_Name k = keyName) (kms_keys (kms db)) = Some k' \<longrightarrow>
      key_is keyName (\<lambda>k. Purpose k = purpose) (kms db)) is_success
      (if Purpose k' \<noteq> purpose then returnM (failed_precondition message) else k k')"
    by (rule guarded_if, rule guarded_return, simp, rule guarded_trivial, simp add: key_is_def)
qed (auto dest: get_key_Inr)

lemma guarded_version_material:
  "guarded (\<lambda>db. version_is verName (\<lambda>v. KeyVersion_State v \<noteq> KMSStateDestroyed) (kms db)) is_success
     (version_material env verName k)"
  unfolding version_material_def
proof (rule guarded_found_row [where R = "\<lambda>v db. find (\<lambda>v. KeyVersion_Name v = verName) (kms_key_versions (kms db)) = Some v"])
  show "reads (in_kms (GetKMSKeyVersion verName))" by (intro reads_intros)
next
  fix v :: KMSKeyVersion
  show "guarded (\<lambda>db. find (\<lambda>v. KeyVersion_Name v = verName) (kms_key_versions (kms db)) = Some v \<longrightarrow>
      version_is verName (\<lambda>v. KeyVersion_State v \<noteq> KMSStateDestroyed) (kms db)) is_success
      (if KeyVersion_State v = KMSStateDestroyed then returnM (failed_precondition ''crypto key version is DESTROYED'')
       else computed (Unseal (env_aead env) (KeyMaterialCiphertext v)) internal k)"
    by (rule guarded_if, rule guarded_return, simp, rule guarded_trivial, simp add: version_is_def)
qed (auto dest: get_version_Inr)

text \<open>The key and the version an operation uses, and the purpose it needs.\<close>

fun key_use :: "kms_request \<Rightarrow> kms_op \<Rightarrow> (string \<times> string \<times> string) option" where
  "key_use req (Encrypt kr key ver) =
     Some (cryptoKeyName req kr key, chosen_version (cryptoKeyName req kr key) ver, KMSPurposeEncrypt)"
| "key_use req (Decrypt kr key ver) =
     Some (cryptoKeyName req kr key, chosen_version (cryptoKeyName req kr key) ver, KMSPurposeEncrypt)"
| "key_use req (GetPublicKey kr key ver) =
     Some (cryptoKeyName req kr key, key_version_name (cryptoKeyName req kr key) ver, KMSPurposeSign)"
| "key_use req (AsymmetricSign kr key ver) =
     Some (cryptoKeyName req kr key, key_version_name (cryptoKeyName req kr key) ver, KMSPurposeSign)"
| "key_use req _ = None"

text \<open>A use succeeds on a key of its purpose and on a version that is not destroyed.\<close>

lemma use_guarded:
  assumes "key_use req (kms_op_of req) = Some (keyName, verName, purpose)"
  shows "guarded (\<lambda>db. key_is keyName (\<lambda>k. Purpose k = purpose) (kms db)) is_success (kms_dispatch K env req)"
    and "guarded (\<lambda>db. version_is verName (\<lambda>v. KeyVersion_State v \<noteq> KMSStateDestroyed) (kms db)) is_success
      (kms_dispatch K env req)"
proof -
  show "guarded (\<lambda>db. key_is keyName (\<lambda>k. Purpose k = purpose) (kms db)) is_success (kms_dispatch K env req)"
    unfolding kms_dispatch_def using assms
    by (cases "kms_op_of req")
       (auto simp: encrypt_def decrypt_def getPublicKey_def asymmetricSign_def Let_def
         intro!: guarded_option guarded_return guarded_in_permission guarded_attempt guarded_gate reads_intros
           guarded_key_for_purpose)
  have inner: "guarded P is_success (key_for_purpose n u m k)" if "\<And>x. guarded P is_success (k x)" for P n u m k
    unfolding key_for_purpose_def
    by (intro guarded_found guarded_if guarded_return that reads_intros) simp_all
  show "guarded (\<lambda>db. version_is verName (\<lambda>v. KeyVersion_State v \<noteq> KMSStateDestroyed) (kms db)) is_success
      (kms_dispatch K env req)"
    unfolding kms_dispatch_def using assms
    by (cases "kms_op_of req")
       (auto simp: encrypt_def decrypt_def getPublicKey_def asymmetricSign_def Let_def
         intro!: guarded_option guarded_return guarded_in_permission guarded_attempt guarded_gate reads_intros inner
           guarded_computed guarded_sum guarded_version_material)
qed

end
