(* ===== verification/Kms_Lifecycle.thy ===== *)
theory Kms_Lifecycle
  imports Kms_Mediation
begin

text \<open>
  What lasts in Cloud KMS: keys and versions are never deleted, so the purpose of a key and the material of a
  version stay as they were created. Hence a ciphertext can be decrypted as long as its version is not
  destroyed, a key never serves two purposes, and the rows stay linked in spite of failing statements.
\<close>

section \<open>Rows that stay\<close>

lemma find_row_updated:
  assumes "\<And>r. key (f r) = key r"
  shows "find (\<lambda>r. key r = name) (snd (update_rows C f t)) =
    map_option (\<lambda>r. if C r then f r else r) (find (\<lambda>r. key r = name) t)"
  using assms by (induction t) (auto simp: update_rows_def)

lemma find_appended: "find P t = Some x \<Longrightarrow> find P (t @ u) = Some x"
  by (induction t) (auto split: if_splits)

lemma key_is_case:
  "key_is name P db \<longleftrightarrow> (case find (\<lambda>k. CryptoKey_Name k = name) (kms_keys db) of None \<Rightarrow> False | Some k \<Rightarrow> P k)"
  by (auto simp: key_is_def split: option.split)

lemma version_is_case:
  "version_is name Q db \<longleftrightarrow>
     (case find (\<lambda>v. KeyVersion_Name v = name) (kms_key_versions db) of None \<Rightarrow> False | Some v \<Rightarrow> Q v)"
  by (auto simp: version_is_def split: option.split)

text \<open>A property of a key that does not look at its labels, and one of a version that does not look at its state.\<close>

lemma key_is_kept:
  assumes "\<And>k l. P k \<Longrightarrow> P (k\<lparr>LabelsJSON := l\<rparr>)"
  shows "preserves (key_is name P) (CreateKMSKeyRing now kr)" (is ?ring)
    and "preserves (key_is name P) (CreateKMSCryptoKey now key v)" (is ?create)
    and "preserves (key_is name P) (UpdateKMSCryptoKey n labels)" (is ?update)
    and "preserves (key_is name P) (set_version_state msg state n)" (is ?state)
proof -
  have elsewhere: "key_is name P (kms_keyrings_update (\<lambda>_. t) db) = key_is name P db"
    "key_is name P (kms_key_versions_update (\<lambda>_. u) db) = key_is name P db" for t u db
    by (simp_all add: key_is_def)
  have insert: "preserves (key_is name P) (on_table kms_keys kms_keys_update (insert_or_ignore (same CryptoKey_Name) k))" for k
    by (rule preserves_on_table) (auto simp: key_is_def insert_or_ignore_def find_appended split: if_splits)
  have update: "preserves (key_is name P) (on_table kms_keys kms_keys_update
      (update_rows (\<lambda>k. CryptoKey_Name k = n) (\<lambda>k. k\<lparr>LabelsJSON := l\<rparr>)))" for n l
  proof (rule preserves_on_table)
    fix db i t
    assume "key_is name P db" and "update_rows (\<lambda>k. CryptoKey_Name k = n) (\<lambda>k. k\<lparr>LabelsJSON := l\<rparr>) (kms_keys db) = (i, t)"
    then show "key_is name P (kms_keys_update (\<lambda>_. t) db)"
      using assms find_row_updated [of CryptoKey_Name "\<lambda>k. k\<lparr>LabelsJSON := l\<rparr>" name "\<lambda>k. CryptoKey_Name k = n" "kms_keys db"]
      by (auto simp: key_is_case split: option.splits)
  qed
  show ?ring ?create ?update ?state
    unfolding CreateKMSKeyRing_def CreateKMSCryptoKey_def insert_key_def UpdateKMSCryptoKey_def GetKMSCryptoKey_def
      set_version_state_def GetKMSKeyVersion_def
    by (auto simp: Let_def intro!: preserves_intros insert update preserves_elsewhere elsewhere)
qed

lemma version_is_kept:
  assumes "\<And>v s. Q v \<Longrightarrow> Q (v\<lparr>KeyVersion_State := s\<rparr>)"
  shows "preserves (version_is name Q) (CreateKMSKeyRing now kr)" (is ?ring)
    and "preserves (version_is name Q) (CreateKMSCryptoKey now key v)" (is ?create)
    and "preserves (version_is name Q) (UpdateKMSCryptoKey n labels)" (is ?update)
    and "preserves (version_is name Q) (set_version_state msg state n)" (is ?state)
proof -
  have elsewhere: "version_is name Q (kms_keyrings_update (\<lambda>_. t) db) = version_is name Q db"
    "version_is name Q (kms_keys_update (\<lambda>_. u) db) = version_is name Q db" for t u db
    by (simp_all add: version_is_def)
  have insert: "preserves (version_is name Q) (on_table_checked kms_key_versions kms_key_versions_update
      (insert_row (same KeyVersion_Name) v))" for v
    by (rule preserves_on_table_checked) (auto simp: version_is_def insert_row_def find_appended split: if_splits)
  have update: "preserves (version_is name Q) (on_table kms_key_versions kms_key_versions_update
      (update_rows (\<lambda>r. KeyVersion_Name r = n) (\<lambda>r. r\<lparr>KeyVersion_State := state\<rparr>)))" for n state
  proof (rule preserves_on_table)
    fix db i t
    assume "version_is name Q db" and "update_rows (\<lambda>r. KeyVersion_Name r = n) (\<lambda>r. r\<lparr>KeyVersion_State := state\<rparr>)
      (kms_key_versions db) = (i, t)"
    then show "version_is name Q (kms_key_versions_update (\<lambda>_. t) db)"
      using assms find_row_updated [of KeyVersion_Name "\<lambda>r. r\<lparr>KeyVersion_State := state\<rparr>" name
          "\<lambda>r. KeyVersion_Name r = n" "kms_key_versions db"]
      by (auto simp: version_is_case split: option.splits)
  qed
  show ?ring ?create ?update ?state
    unfolding CreateKMSKeyRing_def CreateKMSCryptoKey_def insert_key_def UpdateKMSCryptoKey_def GetKMSCryptoKey_def
      set_version_state_def GetKMSKeyVersion_def
    by (auto simp: Let_def intro!: preserves_intros insert update preserves_elsewhere elsewhere)
qed

section \<open>Requests that preserve\<close>

lemma preserves_key_for_purpose [preserves_intros]:
  "(\<And>x. preserves I (k x)) \<Longrightarrow> preserves I (key_for_purpose n u m k)"
  unfolding key_for_purpose_def
  by (rule preserves_found, rule preserves_reads, intro reads_intros) (auto intro: preserves_intros)

lemma preserves_version_material [preserves_intros]:
  "(\<And>x. preserves I (k x)) \<Longrightarrow> preserves I (version_material env n k)"
  unfolding version_material_def
  by (rule preserves_found, rule preserves_reads, intro reads_intros) (auto intro: preserves_intros)

lemma preserves_in_kms: "preserves J m \<Longrightarrow> preserves (\<lambda>db. J (kms db)) (in_kms m)"
  by (rule preserves_inside) simp_all

lemmas preserves_kms_reads = kms_reads [THEN reads_in_parts(3), THEN preserves_reads]

text \<open>What the four writing operations of the store keep, every request keeps.\<close>

lemma dispatch_preserves:
  assumes ring: "\<And>now kr. preserves J (CreateKMSKeyRing now kr)"
    and create: "\<And>p kr. preserves (\<lambda>db. J (kms db)) (createCryptoKey env req p kr)"
    and update: "\<And>n labels. preserves J (UpdateKMSCryptoKey n labels)"
    and state: "\<And>msg state n. state \<in> {KMSStateEnabled, KMSStateDestroyed} \<Longrightarrow> preserves J (set_version_state msg state n)"
  shows "preserves (\<lambda>db. J (kms db)) (kms_dispatch K env req)"
proof -
  have states: "preserves J (DestroyKMSKeyVersion n)" "preserves J (RestoreKMSKeyVersion n)" for n
    unfolding DestroyKMSKeyVersion_def RestoreKMSKeyVersion_def by (rule state, simp)+
  have elsewhere: "preserves (\<lambda>db. J (kms db)) (in_iam m)" for m :: "(Db, 'c) action"
    by (rule preserves_in_iam) simp
  note steps = preserves_intros elsewhere preserves_kms_reads preserves_in_kms [OF ring] preserves_in_kms [OF update]
    preserves_in_kms [OF states(1)] preserves_in_kms [OF states(2)] create
  have "preserves (\<lambda>db. J (kms db)) (kms_perform K env req p oper)" for p oper
    by (cases oper; simp only: kms_perform.simps createKeyRing_def getKeyRing_def listKeyRings_def getCryptoKey_def
        updateCryptoKey_def listCryptoKeys_def kms_getIamPolicy_def kms_setIamPolicy_def encrypt_def decrypt_def
        getPublicKey_def asymmetricSign_def destroyVersion_def restoreVersion_def listKeyVersions_def getKeyVersion_def
        rsa_key_def; intro steps)
  then show ?thesis unfolding kms_dispatch_def by (intro preserves_option preserves_return)
qed

lemma create_key_keeps:
  assumes "\<And>now key v. preserves J (CreateKMSCryptoKey now key v)"
  shows "preserves (\<lambda>db. J (kms db)) (createCryptoKey env req p kr)"
  unfolding createCryptoKey_def
  by (intro preserves_intros preserves_kms_reads preserves_in_kms [OF assms])

lemma dispatch_keeps_key:
  assumes "\<And>k l. P k \<Longrightarrow> P (k\<lparr>LabelsJSON := l\<rparr>)"
  shows "preserves (\<lambda>db. key_is name P (kms db)) (kms_dispatch K env req)"
  using assms by (intro dispatch_preserves create_key_keeps key_is_kept) auto

lemma dispatch_keeps_version:
  assumes "\<And>v s. Q v \<Longrightarrow> Q (v\<lparr>KeyVersion_State := s\<rparr>)"
  shows "preserves (\<lambda>db. version_is name Q (kms db)) (kms_dispatch K env req)"
  using assms by (intro dispatch_preserves create_key_keeps version_is_kept) auto

section \<open>Purposes\<close>

text \<open>The key a successful request used, and for what.\<close>

fun used :: "kms_request \<times> (error + reply) \<Rightarrow> (string \<times> string) option" where
  "used (req, Inr r) =
     (if is_success r then map_option (\<lambda>(keyName, verName, purpose). (keyName, purpose)) (key_use req (kms_op_of req)) else None)"
| "used (req, Inl e) = None"

lemma used_purpose:
  assumes "kms_dispatch K env req s = (r, s')" and "used (req, r) = Some (keyName, purpose)"
  shows "key_is keyName (\<lambda>k. Purpose k = purpose) (kms (tables s))"
proof -
  from assms(2) obtain x verName where x: "r = Inr x" "is_success x"
    and use: "key_use req (kms_op_of req) = Some (keyName, verName, purpose)"
    by (cases r) (auto split: if_splits)
  with use_guarded(1) [OF use, of K env] assms(1) show ?thesis unfolding guarded_def by blast
qed

lemma uses_of_key:
  assumes "runs (kms_dispatch K env) s tr s'" and "key_is keyName (\<lambda>k. Purpose k = purpose) (kms (tables s))"
    and "e \<in> set tr" and "used e = Some (keyName, purpose')"
  shows "purpose' = purpose"
  using assms
proof (induction rule: runs.induct)
  case (run_op req s r s1 tr s2)
  have kept: "key_is keyName (\<lambda>k. Purpose k = purpose) (kms (tables s1))"
    by (rule preservesD [OF dispatch_keeps_key run_op.prems(1) run_op.hyps(1)]) simp
  show ?case
  proof (cases "e = (req, r)")
    case True
    with used_purpose [OF run_op.hyps(1)] run_op.prems(1,3) show ?thesis by (auto simp: key_is_def)
  next
    case False
    with run_op.prems run_op.IH [OF kept] show ?thesis by auto
  qed
qed simp

text \<open>C17. A key serves one purpose: in no run of requests, failing statements included, does the same key encrypt or
  decrypt in one request and sign or give its public key in another.\<close>
theorem kms_key_separation:
  assumes "runs (kms_dispatch K env) s tr s'" and "e1 \<in> set tr" and "e2 \<in> set tr"
    and "used e1 = Some (keyName, purpose1)" and "used e2 = Some (keyName, purpose2)"
  shows "purpose1 = purpose2"
  using assms
proof (induction rule: runs.induct)
  case (run_op req s r s1 tr s2)
  have first: "purpose = purpose'" if "used (req, r) = Some (keyName, purpose)" "e \<in> set tr" "used e = Some (keyName, purpose')"
    for e purpose purpose'
  proof -
    have "key_is keyName (\<lambda>k. Purpose k = purpose) (kms (tables s1))"
      by (rule preservesD [OF dispatch_keeps_key used_purpose [OF run_op.hyps(1) that(1)] run_op.hyps(1)]) simp
    from uses_of_key [OF run_op.hyps(2) this that(2,3)] show ?thesis by simp
  qed
  consider "e1 = (req, r)" "e2 = (req, r)" | "e1 = (req, r)" "e2 \<in> set tr" | "e2 = (req, r)" "e1 \<in> set tr"
    | "e1 \<in> set tr" "e2 \<in> set tr"
    using run_op.prems(1,2) by auto
  then show ?case
  proof cases
    case 1
    with run_op.prems(3,4) show ?thesis by simp
  next
    case 2
    with run_op.prems(3,4) show ?thesis by (intro first) simp_all
  next
    case 3
    with run_op.prems(3,4) show ?thesis by (intro first [symmetric]) simp_all
  next
    case 4
    with run_op.prems(3,4) show ?thesis by (intro run_op.IH)
  qed
qed simp

text \<open>C24. A destroyed key version refuses every use: while the version is \<open>DESTROYED\<close>, encrypting, decrypting, signing
  and reading the public key with it do not succeed and change no table.\<close>
theorem kms_destroyed_refuses:
  assumes "kms_dispatch K env req s = (Inr r, s')"
    and "key_use req (kms_op_of req) = Some (keyName, verName, purpose)"
    and "version_is verName (\<lambda>v. KeyVersion_State v = KMSStateDestroyed) (kms (tables s))"
  shows "\<not> is_success r \<and> tables s' = tables s"
  using use_guarded(2) [OF assms(2), of K env] assms(1,3) unfolding guarded_def version_is_def by fastforce

end
