(* ===== verification/Kms_Requests.thy ===== *)
theory Kms_Requests
  imports Kms_Lifecycle
begin

text \<open>
  Cloud KMS from end to end: rows that last, a ciphertext that decrypts after any run of requests, and the links
  between the rows of key rings, keys and versions.
\<close>

section \<open>Rows that last\<close>

lemma other_state:
  "v = v0\<lparr>KeyVersion_State := KeyVersion_State v\<rparr> \<Longrightarrow>
     v\<lparr>KeyVersion_State := st\<rparr> = v0\<lparr>KeyVersion_State := KeyVersion_State (v\<lparr>KeyVersion_State := st\<rparr>)\<rparr>"
  by (drule arg_cong [where f = "KeyVersion_State_update (\<lambda>_. st)"]) (simp add: comp_def)

lemma other_labels:
  "k = k0\<lparr>LabelsJSON := LabelsJSON k\<rparr> \<Longrightarrow>
     k\<lparr>LabelsJSON := l\<rparr> = k0\<lparr>LabelsJSON := LabelsJSON (k\<lparr>LabelsJSON := l\<rparr>)\<rparr>"
  by (drule arg_cong [where f = "LabelsJSON_update (\<lambda>_. l)"]) (simp add: comp_def)

lemma runs_keep_key:
  assumes "runs (kms_dispatch K env) s tr s'" and "key_is name P (kms (tables s))"
    and "\<And>k l. P k \<Longrightarrow> P (k\<lparr>LabelsJSON := l\<rparr>)"
  shows "key_is name P (kms (tables s'))"
proof (rule run_preserves [where I = "\<lambda>db. key_is name P (kms db)", OF assms(1) _ assms(2)])
  have "preserves (\<lambda>db. key_is name P (kms db)) (kms_dispatch K env req)" for req
    by (rule dispatch_keeps_key) (rule assms(3))
  then show "\<forall>(req, r) \<in> set tr. preserves (\<lambda>db. key_is name P (kms db)) (kms_dispatch K env req)" by blast
qed

lemma runs_keep_version:
  assumes "runs (kms_dispatch K env) s tr s'" and "version_is name Q (kms (tables s))"
    and "\<And>v st. Q v \<Longrightarrow> Q (v\<lparr>KeyVersion_State := st\<rparr>)"
  shows "version_is name Q (kms (tables s'))"
proof (rule run_preserves [where I = "\<lambda>db. version_is name Q (kms db)", OF assms(1) _ assms(2)])
  have "preserves (\<lambda>db. version_is name Q (kms db)) (kms_dispatch K env req)" for req
    by (rule dispatch_keeps_version) (rule assms(3))
  then show "\<forall>(req, r) \<in> set tr. preserves (\<lambda>db. version_is name Q (kms db)) (kms_dispatch K env req)" by blast
qed

text \<open>C23. Keys and key versions are never deleted nor replaced: over any run of requests, failing statements included, a
  version keeps all but its state, and so its sealed material, and a key keeps all but its labels, and so its
  purpose, its algorithm and its key ring.\<close>
theorem kms_rows_last:
  assumes "runs (kms_dispatch K env) s tr s'"
  shows "(\<forall>v. find (\<lambda>v. KeyVersion_Name v = name) (kms_key_versions (kms (tables s))) = Some v \<longrightarrow>
      (\<exists>v'. find (\<lambda>v. KeyVersion_Name v = name) (kms_key_versions (kms (tables s'))) = Some v' \<and>
         v' = v\<lparr>KeyVersion_State := KeyVersion_State v'\<rparr>)) \<and>
    (\<forall>k. find (\<lambda>k. CryptoKey_Name k = name) (kms_keys (kms (tables s))) = Some k \<longrightarrow>
      (\<exists>k'. find (\<lambda>k. CryptoKey_Name k = name) (kms_keys (kms (tables s'))) = Some k' \<and>
         k' = k\<lparr>LabelsJSON := LabelsJSON k'\<rparr>))"
proof (intro conjI allI impI)
  fix v
  assume v: "find (\<lambda>v. KeyVersion_Name v = name) (kms_key_versions (kms (tables s))) = Some v"
  have "version_is name (\<lambda>w. w = v\<lparr>KeyVersion_State := KeyVersion_State w\<rparr>) (kms (tables s'))"
    by (rule runs_keep_version [OF assms]) (simp add: version_is_def v, rule other_state)
  then show "\<exists>v'. find (\<lambda>v. KeyVersion_Name v = name) (kms_key_versions (kms (tables s'))) = Some v' \<and>
      v' = v\<lparr>KeyVersion_State := KeyVersion_State v'\<rparr>"
    by (auto simp: version_is_def)
next
  fix k
  assume k: "find (\<lambda>k. CryptoKey_Name k = name) (kms_keys (kms (tables s))) = Some k"
  have "key_is name (\<lambda>w. w = k\<lparr>LabelsJSON := LabelsJSON w\<rparr>) (kms (tables s'))"
    by (rule runs_keep_key [OF assms]) (simp add: key_is_def k, rule other_labels)
  then show "\<exists>k'. find (\<lambda>k. CryptoKey_Name k = name) (kms_keys (kms (tables s'))) = Some k' \<and>
      k' = k\<lparr>LabelsJSON := LabelsJSON k'\<rparr>"
    by (auto simp: key_is_def)
qed

section \<open>What a success says of the steps before it\<close>

lemma key_for_purpose_success:
  assumes "key_for_purpose keyName purpose message k s = (Inr r, s')" and "is_success r"
  shows "\<exists>key s0. find (\<lambda>k. CryptoKey_Name k = keyName) (kms_keys (kms (tables s))) = Some key \<and> Purpose key = purpose \<and>
    tables s0 = tables s \<and> k key s0 = (Inr r, s')"
proof -
  obtain key s0 where "in_kms (GetKMSCryptoKey keyName) s = (Inr (Some key), s0)"
    and "(if Purpose key \<noteq> purpose then returnM (failed_precondition message) else k key) s0 = (Inr r, s')"
    using found_success [OF assms(1) [unfolded key_for_purpose_def] assms(2)] by blast
  with assms(2) show ?thesis
    by (auto dest!: get_key_Inr simp: returnM_def split: if_splits)
qed

lemma version_material_success:
  assumes "version_material env verName k s = (Inr r, s')" and "is_success r"
  shows "\<exists>material s0. version_is verName
      (\<lambda>v. KeyVersion_State v \<noteq> KMSStateDestroyed \<and> Unseal (env_aead env) (KeyMaterialCiphertext v) = Inr material) (kms (tables s)) \<and>
    tables s0 = tables s \<and> k material s0 = (Inr r, s')"
proof -
  obtain v s0 where v: "in_kms (GetKMSKeyVersion verName) s = (Inr (Some v), s0)"
    and rest: "(if KeyVersion_State v = KMSStateDestroyed then returnM (failed_precondition ''crypto key version is DESTROYED'')
       else computed (Unseal (env_aead env) (KeyMaterialCiphertext v)) internal k) s0 = (Inr r, s')"
    using found_success [OF assms(1) [unfolded version_material_def] assms(2)] by blast
  from rest assms(2) have state: "KeyVersion_State v \<noteq> KMSStateDestroyed"
    and "computed (Unseal (env_aead env) (KeyMaterialCiphertext v)) internal k s0 = (Inr r, s')"
    by (auto simp: returnM_def split: if_splits)
  from computed_success [OF this(2) assms(2)] obtain material where
    "Unseal (env_aead env) (KeyMaterialCiphertext v) = Inr material" "k material s0 = (Inr r, s')" by auto
  with get_version_Inr [OF v] state show ?thesis by (auto simp: version_is_def)
qed

section \<open>Requests on a store whose statements succeed\<close>

lemma key_for_purpose_ok:
  assumes "ok_connection s" and "key_is keyName (\<lambda>k. Purpose k = purpose) (kms (tables s))"
  shows "\<exists>key. \<forall>message k. key_for_purpose keyName purpose message k s = k key s"
  using assms
  by (cases s) (auto simp: key_is_def key_for_purpose_def found_def GetKMSCryptoKey_def inside_def wrapM_def attempt_def catchM_def
      ok_connection_def query_def next_fault_def returnM_def)

lemma version_material_ok:
  assumes "ok_connection s" and "version_is verName (\<lambda>v. KeyVersion_State v \<noteq> KMSStateDestroyed \<and>
      Unseal (env_aead env) (KeyMaterialCiphertext v) = Inr material) (kms (tables s))"
  shows "version_material env verName k s = k material s"
  using assms
  by (cases s) (auto simp: version_is_def version_material_def found_def GetKMSKeyVersion_def inside_def wrapM_def attempt_def
      catchM_def ok_connection_def query_def next_fault_def returnM_def computed_def)

text \<open>A perimeter stands between the project of the caller and the project of the key.\<close>

definition perimeter_between :: "'f lab_env \<Rightarrow> Lab \<Rightarrow> Principal \<Rightarrow> string \<Rightarrow> bool" where
  "perimeter_between env db p project \<longleftrightarrow>
     VPCSCEnforceEnabled (env_vpcsc env) \<and> TrimSpace project \<noteq> [] \<and> TrimSpace ''cloudkms.googleapis.com'' \<noteq> [] \<and>
     list_ex (blocks (TrimSpace (principal_project (iam db) (Email p))) (TrimSpace project) (TrimSpace ''cloudkms.googleapis.com''))
       (acm_service_perimeters (iam db))"

lemma vpcsc_gate_ok:
  assumes "ok_connection s"
  shows "attempt (in_iam (ProjectIDFromPrincipalEmail (Email p))) internal (\<lambda>from_project.
      gate (in_iam (RequireVPCSC (env_vpcsc env) from_project project ''cloudkms.googleapis.com'')) k) s =
    (if perimeter_between env (tables s) p project then (Inr (Rejected (perimeter_response ErrVPCSCPerimeter)), s) else k s)"
proof -
  have ok: "ok_connection \<lparr>tables = iam (tables s), faults = faults s\<rparr>" using assms by (simp add: ok_connection_def)
  have "in_iam (ProjectIDFromPrincipalEmail (Email p)) s = (Inr (principal_project (iam (tables s)) (Email p)), s)"
    by (simp add: inside_def ProjectIDFromPrincipalEmail_ok [OF ok])
  moreover have "in_iam (RequireVPCSC (env_vpcsc env) f project ''cloudkms.googleapis.com'') s =
      (Inr (if VPCSCEnforceEnabled (env_vpcsc env) \<and> TrimSpace project \<noteq> [] \<and> TrimSpace ''cloudkms.googleapis.com'' \<noteq> [] \<and>
         list_ex (blocks (TrimSpace f) (TrimSpace project) (TrimSpace ''cloudkms.googleapis.com''))
           (acm_service_perimeters (iam (tables s))) then Some (perimeter_response ErrVPCSCPerimeter) else None), s)" for f
    by (simp add: inside_def RequireVPCSC_def CheckVPCSC_def catchM_def VPCSCDeny_ok [OF ok])
  ultimately show ?thesis
    by (simp add: attempt_ok gate_def bindM_step perimeter_between_def)
qed

text \<open>The gate holds whatever statements fail: an error of one of its reads is an answer too, and no pass.\<close>

lemma ensureACM_tables: "ensureACM s = (r, s') \<Longrightarrow> tables s' = tables s"
  by (rule readsD [OF reads_preserves]) (rule preserves_ensureACM)

lemma VPCSC_passes:
  assumes "VPCSCDenyCrossPerimeter env from_project to_project service s = (Inr x, s')"
    and "VPCSCEnforceEnabled env" and "TrimSpace to_project \<noteq> []" and "TrimSpace service \<noteq> []"
  shows "\<not> list_ex (blocks (TrimSpace from_project) (TrimSpace to_project) (TrimSpace service)) (acm_service_perimeters (tables s))"
  using assms
  by (auto simp: VPCSCDenyCrossPerimeter_def Let_def deny_loop_blocks bindM_Inr raiseM_def
      dest!: ensureACM_tables query_Inr split: if_splits)

lemma vpcsc_gate_blocks:
  assumes "perimeter_between env (tables s) p project"
    and "attempt (in_iam (ProjectIDFromPrincipalEmail (Email p))) internal (\<lambda>from_project.
      gate (in_iam (RequireVPCSC (env_vpcsc env) from_project project ''cloudkms.googleapis.com'')) k) s = (r, s')"
  shows "tables s' = tables s \<and> \<not> (\<exists>x. r = Inr x \<and> is_success x)"
proof -
  obtain r1 s1 where s1: "in_iam (ProjectIDFromPrincipalEmail (Email p)) s = (r1, s1)" by fastforce
  have "reads (in_iam (ProjectIDFromPrincipalEmail (Email p)))" by (intro reads_intros)
  from readsD [OF this s1] have t1: "tables s1 = tables s" .
  show ?thesis
  proof (cases r1)
    case (Inl err)
    with assms(2) s1 t1 show ?thesis by (auto simp: attempt_def catchM_def returnM_def)
  next
    case (Inr f)
    obtain r2 s2 where s2: "in_iam (RequireVPCSC (env_vpcsc env) f project ''cloudkms.googleapis.com'') s1 = (r2, s2)"
      by fastforce
    have "reads (in_iam (RequireVPCSC (env_vpcsc env) f project ''cloudkms.googleapis.com''))" by (intro reads_intros)
    from readsD [OF this s2] have t2: "tables s2 = tables s1" .
    from s1 Inr have "f = principal_project (iam (tables s)) (Email p)"
      by (auto simp: inside_def dest: ProjectIDFromPrincipalEmail_Inr split: prod.splits)
    with assms(1) s2 t1 have "r2 \<noteq> Inr None"
      by (auto simp: perimeter_between_def inside_def RequireVPCSC_def CheckVPCSC_def catchM_def returnM_def
          dest!: VPCSC_passes split: prod.splits sum.splits)
    with assms(2) s1 Inr s2 t1 t2 show ?thesis
      by (cases r2) (auto simp: attempt_def catchM_def gate_def bindM_def returnM_def split: option.splits)
  qed
qed

lemma guarded_perimeter:
  "guarded (\<lambda>db. \<not> perimeter_between env db p project) is_success
     (attempt (in_iam (ProjectIDFromPrincipalEmail (Email p))) internal (\<lambda>from_project.
        gate (in_iam (RequireVPCSC (env_vpcsc env) from_project project ''cloudkms.googleapis.com'')) k))"
  unfolding guarded_def by (blast dest: vpcsc_gate_blocks)

text \<open>C25. Decryption does not cross a perimeter, not even for root: with \<open>NOCTAXRIS_GCP_VPCSC_ENFORCE\<close> on (it is off by
  default), while some service perimeter restricts Cloud KMS and has exactly one of the two projects inside, that of the
  caller and that of the key, no decryption succeeds and nothing changes, whatever statements fail; a perimeter whose
  active configuration cannot be read stops every decryption.\<close>
theorem kms_decrypt_in_perimeter:
  assumes "kms_dispatch K env req s = (Inr r, s')" and "req_principal req = Some p"
    and "kms_op_of req = Decrypt kr key ver"
    and "VPCSCEnforceEnabled (env_vpcsc env)" and "TrimSpace (req_project req) \<noteq> []"
    and "sp \<in> set (acm_service_perimeters (iam (tables s)))" and "active_config sp = Config d"
    and "case decode_perimeter d of
           Inl err \<Rightarrow> True
         | Inr cfg \<Rightarrow> ''cloudkms.googleapis.com'' \<in> TrimSpace ` set (RestrictedServices cfg) \<and>
             projectInPerimeterResources (Resources cfg) (principal_project (iam (tables s)) (Email p)) \<noteq>
             projectInPerimeterResources (Resources cfg) (req_project req)"
  shows "\<not> is_success r \<and> tables s' = tables s"
proof -
  have trim: "projectInPerimeterResources resources (TrimSpace x) = projectInPerimeterResources resources x"
    for resources x by (simp add: projectInPerimeterResources_def)
  have kms: "TrimSpace ''cloudkms.googleapis.com'' = ''cloudkms.googleapis.com''"
    by (rule TrimSpace_plain_ends) (simp add: plain_char_def)
  have "perimeter_between env (tables s) p (req_project req)"
    using assms(4-8)
    by (auto simp: perimeter_between_def kms list_ex_iff blocks_def trim restrictedServiceListed_def
        split: sum.splits intro!: bexI [of _ sp])
  moreover have "guarded (\<lambda>db. \<not> perimeter_between env db p (req_project req)) is_success (kms_dispatch K env req)"
    using assms(2,3) unfolding kms_dispatch_def
    by (simp add: decrypt_def Let_def) (rule guarded_in_permission, rule guarded_perimeter)
  ultimately show ?thesis using assms(1) unfolding guarded_def by blast
qed

section \<open>Encryption and decryption\<close>

definition gcm_ok :: "'k kms_lib \<Rightarrow> bool" where
  "gcm_ok K \<longleftrightarrow> (\<forall>key nonce plain aad. length nonce = NonceSize \<longrightarrow>
     gcm_Open K key nonce (gcm_Seal K key nonce plain aad) aad = Some plain)"

lemma gcm_inverse:
  assumes "gcm_ok K" and "length nonce = NonceSize" and "aesGCMEncrypt K (Inr nonce) key plain aad = Inr ct"
  shows "aesGCMDecrypt K key ct aad = Inr plain"
  using assms by (auto simp: aesGCMEncrypt_def aesGCMDecrypt_def gcm_ok_def bindE_eq_Inr)

definition text_body :: "string \<Rightarrow> string \<Rightarrow> string \<Rightarrow> document" where
  "text_body name t aad = Json (JObj [(name, JStr t), (''additionalAuthenticatedData'', JStr aad)])"

lemma text_body_decoded:
  "name \<noteq> ''additionalAuthenticatedData'' \<Longrightarrow>
     Decode (decode_texts name) (Some (text_body name t aad)) ([], []) = Inr (t, aad)"
  by (simp add: Decode_def decode_texts_def text_body_def field_of_def json_field_def)

fun reply_text :: "string \<Rightarrow> reply \<Rightarrow> string option" where
  "reply_text name (Reply (JObj ms)) = (case map_of ms name of Some (JStr t) \<Rightarrow> Some t | _ \<Rightarrow> None)"
| "reply_text name _ = None"

lemma encrypt_success:
  assumes "kms_dispatch K env req s = (Inr r, s')" and "kms_op_of req = Encrypt kr key ver" and "is_success r"
    and "req_first req = Some (text_body ''plaintext'' t aad_text)"
  shows "\<exists>material plain aad ct. key_is (cryptoKeyName req kr key) (\<lambda>k. Purpose k = KMSPurposeEncrypt) (kms (tables s)) \<and>
    version_is (chosen_version (cryptoKeyName req kr key) ver)
      (\<lambda>v. Unseal (env_aead env) (KeyMaterialCiphertext v) = Inr material) (kms (tables s)) \<and>
    DecodeString t = Inr plain \<and> decodeOptionalAAD aad_text = Inr aad \<and>
    aesGCMEncrypt K (req_random req) material plain aad = Inr ct \<and>
    reply_text ''ciphertext'' r = Some (EncodeToString ct)"
proof -
  define keyName where "keyName = cryptoKeyName req kr key"
  obtain p where run: "encrypt K env req p kr key ver s = (Inr r, s')"
    using assms(1-3) by (auto simp: kms_dispatch_def returnM_def split: option.splits)
  from with_permission_success [OF run [unfolded encrypt_def Let_def, folded keyName_def] assms(3)]
  obtain s0 where s0: "tables s0 = tables s" and run: "key_for_purpose keyName KMSPurposeEncrypt ''encrypt requires ENCRYPT_DECRYPT purpose'' (\<lambda>_.
      computed (Decode (decode_texts ''plaintext'') (req_first req) ([], [])) (invalid ''invalid JSON body'') (\<lambda>body.
         computed (DecodeString (fst body)) (invalid ''plaintext must be base64'') (\<lambda>plain.
         computed (decodeOptionalAAD (snd body)) (invalid ''additionalAuthenticatedData must be base64'') (\<lambda>aad.
         version_material env (chosen_version keyName ver) (\<lambda>material.
         computed (aesGCMEncrypt K (req_random req) material plain aad) internal (\<lambda>ct.
         returnM (Reply (marshal_map [(''name'', JStr (chosen_version keyName ver)),
           (''ciphertext'', JStr (EncodeToString ct))])))))))) s0 = (Inr r, s')"
    by blast
  have body: "Decode (decode_texts ''plaintext'') (req_first req) ([], []) = Inr (t, aad_text)"
    by (simp add: assms(4) text_body_decoded)
  from key_for_purpose_success [OF run assms(3)] obtain s1 where
    key: "key_is keyName (\<lambda>k. Purpose k = KMSPurposeEncrypt) (kms (tables s))" and s1: "tables s1 = tables s"
    and run: "computed (DecodeString t) (invalid ''plaintext must be base64'') (\<lambda>plain.
         computed (decodeOptionalAAD aad_text) (invalid ''additionalAuthenticatedData must be base64'') (\<lambda>aad.
         version_material env (chosen_version keyName ver) (\<lambda>material.
         computed (aesGCMEncrypt K (req_random req) material plain aad) internal (\<lambda>ct.
         returnM (Reply (marshal_map [(''name'', JStr (chosen_version keyName ver)),
           (''ciphertext'', JStr (EncodeToString ct))])))))) s1 = (Inr r, s')"
    by (auto simp: body computed_def [of "Inr _"] key_is_def s0)
  from computed_success [OF run assms(3)] obtain plain where plain: "DecodeString t = Inr plain"
    and run: "computed (decodeOptionalAAD aad_text) (invalid ''additionalAuthenticatedData must be base64'') (\<lambda>aad.
         version_material env (chosen_version keyName ver) (\<lambda>material.
         computed (aesGCMEncrypt K (req_random req) material plain aad) internal (\<lambda>ct.
         returnM (Reply (marshal_map [(''name'', JStr (chosen_version keyName ver)),
           (''ciphertext'', JStr (EncodeToString ct))]))))) s1 = (Inr r, s')" by auto
  from computed_success [OF run assms(3)] obtain aad where aad: "decodeOptionalAAD aad_text = Inr aad"
    and run: "version_material env (chosen_version keyName ver) (\<lambda>material.
         computed (aesGCMEncrypt K (req_random req) material plain aad) internal (\<lambda>ct.
         returnM (Reply (marshal_map [(''name'', JStr (chosen_version keyName ver)),
           (''ciphertext'', JStr (EncodeToString ct))])))) s1 = (Inr r, s')" by auto
  from version_material_success [OF run assms(3)] obtain material s2 where
    material: "version_is (chosen_version keyName ver)
      (\<lambda>v. KeyVersion_State v \<noteq> KMSStateDestroyed \<and> Unseal (env_aead env) (KeyMaterialCiphertext v) = Inr material) (kms (tables s))"
    and run: "computed (aesGCMEncrypt K (req_random req) material plain aad) internal (\<lambda>ct.
         returnM (Reply (marshal_map [(''name'', JStr (chosen_version keyName ver)),
           (''ciphertext'', JStr (EncodeToString ct))]))) s2 = (Inr r, s')"
    by (auto simp: s1)
  from computed_success [OF run assms(3)] obtain ct where ct: "aesGCMEncrypt K (req_random req) material plain aad = Inr ct"
    and "r = Reply (marshal_map [(''name'', JStr (chosen_version keyName ver)), (''ciphertext'', JStr (EncodeToString ct))])"
    by (auto simp: returnM_def)
  then have "reply_text ''ciphertext'' r = Some (EncodeToString ct)" by (simp add: marshal_map_def)
  moreover from material have "version_is (chosen_version keyName ver)
      (\<lambda>v. Unseal (env_aead env) (KeyMaterialCiphertext v) = Inr material) (kms (tables s))"
    by (auto simp: version_is_def)
  ultimately show ?thesis using key plain aad ct unfolding keyName_def by blast
qed

lemma encrypt_ok:
  assumes "ok_connection s" and "kms_op_of req = Encrypt kr key ver" and "kms_allowed env (tables s) req"
    and "key_is (cryptoKeyName req kr key) (\<lambda>k. Purpose k = KMSPurposeEncrypt) (kms (tables s))"
    and "version_is (chosen_version (cryptoKeyName req kr key) ver) (\<lambda>v. KeyVersion_State v \<noteq> KMSStateDestroyed \<and>
      Unseal (env_aead env) (KeyMaterialCiphertext v) = Inr material) (kms (tables s))"
    and "req_first req = Some (text_body ''plaintext'' (EncodeToString plain) aad_text)" and "decodeOptionalAAD aad_text = Inr aad"
    and "aesGCMEncrypt K (req_random req) material plain aad = Inr ct"
  shows "kms_dispatch K env req s = (Inr (Reply (marshal_map
    [(''name'', JStr (chosen_version (cryptoKeyName req kr key) ver)), (''ciphertext'', JStr (EncodeToString ct))])), s)"
proof -
  define keyName where "keyName = cryptoKeyName req kr key"
  obtain p where p: "req_principal req = Some p"
    and allowed: "permitted env (tables s) p ''cloudkms.cryptoKeyVersions.useToEncrypt'' [keyName, projectResource (req_project req)]"
    using assms(2,3) by (auto simp: kms_allowed_def on_key_def keyName_def split: option.splits)
  have body: "Decode (decode_texts ''plaintext'') (req_first req) ([], []) = Inr (EncodeToString plain, aad_text)"
    by (simp add: assms(6) text_body_decoded)
  note passes = with_permission_passes [OF assms(1) allowed] version_material_ok [OF assms(1) assms(5) [folded keyName_def]]
  obtain k where k: "key_for_purpose keyName KMSPurposeEncrypt message f s = f k s" for message f
    using key_for_purpose_ok [OF assms(1) assms(4) [folded keyName_def]] by blast
  show ?thesis
    by (simp add: kms_dispatch_def assms(2,7,8) p encrypt_def Let_def keyName_def [symmetric] passes k computed_def body)
qed

text \<open>C16. What KMS encrypts it decrypts: the ciphertext of a successful encryption decrypts with the same additional data
  to the plaintext that was sent, after any run of requests, failing statements included, by a caller with
  the permission and inside the perimeter, as long as the version is not destroyed at that time.\<close>
theorem kms_roundtrip:
  assumes "gcm_ok K" and "req_random w = Inr nonce" and "length nonce = NonceSize"
    and "kms_dispatch K env w s = (Inr reply, s1)" and "is_success reply" and "kms_op_of w = Encrypt kr key ver"
    and "req_first w = Some (text_body ''plaintext'' (EncodeToString plain) aad)"
    and "reply_text ''ciphertext'' reply = Some ct"
    and "runs (kms_dispatch K env) s1 tr s2" and "ok_connection s2"
    and "kms_op_of r = Decrypt kr key ver" and "req_principal r = Some q"
    and "cryptoKeyName r kr key = cryptoKeyName w kr key"
    and "req_first r = Some (text_body ''ciphertext'' ct aad)"
    and "kms_allowed env (tables s2) r" and "\<not> perimeter_between env (tables s2) q (req_project r)"
    and "version_is (chosen_version (cryptoKeyName w kr key) ver) (\<lambda>v. KeyVersion_State v \<noteq> KMSStateDestroyed) (kms (tables s2))"
  shows "kms_dispatch K env r s2 = (Inr (Reply (JObj [(''plaintext'', JStr (EncodeToString plain))])), s2)"
proof -
  define keyName where "keyName = cryptoKeyName w kr key"
  from encrypt_success [OF assms(4,6,5,7)] assms(2,8) obtain material ad c where
    key: "key_is keyName (\<lambda>k. Purpose k = KMSPurposeEncrypt) (kms (tables s))"
    and material: "version_is (chosen_version keyName ver)
      (\<lambda>v. Unseal (env_aead env) (KeyMaterialCiphertext v) = Inr material) (kms (tables s))"
    and ad: "decodeOptionalAAD aad = Inr ad" and c: "aesGCMEncrypt K (Inr nonce) material plain ad = Inr c"
    and ct: "ct = EncodeToString c"
    by (auto simp: keyName_def)
  have run: "runs (kms_dispatch K env) s ((w, Inr reply) # tr) s2" by (rule run_op [OF assms(4,9)])
  have key: "key_is keyName (\<lambda>k. Purpose k = KMSPurposeEncrypt) (kms (tables s2))"
    by (rule runs_keep_key [OF run key]) simp
  have "version_is (chosen_version keyName ver)
      (\<lambda>v. Unseal (env_aead env) (KeyMaterialCiphertext v) = Inr material) (kms (tables s2))"
    by (rule runs_keep_version [OF run material]) simp
  with assms(17) have material: "version_is (chosen_version keyName ver) (\<lambda>v. KeyVersion_State v \<noteq> KMSStateDestroyed \<and>
      Unseal (env_aead env) (KeyMaterialCiphertext v) = Inr material) (kms (tables s2))"
    by (auto simp: version_is_def keyName_def)
  from assms(11,12,15) have allowed: "permitted env (tables s2) q ''cloudkms.cryptoKeyVersions.useToDecrypt''
      [keyName, projectResource (req_project r)]"
    by (simp add: kms_allowed_def on_key_def keyName_def assms(13))
  have body: "Decode (decode_texts ''ciphertext'') (req_first r) ([], []) = Inr (EncodeToString c, aad)"
    by (simp add: assms(14) ct text_body_decoded)
  note passes = with_permission_passes [OF assms(10) allowed] vpcsc_gate_ok [OF assms(10)] version_material_ok [OF assms(10) material]
  obtain k where k: "key_for_purpose keyName KMSPurposeEncrypt message f s2 = f k s2" for message f
    using key_for_purpose_ok [OF assms(10) key] by blast
  show ?thesis
    using assms(16) gcm_inverse [OF assms(1,3) c]
    by (simp add: kms_dispatch_def assms(11,12,13) decrypt_def Let_def keyName_def [symmetric] passes k computed_def body ad)
qed

end
