(* ===== verification/Kms_Invariant.thy ===== *)
theory Kms_Invariant
  imports Kms_Requests
begin

text \<open>
  The rows of Cloud KMS stay linked: every key lies in a key ring that is there, has a first version and one of the two
  purposes, and every version belongs to a key. The transaction of \<open>CreateKMSCryptoKey\<close> is what this rests on.
\<close>

definition kms_ok :: "KmsDb \<Rightarrow> bool" where
  "kms_ok db \<longleftrightarrow>
     keys_distinct KeyRing_Name (kms_keyrings db) \<and> keys_distinct CryptoKey_Name (kms_keys db) \<and>
     keys_distinct KeyVersion_Name (kms_key_versions db) \<and>
     (\<forall>k \<in> set (kms_keys db). KeyRing k \<in> KeyRing_Name ` set (kms_keyrings db) \<and>
        Purpose k \<in> {KMSPurposeEncrypt, KMSPurposeSign} \<and>
        key_version_name (CryptoKey_Name k) ''1'' \<in> KeyVersion_Name ` set (kms_key_versions db)) \<and>
     (\<forall>v \<in> set (kms_key_versions db). CryptoKey v \<in> CryptoKey_Name ` set (kms_keys db) \<and>
        KeyVersion_Name v = key_version_name (CryptoKey v) (KeyVersion_VersionID v) \<and>
        KeyVersion_State v \<in> {KMSStateEnabled, KMSStateDestroyed})"

lemma wrapM_Inr: "wrapM msg m s = (Inr x, s') \<Longrightarrow> m s = (Inr x, s')"
  by (auto simp: wrapM_def catchM_def returnM_def raiseM_def split: prod.splits sum.splits)

lemma transaction_option_effect:
  "transaction_option m s = (r, s') \<Longrightarrow> tables s' = tables s \<or>
     (\<exists>x s1 s2. tables s1 = tables s \<and> m s1 = (Inr (Some x), s2) \<and> tables s' = tables s2)"
  unfolding transaction_option_def
  by (auto split: prod.splits option.splits sum.splits) (metis next_fault_tables)+

lemma insert_key_inserts:
  assumes "insert_key key v s = (Inr (Some x), s')"
  shows "tables s' = (tables s)\<lparr>kms_keys := kms_keys (tables s) @ [key], kms_key_versions := kms_key_versions (tables s) @ [v]\<rparr> \<and>
     CryptoKey_Name key \<notin> CryptoKey_Name ` set (kms_keys (tables s)) \<and>
     KeyVersion_Name v \<notin> KeyVersion_Name ` set (kms_key_versions (tables s))"
proof -
  from assms obtain n s1 where n: "on_table kms_keys kms_keys_update (insert_or_ignore (same CryptoKey_Name) key) s = (Inr n, s1)"
    and rest: "(if n = 0 then returnM None
       else bindM (wrapM ''create kms key version'' (on_table_checked kms_key_versions kms_key_versions_update
            (insert_row (same KeyVersion_Name) v))) (\<lambda>_. returnM (Some ()))) s1 = (Inr (Some x), s')"
    unfolding insert_key_def bindM_Inr by (blast dest: wrapM_Inr)
  have pos: "n \<noteq> 0"
  proof
    assume "n = 0"
    with rest show False by (simp add: returnM_def)
  qed
  with rest obtain i where "wrapM ''create kms key version'' (on_table_checked kms_key_versions kms_key_versions_update
      (insert_row (same KeyVersion_Name) v)) s1 = (Inr i, s')"
    using bindM_return_Inr by fastforce
  then have "on_table_checked kms_key_versions kms_key_versions_update (insert_row (same KeyVersion_Name) v) s1 = (Inr i, s')"
    by (rule wrapM_Inr)
  then obtain t where t: "insert_row (same KeyVersion_Name) v (kms_key_versions (tables s1)) = Inr (i, t)"
    "tables s' = kms_key_versions_update (\<lambda>_. t) (tables s1)"
    using on_table_checked_Inr by blast
  have key: "tables s1 = (tables s)\<lparr>kms_keys := kms_keys (tables s) @ [key]\<rparr>"
    "\<forall>r \<in> set (kms_keys (tables s)). CryptoKey_Name r \<noteq> CryptoKey_Name key"
    using on_table_Inr [OF n] pos by (simp_all add: insert_or_ignore_def same_def split: if_splits)
  have "t = kms_key_versions (tables s1) @ [v]" "\<forall>r \<in> set (kms_key_versions (tables s1)). KeyVersion_Name r \<noteq> KeyVersion_Name v"
    using t(1) by (simp_all add: insert_row_def same_def split: if_splits)
  with key t(2) show ?thesis by (simp add: image_iff) metis
qed

lemma ring_kept: "preserves kms_ok (CreateKMSKeyRing now kr)"
  unfolding CreateKMSKeyRing_def
  by (intro preserves_intros preserves_on_table)
     (auto simp: kms_ok_def insert_or_ignore_def same_def keys_distinct_def split: if_splits)

lemma image_updated: "(\<And>r. key (f r) = key r) \<Longrightarrow> key ` set (snd (update_rows C f t)) = key ` set t"
  by (induction t) (auto simp: update_rows_def)

lemma updated_row: "r \<in> set (snd (update_rows C f t)) \<Longrightarrow> \<exists>r0 \<in> set t. r = (if C r0 then f r0 else r0)"
  by (auto simp: update_rows_def)

lemma update_kept: "preserves kms_ok (UpdateKMSCryptoKey n labels)"
proof -
  have "preserves kms_ok (on_table kms_keys kms_keys_update (update_rows (\<lambda>k. CryptoKey_Name k = n) (\<lambda>k. k\<lparr>LabelsJSON := l\<rparr>)))" for l
  proof (rule preserves_on_table)
    fix db i t
    assume ok: "kms_ok db" and upd: "update_rows (\<lambda>k. CryptoKey_Name k = n) (\<lambda>k. k\<lparr>LabelsJSON := l\<rparr>) (kms_keys db) = (i, t)"
    have names: "CryptoKey_Name ` set t = CryptoKey_Name ` set (kms_keys db)"
      using image_updated [of CryptoKey_Name "\<lambda>k. k\<lparr>LabelsJSON := l\<rparr>" "\<lambda>k. CryptoKey_Name k = n" "kms_keys db"] upd by simp
    have rows: "\<exists>k0 \<in> set (kms_keys db). k = (if CryptoKey_Name k0 = n then k0\<lparr>LabelsJSON := l\<rparr> else k0)" if "k \<in> set t" for k
      using updated_row [of k "\<lambda>k. CryptoKey_Name k = n" "\<lambda>k. k\<lparr>LabelsJSON := l\<rparr>" "kms_keys db"] that upd by simp
    have "keys_distinct CryptoKey_Name t"
      using ok upd by (intro keys_distinct_update [OF upd]) (auto simp: kms_ok_def)
    with ok names show "kms_ok (kms_keys_update (\<lambda>_. t) db)"
      by (auto simp: kms_ok_def dest!: rows split: if_splits)
  qed
  then show ?thesis
    unfolding UpdateKMSCryptoKey_def GetKMSCryptoKey_def Let_def by (intro preserves_intros)
qed

lemma state_kept:
  assumes "state \<in> {KMSStateEnabled, KMSStateDestroyed}"
  shows "preserves kms_ok (set_version_state msg state n)"
proof -
  have "preserves kms_ok (on_table kms_key_versions kms_key_versions_update
      (update_rows (\<lambda>r. KeyVersion_Name r = n) (\<lambda>r. r\<lparr>KeyVersion_State := state\<rparr>)))"
  proof (rule preserves_on_table)
    fix db i t
    assume ok: "kms_ok db" and upd: "update_rows (\<lambda>r. KeyVersion_Name r = n) (\<lambda>r. r\<lparr>KeyVersion_State := state\<rparr>) (kms_key_versions db) = (i, t)"
    have names: "KeyVersion_Name ` set t = KeyVersion_Name ` set (kms_key_versions db)"
      using image_updated [of KeyVersion_Name "\<lambda>r. r\<lparr>KeyVersion_State := state\<rparr>" "\<lambda>r. KeyVersion_Name r = n" "kms_key_versions db"] upd
      by simp
    have rows: "\<exists>v0 \<in> set (kms_key_versions db). v = (if KeyVersion_Name v0 = n then v0\<lparr>KeyVersion_State := state\<rparr> else v0)"
      if "v \<in> set t" for v
      using updated_row [of v "\<lambda>r. KeyVersion_Name r = n" "\<lambda>r. r\<lparr>KeyVersion_State := state\<rparr>" "kms_key_versions db"] that upd by simp
    have "keys_distinct KeyVersion_Name t"
      using ok upd by (intro keys_distinct_update [OF upd]) (auto simp: kms_ok_def)
    with ok names assms show "kms_ok (kms_key_versions_update (\<lambda>_. t) db)"
      by (auto simp: kms_ok_def dest!: rows split: if_splits)
  qed
  then show ?thesis
    unfolding set_version_state_def GetKMSKeyVersion_def by (intro preserves_intros)
qed

text \<open>A key and its first version, linked to each other and to a key ring that is there.\<close>

lemma create_kept:
  assumes "KeyVersion_Name v = key_version_name (CryptoKey_Name key) ''1''" and "CryptoKey v = CryptoKey_Name key"
    and "KeyVersion_VersionID v = ''1''" and "KeyVersion_State v = KMSStateEnabled"
    and "Purpose key \<in> {KMSPurposeEncrypt, KMSPurposeSign}"
  shows "preserves (\<lambda>db. kms_ok db \<and> KeyRing key \<in> KeyRing_Name ` set (kms_keyrings db)) (CreateKMSCryptoKey now key v)"
proof -
  let ?I = "\<lambda>db. kms_ok db \<and> KeyRing key \<in> KeyRing_Name ` set (kms_keyrings db)"
  let ?key = "key_defaults now key" and ?v = "version_defaults (key_defaults now key) v"
  have key: "CryptoKey_Name ?key = CryptoKey_Name key" "KeyRing ?key = KeyRing key"
    "Purpose ?key \<in> {KMSPurposeEncrypt, KMSPurposeSign}"
    using assms(5) by (auto simp: key_defaults_def Let_def)
  have v: "KeyVersion_Name ?v = key_version_name (CryptoKey_Name key) ''1''" "CryptoKey ?v = CryptoKey_Name key"
    "KeyVersion_VersionID ?v = ''1''" "KeyVersion_State ?v = KMSStateEnabled"
    using assms by (auto simp: version_defaults_def KMSStateEnabled_def)
  have "preserves ?I (transaction_option (insert_key ?key ?v))"
    unfolding preserves_def
  proof (intro allI impI)
    fix s :: "KmsDb connection"
    assume I: "?I (tables s)"
    obtain r s' where run: "transaction_option (insert_key ?key ?v) s = (r, s')" by fastforce
    from transaction_option_effect [OF run] show "?I (tables (snd (transaction_option (insert_key ?key ?v) s)))"
    proof
      assume "tables s' = tables s"
      with I run show ?thesis by simp
    next
      assume "\<exists>x s1 s2. tables s1 = tables s \<and> insert_key ?key ?v s1 = (Inr (Some x), s2) \<and> tables s' = tables s2"
      then obtain x s1 s2 where "tables s1 = tables s" "insert_key ?key ?v s1 = (Inr (Some x), s2)" "tables s' = tables s2"
        by blast
      with insert_key_inserts [of ?key ?v s1 x s2] have
        new: "tables s' = (tables s)\<lparr>kms_keys := kms_keys (tables s) @ [?key], kms_key_versions := kms_key_versions (tables s) @ [?v]\<rparr>"
        and fresh: "CryptoKey_Name key \<notin> CryptoKey_Name ` set (kms_keys (tables s))"
          "key_version_name (CryptoKey_Name key) ''1'' \<notin> KeyVersion_Name ` set (kms_key_versions (tables s))"
        unfolding key(1) v(1) by auto
      show ?thesis
        using I fresh key v unfolding run snd_conv new
        by (auto simp: kms_ok_def keys_distinct_def)
    qed
  qed
  then show ?thesis
    unfolding CreateKMSCryptoKey_def Let_def by (intro preserves_if preserves_raise preserves_bind preserves_return)
qed

text \<open>What follows a look at a key ring may use that it is there.\<close>

lemma preserves_found_ring:
  assumes "\<And>kr. preserves (\<lambda>db. J (kms db) \<and> name \<in> KeyRing_Name ` set (kms_keyrings (kms db))) (k kr)"
  shows "preserves (\<lambda>db. J (kms db)) (found (in_kms (GetKMSKeyRing name)) message k)"
  unfolding preserves_def
proof (intro allI impI)
  fix s :: "Lab connection"
  assume J: "J (kms (tables s))"
  obtain r s0 where r: "in_kms (GetKMSKeyRing name) s = (r, s0)" by fastforce
  have t: "tables s0 = tables s"
    using r by (intro readsD [of "in_kms (GetKMSKeyRing name)"] reads_intros)
  show "J (kms (tables (snd (found (in_kms (GetKMSKeyRing name)) message k s))))"
  proof (cases "\<exists>kr. r = Inr (Some kr)")
    case False
    with r J t show ?thesis
      by (cases r) (auto simp: found_def attempt_def catchM_def split: option.splits)
  next
    case True
    then obtain kr where kr: "r = Inr (Some kr)" by blast
    have "find (\<lambda>k. KeyRing_Name k = name) (kms_keyrings (kms (tables s))) = Some kr"
      using in_kms_query_Inr [OF r [unfolded kr GetKMSKeyRing_def]] by simp
    then have "name \<in> KeyRing_Name ` set (kms_keyrings (kms (tables s0)))"
      unfolding t by (auto dest: find_SomeD)
    with J t assms(1) [of kr] have "J (kms (tables (snd (k kr s0))))"
      unfolding preserves_def by metis
    with r kr show ?thesis by (simp add: found_def attempt_def catchM_def)
  qed
qed

lemma in_kms_create_kept:
  assumes "KeyRing key = n" and "KeyVersion_Name v = key_version_name (CryptoKey_Name key) ''1''" and "CryptoKey v = CryptoKey_Name key"
    and "KeyVersion_VersionID v = ''1''" and "KeyVersion_State v = KMSStateEnabled"
    and "Purpose key \<in> {KMSPurposeEncrypt, KMSPurposeSign}"
  shows "preserves (\<lambda>db. kms_ok (kms db) \<and> n \<in> KeyRing_Name ` set (kms_keyrings (kms db))) (in_kms (CreateKMSCryptoKey now key v))"
  using preserves_in_kms [OF create_kept [OF assms(2-6)]] unfolding assms(1) .

lemma preserves_sum_dep:
  "(\<And>e. r = Inl e \<Longrightarrow> preserves I (g e)) \<Longrightarrow> (\<And>x. r = Inr x \<Longrightarrow> preserves I (f x)) \<Longrightarrow>
     preserves I (case r of Inl e \<Rightarrow> g e | Inr x \<Rightarrow> f x)"
  by (cases r) auto

lemma key_algorithm_purpose: "key_algorithm purpose a = Inr b \<Longrightarrow> purpose \<in> {KMSPurposeEncrypt, KMSPurposeSign}"
  by (auto simp: key_algorithm_def split: if_splits)

lemma create_key_links: "preserves (\<lambda>db. kms_ok (kms db)) (createCryptoKey env req p kr)"
  unfolding createCryptoKey_def Let_def
  by (intro preserves_with_permission preserves_if preserves_return preserves_sum_dep preserves_found_ring preserves_computed
        preserves_attempt in_kms_create_kept)
     (auto simp: key_version_name_def dest: key_algorithm_purpose)

text \<open>C22. Key rings, keys and versions stay linked: from linked tables, any run of requests, failing statements in the
  transaction that creates a key included, ends on tables where every key lies in a key ring that is there,
  has one of the two purposes and its first version, and every version belongs to a key and is named after it.\<close>
theorem kms_links:
  assumes "runs (kms_dispatch K env) s tr s'" and "kms_ok (kms (tables s))"
  shows "kms_ok (kms (tables s'))"
proof (rule run_preserves [where I = "\<lambda>db. kms_ok (kms db)", OF assms(1) _ assms(2)])
  have "preserves (\<lambda>db. kms_ok (kms db)) (kms_dispatch K env req)" for req
    by (intro dispatch_preserves ring_kept create_key_links update_kept state_kept)
  then show "\<forall>(req, r) \<in> set tr. preserves (\<lambda>db. kms_ok (kms db)) (kms_dispatch K env req)" by blast
qed

end
