(* ===== verification/Iam_Handlers.thy ===== *)
theory Iam_Handlers
  imports Secret_Mediation Custom_Roles Org_Policy
begin

text \<open>
  The REST handlers of IAM: \<^verbatim>\<open>internal/services/iam/handler.go\<close> (service accounts, their keys and policies, and the
  credentials of IAM Credentials) and \<^verbatim>\<open>internal/services/iam/roles.go\<close> (custom roles).

  The routes that \<open>Mount\<close> registers itself and those of \<open>MountRoles\<close> are the constructors of \<open>iam\_route\<close> (the
  handlers of \<open>MountWIF\<close>, \<open>MountSTS\<close> and \<open>MountOAuth\<close> are not modelled); the route of IAM Credentials runs the
  handler of \<open>PostAccount\<close>. SHA-256, the texts of JSON values and the conversion of a float are parameters; a new RSA
  key is given with the request, in PEM form, with the other random values.
\<close>

section \<open>Requests\<close>

text \<open>\<open>iam\_segment\<close> is the account or the role of the path, \<open>iam\_hex\<close> the random bytes of a token or of a key
  identifier in hexadecimal, \<open>iam\_unique\<close> the eight random bytes of a unique identifier.\<close>

record iam_request = lab_request +
  iam_segment :: string
  iam_key :: string
  iam_unique :: "64 word"
  iam_hex :: string
  iam_pem :: "error + string"

record 'f iam_lib =
  Sum256 :: "string \<Rightarrow> string"
  json_text :: "json \<Rightarrow> string"
  text_json :: "string \<Rightarrow> document"
  float_int64 :: "'f \<Rightarrow> int"
  token_crypto :: crypto

definition nano_text :: "'f lab_env \<Rightarrow> iam_request \<Rightarrow> string" where
  "nano_text env req = env_stamp env (FormatRFC3339Nano (req_now req))"

text \<open>\<^verbatim>\<open>RFC3339\<close> has no fraction: it is \<^verbatim>\<open>RFC3339Nano\<close> of the whole second.\<close>

definition second_text :: "'f lab_env \<Rightarrow> iam_request \<Rightarrow> string" where
  "second_text env req = env_stamp env (FormatRFC3339Nano (req_now req div 10 ^ 9 * 10 ^ 9))"

definition require ::
  "'f lab_env \<Rightarrow> iam_request \<Rightarrow> string \<Rightarrow> string \<Rightarrow> (Lab, reply) action \<Rightarrow> (Lab, reply) action" where
  "require env req permission resource k =
     (case req_principal req of
        None \<Rightarrow> returnM (Rejected (Unauthenticated []))
      | Some p \<Rightarrow>
          attempt (evaluated env (\<lambda>e. Evaluate (env_runtime env) e (Email p) (IsRoot p) permission resource)) internal
            (\<lambda>allowed. if \<not> allowed then returnM (Rejected (PermissionDenied [])) else k))"

text \<open>The body is read, or the handler stops.\<close>

definition with_body :: "iam_request \<Rightarrow> (document option \<Rightarrow> (Lab, reply) action) \<Rightarrow> (Lab, reply) action" where
  "with_body req k =
     (if req_body_error req \<noteq> None then returnM (Rejected (InvalidArgument ''unable to read body'')) else k (req_body req))"

section \<open>Names\<close>

definition hex_value :: "char \<Rightarrow> nat option" where
  "hex_value c =
     (let n = (of_char c :: nat) in
      if 48 \<le> n \<and> n \<le> 57 then Some (n - 48)
      else if 97 \<le> n \<and> n \<le> 102 then Some (n - 87)
      else if 65 \<le> n \<and> n \<le> 70 then Some (n - 55)
      else None)"

text \<open>\<^verbatim>\<open>url.PathUnescape\<close>; \<open>None\<close> is its error.\<close>

fun PathUnescape :: "string \<Rightarrow> string option" where
  "PathUnescape [] = Some []"
| "PathUnescape (c # cs) =
     (if c = CHR 0x25 then
        (case cs of
           a # b # r \<Rightarrow>
             (case (hex_value a, hex_value b) of
                (Some x, Some y) \<Rightarrow> map_option (\<lambda>t. char_of (16 * x + y) # t) (PathUnescape r)
              | _ \<Rightarrow> None)
         | _ \<Rightarrow> None)
      else map_option (\<lambda>t. c # t) (PathUnescape cs))"

definition decodeAccount :: "string \<Rightarrow> string" where
  "decodeAccount v = (case PathUnescape v of Some u \<Rightarrow> u | None \<Rightarrow> v)"

definition fieldMaskIncludes :: "string \<Rightarrow> string \<Rightarrow> bool" where
  "fieldMaskIncludes field_mask field \<longleftrightarrow> list_ex (\<lambda>part. TrimSpace part = field) (Split field_mask '','')"

definition lower_letter :: "char \<Rightarrow> bool" where
  "lower_letter c \<longleftrightarrow> (let n = (of_char c :: nat) in 97 \<le> n \<and> n \<le> 122)"

definition digit_letter :: "char \<Rightarrow> bool" where
  "digit_letter c \<longleftrightarrow> (let n = (of_char c :: nat) in 48 \<le> n \<and> n \<le> 57)"

definition validAccountID :: "string \<Rightarrow> bool" where
  "validAccountID i \<longleftrightarrow>
     (if length i < 6 \<or> length i > 30 then False
      else if \<not> lower_letter (i ! 0) then False
      else if \<not> list_all (\<lambda>c. lower_letter c \<or> digit_letter c \<or> c = CHR ''-'') (drop 1 i) then False
      else let c = i ! (length i - 1) in lower_letter c \<or> digit_letter c)"

definition newUniqueID :: "64 word \<Rightarrow> string" where
  "newUniqueID n = itoa (unat (1000000000000000000 + n mod 8000000000000000000))"

text \<open>The name of a service account as a resource of policies.\<close>

definition account_resource :: "ServiceAccount \<Rightarrow> string" where
  "account_resource sa = ''projects/'' @ ServiceAccount_ProjectID sa @ ''/serviceAccounts/'' @ ServiceAccount_Email sa"

definition account_key_name :: "iam_request \<Rightarrow> ServiceAccount \<Rightarrow> string \<Rightarrow> string" where
  "account_key_name req sa keyID =
     ''projects/'' @ req_project req @ ''/serviceAccounts/'' @ ServiceAccount_Email sa @ ''/keys/'' @ keyID"

section \<open>Replies\<close>

definition saJSON :: "ServiceAccount \<Rightarrow> json" where
  "saJSON sa = marshal_map
     [(''name'', JStr (account_resource sa)), (''projectId'', JStr (ServiceAccount_ProjectID sa)),
      (''uniqueId'', JStr (ServiceAccount_UniqueID sa)), (''email'', JStr (ServiceAccount_Email sa)),
      (''displayName'', JStr (ServiceAccount_DisplayName sa)), (''disabled'', JBool (ServiceAccount_Disabled sa))]"

definition keyMetaJSON :: "ServiceAccountKey \<Rightarrow> json" where
  "keyMetaJSON k = marshal_map
     [(''name'', JStr (ServiceAccountKey_Name k)), (''keyAlgorithm'', JStr (ServiceAccountKey_KeyAlgorithm k)),
      (''validAfterTime'', JStr (ServiceAccountKey_ValidAfterTime k)),
      (''validBeforeTime'', JStr (ServiceAccountKey_ValidBeforeTime k)),
      (''keyOrigin'', JStr ''GOOGLE_PROVIDED''), (''keyType'', JStr ''USER_MANAGED'')]"

definition roleJSON :: "CustomRole \<Rightarrow> json" where
  "roleJSON r = marshal_map
     [(''name'', JStr (CustomRole_Name r)), (''title'', JStr (CustomRole_Title r)),
      (''description'', JStr (CustomRole_Description r)),
      (''includedPermissions'', JArr (map JStr (CustomRole_IncludedPermissions r))),
      (''stage'', JStr (CustomRole_Stage r)), (''etag'', JStr (CustomRole_Etag r)), (''deleted'', JBool (CustomRole_Deleted r))]"

definition account_missing :: string where
  "account_missing = ''Service account does not exist.''"

section \<open>Service accounts\<close>

text \<open>\<open>accountId\<close> and the display name of the body.\<close>

definition decode_account_body :: "(string \<times> string) decoder" where
  "decode_account_body = decode_struct
     [(''accountId'', json_field fst (\<lambda>x r. (x, snd r)) decode_string),
      (''serviceAccount'', json_field snd (\<lambda>x r. (fst r, x))
         (\<lambda>v old. bindE (decode_struct [(''displayName'', json_field fst (\<lambda>x r. (x, snd r)) decode_string),
            (''description'', json_field snd (\<lambda>x r. (fst r, x)) decode_string)] v (old, [])) (\<lambda>r. Inr (fst r))))]"

definition createServiceAccount :: "'f lab_env \<Rightarrow> iam_request \<Rightarrow> (Lab, reply) action" where
  "createServiceAccount env req =
     (let projectID = req_project req in
      require env req ''iam.serviceAccounts.create'' (projectResource projectID)
        (attempt (in_iam (IsServiceEnabled projectID ''iam.googleapis.com'')) internal (\<lambda>enabled.
         if \<not> enabled then returnM (failed_precondition ''Service iam.googleapis.com is disabled for this project.'')
         else with_body req (\<lambda>body.
           computed (Unmarshal_body decode_account_body body ([], [])) (invalid ''invalid JSON body'') (\<lambda>(accountID, displayName).
           let accountID = TrimSpace accountID in
           if \<not> validAccountID accountID then
             returnM (Rejected (InvalidArgument ''accountId must be 6-30 characters matching [a-z]([-a-z0-9]*[a-z0-9])''))
           else
             let sa = \<lparr>ServiceAccount_ProjectID = projectID,
                   ServiceAccount_Email = accountID @ ''@'' @ projectID @ ''.iam.gserviceaccount.com'',
                   ServiceAccount_UniqueID = newUniqueID (iam_unique req), ServiceAccount_DisplayName = displayName,
                   ServiceAccount_Disabled = False, ServiceAccount_DeletedAt = [],
                   ServiceAccount_CreatedAt = nano_text env req\<rparr> in
             attempt (in_iam (CreateServiceAccount (nano_text env req) sa))
               (\<lambda>err. if errors_Is err ErrAlreadyExists
                  then Rejected (WriteREST 409 ''ALREADY_EXISTS'' ''service account already exists'') else internal err)
               (\<lambda>_. returnM (Reply (saJSON sa))))))))"

definition listServiceAccounts :: "'f lab_env \<Rightarrow> iam_request \<Rightarrow> (Lab, reply) action" where
  "listServiceAccounts env req =
     require env req ''iam.serviceAccounts.list'' (projectResource (req_project req))
       (attempt (in_iam (ListServiceAccounts (req_project req))) internal (\<lambda>accounts.
          returnM (Reply (JObj [(''accounts'', JArr (map saJSON accounts))]))))"

definition getServiceAccount :: "'f lab_env \<Rightarrow> iam_request \<Rightarrow> (Lab, reply) action" where
  "getServiceAccount env req =
     (let account = decodeAccount (iam_segment req) in
      if Contains account '':'' then returnM (Rejected (InvalidArgument ''use POST for service account custom methods''))
      else require env req ''iam.serviceAccounts.get'' (projectResource (req_project req))
        (found (in_iam (GetServiceAccountInProject (req_project req) account)) account_missing (\<lambda>sa.
           returnM (Reply (saJSON sa)))))"

record account_patch =
  Patch_NestedName :: string
  Patch_Name :: string
  Patch_Mask :: string

definition decode_account_patch :: "account_patch decoder" where
  "decode_account_patch = decode_struct
     [(''serviceAccount'', json_field Patch_NestedName (\<lambda>x r. r\<lparr>Patch_NestedName := x\<rparr>)
         (decode_struct [(''displayName'', decode_string)])),
      (''displayName'', json_field Patch_Name (\<lambda>x r. r\<lparr>Patch_Name := x\<rparr>) decode_string),
      (''updateMask'', json_field Patch_Mask (\<lambda>x r. r\<lparr>Patch_Mask := x\<rparr>) decode_string)]"

definition patchServiceAccount :: "'f lab_env \<Rightarrow> iam_request \<Rightarrow> (Lab, reply) action" where
  "patchServiceAccount env req =
     (let account = decodeAccount (iam_segment req) in
      if Contains account '':'' then returnM (Rejected (InvalidArgument ''invalid service account name''))
      else require env req ''iam.serviceAccounts.update'' (projectResource (req_project req))
        (found (in_iam (GetServiceAccountInProject (req_project req) account)) account_missing (\<lambda>sa.
         with_body req (\<lambda>body.
         computed (Unmarshal_body decode_account_patch body \<lparr>Patch_NestedName = [], Patch_Name = [], Patch_Mask = []\<rparr>)
           (invalid ''invalid JSON body'') (\<lambda>b.
         let field_mask = (if Patch_Mask b = [] then req_query req ''updateMask'' else Patch_Mask b);
             displayName = (if Patch_NestedName b = [] then Patch_Name b else Patch_NestedName b) in
         if field_mask \<noteq> [] \<and> \<not> fieldMaskIncludes field_mask ''displayName'' \<and>
            \<not> fieldMaskIncludes field_mask ''serviceAccount.displayName'' then
           returnM (Rejected (InvalidArgument ''updateMask must include displayName''))
         else found (in_iam (UpdateServiceAccountDisplayName (ServiceAccount_Email sa) displayName)) account_missing (\<lambda>updated.
           returnM (Reply (saJSON updated))))))))"

definition deleteServiceAccount :: "'f lab_env \<Rightarrow> iam_request \<Rightarrow> (Lab, reply) action" where
  "deleteServiceAccount env req =
     require env req ''iam.serviceAccounts.delete'' (projectResource (req_project req))
       (found (in_iam (GetServiceAccountInProject (req_project req) (decodeAccount (iam_segment req)))) account_missing (\<lambda>sa.
        attempt (in_iam (DeleteServiceAccount (nano_text env req) (ServiceAccount_Email sa))) internal (\<lambda>deleted.
        if \<not> deleted then returnM (Rejected (gcp_NotFound account_missing)) else returnM (Reply (JObj [])))))"

definition undeleteServiceAccount :: "'f lab_env \<Rightarrow> iam_request \<Rightarrow> string \<Rightarrow> (Lab, reply) action" where
  "undeleteServiceAccount env req account =
     require env req ''iam.serviceAccounts.undelete'' (projectResource (req_project req))
       (found (in_iam (GetDeletedServiceAccountInProject (req_project req) account)) ''Deleted service account does not exist.'' (\<lambda>sa.
        found (in_iam (UndeleteServiceAccount (ServiceAccount_Email sa))) ''Deleted service account does not exist.'' (\<lambda>restored.
        returnM (Reply (saJSON restored)))))"

definition setDisabled :: "'f lab_env \<Rightarrow> iam_request \<Rightarrow> string \<Rightarrow> string \<Rightarrow> bool \<Rightarrow> ServiceAccount \<Rightarrow> (Lab, reply) action" where
  "setDisabled env req permission project disabled sa =
     require env req permission project
       (found (in_iam (SetServiceAccountDisabled (ServiceAccount_Email sa) disabled)) account_missing (\<lambda>_.
          returnM (Reply (JObj []))))"

section \<open>Credentials\<close>

text \<open>The caller, the permission on the account or on its project, and the perimeter of the account's project.\<close>

definition checkVPCSCCredentials :: "'f lab_env \<Rightarrow> Principal \<Rightarrow> ServiceAccount \<Rightarrow> (Lab, reply) action \<Rightarrow> (Lab, reply) action" where
  "checkVPCSCCredentials env p sa k =
     gate (in_iam (RequireVPCSCPrincipal (env_vpcsc env) p (ServiceAccount_ProjectID sa) ''iamcredentials.googleapis.com'')) k"

definition credentials ::
  "'f lab_env \<Rightarrow> iam_request \<Rightarrow> string \<Rightarrow> string \<Rightarrow> ServiceAccount \<Rightarrow> (Lab, reply) action \<Rightarrow> (Lab, reply) action" where
  "credentials env req permission project sa k =
     (case req_principal req of
        None \<Rightarrow> returnM (Rejected (Unauthenticated []))
      | Some p \<Rightarrow> with_permission env p permission [account_resource sa, project] (checkVPCSCCredentials env p sa k))"

definition parseDurationSeconds :: "'f iam_lib \<Rightarrow> 'f lab_env \<Rightarrow> string \<Rightarrow> int option" where
  "parseDurationSeconds L env v =
     (let v = TrimSpace v in
      if \<not> HasSuffix v ''s'' then None
      else map_option (float_int64 L) (ParseFloat (env_time env) (TrimSuffix v ''s'')))"

text \<open>The scopes and the lifetime; the delegates are decoded and not used.\<close>

record token_body =
  Token_Delegates :: "string list"
  Token_Scope :: "string list"
  Token_Lifetime :: string

definition decode_token_body :: "token_body decoder" where
  "decode_token_body = decode_struct
     [(''delegates'', json_field Token_Delegates (\<lambda>x r. r\<lparr>Token_Delegates := x\<rparr>) (decode_slice decode_string [])),
      (''scope'', json_field Token_Scope (\<lambda>x r. r\<lparr>Token_Scope := x\<rparr>) (decode_slice decode_string [])),
      (''lifetime'', json_field Token_Lifetime (\<lambda>x r. r\<lparr>Token_Lifetime := x\<rparr>) decode_string)]"

text \<open>The lifetime in nanoseconds; \<open>None\<close> is an argument error.\<close>

definition token_lifetime :: "'f iam_lib \<Rightarrow> 'f lab_env \<Rightarrow> string \<Rightarrow> int option" where
  "token_lifetime L env lifetime =
     (if lifetime = [] then Some (3600 * nanos_per_second)
      else case parseDurationSeconds L env lifetime of
          None \<Rightarrow> None
        | Some secs \<Rightarrow> if secs \<le> 0 \<or> 12 * 3600 < secs then None else Some (secs * nanos_per_second))"

definition generateAccessToken ::
  "'f iam_lib \<Rightarrow> 'f lab_env \<Rightarrow> iam_request \<Rightarrow> string \<Rightarrow> ServiceAccount \<Rightarrow> (Lab, reply) action" where
  "generateAccessToken L env req project sa =
     credentials env req ''iam.serviceAccounts.getAccessToken'' project sa
       (if ServiceAccount_Disabled sa then returnM (failed_precondition ''service account is disabled'')
        else with_body req (\<lambda>body.
          computed (if body = None then Inr \<lparr>Token_Delegates = [], Token_Scope = [], Token_Lifetime = []\<rparr>
              else Unmarshal_body decode_token_body body \<lparr>Token_Delegates = [], Token_Scope = [], Token_Lifetime = []\<rparr>)
            (invalid ''invalid JSON body'') (\<lambda>b.
          if Token_Scope b = [] then returnM (Rejected (InvalidArgument ''scope is required''))
          else case token_lifetime L env (Token_Lifetime b) of
              None \<Rightarrow> returnM (Rejected (InvalidArgument
                ''lifetime must be a Duration ending in s, between 1s and 43200s''))
            | Some lifetime \<Rightarrow>
                let token = newAccessToken (iam_hex req); expire = req_now req + lifetime in
                attempt (in_iam (PutAccessToken (nano_text env req) (HashToken (token_crypto L) token)
                    (ServiceAccount_Email sa) expire)) internal (\<lambda>_.
                returnM (Reply (marshal_map
                  [(''accessToken'', JStr token), (''expireTime'', JStr (env_stamp env (FormatRFC3339Nano expire)))]))))))"

text \<open>\<^verbatim>\<open>base64.URLEncoding\<close>: the alphabet of the standard encoding with \<open>-\<close> and \<open>\_\<close> for \<open>+\<close> and \<open>/\<close>.\<close>

definition URLDecodeString :: "string \<Rightarrow> error + string" where
  "URLDecodeString s =
     (if CHR ''+'' \<in> set s \<or> CHR ''/'' \<in> set s then Inl (Errorf ''illegal base64 data'')
      else DecodeString (map (\<lambda>c. if c = CHR ''-'' then CHR ''+'' else if c = CHR ''_'' then CHR ''/'' else c) s))"

definition RawURLEncodeToString :: "string \<Rightarrow> string" where
  "RawURLEncodeToString s =
     map (\<lambda>c. if c = CHR ''+'' then CHR ''-'' else if c = CHR ''/'' then CHR ''_'' else c)
       (takeWhile (\<lambda>c. c \<noteq> CHR ''='') (EncodeToString s))"

definition decode_sign_body :: "(string \<times> string) decoder" where
  "decode_sign_body = decode_struct
     [(''bytesToSign'', json_field fst (\<lambda>x r. (x, snd r)) decode_string),
      (''payload'', json_field snd (\<lambda>x r. (fst r, x)) decode_string)]"

definition signBlob :: "'f iam_lib \<Rightarrow> 'f lab_env \<Rightarrow> iam_request \<Rightarrow> string \<Rightarrow> ServiceAccount \<Rightarrow> (Lab, reply) action" where
  "signBlob L env req project sa =
     credentials env req ''iam.serviceAccounts.signBlob'' project sa
       (with_body req (\<lambda>body.
        computed (Unmarshal_body decode_sign_body body ([], [])) (invalid ''invalid JSON body'') (\<lambda>b.
        let b64 = (if fst b = [] then snd b else fst b) in
        if b64 = [] then returnM (Rejected (InvalidArgument ''bytesToSign (or payload) is required''))
        else
          computed (case DecodeString b64 of Inl _ \<Rightarrow> URLDecodeString b64 | Inr raw \<Rightarrow> Inr raw)
            (invalid ''bytesToSign must be base64'') (\<lambda>raw.
          let signature = EncodeToString (Sum256 L raw) in
          returnM (Reply (marshal_map
            [(''keyId'', JStr ''lab-sha256''), (''signature'', JStr signature), (''signedBlob'', JStr signature)]))))))"

text \<open>A \<^verbatim>\<open>float64\<close> of a claim as an \<^verbatim>\<open>int64\<close>: the fraction is dropped, and a value out of range becomes the least
  integer.\<close>

definition number_int64 :: "rat \<Rightarrow> int" where
  "number_int64 x =
     (let n = (if 0 \<le> x then floor x else ceiling x) in
      if n < - (2 ^ 63) \<or> 2 ^ 63 \<le> n then - (2 ^ 63) else n)"

fun jsonNumberAsInt64 :: "json \<Rightarrow> int option" where
  "jsonNumberAsInt64 (JNum x) = Some (number_int64 x)"
| "jsonNumberAsInt64 _ = None"

fun decode_any_map :: "(string \<times> json) list decoder" where
  "decode_any_map (JObj ms) old = Inr (foldl (\<lambda>m (k, v). assign k v m) old ms)"
| "decode_any_map JNull old = Inr []"
| "decode_any_map _ old = Inl json_type_error"

text \<open>What is wrong with the expiry of the claims, if anything.\<close>

definition check_exp :: "int \<Rightarrow> (string \<times> json) list \<Rightarrow> string option" where
  "check_exp now claims =
     (case map_of claims ''exp'' of
        None \<Rightarrow> None
      | Some expRaw \<Rightarrow>
          (case jsonNumberAsInt64 expRaw of
             None \<Rightarrow> Some ''exp claim must be an integer unix timestamp''
           | Some expiry \<Rightarrow>
               if expiry < now then Some ''exp claim must not be in the past''
               else if now + 12 * 3600 < expiry then Some ''exp claim must be within 12 hours''
               else None))"

definition jwt_header :: string where
  "jwt_header = [CHR 0x7B, CHR 0x22] @ ''alg'' @ [CHR 0x22] @ '':'' @ [CHR 0x22] @ ''none'' @ [CHR 0x22] @ '','' @
     [CHR 0x22] @ ''typ'' @ [CHR 0x22] @ '':'' @ [CHR 0x22] @ ''JWT'' @ [CHR 0x22] @ '','' @
     [CHR 0x22] @ ''kid'' @ [CHR 0x22] @ '':'' @ [CHR 0x22] @ ''lab-none'' @ [CHR 0x22, CHR 0x7D]"

definition signJwt :: "'f iam_lib \<Rightarrow> 'f lab_env \<Rightarrow> iam_request \<Rightarrow> string \<Rightarrow> ServiceAccount \<Rightarrow> (Lab, reply) action" where
  "signJwt L env req project sa =
     credentials env req ''iam.serviceAccounts.signJwt'' project sa
       (with_body req (\<lambda>body.
        computed (Unmarshal_body (decode_struct [(''payload'', decode_string)]) body []) (invalid ''invalid JSON body'') (\<lambda>payload.
        let payload = TrimSpace payload in
        if payload = [] then returnM (Rejected (InvalidArgument ''payload is required''))
        else
          computed (Unmarshal decode_any_map (text_json L payload) []) (invalid ''payload must be a serialized JSON object'') (\<lambda>claims.
          case check_exp (Unix (req_now req)) claims of
            Some message \<Rightarrow> returnM (Rejected (InvalidArgument message))
          | None \<Rightarrow>
              returnM (Reply (marshal_map
                [(''keyId'', JStr ''lab-none''),
                 (''signedJwt'', JStr (RawURLEncodeToString jwt_header @ ''.'' @ RawURLEncodeToString payload @ ''.''))]))))))"

section \<open>Keys\<close>

definition fill_key_body :: "(string \<times> string) filler" where
  "fill_key_body = fill_struct
     [(''keyAlgorithm'', fill_field fst (\<lambda>x r. (x, snd r)) fill_string),
      (''privateKeyType'', fill_field snd (\<lambda>x r. (fst r, x)) fill_string)]"

text \<open>The credentials file of a key.\<close>

definition credentials_json :: "iam_request \<Rightarrow> ServiceAccount \<Rightarrow> string \<Rightarrow> json" where
  "credentials_json req sa pem = marshal_map
     [(''type'', JStr ''service_account''), (''project_id'', JStr (req_project req)),
      (''private_key_id'', JStr (iam_hex req)), (''private_key'', JStr pem),
      (''client_email'', JStr (ServiceAccount_Email sa)), (''client_id'', JStr (ServiceAccount_UniqueID sa)),
      (''auth_uri'', JStr ''https://accounts.google.com/o/oauth2/auth''),
      (''token_uri'', JStr ''https://oauth2.googleapis.com/token''),
      (''auth_provider_x509_cert_url'', JStr ''https://www.googleapis.com/oauth2/v1/certs''),
      (''universe_domain'', JStr ''googleapis.com'')]"

text \<open>A new key of an account that was found.\<close>

definition issue_key :: "'f iam_lib \<Rightarrow> 'f lab_env \<Rightarrow> iam_request \<Rightarrow> ServiceAccount \<Rightarrow> (Lab, reply) action" where
  "issue_key L env req sa =
     (let b = Decode_ignoring fill_key_body (req_body req) ([], []);
          keyAlgorithm = (if fst b = [] then ''KEY_ALG_RSA_2048'' else fst b);
          privateKeyType = (if snd b = [] then ''TYPE_GOOGLE_CREDENTIALS_FILE'' else snd b) in
      computed (iam_pem req) internal (\<lambda>pem.
      let keyName = account_key_name req sa (iam_hex req);
          validAfter = second_text env req; validBefore = ''9999-12-31T23:59:59Z'';
          credJSON = json_text L (credentials_json req sa pem) in
      computed (Seal (env_aead env) (req_random req) credJSON) internal (\<lambda>sealed.
      attempt (in_iam (CreateServiceAccountKey (nano_text env req)
          \<lparr>ServiceAccountKey_Name = keyName, ServiceAccountKey_SAEmail = ServiceAccount_Email sa,
           ServiceAccountKey_KeyAlgorithm = keyAlgorithm, ServiceAccountKey_PrivateKeyType = privateKeyType,
           ServiceAccountKey_PrivateKeyData = sealed, ServiceAccountKey_ValidAfterTime = validAfter,
           ServiceAccountKey_ValidBeforeTime = validBefore, ServiceAccountKey_CreatedAt = nano_text env req\<rparr>)) internal (\<lambda>_.
      returnM (Reply (marshal_map
        [(''name'', JStr keyName), (''privateKeyType'', JStr privateKeyType), (''keyAlgorithm'', JStr keyAlgorithm),
         (''privateKeyData'', JStr (EncodeToString credJSON)), (''validAfterTime'', JStr validAfter),
         (''validBeforeTime'', JStr validBefore), (''keyOrigin'', JStr ''GOOGLE_PROVIDED''),
         (''keyType'', JStr ''USER_MANAGED'')]))))))"

definition createKey :: "'f iam_lib \<Rightarrow> 'f lab_env \<Rightarrow> iam_request \<Rightarrow> (Lab, reply) action" where
  "createKey L env req =
     (let resource = projectResource (req_project req) in
      require env req ''iam.serviceAccountKeys.create'' resource
        (attempt (in_iam (IsOrgPolicyConstraintEnforced resource ConstraintDisableServiceAccountKeyCreation)) internal (\<lambda>enforced.
         if enforced then returnM (failed_precondition
           ''Service account key creation is disabled by organization policy constraint iam.disableServiceAccountKeyCreation.'')
         else found (in_iam (GetServiceAccountInProject (req_project req) (decodeAccount (iam_segment req)))) account_missing
           (issue_key L env req))))"

definition listKeys :: "'f lab_env \<Rightarrow> iam_request \<Rightarrow> (Lab, reply) action" where
  "listKeys env req =
     require env req ''iam.serviceAccountKeys.list'' (projectResource (req_project req))
       (found (in_iam (GetServiceAccountInProject (req_project req) (decodeAccount (iam_segment req)))) account_missing (\<lambda>sa.
        let v = req_query req ''pageSize'' in
        case (if v = [] then Some 0 else case Atoi v of None \<Rightarrow> None | Some n \<Rightarrow> if n < 0 then None else Some n) of
          None \<Rightarrow> returnM (Rejected (InvalidArgument ''invalid pageSize''))
        | Some pageSize \<Rightarrow>
            attempt (in_iam (ListServiceAccountKeysPage (ServiceAccount_Email sa) pageSize (req_query req ''pageToken'')))
              (\<lambda>err. if mentions err ''pageToken'' then Rejected (InvalidArgument (Error_text err)) else internal err)
              (\<lambda>(keys, next_token). returnM (Reply (marshal_map
                 ([(''keys'', JArr (map keyMetaJSON keys))] @
                  (if next_token = [] then [] else [(''nextPageToken'', JStr next_token)])))))))"

definition getKey :: "'f lab_env \<Rightarrow> iam_request \<Rightarrow> (Lab, reply) action" where
  "getKey env req =
     require env req ''iam.serviceAccountKeys.get'' (projectResource (req_project req))
       (found (in_iam (GetServiceAccountInProject (req_project req) (decodeAccount (iam_segment req)))) account_missing (\<lambda>sa.
        found (in_iam (GetServiceAccountKey (account_key_name req sa (iam_key req)))) ''Key does not exist.'' (\<lambda>k.
        returnM (Reply (keyMetaJSON k)))))"

definition deleteKey :: "'f lab_env \<Rightarrow> iam_request \<Rightarrow> (Lab, reply) action" where
  "deleteKey env req =
     require env req ''iam.serviceAccountKeys.delete'' (projectResource (req_project req))
       (found (in_iam (GetServiceAccountInProject (req_project req) (decodeAccount (iam_segment req)))) account_missing (\<lambda>sa.
        attempt (in_iam (DeleteServiceAccountKey (account_key_name req sa (iam_key req)))) internal (\<lambda>deleted.
        if \<not> deleted then returnM (Rejected (gcp_NotFound ''Key does not exist.'')) else returnM (Reply (JObj [])))))"

section \<open>Policies of service accounts\<close>

definition account_getIamPolicy :: "'f lab_env \<Rightarrow> iam_request \<Rightarrow> string \<Rightarrow> string \<Rightarrow> (Lab, reply) action" where
  "account_getIamPolicy env req project saResource =
     require env req ''iam.serviceAccounts.getIamPolicy'' project
       (attempt (in_iam (GetIAMPolicyJSON saResource)) internal (\<lambda>raw. case raw of
          None \<Rightarrow> returnM (ReplyDocument (marshal_policy \<lparr>Bindings = [], Etag = ''ACAB''\<rparr>))
        | Some raw \<Rightarrow> returnM (ReplyDocument raw)))"

definition account_setIamPolicy :: "'f lab_env \<Rightarrow> iam_request \<Rightarrow> string \<Rightarrow> string \<Rightarrow> (Lab, reply) action" where
  "account_setIamPolicy env req project saResource =
     require env req ''iam.serviceAccounts.setIamPolicy'' project
       (with_body req (\<lambda>body.
        computed (Unmarshal_body decode_policy_body body zero_Policy) (invalid ''invalid JSON body'') (\<lambda>policy.
        attempt (in_iam (PutIAMPolicyJSON saResource policy)) internal (\<lambda>_.
        returnM (ReplyDocument (marshal_policy policy))))))"

definition account_testIamPermissions :: "'f lab_env \<Rightarrow> iam_request \<Rightarrow> string \<Rightarrow> (Lab, reply) action" where
  "account_testIamPermissions env req saResource =
     (case req_principal req of
        None \<Rightarrow> returnM (Rejected (Unauthenticated []))
      | Some p \<Rightarrow>
          with_body req (\<lambda>body.
          computed (if body = None then Inr [] else Unmarshal_body decode_permissions body []) (invalid ''invalid JSON body'') (\<lambda>permissions.
          attempt (evaluated env (\<lambda>e. TestIamPermissions (env_runtime env) e (Email p) (IsRoot p) saResource permissions)) internal (\<lambda>granted.
          returnM (Reply (JObj [(''permissions'', JArr (map JStr granted))]))))))"

section \<open>Custom methods\<close>

definition resolveServiceAccount :: "string \<Rightarrow> string \<Rightarrow> (Db, ServiceAccount option) action" where
  "resolveServiceAccount projectID account =
     (if projectID = ''-'' then GetServiceAccount account else GetServiceAccountInProject projectID account)"

definition account_method ::
  "'f iam_lib \<Rightarrow> 'f lab_env \<Rightarrow> iam_request \<Rightarrow> string \<Rightarrow> string \<Rightarrow> ServiceAccount \<Rightarrow> (Lab, reply) action" where
  "account_method L env req verb project sa =
     (if verb = ''enable'' then setDisabled env req ''iam.serviceAccounts.enable'' project False sa
      else if verb = ''disable'' then setDisabled env req ''iam.serviceAccounts.disable'' project True sa
      else if verb = ''signBlob'' then signBlob L env req project sa
      else if verb = ''signJwt'' then signJwt L env req project sa
      else if verb = ''generateAccessToken'' then generateAccessToken L env req project sa
      else if verb = ''getIamPolicy'' then account_getIamPolicy env req project (account_resource sa)
      else if verb = ''setIamPolicy'' then account_setIamPolicy env req project (account_resource sa)
      else if verb = ''testIamPermissions'' then account_testIamPermissions env req (account_resource sa)
      else returnM (Rejected (InvalidArgument ''unknown method on service account'')))"

definition expected_account_method :: string where
  "expected_account_method = ''expected serviceAccounts/{account}:enable|disable|undelete|signBlob|signJwt|generateAccessToken|getIamPolicy|setIamPolicy|testIamPermissions''"

definition serviceAccountPost :: "'f iam_lib \<Rightarrow> 'f lab_env \<Rightarrow> iam_request \<Rightarrow> (Lab, reply) action" where
  "serviceAccountPost L env req =
     (case splitColonAction (decodeAccount (iam_segment req)) of
        (account, verb) \<Rightarrow>
          if account = [] \<or> verb = [] then returnM (Rejected (InvalidArgument expected_account_method))
          else if verb = ''undelete'' then undeleteServiceAccount env req account
          else found (in_iam (resolveServiceAccount (req_project req) account)) account_missing (\<lambda>sa.
            account_method L env req verb
              (projectResource (if req_project req = ''-'' then ServiceAccount_ProjectID sa else req_project req)) sa))"

section \<open>Custom roles\<close>

record role_body =
  Role_ID :: string
  Role_Title :: string
  Role_Description :: string
  Role_Permissions :: "string list"
  Role_Stage :: string
  Role_Mask :: string

definition zero_role_body :: role_body where
  "zero_role_body = \<lparr>Role_ID = [], Role_Title = [], Role_Description = [], Role_Permissions = [], Role_Stage = [], Role_Mask = []\<rparr>"

definition role_fields :: "role_body fields" where
  "role_fields =
     [(''title'', json_field Role_Title (\<lambda>x r. r\<lparr>Role_Title := x\<rparr>) decode_string),
      (''description'', json_field Role_Description (\<lambda>x r. r\<lparr>Role_Description := x\<rparr>) decode_string),
      (''includedPermissions'', json_field Role_Permissions (\<lambda>x r. r\<lparr>Role_Permissions := x\<rparr>) (decode_slice decode_string [])),
      (''stage'', json_field Role_Stage (\<lambda>x r. r\<lparr>Role_Stage := x\<rparr>) decode_string)]"

definition decode_create_role :: "role_body decoder" where
  "decode_create_role = decode_struct
     [(''roleId'', json_field Role_ID (\<lambda>x r. r\<lparr>Role_ID := x\<rparr>) decode_string), (''role'', decode_struct role_fields)]"

definition decode_patch_role :: "role_body decoder" where
  "decode_patch_role = decode_struct
     (role_fields @ [(''updateMask'', json_field Role_Mask (\<lambda>x r. r\<lparr>Role_Mask := x\<rparr>) decode_string)])"

definition role_missing :: string where
  "role_missing = ''Role does not exist.''"

definition createRole :: "'f lab_env \<Rightarrow> iam_request \<Rightarrow> (Lab, reply) action" where
  "createRole env req =
     require env req ''iam.roles.create'' (projectResource (req_project req))
       (with_body req (\<lambda>body.
        computed (Unmarshal_body decode_create_role body zero_role_body) (invalid ''invalid JSON body'') (\<lambda>b.
        let roleID = TrimSpace (Role_ID b) in
        if roleID = [] then returnM (Rejected (InvalidArgument ''roleId is required''))
        else attempt (in_iam (CreateCustomRole (nano_text env req) (req_project req) roleID (Role_Title b) (Role_Description b)
              (Role_Stage b) (Role_Permissions b)))
            (\<lambda>err. if errors_Is err ErrAlreadyExists then Rejected (WriteREST 409 ''ALREADY_EXISTS'' ''role already exists'')
               else if mentions err ''invalid roleId'' then
                 Rejected (InvalidArgument ''roleId must be 3-64 characters matching [a-zA-Z0-9_.]'')
               else internal err)
            (\<lambda>created. returnM (Reply (roleJSON created))))))"

definition listRoles :: "'f lab_env \<Rightarrow> iam_request \<Rightarrow> (Lab, reply) action" where
  "listRoles env req =
     require env req ''iam.roles.list'' (projectResource (req_project req))
       (attempt (in_iam (ListCustomRoles (req_project req) (req_query req ''showDeleted'' = ''true''))) internal (\<lambda>roles.
          returnM (Reply (JObj [(''roles'', JArr (map roleJSON roles))]))))"

definition getRole :: "'f lab_env \<Rightarrow> iam_request \<Rightarrow> (Lab, reply) action" where
  "getRole env req =
     (case splitColonAction (iam_segment req) of
        (roleID, verb) \<Rightarrow>
          if verb \<noteq> [] then returnM (Rejected (InvalidArgument ''use POST for role colon methods''))
          else require env req ''iam.roles.get'' (projectResource (req_project req))
            (found (in_iam (GetCustomRole (custom_role_name (req_project req) roleID))) role_missing (\<lambda>role.
               returnM (Reply (roleJSON role)))))"

definition patchRole :: "'f lab_env \<Rightarrow> iam_request \<Rightarrow> (Lab, reply) action" where
  "patchRole env req =
     require env req ''iam.roles.update'' (projectResource (req_project req))
       (with_body req (\<lambda>body.
        computed (Unmarshal_body decode_patch_role body zero_role_body) (invalid ''invalid JSON body'') (\<lambda>b.
        let field_mask = (if Role_Mask b = [] then req_query req ''updateMask'' else Role_Mask b);
            selected = (\<lambda>field. field_mask = [] \<or> fieldMaskIncludes field_mask field) in
        if field_mask \<noteq> [] \<and> \<not> selected ''title'' \<and> \<not> selected ''description'' \<and> \<not> selected ''stage'' \<and>
           \<not> selected ''includedPermissions'' then
          returnM (Rejected (InvalidArgument
            ''updateMask must include title, description, stage, and/or includedPermissions''))
        else found (in_iam (UpdateCustomRole (nano_text env req) (custom_role_name (req_project req) (iam_segment req))
              (Role_Title b) (Role_Description b) (Role_Stage b) (Role_Permissions b)
              (selected ''title'') (selected ''description'') (selected ''stage'') (selected ''includedPermissions'')))
            role_missing (\<lambda>updated. returnM (Reply (roleJSON updated))))))"

definition deleteRole :: "'f lab_env \<Rightarrow> iam_request \<Rightarrow> (Lab, reply) action" where
  "deleteRole env req =
     require env req ''iam.roles.delete'' (projectResource (req_project req))
       (found (in_iam (DeleteCustomRole (nano_text env req) (custom_role_name (req_project req) (iam_segment req)))) role_missing
          (\<lambda>deleted. returnM (Reply (roleJSON deleted))))"

definition undeleteRole :: "'f lab_env \<Rightarrow> iam_request \<Rightarrow> string \<Rightarrow> (Lab, reply) action" where
  "undeleteRole env req roleID =
     require env req ''iam.roles.undelete'' (projectResource (req_project req))
       (let name = custom_role_name (req_project req) roleID in
        found (in_iam (GetCustomRole name)) role_missing (\<lambda>role.
        if \<not> CustomRole_Deleted role then returnM (failed_precondition ''Role is not deleted.'')
        else found (in_iam (UndeleteCustomRole (nano_text env req) name)) role_missing (\<lambda>restored.
          returnM (Reply (roleJSON restored)))))"

definition rolePost :: "'f lab_env \<Rightarrow> iam_request \<Rightarrow> (Lab, reply) action" where
  "rolePost env req =
     (case splitColonAction (iam_segment req) of
        (roleID, verb) \<Rightarrow>
          if roleID = [] \<or> verb = [] then returnM (Rejected (InvalidArgument ''expected roles/{role}:undelete''))
          else if verb = ''undelete'' then undeleteRole env req roleID
          else returnM (Rejected (InvalidArgument ''unknown method on role'')))"

section \<open>Routes\<close>

datatype iam_route =
    GetAccounts | PostAccounts | GetAccount | PatchAccount | DeleteAccount | PostAccount
  | GetKeys | PostKeys | GetKeyRoute | DeleteKeyRoute
  | GetRoles | PostRoles | GetRoleRoute | PatchRoleRoute | DeleteRoleRoute | PostRole

fun serve_iam :: "'f iam_lib \<Rightarrow> 'f lab_env \<Rightarrow> iam_route \<times> iam_request \<Rightarrow> (Lab, reply) action" where
  "serve_iam L env (GetAccounts, req) = listServiceAccounts env req"
| "serve_iam L env (PostAccounts, req) = createServiceAccount env req"
| "serve_iam L env (GetAccount, req) = getServiceAccount env req"
| "serve_iam L env (PatchAccount, req) = patchServiceAccount env req"
| "serve_iam L env (DeleteAccount, req) = deleteServiceAccount env req"
| "serve_iam L env (PostAccount, req) = serviceAccountPost L env req"
| "serve_iam L env (GetKeys, req) = listKeys env req"
| "serve_iam L env (PostKeys, req) = createKey L env req"
| "serve_iam L env (GetKeyRoute, req) = getKey env req"
| "serve_iam L env (DeleteKeyRoute, req) = deleteKey env req"
| "serve_iam L env (GetRoles, req) = listRoles env req"
| "serve_iam L env (PostRoles, req) = createRole env req"
| "serve_iam L env (GetRoleRoute, req) = getRole env req"
| "serve_iam L env (PatchRoleRoute, req) = patchRole env req"
| "serve_iam L env (DeleteRoleRoute, req) = deleteRole env req"
| "serve_iam L env (PostRole, req) = rolePost env req"

end
