(* ===== verification/Service_Answers.thy ===== *)
theory Service_Answers
  imports Iam_Handlers Secret_Services Kms_Requests
begin

text \<open>
  Every request is answered. Each path of a handler writes one response: a body, or an error whose code and status
  are a pair of \<^verbatim>\<open>gcperrors\<close>. No path leaves an error of the store, of a library or of a body unanswered, and none
  returns without a response, whichever statements fail.
\<close>

named_theorems answers_intros \<open>actions that give an answer\<close>

section \<open>Answers\<close>

text \<open>The codes and statuses of the errors that the handlers write.\<close>

definition error_codes :: "(nat \<times> string) list" where
  "error_codes =
     [(400, ''INVALID_ARGUMENT''), (400, ''FAILED_PRECONDITION''), (401, ''UNAUTHENTICATED''), (403, ''PERMISSION_DENIED''),
      (404, ''NOT_FOUND''), (409, ''ALREADY_EXISTS''), (500, ''INTERNAL'')]"

fun written :: "reply \<Rightarrow> bool" where
  "written (Rejected resp) \<longleftrightarrow> (Code resp, response.Status resp) \<in> set error_codes"
| "written (Reply body) = True"
| "written (ReplyDocument body) = True"
| "written NoReply = False"

fun grpc_written :: "'a grpc \<Rightarrow> bool" where
  "grpc_written (grpc.Status code message) \<longleftrightarrow>
     code \<in> set [''InvalidArgument'', ''FailedPrecondition'', ''Unauthenticated'', ''PermissionDenied'', ''NotFound'',
       ''AlreadyExists'', ''Internal'']"
| "grpc_written (Value x) = True"

definition answers :: "('a \<Rightarrow> bool) \<Rightarrow> ('db, 'a) action \<Rightarrow> bool" where
  "answers Q m \<longleftrightarrow> (\<forall>s. \<exists>x s'. m s = (Inr x, s') \<and> Q x)"

lemma answersD: "answers Q m \<Longrightarrow> m s = (r, s') \<Longrightarrow> \<exists>x. r = Inr x \<and> Q x"
  unfolding answers_def by (metis fst_conv)

lemma answers_run:
  assumes "runs serve s tr s'" and "\<And>req. answers Q (serve req)"
  shows "\<forall>(req, r) \<in> set tr. \<exists>x. r = Inr x \<and> Q x"
  using assms(1)
proof (induction rule: runs.induct)
  case (run_op req s r s1 tr s2)
  with answersD [OF assms(2) run_op.hyps(1)] show ?case by simp
qed simp

lemma answers_return [answers_intros]: "Q x \<Longrightarrow> answers Q (returnM x)"
  by (simp add: answers_def returnM_def)

lemma answers_if [answers_intros]:
  "(b \<Longrightarrow> answers Q m) \<Longrightarrow> (\<not> b \<Longrightarrow> answers Q n) \<Longrightarrow> answers Q (if b then m else n)"
  by simp

lemma answers_option [answers_intros]:
  "(r = None \<Longrightarrow> answers Q m) \<Longrightarrow> (\<And>x. r = Some x \<Longrightarrow> answers Q (f x)) \<Longrightarrow>
     answers Q (case r of None \<Rightarrow> m | Some x \<Rightarrow> f x)"
  by (cases r) auto

lemma answers_sum [answers_intros]:
  "(\<And>e. answers Q (g e)) \<Longrightarrow> (\<And>x. answers Q (f x)) \<Longrightarrow> answers Q (case r of Inl e \<Rightarrow> g e | Inr x \<Rightarrow> f x)"
  by (cases r) auto

lemma answers_pair [answers_intros]: "(\<And>x y. answers Q (f x y)) \<Longrightarrow> answers Q (case r of (x, y) \<Rightarrow> f x y)"
  by (cases r) auto

lemma answers_let [answers_intros]: "(\<And>x. answers Q (f x)) \<Longrightarrow> answers Q (let x = v in f x)"
  by (simp add: Let_def)

lemma answers_bind:
  fixes m :: "('db, 'a) action"
  assumes "answers R m" and "\<And>x. R x \<Longrightarrow> answers Q (f x)"
  shows "answers Q (bindM m f)"
  unfolding answers_def
proof
  fix s :: "'db connection"
  from assms(1) obtain x s1 where "m s = (Inr x, s1)" "R x" unfolding answers_def by blast
  moreover from assms(2) [OF this(2)] obtain y s' where "f x s1 = (Inr y, s')" "Q y" unfolding answers_def by blast
  ultimately show "\<exists>y s'. bindM m f s = (Inr y, s') \<and> Q y" by (simp add: bindM_def)
qed

lemma answers_catch: "(\<And>r. answers Q (f r)) \<Longrightarrow> answers Q (catchM m f)"
  by (auto simp: answers_def catchM_def split: prod.split)

lemma answers_inside:
  fixes m :: "('db, 'a) action" and get_part :: "'lab \<Rightarrow> 'db"
  assumes "answers Q m"
  shows "answers Q (inside get_part put_part m)"
  using assms
proof (unfold answers_def, intro allI)
  fix s :: "'lab connection"
  assume "\<forall>s. \<exists>x s'. m s = (Inr x, s') \<and> Q x"
  then obtain x s' where "m \<lparr>tables = get_part (tables s), faults = faults s\<rparr> = (Inr x, s')" "Q x" by blast
  then show "\<exists>x s'. inside get_part put_part m s = (Inr x, s') \<and> Q x" by (simp add: inside_def)
qed

lemma answers_attempt [answers_intros]:
  "(\<And>err. Q (on_err err)) \<Longrightarrow> (\<And>x. answers Q (k x)) \<Longrightarrow> answers Q (attempt m on_err k)"
  unfolding attempt_def by (intro answers_catch answers_sum answers_return)

section \<open>Steps\<close>

lemma written_errors [simp]:
  "written (Rejected (WriteREST code status message)) \<longleftrightarrow> (code, status) \<in> set error_codes"
  "written (internal err)" "written (invalid message err)" "written (failed_precondition message)"
  "written (Rejected (Unauthenticated message))" "written (Rejected (PermissionDenied message))"
  "written (Rejected (gcp_NotFound message))" "written (Rejected (InvalidArgument message))"
  by (simp_all add: WriteREST_def internal_def InternalError_def invalid_def failed_precondition_def Unauthenticated_def
      PermissionDenied_def gcp_NotFound_def InvalidArgument_def error_codes_def)

declare written.simps(1) [simp del]

lemma written_codes [simp]:
  "(409, ''ALREADY_EXISTS'') \<in> set error_codes" "(400, ''FAILED_PRECONDITION'') \<in> set error_codes"
  by (simp_all add: error_codes_def)

lemma answers_gates [answers_intros]:
  "answers written k \<Longrightarrow> answers written (gate (in_iam (RequireProjectAPIGates vpcsc p project service)) k)"
  "answers written k \<Longrightarrow> answers written (gate (in_iam (RequireVPCSC vpcsc f project service)) k)"
  "answers written k \<Longrightarrow> answers written (gate (in_iam (RequireVPCSCPrincipal vpcsc p project service)) k)"
proof -
  let ?R = "\<lambda>r. case r of None \<Rightarrow> True | Some resp \<Rightarrow> written (Rejected resp)"
  have internal: "written (Rejected (InternalError err))" for err
    using written_errors(2) by (simp add: internal_def)
  have gates: "answers ?R (in_iam (RequireProjectAPIGates vpcsc p project service))"
    "answers ?R (in_iam (RequireVPCSC vpcsc f project service))"
    "answers ?R (in_iam (RequireVPCSCPrincipal vpcsc p project service))"
    unfolding RequireProjectAPIGates_def RequireVPCSC_def RequireVPCSCPrincipal_def perimeter_response_def
    by (intro answers_inside answers_catch answers_return; auto simp: internal split: sum.split)+
  show "answers written k \<Longrightarrow> answers written (gate (in_iam (RequireProjectAPIGates vpcsc p project service)) k)"
    "answers written k \<Longrightarrow> answers written (gate (in_iam (RequireVPCSC vpcsc f project service)) k)"
    "answers written k \<Longrightarrow> answers written (gate (in_iam (RequireVPCSCPrincipal vpcsc p project service)) k)"
    unfolding gate_def
    by (rule answers_bind, rule gates, auto intro: answers_return split: option.split)+
qed

lemma answers_steps [answers_intros]:
  "answers written k \<Longrightarrow> answers written (with_permission env p permission resources k)"
  "(\<And>x. answers written (f x)) \<Longrightarrow> answers written (found m message f)"
  "(\<And>err. Q (on_err err)) \<Longrightarrow> (\<And>x. answers Q (g x)) \<Longrightarrow> answers Q (computed r on_err g)"
  unfolding with_permission_def found_def computed_def
  by (intro answers_intros; simp)+

section \<open>Cloud KMS\<close>

lemma answers_kms_steps [answers_intros]:
  "(\<And>x. answers written (h x)) \<Longrightarrow> answers written (key_for_purpose n u message h)"
  "(\<And>x. answers written (j x)) \<Longrightarrow> answers written (version_material env n j)"
  "(\<And>x. answers written (l x)) \<Longrightarrow> answers written (rsa_key K material l)"
  unfolding key_for_purpose_def version_material_def rsa_key_def
  by (intro answers_intros; simp)+

lemma kms_answers: "answers written (kms_dispatch K env req)"
proof -
  have "answers written (kms_perform K env req p oper)" for p oper
    by (cases oper; simp only: kms_perform.simps createKeyRing_def getKeyRing_def listKeyRings_def createCryptoKey_def
        getCryptoKey_def updateCryptoKey_def listCryptoKeys_def kms_getIamPolicy_def kms_setIamPolicy_def encrypt_def
        decrypt_def getPublicKey_def asymmetricSign_def destroyVersion_def restoreVersion_def listKeyVersions_def
        getKeyVersion_def; intro answers_intros; simp split: sum.split)
  then show ?thesis unfolding kms_dispatch_def by (intro answers_intros) simp_all
qed

section \<open>Secret Manager\<close>

text \<open>What comes after the check runs with a caller only.\<close>

lemma answers_require [answers_intros]:
  "(req_principal req \<noteq> None \<Longrightarrow> answers written k) \<Longrightarrow> answers written (requireHTTP env req permission resource k)"
  "(req_principal req \<noteq> None \<Longrightarrow> answers written k) \<Longrightarrow>
     answers written (requireSecretHTTP env req permission name project k)"
  unfolding requireHTTP_def requireSecretHTTP_def by (intro answers_intros; simp)+

lemma secret_errors_written [simp]:
  "written (not_found_or_internal message err)" "written (access_error err)" "written (state_error err)"
  by (simp_all add: not_found_or_internal_def access_error_def state_error_def)

lemma secret_answers: "answers written (serve_secret env rr)"
proof -
  obtain route req where "rr = (route, req)" by fastforce
  then show ?thesis
    by (cases route; simp only: serve_secret.simps httpCreateSecret_def httpListSecrets_def httpGetSecret_def
        httpPatchSecret_def httpDeleteSecret_def httpSecretPost_def httpListVersions_def httpVersionGet_def
        httpVersionPost_def httpRotateSecret_def httpGetIamPolicy_def httpSetIamPolicy_def httpTestIamPermissions_def
        httpAddVersion_def httpAccessVersion_def httpEnableVersion_def httpDisableVersion_def httpDestroyVersion_def
        httpSetVersionState_def httpGetVersion_def; intro answers_intros; simp)
qed

lemma grpc_written_map: "grpc_written x \<Longrightarrow> grpc_written (map_grpc f x)"
  by (cases x) auto

lemma answers_grpc [answers_intros]:
  "(\<And>p. answers grpc_written (k p)) \<Longrightarrow> answers grpc_written (grpc_guard c k)"
  "answers grpc_written m \<Longrightarrow> answers grpc_written (answer f m)"
  unfolding grpc_guard_def answer_def
  by (intro answers_intros; simp) (erule answers_bind, simp add: answers_return grpc_written_map)

lemma grpc_errors_written [simp]:
  "grpc_written (grpc_internal err)" "grpc_written (grpc_not_found m err)" "grpc_written (grpc_access_error err)"
  "grpc_written (grpc_state_error err)"
  by (simp_all add: grpc_internal_def grpc_not_found_def grpc_access_error_def grpc_state_error_def)

lemma grpc_answers: "answers grpc_written (serve_grpc env codec cr)"
proof -
  obtain c req where "cr = (c, req)" by fastforce
  then show ?thesis
    by (cases req; simp only: serve_grpc.simps grpc_handler_defs GrpcTestIamPermissions_def requireGRPC_def
        requireSecretGRPC_def; intro answers_intros; simp split: sum.split)
qed

section \<open>IAM\<close>

lemma answers_iam_steps [answers_intros]:
  "answers written k \<Longrightarrow> answers written (Iam_Handlers.require env req permission resource k)"
  "(\<And>b. answers written (h b)) \<Longrightarrow> answers written (with_body req h)"
  "answers written k \<Longrightarrow> answers written (credentials env req permission project sa k)"
  "answers written (issue_key L env req sa)"
  unfolding require_def with_body_def credentials_def checkVPCSCCredentials_def issue_key_def
  by (intro answers_intros; simp)+

lemma answers_account_method [answers_intros]: "answers written (account_method L env req verb project sa)"
  unfolding account_method_def setDisabled_def signBlob_def signJwt_def generateAccessToken_def account_getIamPolicy_def
    account_setIamPolicy_def account_testIamPermissions_def
  by (intro answers_intros; simp)

lemma iam_answers: "answers written (serve_iam L env rr)"
proof -
  obtain route req where "rr = (route, req)" by fastforce
  then show ?thesis
    by (cases route; simp only: serve_iam.simps listServiceAccounts_def createServiceAccount_def getServiceAccount_def
        patchServiceAccount_def deleteServiceAccount_def undeleteServiceAccount_def serviceAccountPost_def listKeys_def
        createKey_def getKey_def deleteKey_def listRoles_def createRole_def getRole_def patchRole_def deleteRole_def
        rolePost_def undeleteRole_def; intro answers_intros; simp)
qed

text \<open>C27. Every request is answered: in every run of requests to the REST or to the gRPC surface of Secret Manager, to
  Cloud KMS or to IAM, whatever statements fail, each request ends with a response that was written. That is a
  body, or an error with one of the seven pairs of code and status of the API (the seven error codes for gRPC); no
  handler returns an error of the store as its own or returns without having written anything.\<close>
theorem requests_answered:
  assumes "runs (serve_secret env) s1 rest t1" and "runs (serve_grpc env codec) s2 calls t2"
    and "runs (kms_dispatch K env) s3 kms_requests t3" and "runs (serve_iam L env) s4 iam_requests t4"
  shows "(\<forall>(req, r) \<in> set rest. \<exists>x. r = Inr x \<and> written x) \<and>
    (\<forall>(req, r) \<in> set calls. \<exists>x. r = Inr x \<and> grpc_written x) \<and>
    (\<forall>(req, r) \<in> set kms_requests. \<exists>x. r = Inr x \<and> written x) \<and>
    (\<forall>(req, r) \<in> set iam_requests. \<exists>x. r = Inr x \<and> written x)"
  using answers_run [OF assms(1) secret_answers] answers_run [OF assms(2) grpc_answers]
    answers_run [OF assms(3) kms_answers] answers_run [OF assms(4) iam_answers]
  by blast

end
