(* ===== verification/Kms_Examples.thy ===== *)
theory Kms_Examples
  imports Kms_Invariant Service_Answers
begin

text \<open>Instances of the theorems of Cloud KMS on a store with one key and one version.\<close>

definition example_kms_lib :: "unit kms_lib" where
  "example_kms_lib = \<lparr>gcm_Seal = (\<lambda>key nonce plain aad. plain), gcm_Open = (\<lambda>key nonce c aad. Some c), SHA256 = (\<lambda>s. s),
     ParsePKCS8 = (\<lambda>_. Inr None), PublicPEM = (\<lambda>_. Inr []), SignPSS = (\<lambda>_ _ _. Inr [])\<rparr>"

definition example_material :: string where
  "example_material = replicate 32 (CHR ''m'')"

definition example_key :: KMSCryptoKey where
  "example_key = \<lparr>CryptoKey_Name = ''projects/p/locations/l/keyRings/r/cryptoKeys/k'', KeyRing = ''projects/p/locations/l/keyRings/r'',
     Purpose = KMSPurposeEncrypt, Algorithm = KMSAlgoSymmetric, LabelsJSON = empty_object, CryptoKey_CreatedAt = None\<rparr>"

definition example_key_version :: "string \<Rightarrow> KMSKeyVersion" where
  "example_key_version state = \<lparr>KeyVersion_Name = ''projects/p/locations/l/keyRings/r/cryptoKeys/k/cryptoKeyVersions/1'',
     CryptoKey = ''projects/p/locations/l/keyRings/r/cryptoKeys/k'', KeyVersion_VersionID = ''1'', KeyVersion_State = state,
     KeyMaterialCiphertext = example_nonce @ example_material, KeyVersion_CreatedAt = None\<rparr>"

definition example_kms :: "string \<Rightarrow> Lab connection" where
  "example_kms state = example_lab\<lparr>tables := (tables example_lab)\<lparr>kms :=
     \<lparr>kms_keyrings = [\<lparr>KeyRing_Name = ''projects/p/locations/l/keyRings/r'', KeyRing_ProjectID = ''p'', KeyRing_Location = ''l'',
        KeyRing_CreatedAt = None\<rparr>], kms_keys = [example_key], kms_key_versions = [example_key_version state]\<rparr>\<rparr>\<rparr>"

definition example_kms_request :: "Principal option \<Rightarrow> string \<Rightarrow> document \<Rightarrow> kms_request" where
  "example_kms_request p rest body = \<lparr>req_principal = p, req_project = ''p'', req_secret = [], req_version = [],
     req_query = (\<lambda>_. []), req_body = Some body, req_body_error = None, req_first = Some body, req_now = 0,
     req_random = Inr example_nonce, kms_location = ''l'', kms_method = ''POST'', kms_rest = rest,
     kms_material = Inr example_material, kms_rsa_key = Inr []\<rparr>"

lemma example_ops:
  "kms_op_of (example_kms_request p ''keyRings/r/cryptoKeys/k:encrypt'' body) = Encrypt ''r'' ''k'' []"
  "kms_op_of (example_kms_request p ''keyRings/r/cryptoKeys/k:decrypt'' body) = Decrypt ''r'' ''k'' []"
  by (simp_all only: kms_op_of_def example_kms_request_def kms_request.simps) (code_simp+)

lemma example_key_name [simp]:
  "cryptoKeyName (example_kms_request p rest body) ''r'' ''k'' = ''projects/p/locations/l/keyRings/r/cryptoKeys/k''"
  by (simp add: cryptoKeyName_def keyRingName_def example_kms_request_def)

lemma example_version_name [simp]:
  "chosen_version ''projects/p/locations/l/keyRings/r/cryptoKeys/k'' [] =
     ''projects/p/locations/l/keyRings/r/cryptoKeys/k/cryptoKeyVersions/1''"
  by (simp add: chosen_version_def)

lemma example_kms_connection: "ok_connection (example_kms state)"
  by (simp add: ok_connection_def example_kms_def example_lab_def)

lemma example_kms_ok: "kms_ok (kms (tables (example_kms SecretVersionEnabled)))"
  by (simp add: kms_ok_def example_kms_def keys_distinct_def example_key_def example_key_version_def key_version_name_def
      SecretVersionEnabled_def KMSStateEnabled_def)

text \<open>A request without a caller changes nothing.\<close>

lemma example_anonymous_run:
  "runs (kms_dispatch example_kms_lib example_env) s
     [(example_kms_request None ''keyRings/r/cryptoKeys/k:encrypt'' body, Inr (Rejected (Unauthenticated [])))] s"
  by (rule run_op [OF _ run_done]) (simp add: kms_dispatch_def example_kms_request_def)

theorem kms_requests_mediated_witness:
  "\<exists>tr s'. runs (kms_dispatch example_kms_lib example_env) (example_kms KMSStateEnabled) tr s' \<and> tr \<noteq> [] \<and>
     tables s' = tables (example_kms KMSStateEnabled)"
  using kms_requests_mediated [OF example_anonymous_run [of "example_kms KMSStateEnabled" "Malformed []"]]
    example_anonymous_run [of "example_kms KMSStateEnabled" "Malformed []"]
  by (simp add: kms_allowed_def example_kms_request_def) blast

theorem kms_links_witness: "kms_ok (kms (tables (example_kms SecretVersionEnabled)))"
  by (rule kms_links [OF example_anonymous_run example_kms_ok])

theorem kms_rows_last_witness:
  "\<exists>v'. find (\<lambda>v. KeyVersion_Name v = ''projects/p/locations/l/keyRings/r/cryptoKeys/k/cryptoKeyVersions/1'')
      (kms_key_versions (kms (tables (example_kms KMSStateEnabled)))) = Some v' \<and>
    v' = (example_key_version KMSStateEnabled)\<lparr>KeyVersion_State := KeyVersion_State v'\<rparr>"
  using kms_rows_last [OF example_anonymous_run [of "example_kms KMSStateEnabled" "Malformed []"],
      of "''projects/p/locations/l/keyRings/r/cryptoKeys/k/cryptoKeyVersions/1''"]
  by (simp add: example_kms_def example_key_version_def)


text \<open>Encryption and decryption by root.\<close>

definition example_encrypt :: kms_request where
  "example_encrypt = example_kms_request (Some example_root) ''keyRings/r/cryptoKeys/k:encrypt''
     (text_body ''plaintext'' (EncodeToString ''pw'') [])"

definition example_decrypt :: "document \<Rightarrow> kms_request" where
  "example_decrypt body = example_kms_request (Some example_root) ''keyRings/r/cryptoKeys/k:decrypt'' body"

lemma example_kms_key: "key_is ''projects/p/locations/l/keyRings/r/cryptoKeys/k'' (\<lambda>k. Purpose k = KMSPurposeEncrypt)
    (kms (tables (example_kms state)))"
  by (simp add: key_is_def example_kms_def example_key_def)

lemma example_unseal: "Unseal (env_aead example_env) (example_nonce @ example_material) = Inr example_material"
  by (simp add: Unseal_def example_env_def example_aead_def example_nonce_size)

lemma example_kms_version: "state \<noteq> KMSStateDestroyed \<Longrightarrow>
    version_is ''projects/p/locations/l/keyRings/r/cryptoKeys/k/cryptoKeyVersions/1''
      (\<lambda>v. KeyVersion_State v \<noteq> KMSStateDestroyed \<and> Unseal (env_aead example_env) (KeyMaterialCiphertext v) = Inr example_material)
      (kms (tables (example_kms state)))"
  by (simp add: version_is_def example_kms_def example_key_version_def example_unseal)

lemma example_enabled: "KMSStateEnabled \<noteq> KMSStateDestroyed"
  by (simp add: KMSStateEnabled_def KMSStateDestroyed_def)

lemma root_allowed: "kms_op_of req = Encrypt kr key ver \<or> kms_op_of req = Decrypt kr key ver \<Longrightarrow>
    req_principal req = Some example_root \<Longrightarrow> kms_allowed env db req"
  by (auto simp: kms_allowed_def on_key_def root_permitted example_root_def)

lemma example_caller: "req_principal (example_kms_request p rest body) = p"
  by (simp add: example_kms_request_def)

definition example_ciphertext :: string where
  "example_ciphertext = EncodeToString (example_nonce @ ''pw'')"

lemma example_encrypted:
  "kms_dispatch example_kms_lib example_env example_encrypt (example_kms KMSStateEnabled) =
     (Inr (Reply (marshal_map [(''name'', JStr ''projects/p/locations/l/keyRings/r/cryptoKeys/k/cryptoKeyVersions/1''),
        (''ciphertext'', JStr example_ciphertext)])), example_kms KMSStateEnabled)"
proof -
  have gcm: "aesGCMEncrypt example_kms_lib (req_random example_encrypt) example_material ''pw'' [] = Inr (example_nonce @ ''pw'')"
    by (simp add: aesGCMEncrypt_def aes_NewCipher_def example_material_def example_kms_lib_def example_encrypt_def example_kms_request_def)
  have aad: "decodeOptionalAAD [] = Inr []" by (simp add: decodeOptionalAAD_def)
  have body: "req_first example_encrypt = Some (text_body ''plaintext'' (EncodeToString ''pw'') [])"
    by (simp add: example_encrypt_def example_kms_request_def)
  note op = example_ops(1) [of "Some example_root" "text_body ''plaintext'' (EncodeToString ''pw'') []", folded example_encrypt_def]
  have "kms_allowed example_env (tables (example_kms KMSStateEnabled)) example_encrypt"
    by (rule root_allowed [OF disjI1 [OF op]]) (simp add: example_encrypt_def example_caller)
  from encrypt_ok [OF example_kms_connection op this _ _ body aad gcm] show ?thesis
    using example_kms_key example_kms_version [OF example_enabled]
    by (simp add: example_encrypt_def example_ciphertext_def)
qed

lemma example_encrypt_run:
  "runs (kms_dispatch example_kms_lib example_env) (example_kms KMSStateEnabled)
     [(example_encrypt, Inr (Reply (marshal_map [(''name'', JStr ''projects/p/locations/l/keyRings/r/cryptoKeys/k/cryptoKeyVersions/1''),
        (''ciphertext'', JStr example_ciphertext)])))] (example_kms KMSStateEnabled)"
  by (rule run_op, rule example_encrypted, rule run_done)

theorem kms_key_separation_witness:
  "\<exists>e purpose. used e = Some (''projects/p/locations/l/keyRings/r/cryptoKeys/k'', purpose) \<and> purpose = KMSPurposeEncrypt"
proof -
  let ?e = "(example_encrypt, Inr (Reply (marshal_map [(''name'', JStr ''projects/p/locations/l/keyRings/r/cryptoKeys/k/cryptoKeyVersions/1''),
        (''ciphertext'', JStr example_ciphertext)])) :: error + reply)"
  have use: "used ?e = Some (''projects/p/locations/l/keyRings/r/cryptoKeys/k'', KMSPurposeEncrypt)"
    using example_ops(1) [of "Some example_root" "text_body ''plaintext'' (EncodeToString ''pw'') []", folded example_encrypt_def]
    by (simp add: example_encrypt_def)
  from kms_key_separation [OF example_encrypt_run _ _ use use] use show ?thesis by blast
qed

theorem kms_roundtrip_witness:
  "kms_dispatch example_kms_lib example_env (example_decrypt (text_body ''ciphertext'' example_ciphertext [])) (example_kms KMSStateEnabled) =
     (Inr (Reply (JObj [(''plaintext'', JStr (EncodeToString ''pw''))])), example_kms KMSStateEnabled)"
proof (rule kms_roundtrip [OF _ _ _ example_encrypted])
  show "gcm_ok example_kms_lib" by (simp add: gcm_ok_def example_kms_lib_def)
  show "req_random example_encrypt = Inr example_nonce" by (simp add: example_encrypt_def example_kms_request_def)
  show "runs (kms_dispatch example_kms_lib example_env) (example_kms KMSStateEnabled) [] (example_kms KMSStateEnabled)" by (rule run_done)
  show op: "kms_op_of (example_decrypt (text_body ''ciphertext'' example_ciphertext [])) = Decrypt ''r'' ''k'' []"
    using example_ops(2) by (simp add: example_decrypt_def)
  show "kms_allowed example_env (tables (example_kms KMSStateEnabled)) (example_decrypt (text_body ''ciphertext'' example_ciphertext []))"
    by (rule root_allowed [OF disjI2 [OF op]]) (simp add: example_decrypt_def example_caller)
  show "\<not> perimeter_between example_env (tables (example_kms KMSStateEnabled)) example_root
      (req_project (example_decrypt (text_body ''ciphertext'' example_ciphertext [])))"
    by (simp add: perimeter_between_def example_kms_def example_lab_def empty_Db_def)
  show "version_is (chosen_version (cryptoKeyName example_encrypt ''r'' ''k'') []) (\<lambda>v. KeyVersion_State v \<noteq> KMSStateDestroyed)
      (kms (tables (example_kms KMSStateEnabled)))"
    using example_kms_version [OF example_enabled] by (auto simp: version_is_def example_encrypt_def)
  show "kms_op_of example_encrypt = Encrypt ''r'' ''k'' []"
    using example_ops(1) by (simp add: example_encrypt_def)
  show "cryptoKeyName (example_decrypt (text_body ''ciphertext'' example_ciphertext [])) ''r'' ''k'' = cryptoKeyName example_encrypt ''r'' ''k''"
    by (simp add: example_encrypt_def example_decrypt_def)
  show "req_first example_encrypt = Some (text_body ''plaintext'' (EncodeToString ''pw'') [])"
    by (simp only: example_encrypt_def example_kms_request_def lab_request.simps)
qed (simp_all add: example_nonce_size example_kms_connection example_decrypt_def marshal_map_def example_kms_request_def)

theorem kms_destroyed_refuses_witness:
  "\<exists>x s'. kms_dispatch example_kms_lib example_env example_encrypt (example_kms KMSStateDestroyed) = (Inr x, s') \<and> \<not> is_success x"
proof -
  obtain x s' where run: "kms_dispatch example_kms_lib example_env example_encrypt (example_kms KMSStateDestroyed) = (Inr x, s')"
    using kms_answers unfolding answers_def by blast
  have use: "key_use example_encrypt (kms_op_of example_encrypt) = Some (''projects/p/locations/l/keyRings/r/cryptoKeys/k'',
      ''projects/p/locations/l/keyRings/r/cryptoKeys/k/cryptoKeyVersions/1'', KMSPurposeEncrypt)"
    using example_ops(1) by (simp add: example_encrypt_def)
  have "version_is ''projects/p/locations/l/keyRings/r/cryptoKeys/k/cryptoKeyVersions/1'' (\<lambda>v. KeyVersion_State v = KMSStateDestroyed)
      (kms (tables (example_kms KMSStateDestroyed)))"
    by (simp add: version_is_def example_kms_def example_key_version_def)
  with kms_destroyed_refuses [OF run use] run show ?thesis by blast
qed

text \<open>A perimeter around the project of the key that restricts Cloud KMS, and a caller of another project.\<close>

definition example_wall :: ServicePerimeter where
  "example_wall = example_perimeter\<lparr>ServicePerimeter_StatusJSON := Config (Json (JObj
     [(''resources'', JArr [JStr ''projects/p'']), (''restrictedServices'', JArr [JStr ''cloudkms.googleapis.com''])]))\<rparr>"

definition example_walled :: "Lab connection" where
  "example_walled = (example_kms KMSStateEnabled)\<lparr>tables := (tables (example_kms KMSStateEnabled))
     \<lparr>iam := empty_Db\<lparr>acm_service_perimeters := [example_wall]\<rparr>\<rparr>\<rparr>"

definition example_outsider :: Principal where
  "example_outsider = \<lparr>Email = ''root@q.iam.gserviceaccount.com'', IsRoot = True\<rparr>"

lemma example_wall_config: "decode_perimeter (Json (JObj
     [(''resources'', JArr [JStr ''projects/p'']), (''restrictedServices'', JArr [JStr ''cloudkms.googleapis.com''])])) =
   Inr \<lparr>Resources = [''projects/p''], RestrictedServices = [''cloudkms.googleapis.com'']\<rparr>"
  by (simp add: decode_perimeter_def perimeterConfig_fields_def field_of_def json_field_def)

lemma example_outside: "principal_project db (Email example_outsider) = ''q''"
proof -
  have "ProjectIDFromServiceAccountEmail ''root@q.iam.gserviceaccount.com'' = ''q''" by code_simp
  then show ?thesis
    by (simp add: principal_project_def sql_read_def ProjectIDFromPrincipalEmail_def example_outsider_def returnM_def)
qed

lemma example_wall_members: "projectInPerimeterResources [''projects/p''] ''p''" "\<not> projectInPerimeterResources [''projects/p''] ''q''"
  by code_simp+

theorem kms_decrypt_in_perimeter_witness:
  "\<exists>x s'. kms_dispatch example_kms_lib (example_env\<lparr>env_vpcsc := ''1''\<rparr>)
      (example_kms_request (Some example_outsider) ''keyRings/r/cryptoKeys/k:decrypt'' (text_body ''ciphertext'' example_ciphertext []))
      example_walled = (Inr x, s') \<and> \<not> is_success x \<and> tables s' = tables example_walled"
proof -
  let ?r = "example_kms_request (Some example_outsider) ''keyRings/r/cryptoKeys/k:decrypt'' (text_body ''ciphertext'' example_ciphertext [])"
  obtain x s' where run: "kms_dispatch example_kms_lib (example_env\<lparr>env_vpcsc := ''1''\<rparr>) ?r example_walled = (Inr x, s')"
    using kms_answers unfolding answers_def by blast
  have trims: "TrimSpace ''p'' = ''p''" "TrimSpace ''1'' = ''1''" "TrimSpace ''cloudkms.googleapis.com'' = ''cloudkms.googleapis.com''"
    by (rule TrimSpace_plain_ends, simp add: plain_char_def)+
  have "VPCSCEnforceEnabled (env_vpcsc (example_env\<lparr>env_vpcsc := ''1''\<rparr>))" by (simp add: VPCSCEnforceEnabled_def trims)
  moreover have "TrimSpace (req_project ?r) \<noteq> []" by (simp add: example_kms_request_def trims)
  moreover have "example_wall \<in> set (acm_service_perimeters (iam (tables example_walled)))" by (simp add: example_walled_def)
  moreover have "active_config example_wall = Config (Json (JObj
      [(''resources'', JArr [JStr ''projects/p'']), (''restrictedServices'', JArr [JStr ''cloudkms.googleapis.com''])]))"
    by (simp add: active_config_def example_wall_def)
  ultimately have "\<not> is_success x \<and> tables s' = tables example_walled"
    by (rule kms_decrypt_in_perimeter [OF run example_caller example_ops(2)])
       (simp add: example_wall_config trims example_outside example_wall_members example_kms_request_def)
  with run show ?thesis by blast
qed

end
