(* ===== verification/Iam_Mediation.thy ===== *)
theory Iam_Mediation
  imports Iam_Handlers
begin

text \<open>
  What every request of the IAM handlers needs, and complete mediation. A custom method names its service account, so
  what it needs depends on the account that is found; nothing is found without a read, and nothing is told about
  an account, or changed, without the permission.
\<close>

section \<open>What a request needs\<close>

definition account_at :: "Db \<Rightarrow> string \<Rightarrow> string \<Rightarrow> ServiceAccount option" where
  "account_at db projectID account =
     (if projectID = ''-'' then find (\<lambda>sa. ServiceAccount_Email sa = account \<and> active sa) (service_accounts db)
      else find (\<lambda>sa. ServiceAccount_ProjectID sa = projectID \<and> active sa \<and>
        (ServiceAccount_Email sa = account \<or> ServiceAccount_UniqueID sa = account)) (service_accounts db))"

text \<open>The permission of a custom method, and whether it may be held on the account as well as on the project.\<close>

definition method_permissions :: "(string \<times> string \<times> bool) list" where
  "method_permissions =
     [(''enable'', ''iam.serviceAccounts.enable'', False), (''disable'', ''iam.serviceAccounts.disable'', False),
      (''signBlob'', ''iam.serviceAccounts.signBlob'', True), (''signJwt'', ''iam.serviceAccounts.signJwt'', True),
      (''generateAccessToken'', ''iam.serviceAccounts.getAccessToken'', True),
      (''getIamPolicy'', ''iam.serviceAccounts.getIamPolicy'', False),
      (''setIamPolicy'', ''iam.serviceAccounts.setIamPolicy'', False)]"

definition account_project :: "iam_request \<Rightarrow> ServiceAccount \<Rightarrow> string" where
  "account_project req sa =
     projectResource (if req_project req = ''-'' then ServiceAccount_ProjectID sa else req_project req)"

definition iam_on_project :: "iam_request \<Rightarrow> string \<Rightarrow> (string \<times> string list) option" where
  "iam_on_project req permission = Some (permission, [projectResource (req_project req)])"

definition method_need :: "Db \<Rightarrow> iam_request \<Rightarrow> (string \<times> string list) option" where
  "method_need db req =
     (case splitColonAction (decodeAccount (iam_segment req)) of
        (account, verb) \<Rightarrow>
          if verb = ''undelete'' then iam_on_project req ''iam.serviceAccounts.undelete''
          else
            Option.bind (account_at db (req_project req) account) (\<lambda>sa.
            map_option (\<lambda>(permission, own).
                (permission, (if own then [account_resource sa] else []) @ [account_project req sa]))
              (map_of method_permissions verb)))"

fun iam_need :: "Db \<Rightarrow> iam_route \<times> iam_request \<Rightarrow> (string \<times> string list) option" where
  "iam_need db (GetAccounts, req) = iam_on_project req ''iam.serviceAccounts.list''"
| "iam_need db (PostAccounts, req) = iam_on_project req ''iam.serviceAccounts.create''"
| "iam_need db (GetAccount, req) = iam_on_project req ''iam.serviceAccounts.get''"
| "iam_need db (PatchAccount, req) = iam_on_project req ''iam.serviceAccounts.update''"
| "iam_need db (DeleteAccount, req) = iam_on_project req ''iam.serviceAccounts.delete''"
| "iam_need db (PostAccount, req) = method_need db req"
| "iam_need db (GetKeys, req) = iam_on_project req ''iam.serviceAccountKeys.list''"
| "iam_need db (PostKeys, req) = iam_on_project req ''iam.serviceAccountKeys.create''"
| "iam_need db (GetKeyRoute, req) = iam_on_project req ''iam.serviceAccountKeys.get''"
| "iam_need db (DeleteKeyRoute, req) = iam_on_project req ''iam.serviceAccountKeys.delete''"
| "iam_need db (GetRoles, req) = iam_on_project req ''iam.roles.list''"
| "iam_need db (PostRoles, req) = iam_on_project req ''iam.roles.create''"
| "iam_need db (GetRoleRoute, req) = iam_on_project req ''iam.roles.get''"
| "iam_need db (PatchRoleRoute, req) = iam_on_project req ''iam.roles.update''"
| "iam_need db (DeleteRoleRoute, req) = iam_on_project req ''iam.roles.delete''"
| "iam_need db (PostRole, req) = iam_on_project req ''iam.roles.undelete''"

definition iam_allowed :: "'f lab_env \<Rightarrow> Lab \<Rightarrow> iam_route \<times> iam_request \<Rightarrow> bool" where
  "iam_allowed env db rr \<longleftrightarrow>
     (case (req_principal (snd rr), iam_need (iam db) rr) of
        (Some p, Some (permission, resources)) \<Rightarrow> permitted env db p permission resources
      | _ \<Rightarrow> False)"

definition account_verb :: "iam_request \<Rightarrow> string" where
  "account_verb req = snd (splitColonAction (decodeAccount (iam_segment req)))"

definition iam_discloses :: "iam_route \<times> iam_request \<Rightarrow> reply \<Rightarrow> bool" where
  "iam_discloses rr r \<longleftrightarrow>
     is_success r \<and> \<not> (fst rr = PostAccount \<and> account_verb (snd rr) = ''testIamPermissions'')"

section \<open>Guards\<close>

lemma guarded_require:
  assumes "\<And>p db. req_principal req = Some p \<Longrightarrow> permitted env db p permission [resource] \<Longrightarrow> P db"
  shows "guarded P is_success (require env req permission resource k)"
  unfolding require_def
  by (intro guarded_option guarded_return guarded_decision) (auto simp: permitted_one [symmetric] intro: assms)

lemma guarded_credentials:
  assumes "\<And>p db. req_principal req = Some p \<Longrightarrow> permitted env db p permission [account_resource sa, project] \<Longrightarrow> P db"
  shows "guarded P is_success (credentials env req permission project sa k)"
  unfolding credentials_def
  by (intro guarded_option guarded_return)
     (simp, rule guarded_mono [OF guarded_with_permission], rule assms)

lemma in_iam_query_Inr:
  assumes "in_iam (query q) s = (Inr r, s')"
  shows "r = q (iam (tables s))"
  using assms by (auto simp: inside_def query_def raiseM_def returnM_def split: prod.splits option.splits dest: next_fault_tables)

lemma resolve_Inr:
  "in_iam (resolveServiceAccount project account) s = (Inr r, s') \<Longrightarrow> account_at (iam (tables s)) project account = r"
  unfolding resolveServiceAccount_def GetServiceAccount_def GetServiceAccountInProject_def account_at_def
  by (auto split: if_splits dest!: in_iam_query_Inr)

lemma iam_reads [reads_intros]:
  "reads (resolveServiceAccount project account)" "reads (GetServiceAccountInProject project account)"
  "reads (GetServiceAccount account)"
  unfolding resolveServiceAccount_def GetServiceAccount_def GetServiceAccountInProject_def by (intro reads_intros)+

lemma method_needs:
  assumes "splitColonAction (decodeAccount (iam_segment req)) = (account, verb)" and "verb \<noteq> ''undelete''"
    and "account_at db (req_project req) account = Some sa" and "map_of method_permissions verb = Some (permission, own)"
  shows "method_need db req =
    Some (permission, (if own then [account_resource sa] else []) @ [account_project req sa])"
  using assms by (simp add: method_need_def)

text \<open>A custom method on the account that was found.\<close>

lemma guarded_method:
  assumes split: "splitColonAction (decodeAccount (iam_segment req)) = (account, verb)"
    and verb: "verb \<noteq> ''undelete''" "verb \<noteq> ''testIamPermissions''"
  shows "guarded (\<lambda>db. account_at (iam db) (req_project req) account = Some sa \<longrightarrow> iam_allowed env db (PostAccount, req))
    is_success (account_method L env req verb (account_project req sa) sa)"
proof -
  have allowed: "iam_allowed env db (PostAccount, req)"
    if "req_principal req = Some p" "account_at (iam db) (req_project req) account = Some sa"
      "map_of method_permissions verb = Some (permission, own)"
      "permitted env db p permission ((if own then [account_resource sa] else []) @ [account_project req sa])"
    for p db permission own
    using that method_needs [OF split verb(1) that(2,3)] by (simp add: iam_allowed_def)
  show ?thesis
    unfolding account_method_def setDisabled_def signBlob_def signJwt_def generateAccessToken_def account_getIamPolicy_def
      account_setIamPolicy_def
    using verb(2)
    by (intro guarded_if guarded_require guarded_credentials guarded_return)
       (auto intro: allowed simp: method_permissions_def)
qed

lemma post_guarded:
  assumes "account_verb req \<noteq> ''testIamPermissions''"
  shows "guarded (\<lambda>db. iam_allowed env db (PostAccount, req)) is_success (serviceAccountPost L env req)"
proof -
  obtain account verb where split: "splitColonAction (decodeAccount (iam_segment req)) = (account, verb)" by fastforce
  show ?thesis
    unfolding serviceAccountPost_def split prod.case
  proof (intro guarded_if guarded_return)
    assume "verb = ''undelete''"
    then show "guarded (\<lambda>db. iam_allowed env db (PostAccount, req)) is_success (undeleteServiceAccount env req account)"
      unfolding undeleteServiceAccount_def
      by (intro guarded_require) (simp add: iam_allowed_def method_need_def split iam_on_project_def)
  next
    assume "verb \<noteq> ''undelete''"
    then show "guarded (\<lambda>db. iam_allowed env db (PostAccount, req)) is_success
      (found (in_iam (resolveServiceAccount (req_project req) account)) account_missing (\<lambda>sa. account_method L env req verb
        (projectResource (if req_project req = ''-'' then ServiceAccount_ProjectID sa else req_project req)) sa))"
      using assms guarded_method [OF split]
      by (intro guarded_found_row [where R = "\<lambda>sa db. account_at (iam db) (req_project req) account = Some sa"])
         (auto intro!: reads_intros dest: resolve_Inr simp: account_verb_def split account_project_def)
  qed simp
qed

lemma test_reads:
  assumes "account_verb req = ''testIamPermissions''"
  shows "reads (serviceAccountPost L env req)"
proof -
  obtain account where split: "splitColonAction (decodeAccount (iam_segment req)) = (account, ''testIamPermissions'')"
    using assms unfolding account_verb_def by (cases "splitColonAction (decodeAccount (iam_segment req))") simp
  have by_verb: "account_method L env req ''testIamPermissions'' project sa = account_testIamPermissions env req (account_resource sa)"
    for project sa
    by (simp add: account_method_def)
  show ?thesis
    unfolding serviceAccountPost_def split prod.case by_verb account_testIamPermissions_def undeleteServiceAccount_def
      found_def with_body_def computed_def
    by simp (intro conjI impI reads_intros)
qed

lemma iam_guarded: "guarded (\<lambda>db. iam_allowed env db rr) (iam_discloses rr) (serve_iam L env rr)"
proof -
  obtain route req where rr: "rr = (route, req)" by fastforce
  have weak: "guarded (\<lambda>db. iam_allowed env db rr) (iam_discloses rr) m"
    if "guarded (\<lambda>db. iam_allowed env db rr) is_success m" for m
    using that by (rule guarded_weaken) (simp add: iam_discloses_def)
  note on_project = iam_allowed_def iam_on_project_def
  show ?thesis
  proof (cases "route = PostAccount")
    case True
    show ?thesis
    proof (cases "account_verb req = ''testIamPermissions''")
      case False
      with post_guarded [OF False] True rr show ?thesis by (intro weak) simp
    next
      case verb: True
      with test_reads [OF verb] True rr verb show ?thesis by (intro guarded_never) (simp_all add: iam_discloses_def)
    qed
  next
    case False
    then show ?thesis
      by (cases route; intro weak)
         (auto simp: rr on_project listServiceAccounts_def createServiceAccount_def getServiceAccount_def patchServiceAccount_def
            deleteServiceAccount_def listKeys_def createKey_def getKey_def deleteKey_def listRoles_def createRole_def getRole_def
            patchRole_def deleteRole_def rolePost_def undeleteRole_def Let_def
            intro!: guarded_require guarded_return split: prod.split)
  qed
qed

interpretation iam_http: mediated_service "serve_iam L env" "iam_allowed env" iam_discloses
  by unfold_locales (rule iam_guarded)

text \<open>C14. IAM mediates every request: in a run of requests to the service accounts, keys, credentials and custom roles,
  failing statements included, whose callers lack at its start the permission their request needs, no table
  changes and every reply is an error.\<close>
theorem iam_requests_mediated:
  assumes "runs (serve_iam L env) s tr s'" and "\<forall>(rr, r) \<in> set tr. \<not> iam_allowed env (tables s) rr"
  shows "tables s' = tables s \<and> (\<forall>(rr, r) \<in> set tr. \<forall>x. r = Inr x \<longrightarrow> \<not> iam_discloses rr x)"
  using assms by (rule iam_http.powerless)

end
