(* ===== verification/Iam_Provenance.thy ===== *)
theory Iam_Provenance
  imports Iam_Mediation
begin

text \<open>
  Where access tokens and service account keys come from. The locale \<open>provenance\<close> is the contract of a service that
  says of every row it adds to a table what request added it, and on which tables; over a run of requests, no row
  comes from nowhere. It is interpreted on the IAM handlers for access tokens and for keys.
\<close>


section \<open>Rows and the requests they come from\<close>

locale provenance =
  fixes serve :: "'req \<Rightarrow> ('db, 'r) action"
    and rows_of :: "'db \<Rightarrow> 'row set"
    and adds :: "'db \<Rightarrow> 'req \<Rightarrow> 'row \<Rightarrow> bool"
  assumes step: "serve req s = (r, s') \<Longrightarrow> row \<in> rows_of (tables s') \<Longrightarrow>
    row \<in> rows_of (tables s) \<or> adds (tables s) req row"
begin

lemma origin:
  assumes "runs serve s tr s'" and "row \<in> rows_of (tables s')" and "row \<notin> rows_of (tables s)"
  shows "\<exists>tr1 req r tr2 s1. tr = tr1 @ (req, r) # tr2 \<and> runs serve s tr1 s1 \<and> adds (tables s1) req row"
  using assms
proof (induction rule: runs.induct)
  case (run_op req s r s1 tr s2)
  show ?case
  proof (cases "row \<in> rows_of (tables s1)")
    case True
    with step [OF run_op.hyps(1)] run_op.prems(2) have "adds (tables s) req row" by blast
    then show ?thesis using runs.run_done [of serve s] by (metis append_Nil)
  next
    case False
    with run_op.IH run_op.prems(1) obtain tr1 req' r' tr2 s3 where
      "tr = tr1 @ (req', r') # tr2" "runs serve s1 tr1 s3" "adds (tables s3) req' row" by blast
    moreover from this(2) have "runs serve s ((req, r) # tr1) s3" by (rule runs.run_op [of serve, OF run_op.hyps(1)])
    ultimately show ?thesis by (metis append_Cons)
  qed
qed simp

end

section \<open>Reads whose answers do not depend on failures\<close>

definition steady :: "('db, 'a) action \<Rightarrow> bool" where
  "steady m \<longleftrightarrow> (\<forall>s x s'. m s = (Inr x, s') \<longrightarrow>
     tables s' = tables s \<and> m \<lparr>tables = tables s, faults = []\<rparr> = (Inr x, \<lparr>tables = tables s, faults = []\<rparr>))"

lemma steadyD:
  "steady m \<Longrightarrow> m s = (Inr x, s') \<Longrightarrow>
     tables s' = tables s \<and> m \<lparr>tables = tables s, faults = []\<rparr> = (Inr x, \<lparr>tables = tables s, faults = []\<rparr>)"
  unfolding steady_def by blast

lemma steady_return: "steady (returnM x)"
  by (simp add: steady_def returnM_def)

lemma steady_query: "steady (query q)"
  unfolding steady_def
proof (intro allI impI)
  fix s :: "'a connection" and x s'
  assume run: "query q s = (Inr x, s')"
  obtain f s0 where f: "next_fault s = (f, s0)" by fastforce
  with run have "x = q (tables s)" "tables s' = tables s"
    by (auto simp: query_def split: option.splits)
  then show "tables s' = tables s \<and> query q \<lparr>tables = tables s, faults = []\<rparr> = (Inr x, \<lparr>tables = tables s, faults = []\<rparr>)"
    by (simp add: ok_connection_def)
qed

lemma steady_bind:
  assumes m: "steady m" and f: "\<And>x. steady (f x)"
  shows "steady (bindM m f)"
  unfolding steady_def
proof (intro allI impI)
  fix s x s'
  assume "bindM m f s = (Inr x, s')"
  then obtain y s1 where y: "m s = (Inr y, s1)" and x: "f y s1 = (Inr x, s')"
    by (auto simp: bindM_def split: prod.splits sum.splits)
  from steadyD [OF m y] steadyD [OF f x]
  show "tables s' = tables s \<and> bindM m f \<lparr>tables = tables s, faults = []\<rparr> = (Inr x, \<lparr>tables = tables s, faults = []\<rparr>)"
    by (simp add: bindM_def)
qed

lemma steady_if: "steady m \<Longrightarrow> steady n \<Longrightarrow> steady (if b then m else n)"
  by simp

lemma steady_option: "steady m \<Longrightarrow> (\<And>x. steady (f x)) \<Longrightarrow> steady (case r of None \<Rightarrow> m | Some x \<Rightarrow> f x)"
  by (cases r) auto

lemma steady_schema: "steady ensureOrgPolicySchema"
  unfolding steady_def
proof (intro allI impI)
  fix s :: "Db connection" and x s'
  assume run: "ensureOrgPolicySchema s = (Inr x, s')"
  obtain f s0 where f: "next_fault s = (f, s0)" by fastforce
  with run have "tables s' = tables s"
    by (auto simp: ensureOrgPolicySchema_def catchM_def exec_def returnM_def raiseM_def split: option.splits)
  then show "tables s' = tables s \<and>
      ensureOrgPolicySchema \<lparr>tables = tables s, faults = []\<rparr> = (Inr x, \<lparr>tables = tables s, faults = []\<rparr>)"
    by (simp add: ok_connection_def)
qed

lemma steady_let: "(\<And>x. steady (f x)) \<Longrightarrow> steady (let x = v in f x)"
  by (simp add: Let_def)

lemmas steady_intros = steady_return steady_query steady_bind steady_if steady_option steady_schema steady_let

lemma steady_enforced: "steady (IsOrgPolicyConstraintEnforced resource c)"
proof -
  have parent: "steady (CRMParent r)" for r
    unfolding CRMParent_def GetFolder_def by (intro steady_intros)
  have "steady (enforced_walk fuel seen cur c')" for fuel seen cur c'
    by (induction fuel arbitrary: seen cur)
       (auto simp: GetOrgPolicy_def intro!: steady_intros parent)
  then show ?thesis unfolding IsOrgPolicyConstraintEnforced_def by (intro steady_intros)
qed

lemma enforced_Inr:
  assumes "in_iam (IsOrgPolicyConstraintEnforced resource c) s = (Inr b, s')"
  shows "sql_read (IsOrgPolicyConstraintEnforced resource c) (iam (tables s)) = Inr b"
proof -
  from assms obtain t where "IsOrgPolicyConstraintEnforced resource c \<lparr>tables = iam (tables s), faults = faults s\<rparr> = (Inr b, t)"
    by (auto simp: inside_def split: prod.splits)
  from steadyD [OF steady_enforced this] show ?thesis by (simp add: sql_read_def)
qed

section \<open>What the handlers keep\<close>

text \<open>The statements of the handlers but those that add a token or a key.\<close>

definition kept_by_writes :: "(Db \<Rightarrow> bool) \<Rightarrow> bool" where
  "kept_by_writes J \<longleftrightarrow>
     (\<forall>now sa. preserves J (CreateServiceAccount now sa)) \<and>
     (\<forall>email name. preserves J (UpdateServiceAccountDisplayName email name)) \<and>
     (\<forall>now email. preserves J (DeleteServiceAccount now email)) \<and>
     (\<forall>email. preserves J (UndeleteServiceAccount email)) \<and>
     (\<forall>email b. preserves J (SetServiceAccountDisabled email b)) \<and>
     (\<forall>name. preserves J (DeleteServiceAccountKey name)) \<and>
     (\<forall>resource pol. preserves J (PutIAMPolicyJSON resource pol)) \<and>
     (\<forall>now p i t d st ps. preserves J (CreateCustomRole now p i t d st ps)) \<and>
     (\<forall>now n t d st ps b1 b2 b3 b4. preserves J (UpdateCustomRole now n t d st ps b1 b2 b3 b4)) \<and>
     (\<forall>now n. preserves J (DeleteCustomRole now n)) \<and> (\<forall>now n. preserves J (UndeleteCustomRole now n))"

lemma preserves_in_iam_part: "preserves J m \<Longrightarrow> preserves (\<lambda>db. J (iam db)) (in_iam m)"
  by (rule preserves_inside) simp_all

lemma preserves_require [preserves_intros]: "preserves I k \<Longrightarrow> preserves I (require env req permission resource k)"
  unfolding require_def by (intro preserves_intros preserves_reads [OF reads_evaluated])

lemma preserves_with_body [preserves_intros]: "(\<And>b. preserves I (k b)) \<Longrightarrow> preserves I (with_body req k)"
  unfolding with_body_def by (intro preserves_intros)

lemma reads_vpcsc_principal [reads_intros]: "reads (RequireVPCSCPrincipal vpcsc p project service)"
  unfolding RequireVPCSCPrincipal_def CheckVPCSCPrincipal_def CheckVPCSC_def VPCSCDenyCrossPerimeter_def
  by (intro reads_intros reads_preserves preserves_ensureACM)

lemma preserves_credentials [preserves_intros]:
  "preserves I k \<Longrightarrow> preserves I (credentials env req permission project sa k)"
  unfolding credentials_def checkVPCSCCredentials_def
  by (intro preserves_intros preserves_reads [OF reads_in_parts(1)] reads_intros)

lemma iam_more_reads [reads_intros]:
  "reads (IsServiceEnabled p svc)" "reads (ListServiceAccounts p)" "reads (GetDeletedServiceAccountInProject p a)"
  "reads (GetServiceAccountKey n)" "reads (GetIAMPolicyJSON r)"
  unfolding IsServiceEnabled_def GetServiceUsage_def ListServiceAccounts_def GetDeletedServiceAccountInProject_def
    GetServiceAccountKey_def GetIAMPolicyJSON_def
  by (intro reads_intros)+

lemma iam_list_reads [reads_intros]:
  "reads (ListServiceAccountKeysPage email page_size token)" "reads (GetCustomRole n)" "reads (ListCustomRoles p deleted)"
  "reads (IsOrgPolicyConstraintEnforced resource c)"
proof -
  have parent: "preserves I (CRMParent r)" for I r
    unfolding CRMParent_def GetFolder_def by (intro preserves_intros)
  have "preserves I (enforced_walk fuel seen cur c')" for I fuel seen cur c'
    by (induction fuel arbitrary: seen cur) (auto simp: GetOrgPolicy_def intro!: preserves_intros parent)
  then show "reads (IsOrgPolicyConstraintEnforced resource c)"
    unfolding IsOrgPolicyConstraintEnforced_def by (intro reads_preserves preserves_intros)
  show "reads (ListServiceAccountKeysPage email page_size token)" "reads (GetCustomRole n)" "reads (ListCustomRoles p deleted)"
    unfolding ListServiceAccountKeysPage_def ListCustomRoles_def Let_def by (intro reads_preserves preserves_intros)+
qed

lemma preserves_if_cases:
  "(b \<Longrightarrow> preserves I m) \<Longrightarrow> (\<not> b \<Longrightarrow> preserves I n) \<Longrightarrow> preserves I (if b then m else n)"
  by simp

lemmas preserves_iam_reads =
  iam_reads [THEN reads_in_parts(1), THEN preserves_reads] iam_more_reads [THEN reads_in_parts(1), THEN preserves_reads]
  iam_list_reads [THEN reads_in_parts(1), THEN preserves_reads]

text \<open>A request that may add a token, and one that may add a key.\<close>

definition mint_request :: "iam_route \<times> iam_request \<Rightarrow> bool" where
  "mint_request rr \<longleftrightarrow> fst rr = PostAccount \<and> account_verb (snd rr) = ''generateAccessToken''"

lemma iam_preserves:
  assumes writes: "kept_by_writes J"
    and token: "\<And>now email expiry. mint_request rr \<Longrightarrow>
      preserves J (PutAccessToken now (HashToken (token_crypto L) (newAccessToken (iam_hex (snd rr)))) email expiry)"
    and key: "\<And>now k. fst rr = PostKeys \<Longrightarrow> preserves J (CreateServiceAccountKey now k)"
  shows "preserves (\<lambda>db. J (iam db)) (serve_iam L env rr)"
proof -
  obtain route req where rr: "rr = (route, req)" by fastforce
  note part = preserves_in_iam_part
  note ops = writes [unfolded kept_by_writes_def]
  note steps = preserves_intros preserves_iam_reads preserves_reads [OF reads_evaluated]
  have by_verb: "preserves (\<lambda>db. J (iam db)) (account_method L env req verb project sa)"
    if "verb = ''generateAccessToken'' \<Longrightarrow> mint_request (PostAccount, req)" "route = PostAccount" for verb project sa
    unfolding account_method_def setDisabled_def signBlob_def signJwt_def generateAccessToken_def account_getIamPolicy_def
      account_setIamPolicy_def account_testIamPermissions_def Let_def
    using that rr
    by (intro preserves_if_cases; intro steps part) (auto simp: ops intro: token [unfolded rr snd_conv])
  have issue: "preserves (\<lambda>db. J (iam db)) (issue_key L env req sa)" if "route = PostKeys" for sa
    using that unfolding issue_key_def Let_def by (intro steps part) (simp add: key rr)
  show ?thesis
  proof (cases route)
    case PostAccount
    obtain account verb where split: "splitColonAction (decodeAccount (iam_segment req)) = (account, verb)" by fastforce
    have "mint_request (PostAccount, req)" if "verb = ''generateAccessToken''"
      using that by (simp add: mint_request_def account_verb_def split)
    from by_verb [OF this PostAccount] show ?thesis
      unfolding rr PostAccount serve_iam.simps serviceAccountPost_def undeleteServiceAccount_def split prod.case
      by (intro preserves_if steps part) (auto simp: ops)
  qed (simp_all only: rr serve_iam.simps listServiceAccounts_def createServiceAccount_def getServiceAccount_def
      patchServiceAccount_def deleteServiceAccount_def listKeys_def createKey_def getKey_def deleteKey_def listRoles_def
      createRole_def getRole_def patchRole_def deleteRole_def rolePost_def undeleteRole_def Let_def,
      (intro steps part issue; simp add: ops rr)+)
qed

section \<open>The tables stay readable\<close>

lemma elsewhere_decode:
  "kept_by_writes schema_ok" "kept_by_writes roles_decode" "kept_by_writes policies_decode"
  "preserves roles_decode (PutAccessToken now h email expiry)" "preserves policies_decode (PutAccessToken now h email expiry)"
  "preserves roles_decode (CreateServiceAccountKey now k)" "preserves policies_decode (CreateServiceAccountKey now k)"
proof -
  note accounts = CreateServiceAccount_def UpdateServiceAccountDisplayName_def DeleteServiceAccount_def
    UndeleteServiceAccount_def SetServiceAccountDisabled_def DeleteServiceAccountKey_def GetServiceAccount_def
  show "kept_by_writes schema_ok"
    unfolding kept_by_writes_def by (intro conjI allI preserves_intros)
  show "kept_by_writes roles_decode"
    unfolding kept_by_writes_def accounts
    by (intro conjI allI custom_roles_decode roles_decode_ops; (intro preserves_intros preserves_elsewhere)?; simp add: roles_decode_def)
  show "kept_by_writes policies_decode"
    unfolding kept_by_writes_def accounts
    by (intro conjI allI policies_decode_ops; (intro preserves_intros preserves_elsewhere)?; simp add: policies_decode_def)
  show "preserves roles_decode (PutAccessToken now h email expiry)" "preserves policies_decode (PutAccessToken now h email expiry)"
    "preserves roles_decode (CreateServiceAccountKey now k)" "preserves policies_decode (CreateServiceAccountKey now k)"
    unfolding PutAccessToken_def CreateServiceAccountKey_def
    by (intro preserves_intros preserves_elsewhere; simp add: roles_decode_def policies_decode_def)+
qed

lemma iam_serve_ok: "preserves (\<lambda>db. iam_ok (iam db)) (serve_iam L env rr)"
proof -
  have "kept_by_writes iam_ok"
    using elsewhere_decode(1-3) unfolding iam_ok_conj kept_by_writes_def by (auto intro!: preserves_conj)
  then show ?thesis
    by (rule iam_preserves) (unfold iam_ok_conj, (intro preserves_conj elsewhere_decode preserves_intros)+)
qed

text \<open>C15. The IAM tables stay readable in every run of IAM requests: whatever statements fail, keys stay unique, and
  every stored policy and role can be decoded, which is what a decision needs of the store.\<close>
theorem iam_requests_invariant:
  assumes "runs (serve_iam L env) s tr s'" and "iam_ok (iam (tables s))"
  shows "iam_ok (iam (tables s'))"
  by (rule run_preserves [where I = "\<lambda>db. iam_ok (iam db)", OF assms(1) _ assms(2)]) (auto intro: iam_serve_ok)

section \<open>Access tokens\<close>

definition mints :: "'f iam_lib \<Rightarrow> 'f lab_env \<Rightarrow> Lab \<Rightarrow> iam_route \<times> iam_request \<Rightarrow> AccessToken \<Rightarrow> bool" where
  "mints L env db rr row \<longleftrightarrow>
     (\<exists>p sa account req. rr = (PostAccount, req) \<and>
        splitColonAction (decodeAccount (iam_segment req)) = (account, ''generateAccessToken'') \<and>
        account_at (iam db) (req_project req) account = Some sa \<and> \<not> ServiceAccount_Disabled sa \<and>
        req_principal req = Some p \<and>
        permitted env db p ''iam.serviceAccounts.getAccessToken'' [account_resource sa, account_project req sa] \<and>
        AccessToken_token_hash row = HashToken (token_crypto L) (newAccessToken (iam_hex req)) \<and>
        AccessToken_principal_email row = ServiceAccount_Email sa \<and>
        AccessToken_expires_at row \<le> req_now req + 43200 * nanos_per_second)"

lemma tokens_elsewhere: "kept_by_writes (\<lambda>db. set (access_tokens db) \<subseteq> T)"
  "preserves (\<lambda>db. set (access_tokens db) \<subseteq> T) (CreateServiceAccountKey now k)"
proof -
  note defs = CreateServiceAccount_def UpdateServiceAccountDisplayName_def DeleteServiceAccount_def
    UndeleteServiceAccount_def SetServiceAccountDisabled_def DeleteServiceAccountKey_def GetServiceAccount_def
    PutIAMPolicyJSON_def CreateCustomRole_def UpdateCustomRole_def DeleteCustomRole_def UndeleteCustomRole_def
  show "kept_by_writes (\<lambda>db. set (access_tokens db) \<subseteq> T)"
    unfolding kept_by_writes_def defs by (intro conjI allI preserves_intros preserves_elsewhere; simp)
  show "preserves (\<lambda>db. set (access_tokens db) \<subseteq> T) (CreateServiceAccountKey now k)"
    unfolding CreateServiceAccountKey_def by (intro preserves_intros preserves_elsewhere; simp)
qed

lemma put_token_adds:
  assumes "R \<lparr>AccessToken_token_hash = h, AccessToken_principal_email = email, AccessToken_expires_at = expiry,
      AccessToken_created_at = now\<rparr>"
  shows "preserves (\<lambda>db. set (access_tokens db) \<subseteq> T \<union> Collect R) (PutAccessToken now h email expiry)"
proof -
  have "preserves (\<lambda>db. set (access_tokens db) \<subseteq> T \<union> Collect R) (on_table access_tokens access_tokens_update
      (insert_or_replace (same AccessToken_token_hash) \<lparr>AccessToken_token_hash = h, AccessToken_principal_email = email,
         AccessToken_expires_at = expiry, AccessToken_created_at = now\<rparr>))"
    by (rule preserves_on_table) (use assms in \<open>auto simp: insert_or_replace_def\<close>)
  then show ?thesis unfolding PutAccessToken_def by (intro preserves_intros)
qed

lemma token_lifetime_bound: "token_lifetime L env lifetime = Some l \<Longrightarrow> l \<le> 43200 * nanos_per_second"
  by (auto simp: token_lifetime_def nanos_per_second_def split: if_splits option.splits)

text \<open>What generating a token on an account that was found says about the tables and the token.\<close>

lemma generate_token_adds:
  "preserves (\<lambda>db. set (access_tokens (iam db)) \<subseteq> T \<union> {row.
      AccessToken_token_hash row = HashToken (token_crypto L) (newAccessToken (iam_hex req)) \<and>
      AccessToken_principal_email row = ServiceAccount_Email sa \<and>
      AccessToken_expires_at row \<le> req_now req + 43200 * nanos_per_second}) (generateAccessToken L env req project sa)"
proof -
  have "preserves (\<lambda>db. set (access_tokens db) \<subseteq> T \<union> {row.
      AccessToken_token_hash row = HashToken (token_crypto L) (newAccessToken (iam_hex req)) \<and>
      AccessToken_principal_email row = ServiceAccount_Email sa \<and>
      AccessToken_expires_at row \<le> req_now req + 43200 * nanos_per_second})
    (PutAccessToken now (HashToken (token_crypto L) (newAccessToken (iam_hex req))) (ServiceAccount_Email sa) (req_now req + l))"
    if "token_lifetime L env lifetime = Some l" for now l lifetime
    using put_token_adds token_lifetime_bound [OF that] by simp
  note put = preserves_in_iam_part [OF this]
  have lifetime: "preserves I (case token_lifetime L env t of None \<Rightarrow> m | Some l \<Rightarrow> k l)"
    if "preserves I m" "\<And>l. token_lifetime L env t = Some l \<Longrightarrow> preserves I (k l)" for I t and m :: "(Lab, reply) action" and k
    using that by (cases "token_lifetime L env t") auto
  show ?thesis
    unfolding generateAccessToken_def Let_def
    by (intro preserves_credentials preserves_if preserves_return preserves_with_body preserves_computed lifetime
        preserves_attempt put)
qed

lemma guarded_enabled: "guarded (\<lambda>_. \<not> ServiceAccount_Disabled sa) is_success (generateAccessToken L env req project sa)"
  unfolding generateAccessToken_def credentials_def checkVPCSCCredentials_def
  by (intro guarded_option guarded_return guarded_in_permission guarded_gate reads_intros guarded_if)
     (auto intro: guarded_trivial)

lemma found_run:
  assumes "found m message k s = (r, s')" and "tables s' \<noteq> tables s" and "reads m"
  shows "\<exists>x s1. m s = (Inr (Some x), s1) \<and> tables s1 = tables s \<and> k x s1 = (r, s')"
proof -
  obtain r1 s1 where s1: "m s = (r1, s1)" by fastforce
  with assms(3) have t: "tables s1 = tables s" by (rule readsD)
  with assms(1,2) s1 show ?thesis
    by (cases r1) (auto simp: found_def attempt_def catchM_def returnM_def split: option.splits)
qed

lemma mint_step:
  assumes run: "serve_iam L env rr s = (r, s')" and row: "row \<in> set (access_tokens (iam (tables s')))"
  shows "row \<in> set (access_tokens (iam (tables s))) \<or> mints L env (tables s) rr row"
proof (rule disjCI)
  let ?T = "set (access_tokens (iam (tables s)))"
  assume no: "\<not> mints L env (tables s) rr row"
  show "row \<in> ?T"
  proof (rule ccontr)
    assume new: "row \<notin> ?T"
    have "mint_request rr"
    proof (rule ccontr)
      assume "\<not> mint_request rr"
      then have "preserves (\<lambda>db. set (access_tokens (iam db)) \<subseteq> ?T) (serve_iam L env rr)"
        by (intro iam_preserves [where J = "\<lambda>db. set (access_tokens db) \<subseteq> ?T"] tokens_elsewhere) simp
      from preservesD [OF this _ run] row new show False by auto
    qed
    then obtain req account where rr: "rr = (PostAccount, req)"
      and split: "splitColonAction (decodeAccount (iam_segment req)) = (account, ''generateAccessToken'')"
      by (cases rr) (auto simp: mint_request_def account_verb_def prod_eq_iff)
    have changed: "tables s' \<noteq> tables s" using row new by auto
    have "account \<noteq> []" using run changed by (auto simp: rr serviceAccountPost_def split returnM_def)
    with run have "found (in_iam (resolveServiceAccount (req_project req) account)) account_missing
        (\<lambda>sa. generateAccessToken L env req (account_project req sa) sa) s = (r, s')"
      by (simp add: rr serviceAccountPost_def split account_method_def account_project_def)
    from found_run [OF this changed] obtain sa s1 where
      sa: "in_iam (resolveServiceAccount (req_project req) account) s = (Inr (Some sa), s1)" "tables s1 = tables s"
      and gen: "generateAccessToken L env req (account_project req sa) sa s1 = (r, s')"
      by (blast intro: reads_intros)
    have "guarded (\<lambda>db. \<exists>p. req_principal req = Some p \<and>
        permitted env db p ''iam.serviceAccounts.getAccessToken'' [account_resource sa, account_project req sa]) is_success
        (generateAccessToken L env req (account_project req sa) sa)"
      unfolding generateAccessToken_def by (rule guarded_credentials) blast
    with gen changed sa(2) obtain p where "req_principal req = Some p"
      "permitted env (tables s) p ''iam.serviceAccounts.getAccessToken'' [account_resource sa, account_project req sa]"
      unfolding guarded_def by metis
    moreover have "\<not> ServiceAccount_Disabled sa"
      using guarded_enabled [of sa L env req "account_project req sa"] gen changed sa(2) unfolding guarded_def by metis
    moreover have "account_at (iam (tables s)) (req_project req) account = Some sa" by (rule resolve_Inr [OF sa(1)])
    moreover from preservesD [OF generate_token_adds [of ?T] _ gen] sa(2) row new have
      "AccessToken_token_hash row = HashToken (token_crypto L) (newAccessToken (iam_hex req)) \<and>
       AccessToken_principal_email row = ServiceAccount_Email sa \<and>
       AccessToken_expires_at row \<le> req_now req + 43200 * nanos_per_second"
      by auto
    ultimately have "mints L env (tables s) rr row" unfolding mints_def using rr split by blast
    with no show False by contradiction
  qed
qed

interpretation iam_tokens: provenance "serve_iam L env" "\<lambda>db. set (access_tokens (iam db))" "mints L env"
  by unfold_locales (rule mint_step)

text \<open>C10. An access token comes from a permission: every token that is registered after a run of IAM requests, failing
  statements included, and was not before it, is the token of one \<open>generateAccessToken\<close> of the run, whose caller
  had at that time the permission on the account or its project; the account was there and not disabled, the
  token is for that account, and it ends within twelve hours.\<close>
theorem tokens_from_permission:
  assumes "runs (serve_iam L env) s tr s'" and "row \<in> set (access_tokens (iam (tables s')))"
    and "row \<notin> set (access_tokens (iam (tables s)))"
  shows "\<exists>tr1 rr r tr2 s1. tr = tr1 @ (rr, r) # tr2 \<and> runs (serve_iam L env) s tr1 s1 \<and> mints L env (tables s1) rr row"
  using assms by (rule iam_tokens.origin)

section \<open>Keys\<close>

text \<open>The policy that governs the project forbids keys.\<close>

definition keys_forbidden :: "Db \<Rightarrow> string \<Rightarrow> bool" where
  "keys_forbidden db project \<longleftrightarrow>
     (\<exists>n p. n < 32 \<and> governs db (NormalizeOrgConstraint ConstraintDisableServiceAccountKeyCreation) n
        (TrimSpace (projectResource project)) p \<and> booleanSpecEnforced (OrgPolicy_SpecJSON p))"

lemma enforced_keys_forbidden:
  assumes "in_iam (IsOrgPolicyConstraintEnforced (projectResource project) ConstraintDisableServiceAccountKeyCreation) s = (Inr b, s')"
  shows "b = keys_forbidden (iam (tables s)) project"
proof -
  have "TrimSpace ''iam.disableServiceAccountKeyCreation'' = ''iam.disableServiceAccountKeyCreation''"
    by (rule TrimSpace_plain_ends) (simp add: plain_char_def)
  then have "NormalizeOrgConstraint ConstraintDisableServiceAccountKeyCreation \<noteq> []"
    by (simp add: NormalizeOrgConstraint_def ConstraintDisableServiceAccountKeyCreation_def TrimPrefix_def HasPrefix_eval)
  from enforced_by_governing [OF _ this, of "\<lparr>tables = iam (tables s), faults = []\<rparr>" "projectResource project"]
    enforced_Inr [OF assms] show ?thesis
    by (simp add: sql_read_def ok_connection_def keys_forbidden_def)
qed

text \<open>What a read says of the tables, for the steps after it.\<close>

lemma guarded_attempt_value:
  assumes "reads m" and "\<And>s x s'. m s = (Inr x, s') \<Longrightarrow> R x (tables s)" and "\<And>err. \<not> Q (on_err err)"
    and "\<And>x. guarded (\<lambda>db. R x db \<longrightarrow> P db) Q (k x)"
  shows "guarded P Q (attempt m on_err k)"
  unfolding guarded_def
proof (intro allI impI)
  fix s r s'
  assume run: "attempt m on_err k s = (r, s')" and eff: "tables s' \<noteq> tables s \<or> (\<exists>x. r = Inr x \<and> Q x)"
  obtain r1 s1 where s1: "m s = (r1, s1)" by fastforce
  with assms(1) have t: "tables s1 = tables s" by (rule readsD)
  from run eff s1 t assms(3) obtain x where x: "r1 = Inr x"
    by (cases r1) (auto simp: attempt_def catchM_def returnM_def)
  with run s1 have "k x s1 = (r, s')" by (simp add: attempt_def catchM_def)
  with eff t assms(4) [of x] have "R x (tables s1) \<longrightarrow> P (tables s1)" unfolding guarded_def by metis
  with assms(2) s1 x t show "P (tables s)" by metis
qed

definition account_in_project :: "Db \<Rightarrow> string \<Rightarrow> string \<Rightarrow> ServiceAccount option" where
  "account_in_project db projectID account =
     find (\<lambda>sa. ServiceAccount_ProjectID sa = projectID \<and> active sa \<and>
       (ServiceAccount_Email sa = account \<or> ServiceAccount_UniqueID sa = account)) (service_accounts db)"

definition issues :: "'f iam_lib \<Rightarrow> 'f lab_env \<Rightarrow> Lab \<Rightarrow> iam_route \<times> iam_request \<Rightarrow> ServiceAccountKey \<Rightarrow> bool" where
  "issues L env db rr k \<longleftrightarrow>
     (\<exists>p req sa pem. rr = (PostKeys, req) \<and> req_principal req = Some p \<and>
        permitted env db p ''iam.serviceAccountKeys.create'' [projectResource (req_project req)] \<and>
        \<not> keys_forbidden (iam db) (req_project req) \<and>
        account_in_project (iam db) (req_project req) (decodeAccount (iam_segment req)) = Some sa \<and>
        iam_pem req = Inr pem \<and> ServiceAccountKey_SAEmail k = ServiceAccount_Email sa \<and>
        ServiceAccountKey_Name k = account_key_name req sa (iam_hex req) \<and>
        Seal (env_aead env) (req_random req) (json_text L (credentials_json req sa pem)) = Inr (ServiceAccountKey_PrivateKeyData k))"

lemma keys_elsewhere: "kept_by_writes (\<lambda>db. set (sa_keys db) \<subseteq> T)"
  "preserves (\<lambda>db. set (sa_keys db) \<subseteq> T) (PutAccessToken now h email expiry)"
proof -
  note defs = CreateServiceAccount_def UpdateServiceAccountDisplayName_def DeleteServiceAccount_def
    UndeleteServiceAccount_def SetServiceAccountDisabled_def GetServiceAccount_def
    PutIAMPolicyJSON_def CreateCustomRole_def UpdateCustomRole_def DeleteCustomRole_def UndeleteCustomRole_def
  have "preserves (\<lambda>db. set (sa_keys db) \<subseteq> T) (DeleteServiceAccountKey name)" for name
    unfolding DeleteServiceAccountKey_def
    by (intro preserves_intros preserves_on_table) (auto simp: delete_rows_def)
  then show "kept_by_writes (\<lambda>db. set (sa_keys db) \<subseteq> T)"
    unfolding kept_by_writes_def defs by (intro conjI allI; (intro preserves_intros preserves_elsewhere)?; simp)
  show "preserves (\<lambda>db. set (sa_keys db) \<subseteq> T) (PutAccessToken now h email expiry)"
    unfolding PutAccessToken_def by (intro preserves_intros preserves_elsewhere; simp)
qed

text \<open>The columns that \<open>CreateServiceAccountKey\<close> stores as they are.\<close>

lemma create_key_adds:
  assumes "\<And>alg kind created. R (k\<lparr>ServiceAccountKey_KeyAlgorithm := alg, ServiceAccountKey_PrivateKeyType := kind,
      ServiceAccountKey_CreatedAt := created\<rparr>)"
  shows "preserves (\<lambda>db. set (sa_keys db) \<subseteq> T \<union> Collect R) (CreateServiceAccountKey now k)"
proof -
  have row: "preserves (\<lambda>db. set (sa_keys db) \<subseteq> T \<union> Collect R) (on_table_checked sa_keys sa_keys_update
      (insert_row (same ServiceAccountKey_Name) (k\<lparr>ServiceAccountKey_KeyAlgorithm := alg,
        ServiceAccountKey_PrivateKeyType := kind, ServiceAccountKey_CreatedAt := created\<rparr>)))" for alg kind created
    using assms by (intro preserves_on_table_checked) (auto simp: insert_row_def split: if_splits)
  then show ?thesis
    unfolding CreateServiceAccountKey_def Let_def by (intro preserves_intros row)
qed

lemma attempt_run:
  assumes "attempt m on_err k s = (r, s')" and "tables s' \<noteq> tables s" and "reads m"
  shows "\<exists>x s1. m s = (Inr x, s1) \<and> tables s1 = tables s \<and> k x s1 = (r, s')"
proof -
  obtain r1 s1 where s1: "m s = (r1, s1)" by fastforce
  with assms(3) have t: "tables s1 = tables s" by (rule readsD)
  with assms(1,2) s1 show ?thesis
    by (cases r1) (auto simp: attempt_def catchM_def returnM_def)
qed

lemma require_run:
  assumes "require env req permission resource k s = (r, s')" and "tables s' \<noteq> tables s"
  shows "\<exists>s1. tables s1 = tables s \<and> k s1 = (r, s')"
proof (cases "req_principal req")
  case None
  with assms show ?thesis by (auto simp: require_def returnM_def)
next
  case (Some p)
  with assms(1) have "attempt (evaluated env (\<lambda>e. Evaluate (env_runtime env) e (Email p) (IsRoot p) permission resource)) internal
      (\<lambda>allowed. if \<not> allowed then returnM (Rejected (PermissionDenied [])) else k) s = (r, s')"
    by (simp add: require_def)
  from attempt_run [OF this assms(2) reads_evaluated] assms(2) show ?thesis
    by (auto simp: returnM_def split: if_splits)
qed

text \<open>Creating a key on an account that was found.\<close>

lemma issue_key_adds:
  "preserves (\<lambda>db. set (sa_keys (iam db)) \<subseteq> T \<union> {k. ServiceAccountKey_SAEmail k = ServiceAccount_Email sa \<and>
      ServiceAccountKey_Name k = account_key_name req sa (iam_hex req) \<and>
      (\<exists>pem. iam_pem req = Inr pem \<and> Seal (env_aead env) (req_random req) (json_text L (credentials_json req sa pem)) =
         Inr (ServiceAccountKey_PrivateKeyData k))}) (issue_key L env req sa)"
proof -
  have cases: "preserves I (computed c on_err f)" if "\<And>x. c = Inr x \<Longrightarrow> preserves I (f x)"
    for I :: "Lab \<Rightarrow> bool" and c :: "error + string" and on_err f
    using that by (cases c) (auto simp: computed_def intro: preserves_intros)
  show ?thesis
    unfolding issue_key_def Let_def
    by (intro cases preserves_attempt preserves_return preserves_in_iam_part
        [where J = "\<lambda>db. set (sa_keys db) \<subseteq> T \<union> {k. ServiceAccountKey_SAEmail k = ServiceAccount_Email sa \<and>
          ServiceAccountKey_Name k = account_key_name req sa (iam_hex req) \<and>
          (\<exists>pem. iam_pem req = Inr pem \<and> Seal (env_aead env) (req_random req) (json_text L (credentials_json req sa pem)) =
             Inr (ServiceAccountKey_PrivateKeyData k))}"] create_key_adds) simp
qed

lemma guardedD: "guarded P Q m \<Longrightarrow> m s = (r, s') \<Longrightarrow> tables s' \<noteq> tables s \<Longrightarrow> P (tables s)"
  unfolding guarded_def by blast

lemma guarded_in_require: "guarded P is_success k \<Longrightarrow> guarded P is_success (require env req permission resource k)"
  unfolding require_def by (intro guarded_intros reads_intros) simp_all

lemma guarded_allowed_keys:
  "guarded (\<lambda>db. \<not> keys_forbidden (iam db) (req_project req)) is_success (createKey L env req)"
  unfolding createKey_def Let_def
  by (intro guarded_in_require guarded_attempt_value [where R = "\<lambda>b db. b = keys_forbidden (iam db) (req_project req)"]
      reads_intros enforced_keys_forbidden guarded_if guarded_return)
     (auto intro: guarded_trivial)

lemma found_account:
  "in_iam (GetServiceAccountInProject project account) s = (Inr r, s') \<Longrightarrow> account_in_project (iam (tables s)) project account = r"
  unfolding GetServiceAccountInProject_def account_in_project_def by (auto dest!: in_iam_query_Inr)

lemma createKey_run:
  assumes "createKey L env req s = (r, s')" and "tables s' \<noteq> tables s"
  shows "\<exists>sa s1. account_in_project (iam (tables s)) (req_project req) (decodeAccount (iam_segment req)) = Some sa \<and>
    tables s1 = tables s \<and> issue_key L env req sa s1 = (r, s')"
proof -
  from require_run [OF assms(1) [unfolded createKey_def Let_def] assms(2)] obtain s1 where s1: "tables s1 = tables s"
    and "attempt (in_iam (IsOrgPolicyConstraintEnforced (projectResource (req_project req)) ConstraintDisableServiceAccountKeyCreation))
      internal (\<lambda>enforced. if enforced then returnM (failed_precondition
         ''Service account key creation is disabled by organization policy constraint iam.disableServiceAccountKeyCreation.'')
       else found (in_iam (GetServiceAccountInProject (req_project req) (decodeAccount (iam_segment req)))) account_missing
         (issue_key L env req)) s1 = (r, s')" by blast
  from attempt_run [OF this(2)] assms(2) s1 obtain b s2 where s2: "tables s2 = tables s"
    and "(if b then returnM (failed_precondition
         ''Service account key creation is disabled by organization policy constraint iam.disableServiceAccountKeyCreation.'')
       else found (in_iam (GetServiceAccountInProject (req_project req) (decodeAccount (iam_segment req)))) account_missing
         (issue_key L env req)) s2 = (r, s')"
    by (auto intro!: reads_intros)
  with assms(2) have "found (in_iam (GetServiceAccountInProject (req_project req) (decodeAccount (iam_segment req))))
      account_missing (issue_key L env req) s2 = (r, s')"
    by (auto simp: returnM_def split: if_splits)
  from found_run [OF this] assms(2) s2 obtain sa s3 where
    "in_iam (GetServiceAccountInProject (req_project req) (decodeAccount (iam_segment req))) s2 = (Inr (Some sa), s3)"
    "tables s3 = tables s" "issue_key L env req sa s3 = (r, s')"
    by (auto intro!: reads_intros)
  with found_account s2 show ?thesis by metis
qed

lemma issue_step:
  assumes run: "serve_iam L env rr s = (r, s')" and row: "k \<in> set (sa_keys (iam (tables s')))"
  shows "k \<in> set (sa_keys (iam (tables s))) \<or> issues L env (tables s) rr k"
proof (rule disjCI)
  let ?T = "set (sa_keys (iam (tables s)))"
  assume no: "\<not> issues L env (tables s) rr k"
  show "k \<in> ?T"
  proof (rule ccontr)
    assume new: "k \<notin> ?T"
    then have changed: "tables s' \<noteq> tables s" using row by auto
    have "fst rr = PostKeys"
    proof (rule ccontr)
      assume "fst rr \<noteq> PostKeys"
      then have "preserves (\<lambda>db. set (sa_keys (iam db)) \<subseteq> ?T) (serve_iam L env rr)"
        by (intro iam_preserves [where J = "\<lambda>db. set (sa_keys db) \<subseteq> ?T"] keys_elsewhere) simp
      from preservesD [OF this _ run] row new show False by auto
    qed
    then obtain req where rr: "rr = (PostKeys, req)" by (cases rr) auto
    with run have create: "createKey L env req s = (r, s')" by simp
    from guardedD [OF iam_guarded run changed] obtain p where
      p: "req_principal req = Some p" "permitted env (tables s) p ''iam.serviceAccountKeys.create'' [projectResource (req_project req)]"
      by (auto simp: rr iam_allowed_def iam_on_project_def split: option.splits)
    have allowed: "\<not> keys_forbidden (iam (tables s)) (req_project req)"
      by (rule guardedD [OF guarded_allowed_keys create changed])
    from createKey_run [OF create changed] obtain sa s1 where
      sa: "account_in_project (iam (tables s)) (req_project req) (decodeAccount (iam_segment req)) = Some sa"
      and s1: "tables s1 = tables s" and issue: "issue_key L env req sa s1 = (r, s')" by blast
    from preservesD [OF issue_key_adds [of ?T] _ issue] s1 row new obtain pem where
      "ServiceAccountKey_SAEmail k = ServiceAccount_Email sa" "ServiceAccountKey_Name k = account_key_name req sa (iam_hex req)"
      "iam_pem req = Inr pem" "Seal (env_aead env) (req_random req) (json_text L (credentials_json req sa pem)) =
         Inr (ServiceAccountKey_PrivateKeyData k)"
      by auto
    with no rr p allowed sa show False unfolding issues_def by blast
  qed
qed

interpretation iam_keys: provenance "serve_iam L env" "\<lambda>db. set (sa_keys (iam db))" "issues L env"
  by unfold_locales (rule issue_step)

text \<open>C11. No key is created where the organization forbids it: every service account key that is stored after a run of
  IAM requests, failing statements included, and was not before it, comes from one request of the run, whose
  caller had the permission on the project, at a time when no policy that governs the project enforced
  \<open>iam.disableServiceAccountKeyCreation\<close>; that binds the root principal too. The key belongs to an account of that
  project, and its credentials are stored sealed only.\<close>
theorem keys_from_permission:
  assumes "runs (serve_iam L env) s tr s'" and "k \<in> set (sa_keys (iam (tables s')))"
    and "k \<notin> set (sa_keys (iam (tables s)))"
  shows "\<exists>tr1 rr r tr2 s1. tr = tr1 @ (rr, r) # tr2 \<and> runs (serve_iam L env) s tr1 s1 \<and> issues L env (tables s1) rr k"
  using assms by (rule iam_keys.origin)

end
