(* ===== verification/Iam_Requests.thy ===== *)
theory Iam_Requests
  imports Iam_Provenance
begin

text \<open>
  IAM requests and what they do to later decisions: a generated token authenticates as the account, and goes on doing
  so when the account is disabled or deleted.
\<close>

section \<open>A generated token\<close>

fun reply_member :: "string \<Rightarrow> reply \<Rightarrow> string option" where
  "reply_member name (Reply (JObj ms)) = (case map_of ms name of Some (JStr t) \<Rightarrow> Some t | _ \<Rightarrow> None)"
| "reply_member name _ = None"

lemma token_lifetime_positive: "token_lifetime L env lifetime = Some l \<Longrightarrow> 0 < l"
  by (auto simp: token_lifetime_def nanos_per_second_def split: if_splits option.splits)

lemma gate_success:
  assumes "gate m k s = (Inr r, s')" and "is_success r"
  shows "\<exists>s0. m s = (Inr None, s0) \<and> k s0 = (Inr r, s')"
proof -
  obtain x s0 where "m s = (x, s0)" by fastforce
  with assms show ?thesis
    by (cases x) (auto simp: gate_def bindM_def returnM_def split: option.splits)
qed

lemma credentials_success:
  assumes "credentials env req permission project sa k s = (Inr r, s')" and "is_success r"
  shows "\<exists>s0. tables s0 = tables s \<and> k s0 = (Inr r, s')"
proof -
  from assms obtain p where "with_permission env p permission [account_resource sa, project]
      (checkVPCSCCredentials env p sa k) s = (Inr r, s')"
    by (auto simp: credentials_def returnM_def split: option.splits)
  from with_permission_success [OF this assms(2)] obtain s1 where
    s1: "tables s1 = tables s" and "checkVPCSCCredentials env p sa k s1 = (Inr r, s')" by blast
  from gate_success [OF this(2) [unfolded checkVPCSCCredentials_def] assms(2)] obtain s2 where
    g: "in_iam (RequireVPCSCPrincipal (env_vpcsc env) p (ServiceAccount_ProjectID sa) ''iamcredentials.googleapis.com'') s1 = (Inr None, s2)"
    and k: "k s2 = (Inr r, s')" by blast
  have "reads (in_iam (RequireVPCSCPrincipal (env_vpcsc env) p (ServiceAccount_ProjectID sa) ''iamcredentials.googleapis.com''))"
    by (intro reads_intros)
  from readsD [OF this g] s1 k show ?thesis by auto
qed

lemma with_body_success:
  "with_body req k s = (Inr r, s') \<Longrightarrow> is_success r \<Longrightarrow> k (req_body req) s = (Inr r, s')"
  by (auto simp: with_body_def returnM_def split: if_splits)

lemma put_token_Inr:
  assumes "in_iam (PutAccessToken now h email expiry) s = (Inr u, s')"
  shows "iam (tables s') = access_tokens_update (\<lambda>_. snd (insert_or_replace (same AccessToken_token_hash)
    \<lparr>AccessToken_token_hash = h, AccessToken_principal_email = email, AccessToken_expires_at = expiry,
     AccessToken_created_at = now\<rparr> (access_tokens (iam (tables s))))) (iam (tables s))"
proof -
  from assms obtain t where t: "PutAccessToken now h email expiry \<lparr>tables = iam (tables s), faults = faults s\<rparr> = (Inr u, t)"
    and s': "iam (tables s') = tables t"
    by (auto simp: inside_def split: prod.splits)
  from t obtain n t1 where "on_table access_tokens access_tokens_update (insert_or_replace (same AccessToken_token_hash)
      \<lparr>AccessToken_token_hash = h, AccessToken_principal_email = email, AccessToken_expires_at = expiry,
       AccessToken_created_at = now\<rparr>) \<lparr>tables = iam (tables s), faults = faults s\<rparr> = (Inr n, t1)" "t = t1"
    by (auto simp: PutAccessToken_def bindM_def returnM_def split: prod.splits sum.splits)
  from on_table_Inr [OF this(1)] this(2) s' show ?thesis by simp
qed

text \<open>What a success of \<open>generateAccessToken\<close> says.\<close>

lemma generate_success:
  assumes "generateAccessToken L env req project sa s = (Inr r, s')" and "is_success r"
  shows "\<exists>expiry created. reply_member ''accessToken'' r = Some (newAccessToken (iam_hex req)) \<and> req_now req < expiry \<and>
    expiry \<le> req_now req + 43200 * nanos_per_second \<and>
    iam (tables s') = access_tokens_update (\<lambda>_. snd (insert_or_replace (same AccessToken_token_hash)
      \<lparr>AccessToken_token_hash = HashToken (token_crypto L) (newAccessToken (iam_hex req)),
       AccessToken_principal_email = ServiceAccount_Email sa, AccessToken_expires_at = expiry,
       AccessToken_created_at = created\<rparr> (access_tokens (iam (tables s))))) (iam (tables s))"
proof -
  let ?h = "HashToken (token_crypto L) (newAccessToken (iam_hex req))"
  from credentials_success [OF assms(1) [unfolded generateAccessToken_def] assms(2)] obtain s0 where s0: "tables s0 = tables s"
    and "(if ServiceAccount_Disabled sa then returnM (failed_precondition ''service account is disabled'')
      else with_body req (\<lambda>body. computed (if body = None then Inr \<lparr>Token_Delegates = [], Token_Scope = [], Token_Lifetime = []\<rparr>
          else Unmarshal_body decode_token_body body \<lparr>Token_Delegates = [], Token_Scope = [], Token_Lifetime = []\<rparr>)
        (invalid ''invalid JSON body'') (\<lambda>b.
        if Token_Scope b = [] then returnM (Rejected (InvalidArgument ''scope is required''))
        else case token_lifetime L env (Token_Lifetime b) of
            None \<Rightarrow> returnM (Rejected (InvalidArgument ''lifetime must be a Duration ending in s, between 1s and 43200s''))
          | Some lifetime \<Rightarrow>
              let token = newAccessToken (iam_hex req); expire = req_now req + lifetime in
              attempt (in_iam (PutAccessToken (nano_text env req) (HashToken (token_crypto L) token)
                  (ServiceAccount_Email sa) expire)) internal (\<lambda>_.
              returnM (Reply (marshal_map [(''accessToken'', JStr token),
                (''expireTime'', JStr (env_stamp env (FormatRFC3339Nano expire)))])))))) s0 = (Inr r, s')"
    by blast
  with assms(2) obtain l lifetime where lifetime: "token_lifetime L env lifetime = Some l"
    and put: "attempt (in_iam (PutAccessToken (nano_text env req) ?h (ServiceAccount_Email sa) (req_now req + l))) internal
      (\<lambda>_. returnM (Reply (marshal_map [(''accessToken'', JStr (newAccessToken (iam_hex req))),
        (''expireTime'', JStr (env_stamp env (FormatRFC3339Nano (req_now req + l))))]))) s0 = (Inr r, s')"
    by (auto simp: returnM_def Let_def split: if_splits option.splits dest!: with_body_success computed_success)
  note l = token_lifetime_positive [OF lifetime] token_lifetime_bound [OF lifetime]
  from attempt_success [OF put assms(2)] obtain u s1 where
    "in_iam (PutAccessToken (nano_text env req) ?h (ServiceAccount_Email sa) (req_now req + l)) s0 = (Inr u, s1)"
    and "r = Reply (marshal_map [(''accessToken'', JStr (newAccessToken (iam_hex req))),
      (''expireTime'', JStr (env_stamp env (FormatRFC3339Nano (req_now req + l))))])" and "s' = s1"
    by (auto simp: returnM_def)
  with put_token_Inr [OF this(1)] s0 l show ?thesis
    by (intro exI [of _ "req_now req + l"] exI [of _ "nano_text env req"]) (auto simp: marshal_map_def)
qed

lemma post_success:
  assumes "serve_iam L env (PostAccount, req) s = (Inr r, s')" and "is_success r"
    and "splitColonAction (decodeAccount (iam_segment req)) = (account, verb)" and "verb \<noteq> ''undelete''"
  shows "\<exists>sa s1. account_at (iam (tables s)) (req_project req) account = Some sa \<and> tables s1 = tables s \<and>
    account_method L env req verb (account_project req sa) sa s1 = (Inr r, s')"
proof -
  from assms have "found (in_iam (resolveServiceAccount (req_project req) account)) account_missing
      (\<lambda>sa. account_method L env req verb (account_project req sa) sa) s = (Inr r, s')"
    by (auto simp: serviceAccountPost_def account_project_def returnM_def split: if_splits)
  from found_success [OF this assms(2)] obtain sa s1 where
    sa: "in_iam (resolveServiceAccount (req_project req) account) s = (Inr (Some sa), s1)"
    and m: "account_method L env req verb (account_project req sa) sa s1 = (Inr r, s')" by blast
  have "reads (in_iam (resolveServiceAccount (req_project req) account))" by (intro reads_intros)
  from readsD [OF this sa] resolve_Inr [OF sa] m show ?thesis by blast
qed

text \<open>The authenticator on a registered token.\<close>

lemma registered_authenticates:
  assumes "find (\<lambda>r. AccessToken_token_hash r = HashToken J token) (access_tokens db) = Some row"
    and "t < AccessToken_expires_at row" and "AccessToken_principal_email row \<noteq> []" and "token \<noteq> rootToken"
  shows "AuthenticateToken J t (serverAuthenticator rootSA rootToken users db) token =
    Inr \<lparr>Email = AccessToken_principal_email row, IsRoot = False\<rparr>"
  using assms by (simp add: server_authenticate LookupAccessToken_read)

text \<open>C12. Impersonation works and is bounded: when \<open>generateAccessToken\<close> succeeds on an account, the token it replies
  with authenticates as that account, never as root, at every time before an expiry at most twelve hours
  away, and the account was there and enabled.\<close>
theorem generated_token_impersonates:
  assumes "serve_iam L env (PostAccount, req) s = (Inr r, s')" and "is_success r"
    and "splitColonAction (decodeAccount (iam_segment req)) = (account, ''generateAccessToken'')"
    and "\<forall>sa. account_at (iam (tables s)) (req_project req) account = Some sa \<longrightarrow> ServiceAccount_Email sa \<noteq> []"
  shows "\<exists>sa token expiry. account_at (iam (tables s)) (req_project req) account = Some sa \<and> \<not> ServiceAccount_Disabled sa \<and>
    reply_member ''accessToken'' r = Some token \<and> req_now req < expiry \<and> expiry \<le> req_now req + 43200 * nanos_per_second \<and>
    (\<forall>t rootSA rootToken users. t < expiry \<longrightarrow> token \<noteq> rootToken \<longrightarrow>
       AuthenticateToken (token_crypto L) t (serverAuthenticator rootSA rootToken users (iam (tables s'))) token =
         Inr \<lparr>Email = ServiceAccount_Email sa, IsRoot = False\<rparr>)"
proof -
  from post_success [OF assms(1-3)] obtain sa s1 where sa: "account_at (iam (tables s)) (req_project req) account = Some sa"
    and s1: "tables s1 = tables s" and run: "generateAccessToken L env req (account_project req sa) sa s1 = (Inr r, s')"
    by (auto simp: account_method_def)
  let ?token = "newAccessToken (iam_hex req)"
  from generate_success [OF run assms(2)] s1 obtain expiry created where
    reply: "reply_member ''accessToken'' r = Some ?token" and expiry: "req_now req < expiry"
      "expiry \<le> req_now req + 43200 * nanos_per_second"
    and tokens: "access_tokens (iam (tables s')) = snd (insert_or_replace (same AccessToken_token_hash)
      \<lparr>AccessToken_token_hash = HashToken (token_crypto L) ?token, AccessToken_principal_email = ServiceAccount_Email sa,
       AccessToken_expires_at = expiry, AccessToken_created_at = created\<rparr> (access_tokens (iam (tables s))))"
    by auto
  have "find (\<lambda>r. AccessToken_token_hash r = HashToken (token_crypto L) ?token) (access_tokens (iam (tables s'))) =
      Some \<lparr>AccessToken_token_hash = HashToken (token_crypto L) ?token, AccessToken_principal_email = ServiceAccount_Email sa,
       AccessToken_expires_at = expiry, AccessToken_created_at = created\<rparr>"
    by (simp add: tokens find_replaced)
  note auth = registered_authenticates [OF this]
  have "ServiceAccount_Email sa \<noteq> []" using assms(4) sa by blast
  moreover have "\<not> ServiceAccount_Disabled sa"
    using guarded_enabled [of sa L env req "account_project req sa"] run assms(2) unfolding guarded_def by blast
  ultimately show ?thesis using sa reply expiry auth by auto
qed

section \<open>Tokens outlive their accounts\<close>

lemma find_token_kept:
  "kept_by_writes (\<lambda>db. find (\<lambda>r. AccessToken_token_hash r = h) (access_tokens db) = Some row)"
  "preserves (\<lambda>db. find (\<lambda>r. AccessToken_token_hash r = h) (access_tokens db) = Some row) (CreateServiceAccountKey now k)"
  "h' \<noteq> h \<Longrightarrow> preserves (\<lambda>db. find (\<lambda>r. AccessToken_token_hash r = h) (access_tokens db) = Some row)
     (PutAccessToken now h' email expiry)"
proof -
  note defs = CreateServiceAccount_def UpdateServiceAccountDisplayName_def DeleteServiceAccount_def
    UndeleteServiceAccount_def SetServiceAccountDisabled_def DeleteServiceAccountKey_def GetServiceAccount_def
    PutIAMPolicyJSON_def CreateCustomRole_def UpdateCustomRole_def DeleteCustomRole_def UndeleteCustomRole_def
  let ?J = "\<lambda>db. find (\<lambda>r. AccessToken_token_hash r = h) (access_tokens db) = Some row"
  show "kept_by_writes ?J"
    unfolding kept_by_writes_def defs by (intro conjI allI preserves_intros preserves_elsewhere; simp)
  show "preserves ?J (CreateServiceAccountKey now k)"
    unfolding CreateServiceAccountKey_def by (intro preserves_intros preserves_elsewhere; simp)
  assume "h' \<noteq> h"
  then show "preserves ?J (PutAccessToken now h' email expiry)"
    unfolding PutAccessToken_def
    by (intro preserves_intros preserves_on_table) (auto simp: find_replaced dest!: snd_eqD)
qed

text \<open>C13. A token outlives its account: once a token is registered, no run of IAM requests, failing statements
  included, takes it away before its expiry, be the account disabled, deleted, or stripped of its policies in the
  run: it still authenticates as the account, as long as the run does not draw the same token again.\<close>
theorem token_outlives_account:
  assumes "runs (serve_iam L env) s tr s'"
    and "find (\<lambda>r. AccessToken_token_hash r = HashToken (token_crypto L) token) (access_tokens (iam (tables s))) = Some row"
    and "\<forall>(rr, r) \<in> set tr. HashToken (token_crypto L) (newAccessToken (iam_hex (snd rr))) \<noteq> HashToken (token_crypto L) token"
    and "t < AccessToken_expires_at row" and "AccessToken_principal_email row \<noteq> []" and "token \<noteq> rootToken"
  shows "AuthenticateToken (token_crypto L) t (serverAuthenticator rootSA rootToken users (iam (tables s'))) token =
    Inr \<lparr>Email = AccessToken_principal_email row, IsRoot = False\<rparr>"
proof (rule registered_authenticates [OF _ assms(4-6)])
  let ?h = "HashToken (token_crypto L) token"
  have "preserves (\<lambda>db. find (\<lambda>r. AccessToken_token_hash r = ?h) (access_tokens (iam db)) = Some row) (serve_iam L env rr)"
    if "HashToken (token_crypto L) (newAccessToken (iam_hex (snd rr))) \<noteq> ?h" for rr
    using that by (intro iam_preserves [where J = "\<lambda>db. find (\<lambda>r. AccessToken_token_hash r = ?h) (access_tokens db) = Some row"] find_token_kept)
  with assms(3) show "find (\<lambda>r. AccessToken_token_hash r = ?h) (access_tokens (iam (tables s'))) = Some row"
    by (intro run_preserves [where I = "\<lambda>db. find (\<lambda>r. AccessToken_token_hash r = ?h) (access_tokens (iam db)) = Some row",
        OF assms(1) _ assms(2)]) blast
qed

section \<open>A patched role\<close>

lemma require_passes:
  assumes "ok_connection s" and "req_principal req = Some p" and "permitted env (tables s) p permission [resource]"
  shows "require env req permission resource k s = k s"
  using assms by (simp add: require_def attempt_def catchM_def evaluated_ok permitted_one liftE_def)

end
