(* ===== verification/Iam_Examples.thy ===== *)
theory Iam_Examples
  imports Iam_Requests Secret_Requests Kms_Examples
begin

text \<open>Instances of the theorems of the IAM requests on a project with one service account.\<close>

definition example_iam_lib :: "int iam_lib" where
  "example_iam_lib = \<lparr>Sum256 = (\<lambda>s. s), json_text = (\<lambda>_. []), text_json = (\<lambda>t. Malformed t), float_int64 = (\<lambda>x. x),
     token_crypto = example_crypto\<rparr>"

definition example_account :: ServiceAccount where
  "example_account = \<lparr>ServiceAccount_ProjectID = ''p'', ServiceAccount_Email = ''a'', ServiceAccount_UniqueID = [],
     ServiceAccount_DisplayName = [], ServiceAccount_Disabled = False, ServiceAccount_DeletedAt = [],
     ServiceAccount_CreatedAt = []\<rparr>"

definition example_iam :: "Lab connection" where
  "example_iam = example_lab\<lparr>tables := (tables example_lab)\<lparr>iam := empty_Db\<lparr>service_accounts := [example_account]\<rparr>\<rparr>\<rparr>"

definition example_iam_request :: "Principal option \<Rightarrow> string \<Rightarrow> document \<Rightarrow> iam_request" where
  "example_iam_request p segment body = \<lparr>req_principal = p, req_project = ''p'', req_secret = [], req_version = [],
     req_query = (\<lambda>_. []), req_body = Some body, req_body_error = None, req_first = Some body, req_now = 0,
     req_random = Inr example_nonce, iam_segment = segment, iam_key = [], iam_unique = 0, iam_hex = ''00'', iam_pem = Inr []\<rparr>"

definition example_mint :: "iam_route \<times> iam_request" where
  "example_mint = (PostAccount, example_iam_request (Some example_root) ''a:generateAccessToken''
     (Json (JObj [(''scope'', JArr [JStr ''all''])])))"

definition example_issue :: "iam_route \<times> iam_request" where
  "example_issue = (PostKeys, example_iam_request (Some example_root) ''a'' (Json (JObj [])))"

lemma example_segments:
  "splitColonAction (decodeAccount ''a:generateAccessToken'') = (''a'', ''generateAccessToken'')" "decodeAccount ''a'' = ''a''"
  by code_simp+

lemma example_iam_connection: "ok_connection example_iam"
  by (simp add: ok_connection_def example_iam_def example_lab_def)

lemma example_resolved: "in_iam (resolveServiceAccount ''p'' ''a'') example_iam = (Inr (Some example_account), example_iam)"
  by (simp add: resolveServiceAccount_def GetServiceAccountInProject_def inside_def query_def next_fault_def active_def
     example_iam_def example_lab_def example_account_def empty_Db_def)

definition example_token :: AccessToken where
  "example_token = \<lparr>AccessToken_token_hash = ''ngsa_00'', AccessToken_principal_email = ''a'',
     AccessToken_expires_at = 3600 * nanos_per_second, AccessToken_created_at = []\<rparr>"

definition example_minted :: "Lab connection" where
  "example_minted = example_iam\<lparr>tables := (tables example_iam)\<lparr>iam := (iam (tables example_iam))\<lparr>access_tokens := [example_token]\<rparr>\<rparr>\<rparr>"

lemma example_unset: "\<not> EqualFold [] ''true''"
  by code_simp

lemma example_gate: "in_iam (RequireVPCSCPrincipal [] p project service) example_iam = (Inr None, example_iam)"
  by (simp add: RequireVPCSCPrincipal_def CheckVPCSCPrincipal_def CheckVPCSC_def VPCSCEnforceEnabled_def inside_def returnM_def
    bindM_def catchM_def example_iam_def example_unset)

lemma example_put: "in_iam (PutAccessToken [] ''ngsa_00'' ''a'' (3600 * nanos_per_second)) example_iam = (Inr (), example_minted)"
  by (simp add: PutAccessToken_def inside_def on_table_def exec_def next_fault_def returnM_def insert_or_replace_def
    bindM_def catchM_def example_iam_def example_lab_def empty_Db_def example_minted_def example_token_def)

lemma example_mint_run:
  "serve_iam example_iam_lib example_env example_mint example_iam =
     (Inr (Reply (marshal_map [(''accessToken'', JStr ''ngsa_00''), (''expireTime'', JStr [])])), example_minted)"
proof -
  note pass = with_permission_passes [OF example_iam_connection root_permitted]
  have body: "Unmarshal_body decode_token_body (Some (Json (JObj [(''scope'', JArr [JStr ''all''])])))
      \<lparr>Token_Delegates = [], Token_Scope = [], Token_Lifetime = []\<rparr> =
      Inr \<lparr>Token_Delegates = [], Token_Scope = [''all''], Token_Lifetime = []\<rparr>"
    by (simp add: Unmarshal_body_def decode_token_body_def field_of_def json_field_def)
  have hash: "HashToken (token_crypto example_iam_lib) (newAccessToken ''00'') = ''ngsa_00''"
    by (simp add: HashToken_def example_iam_lib_def example_crypto_def newAccessToken_def)
  show ?thesis
    using example_put
    by (simp add: example_mint_def serviceAccountPost_def example_iam_request_def example_segments found_def attempt_ok example_resolved
        account_method_def generateAccessToken_def credentials_def pass example_root_def checkVPCSCCredentials_def gate_def bindM_def
        example_gate example_env_def with_body_def body computed_def token_lifetime_def nano_text_def hash example_account_def
        returnM_def) (simp add: newAccessToken_def)
qed

lemma example_mint_trace:
  "runs (serve_iam example_iam_lib example_env) example_iam [(example_mint, Inr (Reply (marshal_map
     [(''accessToken'', JStr ''ngsa_00''), (''expireTime'', JStr [])])))] example_minted"
  by (rule run_op, rule example_mint_run, rule run_done)

lemma example_iam_ok: "iam_ok (iam (tables example_iam))"
  by (simp add: iam_ok_def example_iam_def empty_Db_def schema_ok_def keys_distinct_def roles_decode_def policies_decode_def)

theorem iam_requests_mediated_witness:
  "\<exists>r s'. runs (serve_iam example_iam_lib example_env) example_iam [((PostKeys, example_iam_request None ''a'' (Malformed [])), r)] s' \<and>
     tables s' = tables example_iam"
proof -
  let ?rr = "(PostKeys, example_iam_request None ''a'' (Malformed []))"
  obtain r s' where "serve_iam example_iam_lib example_env ?rr example_iam = (r, s')" by fastforce
  then have run: "runs (serve_iam example_iam_lib example_env) example_iam [(?rr, r)] s'" by (blast intro: runs.intros)
  have "\<not> iam_allowed example_env db ?rr" for db
    by (simp add: iam_allowed_def iam_on_project_def example_iam_request_def)
  with iam_requests_mediated [OF run] run show ?thesis by auto
qed

theorem iam_requests_invariant_witness: "iam_ok (iam (tables example_minted))"
  by (rule iam_requests_invariant [OF example_mint_trace example_iam_ok])

theorem tokens_from_permission_witness:
  "\<exists>s1. runs (serve_iam example_iam_lib example_env) example_iam [] s1 \<and>
     mints example_iam_lib example_env (tables s1) example_mint example_token"
proof -
  have "example_token \<in> set (access_tokens (iam (tables example_minted)))"
      "example_token \<notin> set (access_tokens (iam (tables example_iam)))"
    by (simp_all add: example_minted_def example_iam_def empty_Db_def)
  from tokens_from_permission [OF example_mint_trace this] show ?thesis
    by (auto simp: Cons_eq_append_conv)
qed

theorem generated_token_impersonates_witness:
  "AuthenticateToken example_crypto 0 (serverAuthenticator ''r'' ''t'' None (iam (tables example_minted))) ''ngsa_00'' =
     Inr \<lparr>Email = ''a'', IsRoot = False\<rparr>"
proof -
  have at: "account_at (iam (tables example_iam)) ''p'' ''a'' = Some example_account"
    using resolve_Inr [OF example_resolved] .
  have project: "req_project (example_iam_request p segment body) = ''p''" "iam_segment (example_iam_request p segment body) = segment"
      "req_now (example_iam_request p segment body) = 0"
    for p segment body by (simp_all add: example_iam_request_def)
  have crypto: "token_crypto example_iam_lib = example_crypto" by (simp add: example_iam_lib_def)
  from generated_token_impersonates [OF example_mint_run [unfolded example_mint_def], unfolded project, OF _ example_segments(1)] at
  show ?thesis by (auto simp: example_account_def crypto marshal_map_def)
qed

theorem token_outlives_account_witness:
  "\<exists>r s'. serve_iam example_iam_lib example_env
      (DeleteAccount, (example_iam_request (Some example_root) ''a'' (Malformed []))\<lparr>iam_hex := ''11''\<rparr>) example_minted = (r, s') \<and>
     AuthenticateToken example_crypto 0 (serverAuthenticator ''r'' ''t'' None (iam (tables s'))) ''ngsa_00'' =
       Inr \<lparr>Email = ''a'', IsRoot = False\<rparr>"
proof -
  let ?rr = "(DeleteAccount, (example_iam_request (Some example_root) ''a'' (Malformed []))\<lparr>iam_hex := ''11''\<rparr>)"
  obtain r s' where run: "serve_iam example_iam_lib example_env ?rr example_minted = (r, s')" by fastforce
  then have "runs (serve_iam example_iam_lib example_env) example_minted [(?rr, r)] s'" by (blast intro: runs.intros)
  from token_outlives_account [OF this, of "''ngsa_00''" example_token 0 "''t''" "''r''" None] run show ?thesis
    by (simp add: example_minted_def example_token_def HashToken_def example_iam_lib_def example_crypto_def newAccessToken_def
        nanos_per_second_def)
qed

lemma example_open: "in_iam (IsOrgPolicyConstraintEnforced ''projects/p'' ConstraintDisableServiceAccountKeyCreation) example_iam =
    (Inr False, example_iam)"
proof -
  have "IsOrgPolicyConstraintEnforced ''projects/p'' ConstraintDisableServiceAccountKeyCreation
     \<lparr>tables = empty_Db\<lparr>service_accounts := [example_account]\<rparr>, faults = []\<rparr> =
     (Inr False, \<lparr>tables = empty_Db\<lparr>service_accounts := [example_account]\<rparr>, faults = []\<rparr>)"
    by code_simp
  then show ?thesis by (simp add: inside_def example_iam_def example_lab_def)
qed

lemma example_in_project: "in_iam (GetServiceAccountInProject ''p'' ''a'') example_iam = (Inr (Some example_account), example_iam)"
  using example_resolved by (simp add: resolveServiceAccount_def)

lemma example_stored:
  assumes "ServiceAccountKey_Name k \<noteq> []" "ServiceAccountKey_SAEmail k \<noteq> []" "ServiceAccountKey_PrivateKeyData k \<noteq> []"
  shows "\<exists>r s'. attempt (in_iam (CreateServiceAccountKey now k)) internal (\<lambda>_. returnM x) example_iam = (Inr r, s') \<and>
    sa_keys (iam (tables s')) \<noteq> []"
  using assms
  by (simp add: CreateServiceAccountKey_def inside_def on_table_checked_def next_fault_def returnM_def insert_row_def catchM_def
      Let_def example_iam_def example_lab_def empty_Db_def exec_def attempt_def)

theorem keys_from_permission_witness:
  "\<exists>k s1. runs (serve_iam example_iam_lib example_env) example_iam [] s1 \<and>
     issues example_iam_lib example_env (tables s1) example_issue k"
proof -
  let ?req = "example_iam_request (Some example_root) ''a'' (Json (JObj []))"
  have req: "req_project ?req = ''p''" "iam_segment ?req = ''a''" "req_principal ?req = Some example_root" "iam_pem ?req = Inr []"
      "req_random ?req = Inr example_nonce"
    by (simp_all add: example_iam_request_def)
  have "permitted example_env (tables example_iam) example_root ''iam.serviceAccountKeys.create'' [''projects/p'']"
    by (rule root_permitted) (simp add: example_root_def)
  note pass = require_passes [OF example_iam_connection req(3) this]
  have seal: "Seal (env_aead example_env) (Inr example_nonce) [] = Inr example_nonce"
    by (simp add: Seal_def example_env_def example_aead_def example_nonce_size)
  have enforced: "attempt (in_iam (IsOrgPolicyConstraintEnforced ''projects/p'' ConstraintDisableServiceAccountKeyCreation)) on_err k
      example_iam = k False example_iam" for on_err k
    by (simp add: attempt_def catchM_def example_open)
  note run = example_issue_def createKey_def req projectResource_def pass attempt_ok enforced example_segments
      found_def example_in_project issue_key_def computed_def example_iam_lib_def Let_def
  have "\<exists>r s'. serve_iam example_iam_lib example_env example_issue example_iam = (Inr r, s') \<and> sa_keys (iam (tables s')) \<noteq> []"
    by (simp add: run seal, intro conjI impI example_stored) (simp_all add: account_key_name_def example_account_def example_nonce_def)
  then obtain k s' where "serve_iam example_iam_lib example_env example_issue example_iam = (Inr k, s')"
    and keys: "sa_keys (iam (tables s')) \<noteq> []" by blast
  then have "runs (serve_iam example_iam_lib example_env) example_iam [(example_issue, Inr k)] s'"
    by (blast intro: runs.intros)
  moreover from keys obtain key where "key \<in> set (sa_keys (iam (tables s')))"
    by (meson last_in_set)
  moreover have "key \<notin> set (sa_keys (iam (tables example_iam)))" by (simp add: example_iam_def empty_Db_def)
  ultimately have "\<exists>tr1 rr r tr2 s1. [(example_issue, Inr k)] = tr1 @ (rr, r) # tr2 \<and>
      runs (serve_iam example_iam_lib example_env) example_iam tr1 s1 \<and>
      issues example_iam_lib example_env (tables s1) rr key"
    by (rule keys_from_permission)
  then show ?thesis by (auto simp: Cons_eq_append_conv)
qed

text \<open>One request to each service: the first two on a store whose next statement fails, the others with an effect.\<close>

theorem requests_answered_witness:
  "\<exists>r1 r2 r3 r4 t1 t2.
     runs (serve_secret example_env) (example_lab\<lparr>faults := [Some (Errorf ''disk'')]\<rparr>)
       [((DeleteSecretRoute, example_secret_request (Some example_root) ''s'' []), Inr r1)] t1 \<and> written r1 \<and>
     runs (serve_grpc example_env (\<lambda>_. [])) (example_lab\<lparr>faults := [Some (Errorf ''disk'')]\<rparr>)
       [((example_call (Some example_root), DestroyRPC ''n''), Inr r2)] t2 \<and> grpc_written r2 \<and>
     runs (kms_dispatch example_kms_lib example_env) (example_kms KMSStateEnabled) [(example_encrypt, Inr r3)]
       (example_kms KMSStateEnabled) \<and> written r3 \<and>
     runs (serve_iam example_iam_lib example_env) example_iam [(example_mint, Inr r4)] example_minted \<and> written r4"
proof -
  let ?failing = "example_lab\<lparr>faults := [Some (Errorf ''disk'')]\<rparr>"
  let ?q1 = "(DeleteSecretRoute, example_secret_request (Some example_root) ''s'' [])"
  let ?q2 = "(example_call (Some example_root), DestroyRPC ''n'')"
  obtain r1 t1 where "serve_secret example_env ?q1 ?failing = (r1, t1)" by fastforce
  then have one: "runs (serve_secret example_env) ?failing [(?q1, r1)] t1" by (blast intro: runs.intros)
  obtain r2 t2 where "serve_grpc example_env (\<lambda>_. []) ?q2 ?failing = (r2, t2)" by fastforce
  then have two: "runs (serve_grpc example_env (\<lambda>_. [])) ?failing [(?q2, r2)] t2" by (blast intro: runs.intros)
  obtain x1 x2 where one': "r1 = Inr x1" "written x1" and two': "r2 = Inr x2" "grpc_written x2"
    using requests_answered [OF one two example_encrypt_run example_mint_trace] by auto
  show ?thesis
    by (intro exI conjI, rule one [unfolded one'(1)], rule one'(2), rule two [unfolded two'(1)], rule two'(2),
        rule example_encrypt_run, simp, rule example_mint_trace, simp)
qed

end
