(* ===== verification/Spec2Isabelle.thy ===== *)
theory Spec2Isabelle
  imports Iam_Decisions Iam_On_Store Http_Gate Identity_Theorems Custom_Roles Crm_Store Org_Policy Perimeters
    Api_Gates Egress Pubsub_Delivery Secrets_Lifecycle Secret_Equivalence Kms_Examples Iam_Examples
begin

text \<open>
  A verification library for the core of Noctaxris-GCP, an emulator of Google Cloud APIs for security labs.

  \<^bold>\<open>The program.\<close> A request enters through the middleware of \<^verbatim>\<open>internal/server\<close>, which authenticates its
  bearer token (\<^verbatim>\<open>kernel/authn\<close>) unless its path is public, and is dispatched to the handlers of one
  service. A handler asks the IAM evaluator (\<^verbatim>\<open>kernel/authz\<close>) whether the principal has a permission on a
  resource, passes the gates of \<^verbatim>\<open>kernel/restlab\<close> (service usage, VPC service perimeters, actAs), and reads
  and writes the SQLite database of \<^verbatim>\<open>internal/store\<close>, from which the evaluator in turn reads policies,
  custom roles and the resource hierarchy. Requests that the lab sends out pass \<^verbatim>\<open>kernel/httpegress\<close>.

  \<^bold>\<open>The theories\<close>, in the order of their dependencies; names are those of the code.

  \<^item> \<open>Go_Base\<close>: Go's strings (bytes as characters, ASCII case), errors as values, and their lemmas. \<open>Go_Json\<close>:
    JSON values as \<^verbatim>\<open>encoding/json\<close> decodes them into structs and maps and encodes them again; a document is
    a value or a malformed text. \<open>Go_Decode\<close>: decoding that goes on after an error and keeps what was decoded, as
    a handler that ignores the error sees it. \<open>Go_Base64\<close>: \<^verbatim>\<open>encoding/base64\<close>. \<open>Go_Path\<close>: \<^verbatim>\<open>path.Clean\<close>, with the proof that its result is clean.
  \<^item> \<open>Role_Catalogue\<close>, \<open>Role_Grants\<close>: the permission sets and role cases of \<^verbatim>\<open>kernel/authz/iam.go\<close> and
    \<^verbatim>\<open>predefined_roles.go\<close>, and which roles grant the sensitive permissions.
  \<^item> \<open>Iam_Evaluator\<close>: members, conditions, the chain of resources and the \<open>Evaluate\<close> family of \<^verbatim>\<open>iam.go\<close>;
    the policy store, role store and hierarchy are its parameters, as they are interfaces in the code.
    \<open>Iam_Decisions\<close>: the specification of a grant, and that \<open>Evaluate\<close> refines it.
  \<^item> \<open>Authn\<close>: \<^verbatim>\<open>kernel/jwtutil\<close> and \<^verbatim>\<open>kernel/authn\<close>: verification and minting of tokens, \<open>AuthenticateToken\<close>
    and the public paths. \<open>Http_Gate\<close>: the middleware of \<^verbatim>\<open>server.go\<close>, host rewriting and signed URLs.
  \<^item> \<open>Sql_Monad\<close>: statements on tables that may fail, transactions with rollback, and the rules for
    preservation of invariants. \<open>Store_Tables\<close>: the rows and the database, with the invariant of its unique
    keys. The environment of a run says which statements fail.
  \<^item> \<open>Identity_Store\<close>, \<open>Identity_Theorems\<close>: \<^verbatim>\<open>store/identity.go\<close>, the tokens and policies of \<^verbatim>\<open>store.go\<close> and
    the seeding of \<open>EnsureRoot\<close>. \<open>Custom_Roles\<close>: \<^verbatim>\<open>iam_roles.go\<close>. \<open>Crm_Store\<close>: the organizations and folders
    of \<^verbatim>\<open>appengine_crm.go\<close>. \<open>Org_Policy\<close>: \<^verbatim>\<open>orgpolicy.go\<close>. \<open>Perimeters\<close>: \<^verbatim>\<open>accesscontextmanager.go\<close>.
  \<^item> \<open>Iam_On_Store\<close>: the evaluator as \<^verbatim>\<open>server.go\<close> builds it over the database: every decision is reached,
    and what setting a policy or seeding a project does to the decisions. \<open>Api_Gates\<close>: \<^verbatim>\<open>restlab.go\<close>,
    \<^verbatim>\<open>actas.go\<close> and \<^verbatim>\<open>labtoken/mint.go\<close> over the same database. \<open>Egress\<close>: \<^verbatim>\<open>httpegress/egress.go\<close>.

  \<^item> \<open>Go_Time\<close>: time stamps in the order of their texts. \<open>Pubsub_Store\<close>: \<^verbatim>\<open>store/pubsub.go\<close>; \<open>Pubsub_Invariant\<close>: its
    tables stay consistent in every run of operations; \<open>Pubsub_Delivery\<close>: what publishing, pulling, leasing,
    acknowledging and dead lettering do to the messages.
  \<^item> \<open>Secrets_Store\<close>: \<^verbatim>\<open>store/secrets.go\<close> and the sealing of \<^verbatim>\<open>store/seal.go\<close>; \<open>Secrets_Invariant\<close>,
    \<open>Secrets_Lifecycle\<close>: numbering of versions, and that a payload survives every run that does not destroy it.
    \<open>Kms_Store\<close>: \<^verbatim>\<open>store/kms.go\<close>.
  \<^item> \<open>Lab_Store\<close>: the database as a whole, a record of the parts above; \<open>inside\<close> runs an operation on one part.
    \<open>Lab_Http\<close>: what the handlers share: requests, replies, early returns, the decision of the evaluator over the
    whole database, and the locale \<open>mediated\_service\<close>, whose services answer no request and change no table
    without a permission. \<open>Handler_Steps\<close>: the steps of the handlers, with the rules that carry a property of a
    service over them (guards, invariants, reads, what a success says).
  \<^item> \<open>Secret_Handlers\<close> and \<open>Secret_Grpc\<close>: the REST handlers and the gRPC methods of
    \<^verbatim>\<open>services/secretmanager/service.go\<close>. \<open>Secret_Mediation\<close> and \<open>Secret_Services\<close> interpret \<open>mediated\_service\<close> on
    them; \<open>Secret_Requests\<close>: a payload through the handlers, and an escalation over gRPC; \<open>Secret_Equivalence\<close>:
    both surfaces agree.
  \<^item> \<open>Kms_Handlers\<close>: \<^verbatim>\<open>services/kms/service.go\<close>. \<open>Kms_Mediation\<close>: another interpretation, and what a use of a key
    needs; \<open>Kms_Lifecycle\<close>, \<open>Kms_Requests\<close>, \<open>Kms_Invariant\<close>: keys serve one purpose, rows are never lost, a
    ciphertext decrypts after any run, and rows stay linked; \<open>Kms_Examples\<close>: instances.
  \<^item> \<open>Iam_Handlers\<close>: \<^verbatim>\<open>services/iam/handler.go\<close> and \<^verbatim>\<open>roles.go\<close>. \<open>Iam_Mediation\<close>: \<open>mediated\_service\<close> for them;
    \<open>Iam_Provenance\<close>: the tables stay readable, and, through the locale \<open>provenance\<close>, every access token and
    every key comes from a request whose caller had the permission; \<open>Iam_Requests\<close>: a generated token works, and goes
    on working when its account is gone; \<open>Iam_Examples\<close>: instances.
  \<^item> \<open>Service_Answers\<close>: every request of these services is answered, in every run, with a response that was written.

  \<^bold>\<open>Correspondence.\<close> A struct is a record, an error a value of \<open>error\<close> (the fixed part of its message; values
  interpolated into it are left out), a result with an error a sum. An operation of the store is an action
  on the database that is given by the code's statements in their order; each statement may fail, and a
  transaction then restores the tables. Clocks, random values and generated identifiers are arguments.

  \<^bold>\<open>Bounds.\<close> The walk over the ancestors of a resource is bounded in the code, by \<open>crmAncestryMaxDepth\<close> = 32 in
  the evaluator and by 32 in organization policies; the models recurse over the same bounds, so no fuel is
  added. Project numbers are computed on 64-bit words with their wrap-around, addresses on bytes. Every
  other loop is structural or has a termination proof.

  \<^bold>\<open>Parameters.\<close> Cryptography and go-jose, the CEL interpreter, \<^verbatim>\<open>url.Parse\<close>, name resolution and dialing are
  fields of records that the definitions take as arguments (\<open>aead\<close> and \<open>kms\_lib\<close> for the ciphers and signatures,
  \<open>iam\_lib\<close> for a hash and the texts of JSON values,
  \<open>replication\_codec\<close> for a generated message); what is relied on is a named hypothesis, and each theorem with one has an instance that satisfies it.

  \<^bold>\<open>Not modelled.\<close> The handlers of the other services under \<^verbatim>\<open>internal/services\<close> (decoding and rendering of HTTP
  and gRPC messages around calls of the modelled gates), their stores, the migration of the schema, the
  audit file, TLS material, configuration, and the docker backends of \<^verbatim>\<open>internal/compute\<close>.
\<close>

end
